(* ===== verification/Go_Prelude.thy ===== *)
theory Go_Prelude
  imports Main "HOL-Library.AList" "HOL-Library.Signed_Division" "HOL-Library.Char_ord"
    "HOL-Library.List_Lexorder"
begin

text \<open>
  What the operator uses of the Go language and of its standard library: error values,
  machine integers, string operations (\<^verbatim>\<open>strings\<close>, \<^verbatim>\<open>strconv\<close>, \<^verbatim>\<open>fmt.Sprintf("%d")\<close>),
  and maps.  Everything here is executable; the lemmas are the ones the components share.

  \<^item> A Go map that is only looked up and stored into is a partial function under an
    \<open>option\<close> (\<open>None\<close> is the nil map): type \<open>strmap\<close>.
  \<^item> A Go map that is iterated over is an association list with distinct keys whose order
    stands for the iteration order (\<open>gomap\<close>); Go leaves that order unspecified, so a lemma
    about every list is a lemma about every order.
\<close>

named_theorems go_defs \<open>unfolding rules of the Go runtime helpers\<close>
named_theorems go_names \<open>unfolding rules of the object names the operator computes\<close>

section \<open>Errors\<close>

text \<open>
  The errors the code tells apart: its own \<open>RequeueError\<close> (controller_utils.go), the API
  errors that \<open>IsNotFound\<close>, \<open>IsConflict\<close> and \<open>IsAlreadyExists\<close> recognise, an aggregate of
  errors, any other error, and a run-time panic, which no caller handles as an error.
\<close>

datatype goerr =
    RequeueError string
  | NotFoundError string
  | ConflictError string
  | AlreadyExistsError string
  | OtherError string
  | AggregateError "goerr list"
  | PanicError string

fun is_not_found :: "goerr \<Rightarrow> bool" where
  "is_not_found (NotFoundError _) = True"
| "is_not_found _ = False"

fun is_conflict :: "goerr \<Rightarrow> bool" where
  "is_conflict (ConflictError _) = True"
| "is_conflict _ = False"

fun is_already_exists :: "goerr \<Rightarrow> bool" where
  "is_already_exists (AlreadyExistsError _) = True"
| "is_already_exists _ = False"

fun is_panic :: "goerr \<Rightarrow> bool" where
  "is_panic (PanicError _) = True"
| "is_panic _ = False"

section \<open>Machine integers\<close>

text \<open>
  \<open>int32\<close> arithmetic is arithmetic on \<open>int\<close> followed by \<open>wrap32\<close>, the two's complement
  wrap-around; \<open>/\<close> on signed integers truncates towards zero (\<open>sdiv\<close>).
\<close>

definition wrap32 :: "int \<Rightarrow> int" where
  "wrap32 x = signed_take_bit 31 x"

lemma wrap32_id [simp]: "- (2 ^ 31) \<le> x \<Longrightarrow> x < 2 ^ 31 \<Longrightarrow> wrap32 x = x"
  by (simp add: wrap32_def signed_take_bit_int_eq_self)

lemma wrap32_range: "- (2 ^ 31) \<le> wrap32 x \<and> wrap32 x < 2 ^ 31"
  unfolding wrap32_def
  using signed_take_bit_int_greater_eq_minus_exp [of 31 x] signed_take_bit_int_less_exp [of 31 x]
  by simp

lemma wrap32_idem [simp]: "wrap32 (wrap32 x) = wrap32 x"
  by (simp add: wrap32_def)

lemma sdiv_2_nonneg: "0 \<le> (x::int) \<Longrightarrow> x sdiv 2 = x div 2"
  by (simp add: signed_divide_int_def sgn_if)

section \<open>Strings\<close>

definition digit_char :: "nat \<Rightarrow> char" where
  "digit_char d = char_of (48 + d)"

fun show_nat :: "nat \<Rightarrow> string" where
  "show_nat n = (if n < 10 then [digit_char n] else show_nat (n div 10) @ [digit_char (n mod 10)])"

declare show_nat.simps [simp del]

definition show_int :: "int \<Rightarrow> string" where
  "show_int i = (if i < 0 then CHR ''-'' # show_nat (nat (- i)) else show_nat (nat i))"

definition is_digit :: "char \<Rightarrow> bool" where
  "is_digit c \<longleftrightarrow> 48 \<le> (of_char c :: nat) \<and> (of_char c :: nat) \<le> 57"

fun read_digits :: "nat \<Rightarrow> string \<Rightarrow> nat option" where
  "read_digits acc [] = Some acc"
| "read_digits acc (c # cs) =
     (if is_digit c then read_digits (acc * 10 + (of_char c - 48)) cs else None)"

definition read_nat :: "string \<Rightarrow> nat option" where
  "read_nat s = (if s = [] then None else read_digits 0 s)"

text \<open>\<open>strconv.ParseUint(s, 10, 64)\<close>: decimal digits only, and the value fits in 64 bits.\<close>

definition parse_uint :: "string \<Rightarrow> goerr + nat" where
  "parse_uint s =
     (case read_nat s of
        None \<Rightarrow> Inl (OtherError (''strconv.ParseUint: '' @ s))
      | Some n \<Rightarrow> if n < 2 ^ 64 then Inr n else Inl (OtherError (''strconv.ParseUint: '' @ s)))"

text \<open>\<open>strconv.Atoi\<close>: an optional sign, decimal digits, and the value fits in 64 bits.\<close>

definition atoi :: "string \<Rightarrow> goerr + int" where
  "atoi s =
     (let err = Inl (OtherError (''strconv.Atoi: '' @ s));
          bounded = (\<lambda>i. if - (2 ^ 63) \<le> i \<and> i < 2 ^ 63 then Inr i else err)
      in case s of
           [] \<Rightarrow> err
         | c # cs \<Rightarrow>
             if c = CHR ''-'' then
               (case read_nat cs of None \<Rightarrow> err | Some n \<Rightarrow> bounded (- int n))
             else if c = CHR ''+'' then
               (case read_nat cs of None \<Rightarrow> err | Some n \<Rightarrow> bounded (int n))
             else
               (case read_nat s of None \<Rightarrow> err | Some n \<Rightarrow> bounded (int n)))"

text \<open>\<open>strings.Split\<close> with a one-character separator: never the empty list.\<close>

fun split_on :: "char \<Rightarrow> string \<Rightarrow> string list" where
  "split_on sep [] = [[]]"
| "split_on sep (c # cs) =
     (if c = sep then [] # split_on sep cs
      else (case split_on sep cs of
              [] \<Rightarrow> [[c]]
            | w # ws \<Rightarrow> (c # w) # ws))"

text \<open>\<open>strings.LastIndex\<close> of a one-character string, \<open>-1\<close> when it does not occur.\<close>

fun last_index :: "char \<Rightarrow> string \<Rightarrow> int" where
  "last_index c [] = -1"
| "last_index c (x # xs) =
     (if last_index c xs \<noteq> -1 then last_index c xs + 1 else if x = c then 0 else -1)"

definition trim_suffix :: "string \<Rightarrow> string \<Rightarrow> string" where
  "trim_suffix s suf =
     (if length suf \<le> length s \<and> drop (length s - length suf) s = suf
      then take (length s - length suf) s else s)"

definition trim_prefix :: "string \<Rightarrow> string \<Rightarrow> string" where
  "trim_prefix s pre = (if take (length pre) s = pre then drop (length pre) s else s)"

subsection \<open>Lemmas on the string operations\<close>

lemma of_char_digit_char [simp]: "d < 10 \<Longrightarrow> (of_char (digit_char d) :: nat) = 48 + d"
  by (simp add: digit_char_def)

lemma is_digit_digit_char [simp]: "d < 10 \<Longrightarrow> is_digit (digit_char d)"
  by (simp add: is_digit_def)

lemma show_nat_not_Nil [simp]: "show_nat n \<noteq> []"
  by (subst show_nat.simps) simp

lemma show_nat_digits: "c \<in> set (show_nat n) \<Longrightarrow> is_digit c"
proof (induction n rule: show_nat.induct)
  case (1 n)
  then show ?case by (subst (asm) show_nat.simps) (auto split: if_splits)
qed

lemma not_digit_minus [simp]: "\<not> is_digit (CHR ''-'')" "\<not> is_digit (CHR ''+'')"
  "\<not> is_digit (CHR ''.'')" "\<not> is_digit (CHR '','')"
  by (simp_all add: is_digit_def)

lemma read_digits_append:
  "read_digits a (xs @ ys) = (case read_digits a xs of None \<Rightarrow> None | Some b \<Rightarrow> read_digits b ys)"
  by (induction xs arbitrary: a) auto

lemma read_digits_show_nat: "read_digits 0 (show_nat n) = Some n"
proof (induction n rule: show_nat.induct)
  case (1 n)
  show ?case
    by (cases "n < 10"; subst show_nat.simps) (simp_all add: 1 read_digits_append)
qed

lemma read_nat_show_nat [simp]: "read_nat (show_nat n) = Some n"
  by (simp add: read_nat_def read_digits_show_nat)

lemma show_nat_inj [simp]: "show_nat m = show_nat n \<longleftrightarrow> m = n"
  by (metis option.inject read_nat_show_nat)

lemma hd_show_nat [simp]: "is_digit (hd (show_nat n))"
  by (rule show_nat_digits [of _ n]) simp

lemma show_nat_no_minus: "CHR ''-'' \<notin> set (show_nat n)"
  using show_nat_digits not_digit_minus by blast

lemma show_int_inj [simp]: "show_int i = show_int j \<longleftrightarrow> i = j"
proof -
  have "show_nat m \<noteq> CHR ''-'' # s" for m s
    using hd_show_nat [of m] by (metis list.sel(1) not_digit_minus(1))
  then show ?thesis by (auto simp: show_int_def dest: sym split: if_splits)
qed

lemma parse_uint_show [simp]: "n < 2 ^ 64 \<Longrightarrow> parse_uint (show_nat n) = Inr n"
  by (simp add: parse_uint_def)

lemma atoi_show_nat: "int n < 2 ^ 63 \<Longrightarrow> atoi (show_nat n) = Inr (int n)"
proof -
  assume n: "int n < 2 ^ 63"
  obtain c cs where s: "show_nat n = c # cs" by (cases "show_nat n") auto
  have "is_digit c" by (rule show_nat_digits [of c n]) (simp add: s)
  then have "c \<noteq> CHR ''-''" "c \<noteq> CHR ''+''" using not_digit_minus by blast+
  then show ?thesis
    using n read_nat_show_nat [of n] by (simp add: atoi_def s)
qed

lemma split_on_not_Nil [simp]: "split_on c s \<noteq> []"
  by (induction s) (auto split: list.splits)

lemma split_on_no_sep: "c \<notin> set s \<Longrightarrow> split_on c s = [s]"
  by (induction s) auto

lemma split_on_append_sep:
  "c \<notin> set w \<Longrightarrow> split_on c (w @ c # rest) = w # split_on c rest"
  by (induction w) auto

lemma last_index_no: "c \<notin> set s \<Longrightarrow> last_index c s = -1"
  by (induction s) auto

lemma last_index_append:
  "c \<notin> set ys \<Longrightarrow> last_index c (xs @ c # ys) = int (length xs)"
  by (induction xs) (auto simp: last_index_no)

lemma last_index_ge: "-1 \<le> last_index c s"
  by (induction s) auto

lemma last_index_minus1: "last_index c s = -1 \<longleftrightarrow> c \<notin> set s"
proof (induction s)
  case (Cons x xs)
  then show ?case using last_index_ge [of c xs] by auto
qed simp

lemma trim_suffix_append [simp]: "trim_suffix (s @ suf) suf = s"
  by (simp add: trim_suffix_def)

lemma trim_prefix_append [simp]: "trim_prefix (pre @ s) pre = s"
  by (simp add: trim_prefix_def)

section \<open>Maps\<close>

type_synonym strmap = "(string \<rightharpoonup> string) option"

text \<open>\<open>v, ok := m[k]\<close> and \<open>m[k]\<close>; reading a nil map is reading an empty one.\<close>

definition mget :: "strmap \<Rightarrow> string \<Rightarrow> string option" where
  "mget m k = (case m of None \<Rightarrow> None | Some f \<Rightarrow> f k)"

definition mval :: "strmap \<Rightarrow> string \<Rightarrow> string" where
  "mval m k = (case mget m k of None \<Rightarrow> [] | Some v \<Rightarrow> v)"

text \<open>\<open>if m == nil { m = map[string]string{} }\<close>, then \<open>m[k] = v\<close>.\<close>

definition mput :: "string \<Rightarrow> string \<Rightarrow> strmap \<Rightarrow> strmap" where
  "mput k v m = (case m of None \<Rightarrow> Some [k \<mapsto> v] | Some f \<Rightarrow> Some (f(k \<mapsto> v)))"

definition mdel :: "string \<Rightarrow> strmap \<Rightarrow> strmap" where
  "mdel k m = (case m of None \<Rightarrow> None | Some f \<Rightarrow> Some (f(k := None)))"

text \<open>Semantic equality of two maps: the nil map and the empty map are equal.\<close>

definition mequal :: "strmap \<Rightarrow> strmap \<Rightarrow> bool" where
  "mequal m n \<longleftrightarrow>
     (case m of None \<Rightarrow> Map.empty | Some f \<Rightarrow> f) = (case n of None \<Rightarrow> Map.empty | Some f \<Rightarrow> f)"

lemma mget_simps [simp]:
  "mget None k = None" "mget (Some f) k = f k"
  by (simp_all add: mget_def)

lemma mget_mput [simp]: "mget (mput k v m) j = (if j = k then Some v else mget m j)"
  by (simp add: mput_def split: option.splits)

lemma mput_not_None [simp]: "mput k v m \<noteq> None"
  by (simp add: mput_def split: option.splits)

lemma mget_mdel [simp]: "mget (mdel k m) j = (if j = k then None else mget m j)"
  by (simp add: mdel_def split: option.splits)

lemma mval_mput [simp]: "mval (mput k v m) j = (if j = k then v else mval m j)"
  by (simp add: mval_def)

lemma mval_mdel [simp]: "mval (mdel k m) j = (if j = k then [] else mval m j)"
  by (simp add: mval_def)

lemma mval_None [simp]: "mval None k = []"
  by (simp add: mval_def)

lemma mequal_refl [simp]: "mequal m m"
  by (simp add: mequal_def)

lemma mequal_iff: "mequal m n \<longleftrightarrow> (\<forall>k. mget m k = mget n k)"
  by (simp add: mequal_def mget_def fun_eq_iff split: option.splits)

type_synonym ('k, 'v) gomap = "('k \<times> 'v) list"

text \<open>\<open>m[k] = v\<close> on an iterated map: replaces in place, or adds a key.\<close>

definition gput :: "'k \<Rightarrow> 'v \<Rightarrow> ('k, 'v) gomap \<Rightarrow> ('k, 'v) gomap" where
  "gput k v m = AList.update k v m"

text \<open>Map equality, whatever the iteration orders.\<close>

definition gequal :: "('k, 'v) gomap \<Rightarrow> ('k, 'v) gomap \<Rightarrow> bool" where
  "gequal m n \<longleftrightarrow> list_all (\<lambda>k. map_of m k = map_of n k) (map fst m @ map fst n)"

lemma map_of_gput [simp]: "map_of (gput k v m) = (map_of m)(k \<mapsto> v)"
  by (simp add: gput_def update_conv')

lemma distinct_gput [simp]: "distinct (map fst m) \<Longrightarrow> distinct (map fst (gput k v m))"
  by (simp add: gput_def distinct_update)

lemma keys_gput: "fst ` set (gput k v m) = insert k (fst ` set m)"
  using dom_update [of k v m] by (simp add: gput_def dom_map_of_conv_image_fst)

lemma gput_new: "k \<notin> fst ` set m \<Longrightarrow> gput k v m = m @ [(k, v)]"
  unfolding gput_def by (induction m) auto

lemma set_gput: "set (gput k v m) \<subseteq> insert (k, v) (set m)"
  by (induction m) (auto simp: gput_def)

lemma gequal_refl [simp]: "gequal m m"
  by (simp add: gequal_def list_all_iff)

lemma gequal_iff: "gequal m n \<longleftrightarrow> map_of m = map_of n"
proof
  assume g: "gequal m n"
  show "map_of m = map_of n"
  proof
    fix k
    show "map_of m k = map_of n k"
    proof (cases "k \<in> fst ` set m \<union> fst ` set n")
      case True
      with g show ?thesis by (auto simp: gequal_def list_all_iff)
    next
      case False
      then have "map_of m k = None" "map_of n k = None" by (auto simp: map_of_eq_None_iff)
      then show ?thesis by simp
    qed
  qed
qed (simp add: gequal_def list_all_iff)

section \<open>The first element an iteration accepts\<close>

text \<open>\<open>for _, x := range xs { if p(x) { return x } }\<close>.\<close>

lemma find_snoc:
  "find P (xs @ [x]) = (case find P xs of None \<Rightarrow> if P x then Some x else None | Some y \<Rightarrow> Some y)"
  by (induction xs) auto

lemma find_SomeD: "find P xs = Some x \<Longrightarrow> x \<in> set xs \<and> P x"
  by (induction xs) (auto split: if_splits)

lemma find_unique:
  assumes "x \<in> set xs" and "P x" and "\<forall>y \<in> set xs. P y \<longrightarrow> y = x"
  shows "find P xs = Some x"
proof (cases "find P xs")
  case None
  with assms(1,2) show ?thesis by (auto simp: find_None_iff)
next
  case (Some y)
  with assms(3) show ?thesis by (auto dest: find_SomeD)
qed

end
