(* ===== verification/Kube_Types.thy ===== *)
theory Kube_Types
  imports Go_Prelude
begin

text \<open>
  The Kubernetes objects the operator reads and writes, with the fields its code touches.
  A pointer that the code compares with \<^verbatim>\<open>nil\<close> is an \<open>option\<close>.  Resource quantities and
  points in time belong to libraries outside the repository: a quantity is a count of its
  smallest unit, a time a count of nanoseconds, and the zero \<^verbatim>\<open>metav1.Time\<close> is \<open>None\<close>.
\<close>

type_synonym quantity = int
type_synonym time = int
type_synonym meta_time = "time option"

section \<open>Metadata\<close>

record owner_ref =
  or_api_version :: string
  or_kind :: string
  or_name :: string
  or_uid :: string
  or_controller :: "bool option"
  or_block_deletion :: "bool option"

record objmeta =
  m_name :: string
  m_ns :: string
  m_labels :: strmap
  m_ann :: strmap
  m_owners :: "owner_ref list"
  m_uid :: string
  m_rv :: string
  m_generation :: int
  m_deleting :: bool
  m_generate_name :: string

text \<open>The zero value of \<^verbatim>\<open>metav1.ObjectMeta\<close>, which a composite literal starts from.\<close>

definition meta0 :: objmeta where
  "meta0 = \<lparr>m_name = [], m_ns = [], m_labels = None, m_ann = None, m_owners = [], m_uid = [],
     m_rv = [], m_generation = 0, m_deleting = False, m_generate_name = []\<rparr>"

section \<open>Pods and pod templates\<close>

record container_port =
  cp_name :: string
  cp_port :: int
  cp_protocol :: string

datatype env_value = EnvLiteral string | EnvFieldRef string

record env_var =
  ev_name :: string
  ev_value :: env_value

record volume_mount =
  vm_name :: string
  vm_readonly :: bool
  vm_path :: string

datatype volume_source =
    ConfigMapVolume string "(string \<times> string) list"   \<comment> \<open>name, (key, path) items\<close>
  | DownwardAPIVolume "(string \<times> string) list"         \<comment> \<open>(path, field path) items\<close>
  | PVCVolume string                                     \<comment> \<open>claim name\<close>
  | OtherVolume

record volume =
  v_name :: string
  v_source :: volume_source

type_synonym resource_list = "string \<rightharpoonup> quantity"

record resource_reqs =
  rr_requests :: "resource_list option"
  rr_limits :: "resource_list option"

record container =
  c_name :: string
  c_image :: string
  c_command :: "string list"
  c_pull_policy :: string
  c_ports :: "container_port list"
  c_mounts :: "volume_mount list"
  c_resources :: resource_reqs
  c_env :: "env_var list"

record toleration =
  tol_key :: string
  tol_operator :: string
  tol_value :: string
  tol_effect :: string
  tol_seconds :: "int option"

record weighted_term =
  wt_weight :: int
  wt_match_labels :: strmap
  wt_topology_key :: string
  wt_namespaces :: "string list"

record node_req =
  nr_key :: string
  nr_operator :: string
  nr_values :: "string list"

type_synonym node_term = "node_req list"

record pref_term =
  pt_weight :: int
  pt_exprs :: node_term

record node_affinity =
  na_required :: "node_term list"
  na_preferred :: "pref_term list"

record affinity =
  af_pod_anti :: "weighted_term list option"
  af_node :: "node_affinity option"

record pod_spec =
  ps_scheduler :: string
  ps_affinity :: "affinity option"
  ps_containers :: "container list"
  ps_restart :: string
  ps_tolerations :: "toleration list"
  ps_volumes :: "volume list"
  ps_node_name :: string

record pod_template =
  t_labels :: strmap
  t_ann :: strmap
  t_spec :: pod_spec

record container_status =
  cs_waiting_reason :: "string option"   \<comment> \<open>\<open>State.Waiting\<close>, with its reason\<close>

record pod =
  p_meta :: objmeta
  p_spec :: pod_spec
  p_phase :: string
  p_cstatuses :: "container_status list"

section \<open>Volumes and claims\<close>

record pvc =
  pvc_meta :: objmeta
  pvc_access_modes :: "string list"
  pvc_class :: "string option"
  pvc_requests :: resource_list
  pvc_volume_name :: string
  pvc_phase :: string

record pv =
  pv_meta :: objmeta
  pv_claim_ref :: "string option"
  pv_reclaim :: string

section \<open>Stateful sets\<close>

text \<open>\<open>RollingUpdate\<close> is a pointer to a struct whose \<open>Partition\<close> is a pointer.\<close>

record update_strategy =
  us_type :: string
  us_rolling :: "int option option"

record sset_spec =
  ss_replicas :: "int option"
  ss_selector :: strmap
  ss_template :: pod_template
  ss_claims :: "pvc list"
  ss_service_name :: string
  ss_pod_management :: string
  ss_strategy :: update_strategy

record sset_status =
  st_observed_generation :: "int option"
  st_replicas :: int
  st_ready_replicas :: int
  st_current_revision :: string
  st_update_revision :: string

definition sset_status0 :: sset_status where
  "sset_status0 = \<lparr>st_observed_generation = None, st_replicas = 0, st_ready_replicas = 0,
     st_current_revision = [], st_update_revision = []\<rparr>"

record sset =
  s_meta :: objmeta
  s_spec :: sset_spec
  s_status :: sset_status

section \<open>Services and nodes\<close>

record service_port =
  sp_name :: string
  sp_port :: int
  sp_target_port :: int
  sp_protocol :: string

record svc_spec =
  sv_type :: string
  sv_ports :: "service_port list"
  sv_selector :: strmap
  sv_cluster_ip :: string

record service =
  svc_meta :: objmeta
  svc_spec :: svc_spec

record node =
  n_name :: string
  n_labels :: strmap

section \<open>Semantic equality\<close>

text \<open>
  \<^verbatim>\<open>apiequality.Semantic.DeepEqual\<close> on the types it is applied to: structural equality in
  which a nil map equals an empty one.
\<close>

definition resources_equal :: "resource_reqs \<Rightarrow> resource_reqs \<Rightarrow> bool" where
  "resources_equal a b \<longleftrightarrow>
     (let norm = (\<lambda>m. case m of None \<Rightarrow> Map.empty | Some f \<Rightarrow> f)
      in norm (rr_requests a) = norm (rr_requests b) \<and> norm (rr_limits a) = norm (rr_limits b))"

definition container_equal :: "container \<Rightarrow> container \<Rightarrow> bool" where
  "container_equal a b \<longleftrightarrow>
     resources_equal (c_resources a) (c_resources b) \<and>
     a = b\<lparr>c_resources := c_resources a\<rparr>"

definition weighted_term_equal :: "weighted_term \<Rightarrow> weighted_term \<Rightarrow> bool" where
  "weighted_term_equal a b \<longleftrightarrow>
     mequal (wt_match_labels a) (wt_match_labels b) \<and>
     a = b\<lparr>wt_match_labels := wt_match_labels a\<rparr>"

definition option_equal :: "('a \<Rightarrow> 'a \<Rightarrow> bool) \<Rightarrow> 'a option \<Rightarrow> 'a option \<Rightarrow> bool" where
  "option_equal eq a b \<longleftrightarrow>
     (case (a, b) of (None, None) \<Rightarrow> True | (Some x, Some y) \<Rightarrow> eq x y | _ \<Rightarrow> False)"

definition affinity_equal :: "affinity \<Rightarrow> affinity \<Rightarrow> bool" where
  "affinity_equal a b \<longleftrightarrow>
     option_equal (list_all2 weighted_term_equal) (af_pod_anti a) (af_pod_anti b) \<and>
     af_node a = af_node b"

definition pod_spec_equal :: "pod_spec \<Rightarrow> pod_spec \<Rightarrow> bool" where
  "pod_spec_equal a b \<longleftrightarrow>
     option_equal affinity_equal (ps_affinity a) (ps_affinity b) \<and>
     list_all2 container_equal (ps_containers a) (ps_containers b) \<and>
     a = b\<lparr>ps_affinity := ps_affinity a, ps_containers := ps_containers a\<rparr>"

definition template_equal :: "pod_template \<Rightarrow> pod_template \<Rightarrow> bool" where
  "template_equal a b \<longleftrightarrow>
     mequal (t_labels a) (t_labels b) \<and> mequal (t_ann a) (t_ann b) \<and>
     pod_spec_equal (t_spec a) (t_spec b)"

definition svc_spec_equal :: "svc_spec \<Rightarrow> svc_spec \<Rightarrow> bool" where
  "svc_spec_equal a b \<longleftrightarrow>
     mequal (sv_selector a) (sv_selector b) \<and> a = b\<lparr>sv_selector := sv_selector a\<rparr>"

lemma resources_equal_refl [simp]: "resources_equal a a"
  by (simp add: resources_equal_def)

lemma container_equal_refl [simp]: "container_equal a a"
  by (simp add: container_equal_def)

lemma weighted_term_equal_refl [simp]: "weighted_term_equal a a"
  by (simp add: weighted_term_equal_def)

lemma option_equal_refl: "(\<And>x. eq x x) \<Longrightarrow> option_equal eq a a"
  by (simp add: option_equal_def split: option.splits)

lemma list_all2_self: "(\<And>x. eq x x) \<Longrightarrow> list_all2 eq xs xs"
  by (simp add: list_all2_conv_all_nth)

lemma affinity_equal_refl [simp]: "affinity_equal a a"
  by (simp add: affinity_equal_def option_equal_refl list_all2_self)

lemma pod_spec_equal_refl [simp]: "pod_spec_equal a a"
  by (simp add: pod_spec_equal_def option_equal_refl list_all2_self)

lemma template_equal_refl [simp]: "template_equal a a"
  by (simp add: template_equal_def)

lemma svc_spec_equal_refl [simp]: "svc_spec_equal a a"
  by (simp add: svc_spec_equal_def)

lemma container_equal_image: "container_equal a b \<Longrightarrow> c_image a = c_image b"
  by (cases a; cases b) (simp add: container_equal_def)

lemma list_all2_container_images:
  "list_all2 container_equal xs ys \<Longrightarrow> map c_image xs = map c_image ys"
  by (induction rule: list_all2_induct) (auto simp: container_equal_image)

lemma pod_spec_equal_images:
  "pod_spec_equal a b \<Longrightarrow> map c_image (ps_containers a) = map c_image (ps_containers b)"
  by (simp add: pod_spec_equal_def list_all2_container_images)

section \<open>In-place access to the nested fields the code writes\<close>

abbreviation p_name :: "pod \<Rightarrow> string" where "p_name p \<equiv> m_name (p_meta p)"
abbreviation p_ns :: "pod \<Rightarrow> string" where "p_ns p \<equiv> m_ns (p_meta p)"
abbreviation p_labels :: "pod \<Rightarrow> strmap" where "p_labels p \<equiv> m_labels (p_meta p)"
abbreviation p_ann :: "pod \<Rightarrow> strmap" where "p_ann p \<equiv> m_ann (p_meta p)"
abbreviation s_name :: "sset \<Rightarrow> string" where "s_name s \<equiv> m_name (s_meta s)"
abbreviation s_template :: "sset \<Rightarrow> pod_template" where "s_template s \<equiv> ss_template (s_spec s)"
abbreviation s_strategy :: "sset \<Rightarrow> update_strategy" where "s_strategy s \<equiv> ss_strategy (s_spec s)"
abbreviation s_replicas :: "sset \<Rightarrow> int option" where "s_replicas s \<equiv> ss_replicas (s_spec s)"

definition set_p_ann :: "strmap \<Rightarrow> pod \<Rightarrow> pod" where
  "set_p_ann a p = p\<lparr>p_meta := (p_meta p)\<lparr>m_ann := a\<rparr>\<rparr>"

definition set_p_labels :: "strmap \<Rightarrow> pod \<Rightarrow> pod" where
  "set_p_labels l p = p\<lparr>p_meta := (p_meta p)\<lparr>m_labels := l\<rparr>\<rparr>"

definition set_s_ann :: "strmap \<Rightarrow> sset \<Rightarrow> sset" where
  "set_s_ann a s = s\<lparr>s_meta := (s_meta s)\<lparr>m_ann := a\<rparr>\<rparr>"

definition set_s_replicas :: "int \<Rightarrow> sset \<Rightarrow> sset" where
  "set_s_replicas n s = s\<lparr>s_spec := (s_spec s)\<lparr>ss_replicas := Some n\<rparr>\<rparr>"

definition set_s_template :: "pod_template \<Rightarrow> sset \<Rightarrow> sset" where
  "set_s_template t s = s\<lparr>s_spec := (s_spec s)\<lparr>ss_template := t\<rparr>\<rparr>"

definition set_s_strategy :: "update_strategy \<Rightarrow> sset \<Rightarrow> sset" where
  "set_s_strategy u s = s\<lparr>s_spec := (s_spec s)\<lparr>ss_strategy := u\<rparr>\<rparr>"

lemmas setter_defs [go_defs] =
  set_p_ann_def set_p_labels_def set_s_ann_def set_s_replicas_def set_s_template_def
  set_s_strategy_def

end
