(* ===== verification/Cell_Types.thy ===== *)
theory Cell_Types
  imports Kube_Types
begin

text \<open>
  \<^verbatim>\<open>pkg/apis/deepfabric.com/v1alpha1\<close>: the CellCluster resource (types.go), field by field,
  and the queries on it that every manager uses (cellcluster.go).  The three member specs of
  the source have the same fields and are one record here.
\<close>

section \<open>types.go\<close>

definition StoreStateUp :: string where "StoreStateUp = ''Up''"
definition StoreStateDown :: string where "StoreStateDown = ''Down''"
definition StoreStateOffline :: string where "StoreStateOffline = ''Offline''"
definition StoreStateTombstone :: string where "StoreStateTombstone = ''Tombstone''"

definition PDMemberType :: string where "PDMemberType = ''pd''"
definition StoreMemberType :: string where "StoreMemberType = ''store''"
definition ProxyMemberType :: string where "ProxyMemberType = ''proxy''"
definition UnknownMemberType :: string where "UnknownMemberType = ''unknown''"

definition NormalPhase :: string where "NormalPhase = ''Normal''"
definition UpgradePhase :: string where "UpgradePhase = ''Upgrade''"

lemmas state_defs [go_defs] =
  StoreStateUp_def StoreStateDown_def StoreStateOffline_def StoreStateTombstone_def
lemmas phase_defs [go_defs] = NormalPhase_def UpgradePhase_def

lemma phase_distinct [simp]:
  "NormalPhase \<noteq> UpgradePhase" "UpgradePhase \<noteq> NormalPhase"
  "[] \<noteq> UpgradePhase" "UpgradePhase \<noteq> []"
  by (simp_all add: phase_defs)

lemma state_distinct [simp]:
  "StoreStateUp \<noteq> StoreStateDown" "StoreStateDown \<noteq> StoreStateUp"
  "StoreStateUp \<noteq> StoreStateTombstone" "StoreStateTombstone \<noteq> StoreStateUp"
  "StoreStateDown \<noteq> StoreStateTombstone" "StoreStateTombstone \<noteq> StoreStateDown"
  "StoreStateUp \<noteq> StoreStateOffline" "StoreStateOffline \<noteq> StoreStateUp"
  by (simp_all add: state_defs)

lemmas member_type_defs [go_defs] =
  PDMemberType_def StoreMemberType_def ProxyMemberType_def UnknownMemberType_def

record resource_requirement =
  q_cpu :: string
  q_memory :: string
  q_storage :: string

record container_spec =
  k_image :: string
  k_pull_policy :: string
  k_requests :: "resource_requirement option"
  k_limits :: "resource_requirement option"

record member_spec =
  ms_container :: container_spec
  ms_replicas :: int
  ms_node_selector :: "(string, string) gomap option"
  ms_node_selector_required :: bool
  ms_storage_class :: string
  ms_tolerations :: "toleration list"

record service_req =
  sr_name :: string
  sr_type :: string

record cell_spec =
  spec_scheduler :: string
  spec_pd :: member_spec
  spec_proxy :: member_spec
  spec_store :: member_spec
  spec_services :: "service_req list"
  spec_reclaim :: string
  spec_timezone :: string
  spec_peer_url :: string
  spec_peer_rpc :: string

record pd_member =
  pm_name :: string
  pm_id :: string
  pm_client_url :: string
  pm_health :: bool
  pm_transition :: meta_time

record pd_failure_member =
  pf_pod_name :: string
  pf_member_id :: string
  pf_pvc_uid :: string
  pf_member_deleted :: bool

record pd_status =
  pd_synced :: bool
  pd_phase :: string
  pd_set :: "sset_status option"
  pd_members :: "(string, pd_member) gomap"
  pd_leader :: pd_member
  pd_failures :: "(string, pd_failure_member) gomap"

record proxy_member =
  xm_name :: string
  xm_health :: bool
  xm_transition :: meta_time

record proxy_status =
  px_phase :: string
  px_set :: "sset_status option"
  px_members :: "(string, proxy_member) gomap"
  px_failures :: "(string, string) gomap"   \<comment> \<open>ProxyFailureMember has the pod name only\<close>

record kv_store =
  kv_id :: string
  kv_pod_name :: string
  kv_ip :: string
  kv_leader_count :: int
  kv_state :: string
  kv_heartbeat :: meta_time
  kv_transition :: meta_time

record kv_failure_store =
  kf_pod_name :: string
  kf_store_id :: string

record store_status =
  sto_synced :: bool
  sto_phase :: string
  sto_set :: "sset_status option"
  sto_stores :: "(string, kv_store) gomap"
  sto_tombstones :: "(string, kv_store) gomap"
  sto_failures :: "(string, kv_failure_store) gomap"

record cell_status =
  stat_cluster_id :: string
  stat_pd :: pd_status
  stat_store :: store_status
  stat_proxy :: proxy_status

record cellcluster =
  cc_meta :: objmeta
  cc_spec :: cell_spec
  cc_status :: cell_status

abbreviation cc_name :: "cellcluster \<Rightarrow> string" where "cc_name cc \<equiv> m_name (cc_meta cc)"
abbreviation cc_ns :: "cellcluster \<Rightarrow> string" where "cc_ns cc \<equiv> m_ns (cc_meta cc)"
abbreviation cc_pd :: "cellcluster \<Rightarrow> pd_status" where "cc_pd cc \<equiv> stat_pd (cc_status cc)"
abbreviation cc_store :: "cellcluster \<Rightarrow> store_status" where "cc_store cc \<equiv> stat_store (cc_status cc)"
abbreviation cc_proxy :: "cellcluster \<Rightarrow> proxy_status" where "cc_proxy cc \<equiv> stat_proxy (cc_status cc)"

text \<open>Assignments through \<^verbatim>\<open>cc.Status.PD\<close>, \<^verbatim>\<open>cc.Status.Store\<close> and \<^verbatim>\<open>cc.Status.Proxy\<close>.\<close>

definition upd_pd :: "(pd_status \<Rightarrow> pd_status) \<Rightarrow> cellcluster \<Rightarrow> cellcluster" where
  "upd_pd f cc = cc\<lparr>cc_status := (cc_status cc)\<lparr>stat_pd := f (cc_pd cc)\<rparr>\<rparr>"

definition upd_store :: "(store_status \<Rightarrow> store_status) \<Rightarrow> cellcluster \<Rightarrow> cellcluster" where
  "upd_store f cc = cc\<lparr>cc_status := (cc_status cc)\<lparr>stat_store := f (cc_store cc)\<rparr>\<rparr>"

definition upd_proxy :: "(proxy_status \<Rightarrow> proxy_status) \<Rightarrow> cellcluster \<Rightarrow> cellcluster" where
  "upd_proxy f cc = cc\<lparr>cc_status := (cc_status cc)\<lparr>stat_proxy := f (cc_proxy cc)\<rparr>\<rparr>"

lemma upd_pd_simps [simp]:
  "cc_pd (upd_pd f cc) = f (cc_pd cc)" "cc_store (upd_pd f cc) = cc_store cc"
  "cc_proxy (upd_pd f cc) = cc_proxy cc" "cc_meta (upd_pd f cc) = cc_meta cc"
  "cc_spec (upd_pd f cc) = cc_spec cc"
  "stat_cluster_id (cc_status (upd_pd f cc)) = stat_cluster_id (cc_status cc)"
  by (simp_all add: upd_pd_def)

lemma upd_store_simps [simp]:
  "cc_pd (upd_store f cc) = cc_pd cc" "cc_store (upd_store f cc) = f (cc_store cc)"
  "cc_proxy (upd_store f cc) = cc_proxy cc" "cc_meta (upd_store f cc) = cc_meta cc"
  "cc_spec (upd_store f cc) = cc_spec cc"
  "stat_cluster_id (cc_status (upd_store f cc)) = stat_cluster_id (cc_status cc)"
  by (simp_all add: upd_store_def)

lemma upd_proxy_simps [simp]:
  "cc_pd (upd_proxy f cc) = cc_pd cc" "cc_store (upd_proxy f cc) = cc_store cc"
  "cc_proxy (upd_proxy f cc) = f (cc_proxy cc)" "cc_meta (upd_proxy f cc) = cc_meta cc"
  "cc_spec (upd_proxy f cc) = cc_spec cc"
  "stat_cluster_id (cc_status (upd_proxy f cc)) = stat_cluster_id (cc_status cc)"
  by (simp_all add: upd_proxy_def)

section \<open>cellcluster.go\<close>

definition len32 :: "'a list \<Rightarrow> int" where
  "len32 xs = wrap32 (int (length xs))"

definition PDUpgrading :: "cellcluster \<Rightarrow> bool" where
  "PDUpgrading cc \<longleftrightarrow> pd_phase (cc_pd cc) = UpgradePhase"

definition StoreUpgrading :: "cellcluster \<Rightarrow> bool" where
  "StoreUpgrading cc \<longleftrightarrow> sto_phase (cc_store cc) = UpgradePhase"

definition PDRealReplicas :: "cellcluster \<Rightarrow> int" where
  "PDRealReplicas cc = wrap32 (ms_replicas (spec_pd (cc_spec cc)) + len32 (pd_failures (cc_pd cc)))"

definition StoreRealReplicas :: "cellcluster \<Rightarrow> int" where
  "StoreRealReplicas cc =
     wrap32 (ms_replicas (spec_store (cc_spec cc)) + len32 (sto_failures (cc_store cc)))"

definition ProxyRealReplicas :: "cellcluster \<Rightarrow> int" where
  "ProxyRealReplicas cc =
     wrap32 (ms_replicas (spec_proxy (cc_spec cc)) + len32 (px_failures (cc_proxy cc)))"

text \<open>\<open>AllPodsStarted\<close> reads \<open>StatefulSet.Replicas\<close> through a pointer that is nil before the
  first sync.\<close>

definition all_pods_started :: "int \<Rightarrow> sset_status option \<Rightarrow> goerr + bool" where
  "all_pods_started n st =
     (case st of None \<Rightarrow> Inl (PanicError ''nil StatefulSet'') | Some s \<Rightarrow> Inr (n = st_replicas s))"

definition PDAllPodsStarted :: "cellcluster \<Rightarrow> goerr + bool" where
  "PDAllPodsStarted cc = all_pods_started (PDRealReplicas cc) (pd_set (cc_pd cc))"

definition StoreAllPodsStarted :: "cellcluster \<Rightarrow> goerr + bool" where
  "StoreAllPodsStarted cc = all_pods_started (StoreRealReplicas cc) (sto_set (cc_store cc))"

definition ProxyAllPodsStarted :: "cellcluster \<Rightarrow> goerr + bool" where
  "ProxyAllPodsStarted cc = all_pods_started (ProxyRealReplicas cc) (px_set (cc_proxy cc))"

definition PDAllMembersReady :: "cellcluster \<Rightarrow> bool" where
  "PDAllMembersReady cc \<longleftrightarrow>
     (if PDRealReplicas cc \<noteq> int (length (pd_members (cc_pd cc))) then False
      else list_all (\<lambda>(_, m). pm_health m) (pd_members (cc_pd cc)))"

definition PDAutoFailovering :: "cellcluster \<Rightarrow> bool" where
  "PDAutoFailovering cc \<longleftrightarrow>
     (if pd_failures (cc_pd cc) = [] then False
      else list_ex (\<lambda>(_, f). \<not> pf_member_deleted f) (pd_failures (cc_pd cc)))"

definition StoreAllStoresReady :: "cellcluster \<Rightarrow> bool" where
  "StoreAllStoresReady cc \<longleftrightarrow>
     (if StoreRealReplicas cc \<noteq> int (length (sto_stores (cc_store cc))) then False
      else list_all (\<lambda>(_, s). kv_state s = StoreStateUp) (sto_stores (cc_store cc)))"

definition ProxyAllMembersReady :: "cellcluster \<Rightarrow> bool" where
  "ProxyAllMembersReady cc = True"

text \<open>The counting loop \<^verbatim>\<open>for ... { if p { n++ } }\<close> on an \<open>int32\<close>.\<close>

fun count32 :: "('a \<Rightarrow> bool) \<Rightarrow> int \<Rightarrow> 'a list \<Rightarrow> int" where
  "count32 p n [] = n"
| "count32 p n (x # xs) = count32 p (if p x then wrap32 (n + 1) else n) xs"

definition PDIsAvailable :: "cellcluster \<Rightarrow> bool" where
  "PDIsAvailable cc \<longleftrightarrow>
     (let lowerLimit = wrap32 (ms_replicas (spec_pd (cc_spec cc)) sdiv 2 + 1);
          members = pd_members (cc_pd cc);
          availableNum = count32 (\<lambda>(_, m). pm_health m) 0 members
      in if len32 members < lowerLimit then False
         else if availableNum < lowerLimit then False
         else (case pd_set (cc_pd cc) of
                 None \<Rightarrow> False
               | Some s \<Rightarrow> if st_ready_replicas s < lowerLimit then False else True))"

definition StoreIsAvailable :: "cellcluster \<Rightarrow> bool" where
  "StoreIsAvailable cc \<longleftrightarrow>
     (let lowerLimit = 1;
          stores = sto_stores (cc_store cc);
          availableNum = count32 (\<lambda>(_, s). kv_state s = StoreStateUp) 0 stores
      in if len32 stores < lowerLimit then False
         else if availableNum < lowerLimit then False
         else (case sto_set (cc_store cc) of
                 None \<Rightarrow> False
               | Some s \<Rightarrow> if st_ready_replicas s < lowerLimit then False else True))"

definition GetClusterID :: "cellcluster \<Rightarrow> string" where
  "GetClusterID cc = stat_cluster_id (cc_status cc)"

section \<open>Lemmas\<close>

lemma count32_eq:
  "0 \<le> n \<Longrightarrow> n + int (length xs) < 2 ^ 31 \<Longrightarrow> count32 p n xs = n + int (length (filter p xs))"
  by (induction p n xs rule: count32.induct) auto

lemma count32_map_entries:
  "int (length xs) < 2 ^ 31 \<Longrightarrow> count32 p 0 xs = int (length (filter p xs))"
  by (simp add: count32_eq)

lemma len32_id [simp]: "int (length xs) < 2 ^ 31 \<Longrightarrow> len32 xs = int (length xs)"
  by (simp add: len32_def)

definition healthy_pd :: "cellcluster \<Rightarrow> nat" where
  "healthy_pd cc = length (filter (\<lambda>(_, m). pm_health m) (pd_members (cc_pd cc)))"

definition up_stores :: "cellcluster \<Rightarrow> nat" where
  "up_stores cc =
     length (filter (\<lambda>(_, s). kv_state s = StoreStateUp) (sto_stores (cc_store cc)))"

text \<open>Member maps are far smaller than the \<open>int32\<close> range.\<close>

definition small_maps :: "cellcluster \<Rightarrow> bool" where
  "small_maps cc \<longleftrightarrow>
     int (length (pd_members (cc_pd cc))) < 2 ^ 31 \<and> int (length (sto_stores (cc_store cc))) < 2 ^ 31"

lemma PDIsAvailable_iff:
  assumes "small_maps cc" and "0 \<le> r" and "r < 2 ^ 31" and r: "r = ms_replicas (spec_pd (cc_spec cc))"
  shows "PDIsAvailable cc \<longleftrightarrow>
    r div 2 + 1 \<le> int (healthy_pd cc) \<and>
    (\<exists>s. pd_set (cc_pd cc) = Some s \<and> r div 2 + 1 \<le> st_ready_replicas s)"
proof -
  let ?ms = "pd_members (cc_pd cc)"
  have le: "int (healthy_pd cc) \<le> int (length ?ms)"
    unfolding healthy_pd_def by simp
  have limit: "wrap32 (r sdiv 2 + 1) = r div 2 + 1"
    using assms(2,3) by (simp add: sdiv_2_nonneg)
  have len: "len32 ?ms = int (length ?ms)"
    and cnt: "count32 (\<lambda>(_, m). pm_health m) 0 ?ms = int (healthy_pd cc)"
    using assms(1) by (simp_all add: small_maps_def healthy_pd_def count32_map_entries)
  show ?thesis
    using le
    by (auto simp: PDIsAvailable_def Let_def len cnt limit r [symmetric] split: option.splits)
qed

lemma StoreIsAvailable_iff:
  assumes "small_maps cc"
  shows "StoreIsAvailable cc \<longleftrightarrow>
    0 < up_stores cc \<and> (\<exists>s. sto_set (cc_store cc) = Some s \<and> 1 \<le> st_ready_replicas s)"
proof -
  let ?ss = "sto_stores (cc_store cc)"
  have le: "int (up_stores cc) \<le> int (length ?ss)"
    unfolding up_stores_def by simp
  have len: "len32 ?ss = int (length ?ss)"
    and cnt: "count32 (\<lambda>(_, s). kv_state s = StoreStateUp) 0 ?ss = int (up_stores cc)"
    using assms by (simp_all add: small_maps_def up_stores_def count32_map_entries)
  show ?thesis
    using le by (auto simp: StoreIsAvailable_def Let_def len cnt split: option.splits)
qed

end
