(* ===== verification/Cell_Label.thy ===== *)
theory Cell_Label
  imports Go_Prelude
begin

text \<open>
  \<^verbatim>\<open>pkg/label/label.go\<close>: the label and annotation keys, and the \<open>Label\<close> builder.  A builder
  method mutates its map and returns it; a chain starts from \<open>New()\<close>, so the model returns
  the updated map.
\<close>

definition ManagedByLabelKey :: string where "ManagedByLabelKey = ''app.kubernetes.io/managed-by''"
definition ComponentLabelKey :: string where "ComponentLabelKey = ''app.kubernetes.io/component''"
definition NameLabelKey :: string where "NameLabelKey = ''app.kubernetes.io/name''"
definition InstanceLabelKey :: string where "InstanceLabelKey = ''app.kubernetes.io/instance''"
definition NamespaceLabelKey :: string where "NamespaceLabelKey = ''app.kubernetes.io/namespace''"
definition ClusterIDLabelKey :: string where "ClusterIDLabelKey = ''cell.deepfabric.com/cluster-id''"
definition StoreIDLabelKey :: string where "StoreIDLabelKey = ''cell.deepfabric.com/store-id''"
definition MemberIDLabelKey :: string where "MemberIDLabelKey = ''cell.deepfabric.com/member-id''"
definition AnnPodNameKey :: string where "AnnPodNameKey = ''cell.deepfabric.com/pod-name''"
definition AnnPVCDeferDeleting :: string where
  "AnnPVCDeferDeleting = ''cell.deepfabric.com/pvc-defer-deleting''"
definition AnnPVCPodScheduling :: string where
  "AnnPVCPodScheduling = ''cell.deepfabric.com/pod-scheduling''"
definition PDLabelVal :: string where "PDLabelVal = ''pd''"
definition ProxyLabelVal :: string where "ProxyLabelVal = ''proxy''"
definition StoreLabelVal :: string where "StoreLabelVal = ''store''"

text \<open>\<^verbatim>\<open>apps.ControllerRevisionHashLabelKey\<close>, the label the StatefulSet controller puts on pods.\<close>

definition ControllerRevisionHashLabelKey :: string where
  "ControllerRevisionHashLabelKey = ''controller-revision-hash''"

lemmas label_key_defs [go_defs] =
  ManagedByLabelKey_def ComponentLabelKey_def NameLabelKey_def InstanceLabelKey_def
  NamespaceLabelKey_def ClusterIDLabelKey_def StoreIDLabelKey_def MemberIDLabelKey_def
  AnnPodNameKey_def AnnPVCDeferDeleting_def AnnPVCPodScheduling_def
  ControllerRevisionHashLabelKey_def

lemmas label_val_defs [go_defs] = PDLabelVal_def ProxyLabelVal_def StoreLabelVal_def

lemma component_vals_distinct [simp]:
  "PDLabelVal \<noteq> StoreLabelVal" "StoreLabelVal \<noteq> PDLabelVal"
  "PDLabelVal \<noteq> ProxyLabelVal" "ProxyLabelVal \<noteq> PDLabelVal"
  "StoreLabelVal \<noteq> ProxyLabelVal" "ProxyLabelVal \<noteq> StoreLabelVal"
  by (simp_all add: label_val_defs)

type_synonym label = "string \<rightharpoonup> string"

definition label_New :: label where
  "label_New = [NameLabelKey \<mapsto> ''cell-cluster'', ManagedByLabelKey \<mapsto> ''cell-operator'']"

definition label_Instance :: "string \<Rightarrow> label \<Rightarrow> label" where
  "label_Instance n l = l(InstanceLabelKey \<mapsto> n)"

definition label_Namespace :: "string \<Rightarrow> label \<Rightarrow> label" where
  "label_Namespace n l = l(NamespaceLabelKey \<mapsto> n)"

definition label_Component :: "string \<Rightarrow> label \<Rightarrow> label" where
  "label_Component n l = l(ComponentLabelKey \<mapsto> n)"

definition label_ComponentType :: "strmap \<Rightarrow> string" where
  "label_ComponentType l = mval l ComponentLabelKey"

definition label_PD :: "label \<Rightarrow> label" where
  "label_PD l = label_Component PDLabelVal l"

definition label_Proxy :: "label \<Rightarrow> label" where
  "label_Proxy l = label_Component ProxyLabelVal l"

definition label_Store :: "label \<Rightarrow> label" where
  "label_Store l = label_Component StoreLabelVal l"

definition IsPD :: "strmap \<Rightarrow> bool" where
  "IsPD l \<longleftrightarrow> mval l ComponentLabelKey = PDLabelVal"

definition IsStore :: "strmap \<Rightarrow> bool" where
  "IsStore l \<longleftrightarrow> mval l ComponentLabelKey = StoreLabelVal"

definition IsProxy :: "strmap \<Rightarrow> bool" where
  "IsProxy l \<longleftrightarrow> mval l ComponentLabelKey = ProxyLabelVal"

text \<open>
  \<open>Selector\<close> and \<open>LabelSelector\<close> wrap the map in the API's selector types; the selector of
  a label map selects the objects that carry each of its pairs.  A builder chain sets keys
  of \<open>builder_keys\<close> only.
\<close>

definition LabelSelector :: "label \<Rightarrow> strmap" where
  "LabelSelector l = Some l"

definition label_Labels :: "label \<Rightarrow> strmap" where
  "label_Labels l = Some l"

definition builder_keys :: "string list" where
  "builder_keys =
     [NameLabelKey, ManagedByLabelKey, InstanceLabelKey, NamespaceLabelKey, ComponentLabelKey]"

definition selects :: "label \<Rightarrow> strmap \<Rightarrow> bool" where
  "selects sel l \<longleftrightarrow> list_all (\<lambda>k. sel k = None \<or> sel k = mget l k) builder_keys"

lemmas label_defs [go_defs] =
  label_New_def label_Instance_def label_Namespace_def label_Component_def
  label_PD_def label_Proxy_def label_Store_def label_Labels_def LabelSelector_def

definition member_label :: "string \<Rightarrow> string \<Rightarrow> label" where
  "member_label component inst = label_Component component (label_Instance inst label_New)"

lemma member_label_chains:
  "label_PD (label_Instance i label_New) = member_label PDLabelVal i"
  "label_Store (label_Instance i label_New) = member_label StoreLabelVal i"
  "label_Proxy (label_Instance i label_New) = member_label ProxyLabelVal i"
  by (simp_all add: member_label_def label_PD_def label_Store_def label_Proxy_def)

lemma dom_member_label:
  "dom (member_label c i) = {NameLabelKey, ManagedByLabelKey, InstanceLabelKey, ComponentLabelKey}"
  by (auto simp: member_label_def label_defs)

lemma member_label_get:
  "member_label c i ComponentLabelKey = Some c" "member_label c i InstanceLabelKey = Some i"
  by (simp_all add: member_label_def label_defs label_key_defs)

lemma member_label_inj: "member_label c i = member_label d j \<longleftrightarrow> c = d \<and> i = j"
  by (metis member_label_get option.inject)

lemma selects_member_label:
  "selects (member_label c i) l \<Longrightarrow>
     mget l ComponentLabelKey = Some c \<and> mget l InstanceLabelKey = Some i"
  by (auto simp: selects_def builder_keys_def member_label_get)

lemma selects_disjoint:
  "selects (member_label c i) l \<Longrightarrow> selects (member_label d j) l \<Longrightarrow> c = d \<and> i = j"
  by (drule selects_member_label, drule selects_member_label) auto

lemma selects_instance_of_member:
  "selects (member_label c i) l \<Longrightarrow> selects (label_Instance i label_New) l"
  by (auto simp: selects_def builder_keys_def member_label_def label_defs label_key_defs
      split: if_splits)

end
