(* ===== verification/Cell_Util.thy ===== *)
theory Cell_Util
  imports Cell_Types Cell_Label "HOL-Library.Log_Nat" "HOL-Library.Multiset"
begin

text \<open>
  \<^verbatim>\<open>pkg/util/util.go\<close> and \<^verbatim>\<open>pkg/controller/controller_utils.go\<close>: affinity and resource
  computation, member names, service types and store capacity.  Quantities are parsed by
  \<^verbatim>\<open>k8s.io/apimachinery/pkg/api/resource\<close>, outside the repository: \<open>qlib\<close> carries its two
  functions as parameters.
\<close>

record qlib =
  ql_parse :: "string \<Rightarrow> goerr + quantity"        \<comment> \<open>resource.ParseQuantity\<close>
  ql_as_int64 :: "quantity \<Rightarrow> int option"        \<comment> \<open>Quantity.AsInt64\<close>

section \<open>controller_utils.go\<close>

definition RequeueErrorf :: "string \<Rightarrow> goerr" where
  "RequeueErrorf msg = RequeueError msg"

fun IsRequeueError :: "goerr \<Rightarrow> bool" where
  "IsRequeueError (RequeueError _) = True"
| "IsRequeueError _ = False"

text \<open>\<open>controllerKind\<close> is the CellCluster kind of the group version in register.go.\<close>

definition controllerKind_gv :: string where "controllerKind_gv = ''deepfabric.com/v1alpha1''"
definition controllerKind_Kind :: string where "controllerKind_Kind = ''CellCluster''"

definition GetOwnerRef :: "cellcluster \<Rightarrow> owner_ref" where
  "GetOwnerRef cc = \<lparr>or_api_version = controllerKind_gv, or_kind = controllerKind_Kind,
     or_name = cc_name cc, or_uid = m_uid (cc_meta cc),
     or_controller = Some True, or_block_deletion = Some True\<rparr>"

fun GetServiceType :: "service_req list \<Rightarrow> string \<Rightarrow> string" where
  "GetServiceType [] serviceName = ''ClusterIP''"
| "GetServiceType (svc # svcs) serviceName =
     (if sr_name svc = serviceName then
        (if sr_type svc = ''NodePort'' then ''NodePort''
         else if sr_type svc = ''LoadBalancer'' then ''LoadBalancer''
         else ''ClusterIP'')
      else GetServiceType svcs serviceName)"

text \<open>
  The conversion of an \<open>int64\<close> to a \<open>float64\<close>: exact up to \<open>2 ^ 53\<close>, otherwise rounded to
  53 significant bits, ties to even.  Dividing by \<open>2 ^ 30\<close> is exact.
\<close>

definition round_bits :: "nat \<Rightarrow> nat \<Rightarrow> nat" where
  "round_bits e n =
     (let m = n div 2 ^ e; r = n mod 2 ^ e; half = 2 ^ (e - 1)
      in (if e = 0 then n
          else if r < half \<or> (r = half \<and> even m) then m * 2 ^ e else (m + 1) * 2 ^ e))"

definition float64_of_int :: "int \<Rightarrow> int" where
  "float64_of_int i = sgn i * int (round_bits (floorlog 2 (nat \<bar>i\<bar>) - 53) (nat \<bar>i\<bar>))"

definition StoreCapacity :: "qlib \<Rightarrow> resource_requirement option \<Rightarrow> string" where
  "StoreCapacity Q limits =
     (let defaultArgs = ''0''
      in case limits of
           None \<Rightarrow> defaultArgs
         | Some l \<Rightarrow>
             if q_storage l = [] then defaultArgs
             else (case ql_parse Q (q_storage l) of
                     Inl _ \<Rightarrow> defaultArgs
                   | Inr q \<Rightarrow> (case ql_as_int64 Q q of
                                 None \<Rightarrow> defaultArgs
                               | Some i \<Rightarrow> show_int (float64_of_int i sdiv 2 ^ 30) @ ''GB'')))"

definition PDMemberName :: "string \<Rightarrow> string" where
  "PDMemberName clusterName = clusterName @ ''-pd''"

definition PDPeerMemberName :: "string \<Rightarrow> string" where
  "PDPeerMemberName clusterName = clusterName @ ''-pd-peer''"

definition StoreMemberName :: "string \<Rightarrow> string" where
  "StoreMemberName clusterName = clusterName @ ''-store''"

definition StorePeerName :: "string \<Rightarrow> string" where
  "StorePeerName clusterName = clusterName @ ''-store-peer''"

definition ProxyMemberName :: "string \<Rightarrow> string" where
  "ProxyMemberName clusterName = clusterName @ ''-proxy''"

lemmas member_name_defs [go_names] =
  PDMemberName_def PDPeerMemberName_def StoreMemberName_def StorePeerName_def ProxyMemberName_def

definition setIfNotEmpty :: "string \<Rightarrow> string \<Rightarrow> strmap \<Rightarrow> strmap" where
  "setIfNotEmpty key val container = (if val \<noteq> [] then mput key val container else container)"

text \<open>\<open>resource.MustParse\<close> panics on a quantity that cannot be parsed.\<close>

definition MustParse :: "qlib \<Rightarrow> string \<Rightarrow> goerr + quantity" where
  "MustParse Q s = (case ql_parse Q s of Inl e \<Rightarrow> Inl (PanicError (''cannot parse '' @ s)) | Inr q \<Rightarrow> Inr q)"

definition DefaultPushGatewayRequest :: "qlib \<Rightarrow> goerr + resource_reqs" where
  "DefaultPushGatewayRequest Q =
     (case MustParse Q ''50m'' of
        Inl e \<Rightarrow> Inl e
      | Inr cpu \<Rightarrow>
          (case MustParse Q ''50Mi'' of
             Inl e \<Rightarrow> Inl e
           | Inr memory \<Rightarrow>
               (case MustParse Q ''100m'' of
                  Inl e \<Rightarrow> Inl e
                | Inr cpu' \<Rightarrow>
                    (case MustParse Q ''100Mi'' of
                       Inl e \<Rightarrow> Inl e
                     | Inr memory' \<Rightarrow>
                         Inr \<lparr>rr_requests = Some [''cpu'' \<mapsto> cpu, ''memory'' \<mapsto> memory],
                              rr_limits = Some [''cpu'' \<mapsto> cpu', ''memory'' \<mapsto> memory']\<rparr>))))"

lemma mget_setIfNotEmpty [simp]:
  "mget (setIfNotEmpty k v m) j = (if j = k \<and> v \<noteq> [] then Some v else mget m j)"
  by (simp add: setIfNotEmpty_def)

lemma mval_setIfNotEmpty [simp]:
  "mval (setIfNotEmpty k v m) j = (if j = k \<and> v \<noteq> [] then v else mval m j)"
  by (simp add: mval_def)

section \<open>util.go\<close>

definition LabelHostname :: string where "LabelHostname = ''kubernetes.io/hostname''"

definition topologySchedulingWeight :: "(string, int) gomap" where
  "topologySchedulingWeight =
     [(''region'', 10), (''zone'', 20), (''rack'', 40), (LabelHostname, 80)]"

text \<open>The keys of a map, in iteration order, then \<open>sort.Strings\<close> (bytewise order).\<close>

definition sorted_keys :: "(string, 'v) gomap \<Rightarrow> string list" where
  "sorted_keys m = sort (map fst m)"

definition AntiAffinityForPod :: "string \<Rightarrow> strmap \<Rightarrow> weighted_term list" where
  "AntiAffinityForPod namespace antiLabels =
     map (\<lambda>key. \<lparr>wt_weight = (case map_of topologySchedulingWeight key of None \<Rightarrow> 0 | Some w \<Rightarrow> w),
                 wt_match_labels = antiLabels, wt_topology_key = key, wt_namespaces = [namespace]\<rparr>)
       (sorted_keys topologySchedulingWeight)"

definition selector_value :: "(string, string) gomap \<Rightarrow> string \<Rightarrow> string" where
  "selector_value sel key = (case map_of sel key of None \<Rightarrow> [] | Some v \<Rightarrow> v)"

definition in_req :: "(string, string) gomap \<Rightarrow> string \<Rightarrow> node_req" where
  "in_req sel key = \<lparr>nr_key = key, nr_operator = ''In'',
     nr_values = split_on CHR '','' (selector_value sel key)\<rparr>"

text \<open>The loop over the sorted keys of a preferred selector: topology keys become weighted
  preferences, the others are collected into one conjunction.\<close>

fun preferred_loop ::
  "(string, string) gomap \<Rightarrow> string list \<Rightarrow> pref_term list \<times> node_term \<Rightarrow> pref_term list \<times> node_term"
where
  "preferred_loop sel [] acc = acc"
| "preferred_loop sel (key # keys) (terms, exps) =
     (if selector_value sel key = [] then preferred_loop sel keys (terms, exps)
      else (case map_of topologySchedulingWeight key of
              Some w \<Rightarrow>
                preferred_loop sel keys
                  (terms @ [\<lparr>pt_weight = w, pt_exprs = [in_req sel key]\<rparr>], exps)
            | None \<Rightarrow> preferred_loop sel keys (terms, exps @ [in_req sel key])))"

definition AffinityForNodeSelector ::
  "string \<Rightarrow> bool \<Rightarrow> strmap \<Rightarrow> (string, string) gomap option \<Rightarrow> affinity option" where
  "AffinityForNodeSelector namespace required antiLabels selector =
     (case selector of
        None \<Rightarrow> None
      | Some sel \<Rightarrow>
          let anti = (if antiLabels \<noteq> None then Some (AntiAffinityForPod namespace antiLabels) else None);
              keys = sorted_keys sel
          in if required then
               Some \<lparr>af_pod_anti = anti,
                     af_node = Some \<lparr>na_required = [map (in_req sel) keys], na_preferred = []\<rparr>\<rparr>
             else
               (let (terms, exps) = preferred_loop sel keys ([], [])
                in Some \<lparr>af_pod_anti = anti,
                         af_node = Some \<lparr>na_required = [exps], na_preferred = terms\<rparr>\<rparr>))"

text \<open>\<open>ResourceRequirement\<close>: the CPU and memory entries of one section; an entry that does
  not parse is logged and left out.\<close>

definition set_quantity :: "qlib \<Rightarrow> string \<Rightarrow> string \<Rightarrow> resource_list \<Rightarrow> resource_list" where
  "set_quantity Q resource text rl =
     (if text \<noteq> [] then (case ql_parse Q text of Inl _ \<Rightarrow> rl | Inr q \<Rightarrow> rl(resource \<mapsto> q)) else rl)"

definition resource_section ::
  "qlib \<Rightarrow> resource_requirement option \<Rightarrow> resource_list option \<Rightarrow> resource_list option" where
  "resource_section Q req rl =
     (case req of
        None \<Rightarrow> rl
      | Some r \<Rightarrow>
          let m = (case rl of None \<Rightarrow> Map.empty | Some m \<Rightarrow> m)
          in Some (set_quantity Q ''memory'' (q_memory r) (set_quantity Q ''cpu'' (q_cpu r) m)))"

definition default_section :: "resource_list option \<Rightarrow> resource_list" where
  "default_section rl =
     (let get = (\<lambda>k. case rl of None \<Rightarrow> 0 | Some m \<Rightarrow> (case m k of None \<Rightarrow> 0 | Some q \<Rightarrow> q))
      in [''cpu'' \<mapsto> get ''cpu'', ''memory'' \<mapsto> get ''memory''])"

definition ResourceRequirement :: "qlib \<Rightarrow> container_spec \<Rightarrow> resource_reqs list \<Rightarrow> resource_reqs" where
  "ResourceRequirement Q spec defaultRequests =
     (let (req0, lim0) =
        (case defaultRequests of
           [] \<Rightarrow> (None, None)
         | d # _ \<Rightarrow> (Some (default_section (rr_requests d)), Some (default_section (rr_limits d))))
      in \<lparr>rr_requests = resource_section Q (k_requests spec) req0,
          rr_limits = resource_section Q (k_limits spec) lim0\<rparr>)"

definition GetOrdinalFromPodName :: "string \<Rightarrow> goerr + int" where
  "GetOrdinalFromPodName podName =
     (case atoi (drop (nat (last_index CHR ''-'' podName + 1)) podName) of
        Inl e \<Rightarrow> Inl e
      | Inr i \<Rightarrow> Inr (wrap32 i))"

definition GetNextOrdinalPodName :: "string \<Rightarrow> int \<Rightarrow> goerr + string" where
  "GetNextOrdinalPodName podName ordinal =
     (let i = last_index CHR ''-'' podName
      in if i < 0 then Inl (PanicError ''slice bounds out of range'')
         else Inr (take (nat i) podName @ ''-'' @ show_int (wrap32 (ordinal + 1))))"

section \<open>Names with an ordinal\<close>

text \<open>\<open>fmt.Sprintf("%s-%d", s, i)\<close>, the shape of every pod and claim name.\<close>

definition dash_ordinal :: "string \<Rightarrow> int \<Rightarrow> string" where
  "dash_ordinal s i = s @ ''-'' @ show_int i"

lemma show_int_nonneg: "0 \<le> i \<Longrightarrow> show_int i = show_nat (nat i)"
  by (simp add: show_int_def)

lemma show_int_no_minus: "0 \<le> i \<Longrightarrow> CHR ''-'' \<notin> set (show_int i)"
  by (simp add: show_int_nonneg show_nat_no_minus)

lemma last_index_dash_ordinal:
  "0 \<le> i \<Longrightarrow> last_index CHR ''-'' (dash_ordinal s i) = int (length s)"
  using last_index_append [OF show_int_no_minus, of i s] by (simp add: dash_ordinal_def)

lemma dash_ordinal_inj:
  assumes "0 \<le> i" and "0 \<le> j"
  shows "dash_ordinal s i = dash_ordinal t j \<longleftrightarrow> s = t \<and> i = j"
proof
  assume eq: "dash_ordinal s i = dash_ordinal t j"
  then have "length s = length t"
    using last_index_dash_ordinal [OF assms(1), of s] last_index_dash_ordinal [OF assms(2), of t]
    by simp
  with eq show "s = t \<and> i = j" by (simp add: dash_ordinal_def)
qed simp

lemma GetOrdinalFromPodName_dash_ordinal:
  assumes "0 \<le> i" and "i < 2 ^ 31"
  shows "GetOrdinalFromPodName (dash_ordinal s i) = Inr i"
proof -
  have "nat (last_index CHR ''-'' (dash_ordinal s i) + 1) = Suc (length s)"
    using last_index_dash_ordinal [OF assms(1), of s] by simp
  then have "drop (nat (last_index CHR ''-'' (dash_ordinal s i) + 1)) (dash_ordinal s i)
      = show_nat (nat i)"
    by (simp add: dash_ordinal_def show_int_nonneg assms(1))
  moreover have "atoi (show_nat (nat i)) = Inr i"
    using assms atoi_show_nat [of "nat i"] by simp
  ultimately show ?thesis using assms by (simp add: GetOrdinalFromPodName_def)
qed

lemma GetNextOrdinalPodName_dash_ordinal:
  assumes "0 \<le> i" and "i < 2 ^ 31 - 1"
  shows "GetNextOrdinalPodName (dash_ordinal s i) i = Inr (dash_ordinal s (i + 1))"
  using last_index_dash_ordinal [OF assms(1), of s] assms
  by (simp add: GetNextOrdinalPodName_def Let_def dash_ordinal_def)

section \<open>Affinity does not depend on the iteration order\<close>

lemma sorted_keys_perm:
  "mset m = mset n \<Longrightarrow> sorted_keys m = sorted_keys n"
  by (metis mset_map properties_for_sort sorted_keys_def sorted_sort mset_sort)

lemma map_of_perm:
  "distinct (map fst m) \<Longrightarrow> mset m = mset n \<Longrightarrow> map_of m = map_of n"
  by (metis map_of_inject_set mset_eq_setD mset_eq_imp_distinct_iff mset_map)

lemma in_req_cong: "map_of m = map_of n \<Longrightarrow> in_req m = in_req n"
  by (simp add: in_req_def selector_value_def fun_eq_iff)

lemma preferred_loop_cong:
  assumes "map_of m = map_of n"
  shows "preferred_loop m keys acc = preferred_loop n keys acc"
proof -
  have "in_req m = in_req n" and "selector_value m = selector_value n"
    using assms in_req_cong by (auto simp: selector_value_def fun_eq_iff)
  then show ?thesis
    by (induction keys arbitrary: acc) (auto split: option.splits)
qed

lemma AffinityForNodeSelector_perm:
  assumes "distinct (map fst m)" and "mset m = mset n"
  shows "AffinityForNodeSelector ns req anti (Some m) = AffinityForNodeSelector ns req anti (Some n)"
  using sorted_keys_perm [OF assms(2)] in_req_cong [OF map_of_perm [OF assms]]
    preferred_loop_cong [OF map_of_perm [OF assms]]
  by (simp add: AffinityForNodeSelector_def Let_def)

lemma preferred_loop_spec:
  "preferred_loop sel keys (terms, exps) =
     (terms @ map (\<lambda>k. \<lparr>pt_weight = the (map_of topologySchedulingWeight k), pt_exprs = [in_req sel k]\<rparr>)
        (filter (\<lambda>k. selector_value sel k \<noteq> [] \<and> map_of topologySchedulingWeight k \<noteq> None) keys),
      exps @ map (in_req sel)
        (filter (\<lambda>k. selector_value sel k \<noteq> [] \<and> map_of topologySchedulingWeight k = None) keys))"
  by (induction keys arbitrary: terms exps) (auto split: option.splits)

lemma AntiAffinityForPod_keys:
  "map wt_topology_key (AntiAffinityForPod ns l) = [LabelHostname, ''rack'', ''region'', ''zone'']"
  "map wt_weight (AntiAffinityForPod ns l) = [80, 40, 10, 20]"
proof -
  have "sorted_keys topologySchedulingWeight = [LabelHostname, ''rack'', ''region'', ''zone'']"
    by code_simp
  then show "map wt_topology_key (AntiAffinityForPod ns l) = [LabelHostname, ''rack'', ''region'', ''zone'']"
    "map wt_weight (AntiAffinityForPod ns l) = [80, 40, 10, 20]"
    by (simp_all add: AntiAffinityForPod_def topologySchedulingWeight_def LabelHostname_def)
qed

section \<open>Store capacity\<close>

lemma round_bits_small: "e = 0 \<Longrightarrow> round_bits e n = n"
  by (simp add: round_bits_def)

lemma floorlog_small: "n < 2 ^ 53 \<Longrightarrow> floorlog 2 n \<le> 53"
  by (simp add: floorlog_le_iff)

lemma float64_exact: "0 \<le> i \<Longrightarrow> i < 2 ^ 53 \<Longrightarrow> float64_of_int i = i"
proof -
  assume i: "0 \<le> i" "i < 2 ^ 53"
  then have "nat \<bar>i\<bar> < 2 ^ 53" by simp
  then have "floorlog 2 (nat \<bar>i\<bar>) - 53 = 0" using floorlog_small by simp
  then show ?thesis using i by (simp add: float64_of_int_def round_bits_small sgn_if)
qed

lemma StoreCapacity_exact:
  assumes "q_storage l \<noteq> []" and "ql_parse Q (q_storage l) = Inr q" and "ql_as_int64 Q q = Some i"
    and "0 \<le> i" and "i < 2 ^ 53"
  shows "StoreCapacity Q (Some l) = show_int (i div 2 ^ 30) @ ''GB''"
  using assms float64_exact [OF assms(4,5)]
  by (simp add: StoreCapacity_def signed_divide_int_def sgn_if)

end
