(* ===== verification/Cluster_Env.thy ===== *)
theory Cluster_Env
  imports Cell_Util
begin

text \<open>
  The interfaces the managers are built from, as one record of operations on an abstract
  world state \<open>'w\<close>: the informer listers, the control interfaces of \<^verbatim>\<open>pkg/controller\<close>, the
  PD client, the clock, \<^verbatim>\<open>encoding/json\<close> on the Kubernetes types, and the quantity parser.
  The world holds the informer caches, the API server and the PD cluster.

  A lister returns a pointer into the informer cache, so a store through it changes what
  the next lister call returns.  The \<open>t_\<close> operations are these stores; where the code writes
  to an object it got from a lister, the model calls them.
\<close>

section \<open>PD client types (pd_control.go)\<close>

record member_health =
  mh_name :: string
  mh_id :: nat
  mh_client_urls :: "string list"
  mh_health :: bool

record pd_peer =
  pp_id :: nat
  pp_name :: string
  pp_peer_urls :: "string list"

record store_stat =
  ss_heartbeat_ts :: int
  ss_leader_count :: int

record store_info =
  si_id :: nat
  si_address :: string
  si_state :: int
  si_labels :: "(string \<times> string) list"
  si_status :: "store_stat option"

text \<open>A list of pointers: an entry may be nil.\<close>

type_synonym stores_info = "store_info option list"

section \<open>The JSON codec\<close>

record codec =
  j_enc_set :: "sset_spec \<Rightarrow> goerr + string"
  j_dec_set :: "string \<Rightarrow> goerr + sset_spec"
  j_enc_pod :: "pod_spec \<Rightarrow> goerr + string"
  j_dec_pod :: "string \<Rightarrow> goerr + pod_spec"
  j_enc_svc :: "svc_spec \<Rightarrow> goerr + string"
  j_dec_svc :: "string \<Rightarrow> goerr + svc_spec"

text \<open>\<open>Unmarshal\<close> inverts \<open>Marshal\<close> on the value at hand.\<close>

definition codec_set_ok :: "codec \<Rightarrow> sset_spec \<Rightarrow> bool" where
  "codec_set_ok J x \<longleftrightarrow> (\<exists>s. j_enc_set J x = Inr s \<and> j_dec_set J s = Inr x)"

definition codec_pod_ok :: "codec \<Rightarrow> pod_spec \<Rightarrow> bool" where
  "codec_pod_ok J x \<longleftrightarrow> (\<exists>s. j_enc_pod J x = Inr s \<and> j_dec_pod J s = Inr x)"

definition codec_svc_ok :: "codec \<Rightarrow> svc_spec \<Rightarrow> bool" where
  "codec_svc_ok J x \<longleftrightarrow> (\<exists>s. j_enc_svc J x = Inr s \<and> j_dec_svc J s = Inr x)"

section \<open>The environment of a manager\<close>

record 'w env =
  l_set :: "'w \<Rightarrow> string \<Rightarrow> string \<Rightarrow> goerr + sset"
  l_svc :: "'w \<Rightarrow> string \<Rightarrow> string \<Rightarrow> goerr + service"
  l_pod :: "'w \<Rightarrow> string \<Rightarrow> string \<Rightarrow> goerr + pod"
  l_pods :: "'w \<Rightarrow> string \<Rightarrow> label \<Rightarrow> goerr + pod list"
  l_pvc :: "'w \<Rightarrow> string \<Rightarrow> string \<Rightarrow> goerr + pvc"
  l_pvcs :: "'w \<Rightarrow> string \<Rightarrow> label \<Rightarrow> goerr + pvc list"
  l_pv :: "'w \<Rightarrow> string \<Rightarrow> goerr + pv"
  l_node :: "'w \<Rightarrow> string \<Rightarrow> goerr + node"
  t_set :: "sset \<Rightarrow> 'w \<Rightarrow> 'w"
  t_svc :: "service \<Rightarrow> 'w \<Rightarrow> 'w"
  t_pod :: "pod \<Rightarrow> 'w \<Rightarrow> 'w"
  t_pvc :: "pvc \<Rightarrow> 'w \<Rightarrow> 'w"
  k_create_set :: "cellcluster \<Rightarrow> sset \<Rightarrow> 'w \<Rightarrow> goerr option \<times> 'w"
  k_update_set :: "cellcluster \<Rightarrow> sset \<Rightarrow> 'w \<Rightarrow> goerr option \<times> 'w"
  k_create_svc :: "cellcluster \<Rightarrow> service \<Rightarrow> 'w \<Rightarrow> goerr option \<times> 'w"
  k_update_svc :: "cellcluster \<Rightarrow> service \<Rightarrow> 'w \<Rightarrow> goerr option \<times> 'w"
  k_update_pod :: "cellcluster \<Rightarrow> pod \<Rightarrow> 'w \<Rightarrow> goerr option \<times> 'w"
  k_delete_pod :: "cellcluster \<Rightarrow> pod \<Rightarrow> 'w \<Rightarrow> goerr option \<times> 'w"
  k_pod_meta :: "cellcluster \<Rightarrow> pod \<Rightarrow> 'w \<Rightarrow> goerr option \<times> pod \<times> 'w"
  k_update_pvc :: "cellcluster \<Rightarrow> pvc \<Rightarrow> 'w \<Rightarrow> goerr option \<times> 'w"
  k_delete_pvc :: "cellcluster \<Rightarrow> pvc \<Rightarrow> 'w \<Rightarrow> goerr option \<times> 'w"
  k_pvc_meta :: "cellcluster \<Rightarrow> pvc \<Rightarrow> pod \<Rightarrow> 'w \<Rightarrow> goerr option \<times> pvc \<times> 'w"
  k_pv_meta :: "cellcluster \<Rightarrow> pv \<Rightarrow> 'w \<Rightarrow> goerr option \<times> 'w"
  k_patch_reclaim :: "cellcluster \<Rightarrow> pv \<Rightarrow> string \<Rightarrow> 'w \<Rightarrow> goerr option \<times> 'w"
  c_cluster :: "cellcluster \<Rightarrow> 'w \<Rightarrow> (goerr + string) \<times> 'w"
  c_health :: "cellcluster \<Rightarrow> 'w \<Rightarrow> (goerr + member_health list) \<times> 'w"
  c_leader :: "cellcluster \<Rightarrow> 'w \<Rightarrow> (goerr + pd_peer option) \<times> 'w"
  c_stores :: "cellcluster \<Rightarrow> 'w \<Rightarrow> (goerr + stores_info) \<times> 'w"
  c_tombstones :: "cellcluster \<Rightarrow> 'w \<Rightarrow> (goerr + stores_info) \<times> 'w"
  c_config :: "cellcluster \<Rightarrow> 'w \<Rightarrow> (goerr + int) \<times> 'w"
  c_begin_evict :: "cellcluster \<Rightarrow> nat \<Rightarrow> 'w \<Rightarrow> goerr option \<times> 'w"
  c_end_evict :: "cellcluster \<Rightarrow> nat \<Rightarrow> 'w \<Rightarrow> goerr option \<times> 'w"
  c_delete_store :: "cellcluster \<Rightarrow> nat \<Rightarrow> 'w \<Rightarrow> goerr option \<times> 'w"
  c_set_labels :: "cellcluster \<Rightarrow> nat \<Rightarrow> label \<Rightarrow> 'w \<Rightarrow> (goerr + bool) \<times> 'w"
  e_now :: "'w \<Rightarrow> time"
  e_fmt :: "time \<Rightarrow> string"              \<comment> \<open>\<open>Format(time.RFC3339)\<close> in the local zone\<close>
  e_parse :: "string \<Rightarrow> time option"     \<comment> \<open>\<open>time.Parse(time.RFC3339, _)\<close>\<close>
  e_codec :: codec
  e_q :: qlib
  e_default_class :: string              \<comment> \<open>the \<open>default-storage-class-name\<close> flag\<close>

section \<open>Tracing\<close>

text \<open>
  The requests that change the API server or PD, and the stores into cached objects.
  \<open>traced E\<close> is \<open>E\<close> over a world that also keeps the list of them, so that a property of
  what a manager does to the cluster is a property of that list.
\<close>

datatype action =
    CreateSet sset | UpdateSet sset | TouchSet sset
  | CreateSvc service | UpdateSvc service | TouchSvc service
  | UpdatePod pod | DeletePod pod | PodMeta pod | TouchPod pod
  | UpdatePVC pvc | DeletePVC pvc | PVCMeta pvc pod | TouchPVC pvc
  | PVMeta pv | PatchReclaim pv string
  | BeginEvict nat | EndEvict nat | DeleteStore nat | SetLabels nat label

type_synonym 'w traced = "'w \<times> action list"

text \<open>A call that returns a value, and a call that is logged.\<close>

definition lift_read :: "('w \<Rightarrow> 'a \<times> 'w) \<Rightarrow> 'w traced \<Rightarrow> 'a \<times> 'w traced" where
  "lift_read f t = (case f (fst t) of (r, w') \<Rightarrow> (r, (w', snd t)))"

definition lift_act :: "action \<Rightarrow> ('w \<Rightarrow> 'a \<times> 'w) \<Rightarrow> 'w traced \<Rightarrow> 'a \<times> 'w traced" where
  "lift_act a f t = (case f (fst t) of (r, w') \<Rightarrow> (r, (w', snd t @ [a])))"

definition traced :: "'w env \<Rightarrow> 'w traced env" where
  "traced E =
     \<lparr>l_set = \<lambda>t. l_set E (fst t), l_svc = \<lambda>t. l_svc E (fst t), l_pod = \<lambda>t. l_pod E (fst t),
      l_pods = \<lambda>t. l_pods E (fst t), l_pvc = \<lambda>t. l_pvc E (fst t), l_pvcs = \<lambda>t. l_pvcs E (fst t),
      l_pv = \<lambda>t. l_pv E (fst t), l_node = \<lambda>t. l_node E (fst t),
      t_set = \<lambda>s t. (t_set E s (fst t), snd t @ [TouchSet s]),
      t_svc = \<lambda>s t. (t_svc E s (fst t), snd t @ [TouchSvc s]),
      t_pod = \<lambda>p t. (t_pod E p (fst t), snd t @ [TouchPod p]),
      t_pvc = \<lambda>p t. (t_pvc E p (fst t), snd t @ [TouchPVC p]),
      k_create_set = \<lambda>cc s. lift_act (CreateSet s) (k_create_set E cc s),
      k_update_set = \<lambda>cc s. lift_act (UpdateSet s) (k_update_set E cc s),
      k_create_svc = \<lambda>cc s. lift_act (CreateSvc s) (k_create_svc E cc s),
      k_update_svc = \<lambda>cc s. lift_act (UpdateSvc s) (k_update_svc E cc s),
      k_update_pod = \<lambda>cc p. lift_act (UpdatePod p) (k_update_pod E cc p),
      k_delete_pod = \<lambda>cc p. lift_act (DeletePod p) (k_delete_pod E cc p),
      k_pod_meta = \<lambda>cc p t.
        (case k_pod_meta E cc p (fst t) of (e, p', w') \<Rightarrow> (e, p', (w', snd t @ [PodMeta p]))),
      k_update_pvc = \<lambda>cc p. lift_act (UpdatePVC p) (k_update_pvc E cc p),
      k_delete_pvc = \<lambda>cc p. lift_act (DeletePVC p) (k_delete_pvc E cc p),
      k_pvc_meta = \<lambda>cc v p t.
        (case k_pvc_meta E cc v p (fst t) of (e, v', w') \<Rightarrow> (e, v', (w', snd t @ [PVCMeta v p]))),
      k_pv_meta = \<lambda>cc v. lift_act (PVMeta v) (k_pv_meta E cc v),
      k_patch_reclaim = \<lambda>cc v pol. lift_act (PatchReclaim v pol) (k_patch_reclaim E cc v pol),
      c_cluster = \<lambda>cc. lift_read (c_cluster E cc),
      c_health = \<lambda>cc. lift_read (c_health E cc),
      c_leader = \<lambda>cc. lift_read (c_leader E cc),
      c_stores = \<lambda>cc. lift_read (c_stores E cc),
      c_tombstones = \<lambda>cc. lift_read (c_tombstones E cc),
      c_config = \<lambda>cc. lift_read (c_config E cc),
      c_begin_evict = \<lambda>cc i. lift_act (BeginEvict i) (c_begin_evict E cc i),
      c_end_evict = \<lambda>cc i. lift_act (EndEvict i) (c_end_evict E cc i),
      c_delete_store = \<lambda>cc i. lift_act (DeleteStore i) (c_delete_store E cc i),
      c_set_labels = \<lambda>cc i l. lift_act (SetLabels i l) (c_set_labels E cc i l),
      e_now = \<lambda>t. e_now E (fst t), e_fmt = e_fmt E, e_parse = e_parse E,
      e_codec = e_codec E, e_q = e_q E, e_default_class = e_default_class E\<rparr>"

lemma traced_pure [simp]:
  "l_set (traced E) t = l_set E (fst t)" "l_svc (traced E) t = l_svc E (fst t)"
  "l_pod (traced E) t = l_pod E (fst t)" "l_pods (traced E) t = l_pods E (fst t)"
  "l_pvc (traced E) t = l_pvc E (fst t)" "l_pvcs (traced E) t = l_pvcs E (fst t)"
  "l_pv (traced E) t = l_pv E (fst t)" "l_node (traced E) t = l_node E (fst t)"
  "e_now (traced E) t = e_now E (fst t)" "e_fmt (traced E) = e_fmt E"
  "e_parse (traced E) = e_parse E" "e_codec (traced E) = e_codec E" "e_q (traced E) = e_q E"
  "e_default_class (traced E) = e_default_class E"
  by (simp_all add: traced_def)

lemma traced_touch [simp]:
  "t_set (traced E) s t = (t_set E s (fst t), snd t @ [TouchSet s])"
  "t_svc (traced E) v t = (t_svc E v (fst t), snd t @ [TouchSvc v])"
  "t_pod (traced E) p t = (t_pod E p (fst t), snd t @ [TouchPod p])"
  "t_pvc (traced E) c t = (t_pvc E c (fst t), snd t @ [TouchPVC c])"
  by (simp_all add: traced_def)

lemma traced_calls:
  "k_create_set (traced E) cc s = lift_act (CreateSet s) (k_create_set E cc s)"
  "k_update_set (traced E) cc s = lift_act (UpdateSet s) (k_update_set E cc s)"
  "k_create_svc (traced E) cc v = lift_act (CreateSvc v) (k_create_svc E cc v)"
  "k_update_svc (traced E) cc v = lift_act (UpdateSvc v) (k_update_svc E cc v)"
  "k_update_pod (traced E) cc p = lift_act (UpdatePod p) (k_update_pod E cc p)"
  "k_delete_pod (traced E) cc p = lift_act (DeletePod p) (k_delete_pod E cc p)"
  "k_update_pvc (traced E) cc c = lift_act (UpdatePVC c) (k_update_pvc E cc c)"
  "k_delete_pvc (traced E) cc c = lift_act (DeletePVC c) (k_delete_pvc E cc c)"
  "k_pv_meta (traced E) cc x = lift_act (PVMeta x) (k_pv_meta E cc x)"
  "k_patch_reclaim (traced E) cc x pol = lift_act (PatchReclaim x pol) (k_patch_reclaim E cc x pol)"
  "c_begin_evict (traced E) cc i = lift_act (BeginEvict i) (c_begin_evict E cc i)"
  "c_end_evict (traced E) cc i = lift_act (EndEvict i) (c_end_evict E cc i)"
  "c_delete_store (traced E) cc i = lift_act (DeleteStore i) (c_delete_store E cc i)"
  "c_cluster (traced E) cc = lift_read (c_cluster E cc)"
  "c_health (traced E) cc = lift_read (c_health E cc)"
  "c_leader (traced E) cc = lift_read (c_leader E cc)"
  "c_stores (traced E) cc = lift_read (c_stores E cc)"
  "c_tombstones (traced E) cc = lift_read (c_tombstones E cc)"
  "c_config (traced E) cc = lift_read (c_config E cc)"
  by (simp_all add: traced_def)

lemma lift_act_snd: "lift_act a f t = (r, t') \<Longrightarrow> snd t' = snd t @ [a] \<and> f (fst t) = (r, fst t')"
  by (auto simp: lift_act_def split: prod.splits)

lemma lift_read_snd: "lift_read f t = (r, t') \<Longrightarrow> snd t' = snd t \<and> f (fst t) = (r, fst t')"
  by (auto simp: lift_read_def split: prod.splits)

text \<open>Every action logged between two traced worlds satisfies \<open>P\<close>.\<close>

definition adds :: "(action \<Rightarrow> bool) \<Rightarrow> 'w traced \<Rightarrow> 'w traced \<Rightarrow> bool" where
  "adds P t t' \<longleftrightarrow> (\<exists>l. snd t' = snd t @ l \<and> list_all P l)"

lemma adds_refl [simp, intro]: "adds P t t"
  by (simp add: adds_def)

lemma adds_trans [trans]: "adds P t u \<Longrightarrow> adds P u v \<Longrightarrow> adds P t v"
  by (auto simp: adds_def)

lemma adds_mono: "adds P t u \<Longrightarrow> (\<And>a. P a \<Longrightarrow> Q a) \<Longrightarrow> adds Q t u"
  by (auto simp: adds_def list_all_iff)

lemma adds_act: "lift_act a f t = (r, t') \<Longrightarrow> P a \<Longrightarrow> adds P t t'"
  by (auto simp: adds_def dest: lift_act_snd)

lemma adds_read: "lift_read f t = (r, t') \<Longrightarrow> adds P t t'"
  by (auto simp: adds_def dest: lift_read_snd)

lemma adds_logged [simp]: "adds P t (w, snd t @ [a]) \<longleftrightarrow> P a"
  by (simp add: adds_def)

lemma adds_all: "adds P (w, []) (w', acts) \<Longrightarrow> a \<in> set acts \<Longrightarrow> P a"
  by (auto simp: adds_def list_all_iff)

section \<open>Interfaces\<close>

text \<open>
  A lister over a cache: a store through the pointer of a cached object is what the next
  \<open>Get\<close> of its name returns, and no other object changes.
\<close>

definition meta_pair :: "objmeta \<Rightarrow> string \<times> string" where
  "meta_pair m = (m_ns m, m_name m)"

locale object_cache =
  fixes get :: "'w \<Rightarrow> string \<Rightarrow> string \<Rightarrow> goerr + 'o"
    and touch :: "'o \<Rightarrow> 'w \<Rightarrow> 'w"
    and key :: "'o \<Rightarrow> string \<times> string"
  assumes get_touch_same: "get w ns n = Inr x \<Longrightarrow> key y = (ns, n) \<Longrightarrow> get (touch y w) ns n = Inr y"
    and get_touch_other: "key y \<noteq> (ns, n) \<Longrightarrow> get (touch y w) ns n = get w ns n"
begin

lemma touch_twice:
  "get w ns n = Inr x \<Longrightarrow> key y = (ns, n) \<Longrightarrow> key z = (ns, n) \<Longrightarrow>
     get (touch z (touch y w)) ns n = Inr z"
  using get_touch_same [of "touch y w" ns n y z] get_touch_same [of w ns n x y] by simp

lemma touch_keeps_found:
  "get w ns n = Inr x \<Longrightarrow> \<exists>y. get (touch z w) ns n = Inr y"
  by (cases "key z = (ns, n)") (auto simp: get_touch_same get_touch_other)

end

text \<open>
  A rolling loop \<^verbatim>\<open>for i := n - 1; i >= 0; i--\<close>: each ordinal is passed over, stops the loop
  with an error, or is acted on, which ends the loop.
\<close>

datatype 's verdict = Stop goerr 's | Pass 's | Act 's

text \<open>The states the loop goes through while it passes ordinals \<open>n - 1\<close> down to \<open>i\<close>.\<close>

inductive passes :: "(int \<Rightarrow> 's \<Rightarrow> 's verdict) \<Rightarrow> nat \<Rightarrow> 's \<Rightarrow> nat \<Rightarrow> 's \<Rightarrow> bool"
  for verdict_of where
  passes_refl: "passes verdict_of n s n s"
| passes_step: "verdict_of (int i) s = Pass s' \<Longrightarrow> passes verdict_of i s' j t \<Longrightarrow>
    passes verdict_of (Suc i) s j t"

lemma passes_le: "passes v n s j t \<Longrightarrow> j \<le> n"
  by (induction rule: passes.induct) auto

text \<open>A verdict that leaves the state alone passes each ordinal in the state it started from.\<close>

lemma passes_pure:
  assumes "passes v n s j t" and "\<And>i x y. v i x = Pass y \<Longrightarrow> y = x"
  shows "t = s \<and> (\<forall>i. j \<le> i \<longrightarrow> i < n \<longrightarrow> v (int i) s = Pass s)"
  using assms(1)
proof (induction rule: passes.induct)
  case (passes_step i s s' j t)
  then have "s' = s" using assms(2) by blast
  with passes_step show ?case by (auto simp: less_Suc_eq)
qed auto

text \<open>Each ordinal was passed in some state; an invariant of the passing steps is kept.\<close>

lemma passes_each:
  "passes v n s j t \<Longrightarrow> j \<le> i \<Longrightarrow> i < n \<Longrightarrow> \<exists>x y. v (int i) x = Pass y"
  by (induction rule: passes.induct) (auto simp: less_Suc_eq)

lemma passes_inv:
  assumes "passes v n s j t" and "\<And>i x y. v i x = Pass y \<Longrightarrow> P x \<Longrightarrow> P y" and "P s"
  shows "P t"
  using assms by (induction rule: passes.induct) auto

locale rolling_loop =
  fixes verdict_of :: "int \<Rightarrow> 's \<Rightarrow> 's verdict"
    and action :: "int \<Rightarrow> 's \<Rightarrow> goerr option \<times> 's"
    and loop :: "nat \<Rightarrow> 's \<Rightarrow> goerr option \<times> 's"
  assumes loop_0: "loop 0 s = (None, s)"
    and loop_Suc: "loop (Suc i) s =
      (case verdict_of (int i) s of
         Stop e s' \<Rightarrow> (Some e, s')
       | Pass s' \<Rightarrow> loop i s'
       | Act s' \<Rightarrow> action (int i) s')"
begin

lemma loop_passes: "passes verdict_of n s j t \<Longrightarrow> loop n s = loop j t"
  by (induction rule: passes.induct) (auto simp: loop_Suc)

text \<open>Every run of the loop passes some ordinals and then ends in one of three ways.\<close>

lemma loop_outcome:
  assumes "loop n s = (e, u)"
  obtains (finished) "e = None" "passes verdict_of n s 0 u"
  | (acted) i t v where "i < n" "passes verdict_of n s (Suc i) t"
      "verdict_of (int i) t = Act v" "action (int i) v = (e, u)"
  | (stopped) i t e' where "i < n" "passes verdict_of n s (Suc i) t"
      "verdict_of (int i) t = Stop e' u" "e = Some e'"
  using assms
proof (induction n arbitrary: s thesis)
  case 0
  then show ?case by (auto simp: loop_0 intro: passes_refl)
next
  case (Suc n)
  show ?case
  proof (cases "verdict_of (int n) s")
    case (Stop e' s')
    with Suc.prems(4) have "e = Some e'" "s' = u" by (simp_all add: loop_Suc)
    with Stop show ?thesis using Suc.prems(3) [of n s e'] by (simp add: passes_refl)
  next
    case (Act s')
    with Suc.prems(4) have "action (int n) s' = (e, u)" by (simp add: loop_Suc)
    with Act show ?thesis using Suc.prems(2) [of n s s'] by (simp add: passes_refl)
  next
    case (Pass s')
    with Suc.prems(4) have l: "loop n s' = (e, u)" by (simp add: loop_Suc)
    note step = passes_step [of verdict_of, OF Pass]
    show ?thesis
    proof (rule Suc.IH [OF _ _ _ l])
      show "e = None \<Longrightarrow> passes verdict_of n s' 0 u \<Longrightarrow> thesis"
        by (rule Suc.prems(1) [OF _ step])
      show "\<And>i t v. i < n \<Longrightarrow> passes verdict_of n s' (Suc i) t \<Longrightarrow>
          verdict_of (int i) t = Act v \<Longrightarrow> action (int i) v = (e, u) \<Longrightarrow> thesis"
        by (rule Suc.prems(2) [OF less_SucI step])
      show "\<And>i t e'. i < n \<Longrightarrow> passes verdict_of n s' (Suc i) t \<Longrightarrow>
          verdict_of (int i) t = Stop e' u \<Longrightarrow> e = Some e' \<Longrightarrow> thesis"
        by (rule Suc.prems(3) [OF less_SucI step])
    qed
  qed
qed

end

end
