(* ===== verification/Member_Utils.thy ===== *)
theory Member_Utils
  imports Cluster_Env
begin

text \<open>
  \<^verbatim>\<open>pkg/manager/member/utils.go\<close> and the helpers of scaler.go: the last-applied
  configuration annotation and the comparisons against it, the rolling-update partition,
  replica bookkeeping and the names of pods and claims.
\<close>

section \<open>utils.go\<close>

definition LastAppliedConfigAnnotation :: string where
  "LastAppliedConfigAnnotation = ''deepfabric.com/last-applied-configuration''"
definition ImagePullBackOff :: string where "ImagePullBackOff = ''ImagePullBackOff''"
definition ErrImagePull :: string where "ErrImagePull = ''ErrImagePull''"

definition annotationsMountVolume :: "volume_mount \<times> volume" where
  "annotationsMountVolume =
     (\<lparr>vm_name = ''annotations'', vm_readonly = True, vm_path = ''/etc/podinfo''\<rparr>,
      \<lparr>v_name = ''annotations'',
        v_source = DownwardAPIVolume [(''annotations'', ''metadata.annotations'')]\<rparr>)"

definition statefulSetIsUpgrading :: "sset \<Rightarrow> goerr + bool" where
  "statefulSetIsUpgrading sts =
     (case st_observed_generation (s_status sts) of
        None \<Rightarrow> Inr False
      | Some observed \<Rightarrow>
          if st_current_revision (s_status sts) \<noteq> st_update_revision (s_status sts) then Inr True
          else if m_generation (s_meta sts) > observed then
            (case s_replicas sts of
               None \<Rightarrow> Inl (PanicError ''nil Replicas'')
             | Some r \<Rightarrow> Inr (r = st_replicas (s_status sts)))
          else Inr False)"

text \<open>Returns the error and the set, whose annotation maps are written before a later error.\<close>

definition SetLastAppliedConfigAnnotation :: "codec \<Rightarrow> sset \<Rightarrow> goerr option \<times> sset" where
  "SetLastAppliedConfigAnnotation J sts =
     (case j_enc_set J (s_spec sts) of
        Inl e \<Rightarrow> (Some e, sts)
      | Inr setApply \<Rightarrow>
          let set1 = set_s_ann (mput LastAppliedConfigAnnotation setApply (m_ann (s_meta sts))) sts
          in (case j_enc_pod J (t_spec (s_template set1)) of
                Inl e \<Rightarrow> (Some e, set1)
              | Inr templateApply \<Rightarrow>
                  let t = s_template set1
                  in (None, set_s_template
                        (t\<lparr>t_ann := mput LastAppliedConfigAnnotation templateApply (t_ann t)\<rparr>) set1)))"

definition GetLastAppliedConfig :: "codec \<Rightarrow> sset \<Rightarrow> goerr + (sset_spec \<times> pod_spec)" where
  "GetLastAppliedConfig J sts =
     (case mget (m_ann (s_meta sts)) LastAppliedConfigAnnotation of
        None \<Rightarrow> Inl (OtherError ''not found spec's apply config'')
      | Some specApplied \<Rightarrow>
          (case j_dec_set J specApplied of
             Inl e \<Rightarrow> Inl e
           | Inr spec \<Rightarrow>
               (case mget (t_ann (s_template sts)) LastAppliedConfigAnnotation of
                  None \<Rightarrow> Inl (OtherError ''not found template spec's apply config'')
                | Some podApplied \<Rightarrow>
                    (case j_dec_pod J podApplied of
                       Inl e \<Rightarrow> Inl e
                     | Inr podSpec \<Rightarrow> Inr (spec, podSpec)))))"

definition statefulSetEqual :: "codec \<Rightarrow> sset \<Rightarrow> sset \<Rightarrow> bool" where
  "statefulSetEqual J new old \<longleftrightarrow>
     (case mget (m_ann (s_meta old)) LastAppliedConfigAnnotation of
        None \<Rightarrow> False
      | Some lastApplied \<Rightarrow>
          (case j_dec_set J lastApplied of
             Inl _ \<Rightarrow> False
           | Inr oldConfig \<Rightarrow>
               ss_replicas oldConfig = s_replicas new \<and>
               template_equal (ss_template oldConfig) (s_template new) \<and>
               ss_strategy oldConfig = s_strategy new))"

definition templateEqual :: "codec \<Rightarrow> pod_template \<Rightarrow> pod_template \<Rightarrow> bool" where
  "templateEqual J new old \<longleftrightarrow>
     (case mget (t_ann old) LastAppliedConfigAnnotation of
        None \<Rightarrow> False
      | Some lastApplied \<Rightarrow>
          (case j_dec_pod J lastApplied of
             Inl _ \<Rightarrow> False
           | Inr oldConfig \<Rightarrow> pod_spec_equal oldConfig (t_spec new)))"

definition SetServiceLastAppliedConfigAnnotation :: "codec \<Rightarrow> service \<Rightarrow> goerr option \<times> service" where
  "SetServiceLastAppliedConfigAnnotation J svc =
     (case j_enc_svc J (svc_spec svc) of
        Inl e \<Rightarrow> (Some e, svc)
      | Inr svcApply \<Rightarrow>
          (None, svc\<lparr>svc_meta := (svc_meta svc)\<lparr>m_ann :=
             mput LastAppliedConfigAnnotation svcApply (m_ann (svc_meta svc))\<rparr>\<rparr>))"

definition serviceEqual :: "codec \<Rightarrow> service \<Rightarrow> service \<Rightarrow> goerr + bool" where
  "serviceEqual J new old =
     (case mget (m_ann (svc_meta old)) LastAppliedConfigAnnotation of
        None \<Rightarrow> Inr False
      | Some lastApplied \<Rightarrow>
          (case j_dec_svc J lastApplied of
             Inl e \<Rightarrow> Inl e
           | Inr oldSpec \<Rightarrow> Inr (svc_spec_equal oldSpec (svc_spec new))))"

definition setUpgradePartition :: "int \<Rightarrow> sset \<Rightarrow> sset" where
  "setUpgradePartition upgradeOrdinal sts =
     set_s_strategy ((s_strategy sts)\<lparr>us_rolling := Some (Some upgradeOrdinal)\<rparr>) sts"

fun imagePullFailed_loop :: "container_status list \<Rightarrow> bool" where
  "imagePullFailed_loop [] = False"
| "imagePullFailed_loop (c # cs) =
     (case cs_waiting_reason c of
        Some reason \<Rightarrow>
          if reason \<noteq> [] \<and> (reason = ImagePullBackOff \<or> reason = ErrImagePull) then True
          else imagePullFailed_loop cs
      | None \<Rightarrow> imagePullFailed_loop cs)"

definition imagePullFailed :: "pod \<Rightarrow> bool" where
  "imagePullFailed p = imagePullFailed_loop (p_cstatuses p)"

definition storePodName :: "string \<Rightarrow> int \<Rightarrow> string" where
  "storePodName ccName ordinal = StoreMemberName ccName @ ''-'' @ show_int ordinal"

definition pdPodName :: "string \<Rightarrow> int \<Rightarrow> string" where
  "pdPodName ccName ordinal = PDMemberName ccName @ ''-'' @ show_int ordinal"

definition proxyPodName :: "string \<Rightarrow> int \<Rightarrow> string" where
  "proxyPodName ccName ordinal = ProxyMemberName ccName @ ''-'' @ show_int ordinal"

section \<open>scaler.go\<close>

text \<open>\<open>*newSet.Spec.Replicas = *oldSet.Spec.Replicas + d\<close>: both pointers are dereferenced.\<close>

definition assign_replicas :: "int \<Rightarrow> sset \<Rightarrow> sset \<Rightarrow> goerr + sset" where
  "assign_replicas d newSet oldSet =
     (case (s_replicas newSet, s_replicas oldSet) of
        (Some _, Some r) \<Rightarrow> Inr (set_s_replicas (wrap32 (r + d)) newSet)
      | _ \<Rightarrow> Inl (PanicError ''nil Replicas''))"

definition resetReplicas :: "sset \<Rightarrow> sset \<Rightarrow> goerr + sset" where
  "resetReplicas newSet oldSet =
     (case (s_replicas newSet, s_replicas oldSet) of
        (Some _, Some r) \<Rightarrow> Inr (set_s_replicas r newSet)
      | _ \<Rightarrow> Inl (PanicError ''nil Replicas''))"

definition increaseReplicas :: "sset \<Rightarrow> sset \<Rightarrow> goerr + sset" where
  "increaseReplicas newSet oldSet = assign_replicas 1 newSet oldSet"

definition decreaseReplicas :: "sset \<Rightarrow> sset \<Rightarrow> goerr + sset" where
  "decreaseReplicas newSet oldSet = assign_replicas (- 1) newSet oldSet"

definition ordinalPVCName :: "string \<Rightarrow> string \<Rightarrow> int \<Rightarrow> string" where
  "ordinalPVCName memberType setName ordinal =
     memberType @ ''-'' @ setName @ ''-'' @ show_int ordinal"

definition ordinalPodName :: "string \<Rightarrow> string \<Rightarrow> int \<Rightarrow> string" where
  "ordinalPodName memberType ccName ordinal =
     ccName @ ''-'' @ memberType @ ''-'' @ show_int ordinal"

section \<open>Lemmas on names\<close>

lemma pod_names_dash:
  "storePodName cc i = dash_ordinal (StoreMemberName cc) i"
  "pdPodName cc i = dash_ordinal (PDMemberName cc) i"
  "proxyPodName cc i = dash_ordinal (ProxyMemberName cc) i"
  "ordinalPodName mt cc i = dash_ordinal (cc @ ''-'' @ mt) i"
  "ordinalPVCName mt s i = dash_ordinal (mt @ ''-'' @ s) i"
  by (simp_all add: storePodName_def pdPodName_def proxyPodName_def ordinalPodName_def
      ordinalPVCName_def dash_ordinal_def)

lemma storePodName_inj:
  "0 \<le> i \<Longrightarrow> 0 \<le> j \<Longrightarrow> storePodName c i = storePodName d j \<longleftrightarrow> c = d \<and> i = j"
  by (simp add: pod_names_dash dash_ordinal_inj member_name_defs)

lemma pdPodName_inj:
  "0 \<le> i \<Longrightarrow> 0 \<le> j \<Longrightarrow> pdPodName c i = pdPodName d j \<longleftrightarrow> c = d \<and> i = j"
  by (simp add: pod_names_dash dash_ordinal_inj member_name_defs)

lemma proxyPodName_inj:
  "0 \<le> i \<Longrightarrow> 0 \<le> j \<Longrightarrow> proxyPodName c i = proxyPodName d j \<longleftrightarrow> c = d \<and> i = j"
  by (simp add: pod_names_dash dash_ordinal_inj member_name_defs)

lemma member_names_distinct:
  "PDMemberName c \<noteq> StoreMemberName d" "PDMemberName c \<noteq> ProxyMemberName d"
  "StoreMemberName c \<noteq> ProxyMemberName d"
  by (auto simp: member_name_defs dest: arg_cong [where f = last])

lemma pod_names_distinct:
  assumes "0 \<le> i" and "0 \<le> j"
  shows "pdPodName c i \<noteq> storePodName d j" "pdPodName c i \<noteq> proxyPodName d j"
    "storePodName c i \<noteq> proxyPodName d j"
  by (simp_all add: pod_names_dash dash_ordinal_inj [OF assms] member_names_distinct)

lemma ordinalPodName_store: "ordinalPodName StoreMemberType cc i = storePodName cc i"
  by (simp add: ordinalPodName_def storePodName_def member_name_defs StoreMemberType_def)

section \<open>Lemmas on partitions and replicas\<close>

lemma setUpgradePartition_simps [simp]:
  "s_strategy (setUpgradePartition i s) = (s_strategy s)\<lparr>us_rolling := Some (Some i)\<rparr>"
  "s_replicas (setUpgradePartition i s) = s_replicas s"
  "s_template (setUpgradePartition i s) = s_template s"
  "s_meta (setUpgradePartition i s) = s_meta s"
  "s_status (setUpgradePartition i s) = s_status s"
  by (simp_all add: setUpgradePartition_def set_s_strategy_def)

lemma assign_replicas_Inr:
  "assign_replicas d new old = Inr s \<Longrightarrow>
     \<exists>n r. s_replicas new = Some n \<and> s_replicas old = Some r \<and> s = set_s_replicas (wrap32 (r + d)) new"
  by (auto simp: assign_replicas_def split: option.splits)

lemma resetReplicas_Inr:
  "resetReplicas new old = Inr s \<Longrightarrow>
     \<exists>n r. s_replicas new = Some n \<and> s_replicas old = Some r \<and> s = set_s_replicas r new"
  by (auto simp: resetReplicas_def split: option.splits)

lemma set_s_replicas_simps [simp]:
  "s_replicas (set_s_replicas n s) = Some n" "s_template (set_s_replicas n s) = s_template s"
  "s_strategy (set_s_replicas n s) = s_strategy s" "s_meta (set_s_replicas n s) = s_meta s"
  "s_status (set_s_replicas n s) = s_status s"
  by (simp_all add: set_s_replicas_def)

section \<open>Lemmas on the last-applied configuration\<close>

lemma SetLastApplied_frame:
  assumes "SetLastAppliedConfigAnnotation J s = (None, s')"
  shows "s_replicas s' = s_replicas s" "s_strategy s' = s_strategy s"
    "t_spec (s_template s') = t_spec (s_template s)"
    "t_labels (s_template s') = t_labels (s_template s)"
    "m_name (s_meta s') = m_name (s_meta s)" "m_ns (s_meta s') = m_ns (s_meta s)"
    "s_status s' = s_status s"
  using assms
  by (auto simp: SetLastAppliedConfigAnnotation_def Let_def setter_defs split: sum.splits)

text \<open>What is stored can be read back: \<open>GetLastAppliedConfig\<close> after the annotation is set.\<close>

lemma GetLastApplied_Set:
  assumes "codec_set_ok J (s_spec s)" and "codec_pod_ok J (t_spec (s_template s))"
  shows "\<exists>s'. SetLastAppliedConfigAnnotation J s = (None, s') \<and>
     GetLastAppliedConfig J s' = Inr (s_spec s, t_spec (s_template s))"
  using assms
  by (auto simp: codec_set_ok_def codec_pod_ok_def SetLastAppliedConfigAnnotation_def Let_def
      GetLastAppliedConfig_def setter_defs)

lemma statefulSetEqual_Set:
  assumes "codec_set_ok J (s_spec s)" and "codec_pod_ok J (t_spec (s_template s))"
    and "SetLastAppliedConfigAnnotation J s = (None, s')"
    and "s_replicas new = s_replicas s" "s_strategy new = s_strategy s"
      "s_template new = s_template s"
  shows "statefulSetEqual J new s' \<and> templateEqual J (s_template new) (s_template s')"
  using assms
  by (auto simp: codec_set_ok_def codec_pod_ok_def SetLastAppliedConfigAnnotation_def Let_def
      statefulSetEqual_def templateEqual_def setter_defs split: sum.splits)

lemma serviceEqual_Set:
  assumes "codec_svc_ok J (svc_spec s)"
  shows "\<exists>s'. SetServiceLastAppliedConfigAnnotation J s = (None, s') \<and>
     svc_spec s' = svc_spec s \<and> serviceEqual J s s' = Inr True"
  using assms
  by (auto simp: codec_svc_ok_def SetServiceLastAppliedConfigAnnotation_def serviceEqual_def)

lemma imagePullFailed_iff:
  "imagePullFailed p \<longleftrightarrow>
     (\<exists>c \<in> set (p_cstatuses p). cs_waiting_reason c \<in> {Some ImagePullBackOff, Some ErrImagePull})"
proof -
  have "imagePullFailed_loop cs \<longleftrightarrow>
     (\<exists>c \<in> set cs. cs_waiting_reason c \<in> {Some ImagePullBackOff, Some ErrImagePull})" for cs
    by (induction cs) (auto simp: ImagePullBackOff_def ErrImagePull_def split: option.splits)
  then show ?thesis by (simp add: imagePullFailed_def)
qed

section \<open>Code the member managers repeat\<close>

text \<open>
  The loop that decides whether a member's pods run the update revision: the first pod
  without a revision label ends it with \<open>False\<close>.
\<close>

fun revision_loop :: "string \<Rightarrow> pod list \<Rightarrow> bool" where
  "revision_loop updateRevision [] = False"
| "revision_loop updateRevision (p # ps) =
     (case mget (p_labels p) ControllerRevisionHashLabelKey of
        None \<Rightarrow> False
      | Some revisionHash \<Rightarrow>
          if revisionHash \<noteq> updateRevision then True else revision_loop updateRevision ps)"

lemma revision_loop_all:
  "revision_loop u ps \<Longrightarrow> \<exists>p \<in> set ps. \<exists>h. mget (p_labels p) ControllerRevisionHashLabelKey = Some h \<and> h \<noteq> u"
  by (induction u ps rule: revision_loop.induct) (auto split: option.splits if_splits)

lemma revision_loop_same:
  "\<forall>p \<in> set ps. mget (p_labels p) ControllerRevisionHashLabelKey = Some u \<Longrightarrow> \<not> revision_loop u ps"
  by (induction u ps rule: revision_loop.induct) auto

text \<open>
  The end of every \<open>sync...StatefulSet\<close>: when the new set differs from the last applied
  configuration, a copy of the old set with the new template, replicas and strategy is
  annotated and sent.  The copy is shallow: \<^verbatim>\<open>*set.Spec.Replicas = ...\<close> writes the cached
  object's replicas, and a non-nil annotation map is the cached object's.
\<close>

definition shared_writes :: "sset \<Rightarrow> sset \<Rightarrow> sset" where
  "shared_writes oldSet sts =
     oldSet\<lparr>s_meta := (s_meta oldSet)\<lparr>m_ann :=
                if m_ann (s_meta oldSet) = None then None else m_ann (s_meta sts)\<rparr>,
            s_spec := (s_spec oldSet)\<lparr>ss_replicas := s_replicas sts\<rparr>\<rparr>"

definition update_set_if_changed ::
  "'w env \<Rightarrow> cellcluster \<Rightarrow> sset \<Rightarrow> sset \<Rightarrow> 'w \<Rightarrow> goerr option \<times> 'w" where
  "update_set_if_changed E cc newSet oldSet w =
     (if \<not> statefulSetEqual (e_codec E) newSet oldSet then
        (case (s_replicas newSet, s_replicas oldSet) of
           (Some n, Some _) \<Rightarrow>
             let sts = set_s_strategy (s_strategy newSet)
                         (set_s_replicas n (set_s_template (s_template newSet) oldSet))
             in (case SetLastAppliedConfigAnnotation (e_codec E) sts of
                   (Some e, sts') \<Rightarrow> (Some e, t_set E (shared_writes oldSet sts') w)
                 | (None, sts') \<Rightarrow> k_update_set E cc sts' (t_set E (shared_writes oldSet sts') w))
         | _ \<Rightarrow> (Some (PanicError ''nil Replicas''), w))
      else (None, w))"

type_synonym 'w upgrader =
  "cellcluster \<Rightarrow> sset \<Rightarrow> sset \<Rightarrow> 'w \<Rightarrow> goerr option \<times> cellcluster \<times> sset \<times> 'w"

text \<open>
  What the managers rely on in an \<open>Upgrader\<close>: it rewrites at most the template's pod spec
  and the rolling-update partition of the new set.
\<close>

locale set_upgrader =
  fixes upgrade :: "'w upgrader"
  assumes upgrade_replicas:
    "upgrade cc old new w = (e, cc', new', w') \<Longrightarrow> s_replicas new' = s_replicas new"
    and upgrade_meta:
    "upgrade cc old new w = (e, cc', new', w') \<Longrightarrow> s_meta new' = s_meta new"
    and upgrade_type:
    "upgrade cc old new w = (e, cc', new', w') \<Longrightarrow>
       us_type (s_strategy new') = us_type (s_strategy new)"
    and upgrade_spec: "upgrade cc old new w = (e, cc', new', w') \<Longrightarrow> cc_spec cc' = cc_spec cc"
    and upgrade_name: "upgrade cc old new w = (e, cc', new', w') \<Longrightarrow> cc_meta cc' = cc_meta cc"

text \<open>
  On a traced world a manager also relies on its upgrader not to send StatefulSets itself;
  the log then shows that what was sent came from the manager.
\<close>

fun is_set_request :: "action \<Rightarrow> bool" where
  "is_set_request (CreateSet _) = True"
| "is_set_request (UpdateSet _) = True"
| "is_set_request _ = False"

locale quiet_upgrader = set_upgrader upgrade for upgrade :: "'w traced upgrader" +
  assumes upgrade_quiet:
    "upgrade cc old new t = (e, cc', new', t') \<Longrightarrow> adds (\<lambda>a. \<not> is_set_request a) t t'"
begin

text \<open>The upgrade step every manager takes under a condition.\<close>

lemma step_frame:
  assumes "(if c then upgrade cc old new t else (None, cc, new, t)) = (e, cc', new', t')"
  shows "s_replicas new' = s_replicas new \<and> cc_spec cc' = cc_spec cc \<and> cc_meta cc' = cc_meta cc \<and>
    adds (\<lambda>a. \<not> is_set_request a) t t'"
proof (cases c)
  case True
  then have u: "upgrade cc old new t = (e, cc', new', t')" using assms by simp
  show ?thesis
    using upgrade_replicas [OF u] upgrade_spec [OF u] upgrade_name [OF u] upgrade_quiet [OF u] by simp
qed (use assms in auto)

end

lemma update_set_trace:
  assumes "update_set_if_changed (traced E) cc new old t = (e, t')"
  shows "snd t' = snd t \<or> (\<exists>s1. snd t' = snd t @ [TouchSet s1]) \<or>
    (\<exists>s1 s. snd t' = snd t @ [TouchSet s1, UpdateSet s] \<and> s_replicas s = s_replicas new \<and>
       s_strategy s = s_strategy new \<and> t_spec (s_template s) = t_spec (s_template new) \<and>
       s_name s = s_name old)"
proof (cases "statefulSetEqual (e_codec E) new old \<or> s_replicas new = None \<or> s_replicas old = None")
  case True
  then have "t' = t"
    using assms by (auto simp: update_set_if_changed_def split: option.splits if_splits)
  then show ?thesis by simp
next
  case False
  then obtain n m where r: "s_replicas new = Some n" "s_replicas old = Some m" by auto
  define sts where "sts = set_s_strategy (s_strategy new)
    (set_s_replicas n (set_s_template (s_template new) old))"
  have sts: "s_replicas sts = Some n" "s_strategy sts = s_strategy new"
    "s_template sts = s_template new" "s_name sts = s_name old"
    by (simp_all add: sts_def setter_defs)
  obtain x sts' where l: "SetLastAppliedConfigAnnotation (e_codec E) sts = (x, sts')" by fastforce
  let ?t1 = "(t_set E (shared_writes old sts') (fst t), snd t @ [TouchSet (shared_writes old sts')])"
  show ?thesis
  proof (cases x)
    case None
    then have "lift_act (UpdateSet sts') (k_update_set E cc sts') ?t1 = (e, t')"
      using assms False r l by (simp add: update_set_if_changed_def Let_def sts_def traced_calls)
    then have "snd t' = snd t @ [TouchSet (shared_writes old sts'), UpdateSet sts']"
      by (auto dest: lift_act_snd)
    then show ?thesis using SetLastApplied_frame [OF l [unfolded None]] sts r by auto
  next
    case (Some y)
    then show ?thesis
      using assms False r l by (auto simp: update_set_if_changed_def Let_def sts_def)
  qed
qed

text \<open>The update that a log gained after a quiet run came from the comparison with the old set.\<close>

lemma update_set_sent:
  assumes "update_set_if_changed (traced E) cc new old t = (e, t')"
    and "adds (\<lambda>a. \<not> is_set_request a) (w, []) t" and "UpdateSet s \<in> set (snd t')"
  shows "s_replicas s = s_replicas new \<and> s_strategy s = s_strategy new \<and>
    t_spec (s_template s) = t_spec (s_template new) \<and> s_name s = s_name old"
proof -
  have "UpdateSet s \<notin> set (snd t)"
    using assms(2) by (auto simp: adds_def list_all_iff)
  with update_set_trace [OF assms(1)] assms(3) show ?thesis by auto
qed

end
