(* ===== verification/Samples.thy ===== *)
theory Samples
  imports Member_Utils
begin

text \<open>
  Concrete inputs on which the properties are evaluated: an environment whose every call
  fails or does nothing, to be updated field by field, a small cluster, and the objects it
  has.  None of this models code.
\<close>

definition any_codec :: "sset_spec \<Rightarrow> pod_spec \<Rightarrow> svc_spec \<Rightarrow> codec" where
  "any_codec s p v =
     \<lparr>j_enc_set = \<lambda>_. Inr ''set'', j_dec_set = \<lambda>_. Inr s, j_enc_pod = \<lambda>_. Inr ''pod'',
      j_dec_pod = \<lambda>_. Inr p, j_enc_svc = \<lambda>_. Inr ''svc'', j_dec_svc = \<lambda>_. Inr v\<rparr>"

definition any_qlib :: qlib where
  "any_qlib = \<lparr>ql_parse = \<lambda>_. Inr 1, ql_as_int64 = \<lambda>q. Some q\<rparr>"

definition no_pod_spec :: pod_spec where
  "no_pod_spec = \<lparr>ps_scheduler = [], ps_affinity = None, ps_containers = [], ps_restart = [],
     ps_tolerations = [], ps_volumes = [], ps_node_name = []\<rparr>"

definition no_template :: pod_template where
  "no_template = \<lparr>t_labels = None, t_ann = None, t_spec = no_pod_spec\<rparr>"

definition no_set_spec :: sset_spec where
  "no_set_spec = \<lparr>ss_replicas = None, ss_selector = None, ss_template = no_template, ss_claims = [],
     ss_service_name = [], ss_pod_management = [], ss_strategy = \<lparr>us_type = [], us_rolling = None\<rparr>\<rparr>"

definition no_svc_spec :: svc_spec where
  "no_svc_spec = \<lparr>sv_type = [], sv_ports = [], sv_selector = None, sv_cluster_ip = []\<rparr>"

definition missing :: "goerr + 'a" where "missing = Inl (NotFoundError ''missing'')"

definition null_env :: "codec \<Rightarrow> 'w env" where
  "null_env J =
     \<lparr>l_set = \<lambda>w ns n. missing, l_svc = \<lambda>w ns n. missing, l_pod = \<lambda>w ns n. missing,
      l_pods = \<lambda>w ns sel. Inr [], l_pvc = \<lambda>w ns n. missing, l_pvcs = \<lambda>w ns sel. Inr [],
      l_pv = \<lambda>w n. missing, l_node = \<lambda>w n. missing,
      t_set = \<lambda>s w. w, t_svc = \<lambda>s w. w, t_pod = \<lambda>p w. w, t_pvc = \<lambda>p w. w,
      k_create_set = \<lambda>cc s w. (None, w), k_update_set = \<lambda>cc s w. (None, w),
      k_create_svc = \<lambda>cc s w. (None, w), k_update_svc = \<lambda>cc s w. (None, w),
      k_update_pod = \<lambda>cc p w. (None, w), k_delete_pod = \<lambda>cc p w. (None, w),
      k_pod_meta = \<lambda>cc p w. (None, p, w), k_update_pvc = \<lambda>cc p w. (None, w),
      k_delete_pvc = \<lambda>cc p w. (None, w), k_pvc_meta = \<lambda>cc v p w. (None, v, w),
      k_pv_meta = \<lambda>cc v w. (None, w), k_patch_reclaim = \<lambda>cc v pol w. (None, w),
      c_cluster = \<lambda>cc w. (missing, w), c_health = \<lambda>cc w. (missing, w),
      c_leader = \<lambda>cc w. (Inr None, w), c_stores = \<lambda>cc w. (missing, w),
      c_tombstones = \<lambda>cc w. (missing, w), c_config = \<lambda>cc w. (Inr 0, w),
      c_begin_evict = \<lambda>cc i w. (None, w), c_end_evict = \<lambda>cc i w. (None, w),
      c_delete_store = \<lambda>cc i w. (None, w), c_set_labels = \<lambda>cc i l w. (Inr True, w),
      e_now = \<lambda>w. 0, e_fmt = \<lambda>t. ''now'', e_parse = \<lambda>s. Some 0, e_codec = J, e_q = any_qlib,
      e_default_class = ''standard''\<rparr>"

lemma null_env_simps [simp]:
  "l_set (null_env J) = (\<lambda>w ns n. missing)" "l_svc (null_env J) = (\<lambda>w ns n. missing)"
  "l_pod (null_env J) = (\<lambda>w ns n. missing)" "l_pods (null_env J) = (\<lambda>w ns sel. Inr [])"
  "l_pvc (null_env J) = (\<lambda>w ns n. missing)" "l_pvcs (null_env J) = (\<lambda>w ns sel. Inr [])"
  "l_pv (null_env J) = (\<lambda>w n. missing)" "l_node (null_env J) = (\<lambda>w n. missing)"
  "t_set (null_env J) = (\<lambda>s w. w)" "t_svc (null_env J) = (\<lambda>s w. w)"
  "t_pod (null_env J) = (\<lambda>p w. w)" "t_pvc (null_env J) = (\<lambda>p w. w)"
  "k_create_set (null_env J) = (\<lambda>cc s w. (None, w))" "k_update_set (null_env J) = (\<lambda>cc s w. (None, w))"
  "k_create_svc (null_env J) = (\<lambda>cc s w. (None, w))" "k_update_svc (null_env J) = (\<lambda>cc s w. (None, w))"
  "k_update_pod (null_env J) = (\<lambda>cc p w. (None, w))" "k_delete_pod (null_env J) = (\<lambda>cc p w. (None, w))"
  "k_pod_meta (null_env J) = (\<lambda>cc p w. (None, p, w))" "k_update_pvc (null_env J) = (\<lambda>cc p w. (None, w))"
  "k_delete_pvc (null_env J) = (\<lambda>cc p w. (None, w))" "k_pvc_meta (null_env J) = (\<lambda>cc v p w. (None, v, w))"
  "k_pv_meta (null_env J) = (\<lambda>cc v w. (None, w))"
  "k_patch_reclaim (null_env J) = (\<lambda>cc v pol w. (None, w))"
  by (simp_all add: null_env_def)

lemma null_env_pd_simps [simp]:
  "c_cluster (null_env J) = (\<lambda>cc w. (missing, w))" "c_health (null_env J) = (\<lambda>cc w. (missing, w))"
  "c_leader (null_env J) = (\<lambda>cc w. (Inr None, w))" "c_stores (null_env J) = (\<lambda>cc w. (missing, w))"
  "c_tombstones (null_env J) = (\<lambda>cc w. (missing, w))" "c_config (null_env J) = (\<lambda>cc w. (Inr 0, w))"
  "c_begin_evict (null_env J) = (\<lambda>cc i w. (None, w))" "c_end_evict (null_env J) = (\<lambda>cc i w. (None, w))"
  "c_delete_store (null_env J) = (\<lambda>cc i w. (None, w))"
  "c_set_labels (null_env J) = (\<lambda>cc i l w. (Inr True, w))"
  "e_now (null_env J) = (\<lambda>w. 0)" "e_fmt (null_env J) = (\<lambda>t. ''now'')"
  "e_parse (null_env J) = (\<lambda>s. Some 0)" "e_codec (null_env J) = J" "e_q (null_env J) = any_qlib"
  "e_default_class (null_env J) = ''standard''"
  by (simp_all add: null_env_def)

section \<open>A cluster\<close>

definition smp_container :: container_spec where
  "smp_container = \<lparr>k_image = ''image'', k_pull_policy = ''Always'', k_requests = None, k_limits = None\<rparr>"

definition smp_member :: "int \<Rightarrow> member_spec" where
  "smp_member n = \<lparr>ms_container = smp_container, ms_replicas = n, ms_node_selector = None,
     ms_node_selector_required = False, ms_storage_class = [], ms_tolerations = []\<rparr>"

definition smp_status :: cell_status where
  "smp_status =
     \<lparr>stat_cluster_id = [],
      stat_pd = \<lparr>pd_synced = True, pd_phase = NormalPhase, pd_set = None, pd_members = [],
        pd_leader = \<lparr>pm_name = [], pm_id = [], pm_client_url = [], pm_health = False, pm_transition = None\<rparr>,
        pd_failures = []\<rparr>,
      stat_store = \<lparr>sto_synced = True, sto_phase = NormalPhase, sto_set = None, sto_stores = [],
        sto_tombstones = [], sto_failures = []\<rparr>,
      stat_proxy = \<lparr>px_phase = NormalPhase, px_set = None, px_members = [], px_failures = []\<rparr>\<rparr>"

definition smp_cc :: cellcluster where
  "smp_cc =
     \<lparr>cc_meta = meta0\<lparr>m_name := ''c'', m_ns := ''n'', m_uid := ''u'',
        m_labels := Some [InstanceLabelKey \<mapsto> ''i'']\<rparr>,
      cc_spec = \<lparr>spec_scheduler = ''s'', spec_pd = smp_member 1, spec_proxy = smp_member 1,
        spec_store = smp_member 1, spec_services = [], spec_reclaim = ''Retain'',
        spec_timezone = ''UTC'', spec_peer_url = [], spec_peer_rpc = []\<rparr>,
      cc_status = smp_status\<rparr>"

lemma smp_cc_simps [simp]:
  "cc_name smp_cc = ''c''" "cc_ns smp_cc = ''n''" "m_uid (cc_meta smp_cc) = ''u''"
  "m_labels (cc_meta smp_cc) = Some [InstanceLabelKey \<mapsto> ''i'']"
  "spec_pd (cc_spec smp_cc) = smp_member 1" "spec_store (cc_spec smp_cc) = smp_member 1"
  "spec_proxy (cc_spec smp_cc) = smp_member 1" "spec_services (cc_spec smp_cc) = []"
  "spec_reclaim (cc_spec smp_cc) = ''Retain''" "spec_peer_url (cc_spec smp_cc) = []"
  "spec_peer_rpc (cc_spec smp_cc) = []" "cc_status smp_cc = smp_status"
  by (simp_all add: smp_cc_def meta0_def)

lemma smp_member_simps [simp]:
  "ms_container (smp_member n) = smp_container" "ms_replicas (smp_member n) = n"
  "ms_node_selector (smp_member n) = None" "ms_storage_class (smp_member n) = []"
  "ms_tolerations (smp_member n) = []" "k_requests smp_container = None" "k_limits smp_container = None"
  by (simp_all add: smp_member_def smp_container_def)

lemma smp_status_simps [simp]:
  "stat_cluster_id smp_status = []" "pd_synced (stat_pd smp_status) = True"
  "pd_phase (stat_pd smp_status) = NormalPhase" "pd_set (stat_pd smp_status) = None"
  "pd_members (stat_pd smp_status) = []" "pd_failures (stat_pd smp_status) = []"
  "sto_synced (stat_store smp_status) = True" "sto_phase (stat_store smp_status) = NormalPhase"
  "sto_set (stat_store smp_status) = None" "sto_stores (stat_store smp_status) = []"
  "sto_tombstones (stat_store smp_status) = []" "sto_failures (stat_store smp_status) = []"
  "px_phase (stat_proxy smp_status) = NormalPhase" "px_set (stat_proxy smp_status) = None"
  "px_members (stat_proxy smp_status) = []" "px_failures (stat_proxy smp_status) = []"
  by (simp_all add: smp_status_def)

section \<open>Objects\<close>

definition smp_set_status :: "int \<Rightarrow> sset_status" where
  "smp_set_status n = \<lparr>st_observed_generation = Some 1, st_replicas = n, st_ready_replicas = n,
     st_current_revision = ''r1'', st_update_revision = ''r2''\<rparr>"

text \<open>A set of \<open>n\<close> replicas whose rolling update stands at partition \<open>p\<close>.\<close>

definition smp_set :: "string \<Rightarrow> int \<Rightarrow> int \<Rightarrow> sset" where
  "smp_set name n p =
     \<lparr>s_meta = meta0\<lparr>m_name := name, m_ns := ''n'',
        m_ann := Some [LastAppliedConfigAnnotation \<mapsto> ''set'']\<rparr>,
      s_spec = no_set_spec\<lparr>ss_replicas := Some n,
        ss_template := no_template\<lparr>t_ann := Some [LastAppliedConfigAnnotation \<mapsto> ''pod'']\<rparr>,
        ss_strategy := \<lparr>us_type = ''RollingUpdate'', us_rolling = Some (Some p)\<rparr>\<rparr>,
      s_status = smp_set_status n\<rparr>"

lemma smp_set_simps [simp]:
  "s_replicas (smp_set nm n p) = Some n" "s_name (smp_set nm n p) = nm"
  "m_ann (s_meta (smp_set nm n p)) = Some [LastAppliedConfigAnnotation \<mapsto> ''set'']"
  "m_ns (s_meta (smp_set nm n p)) = ''n''" "m_generation (s_meta (smp_set nm n p)) = 0"
  "t_ann (s_template (smp_set nm n p)) = Some [LastAppliedConfigAnnotation \<mapsto> ''pod'']"
  "s_strategy (smp_set nm n p) = \<lparr>us_type = ''RollingUpdate'', us_rolling = Some (Some p)\<rparr>"
  "s_status (smp_set nm n p) = smp_set_status n"
  by (simp_all add: smp_set_def no_set_spec_def no_template_def meta0_def)

lemma smp_set_status_simps [simp]:
  "st_observed_generation (smp_set_status n) = Some 1" "st_replicas (smp_set_status n) = n"
  "st_ready_replicas (smp_set_status n) = n" "st_current_revision (smp_set_status n) = ''r1''"
  "st_update_revision (smp_set_status n) = ''r2''"
  by (simp_all add: smp_set_status_def)

definition smp_pod :: "string \<Rightarrow> string \<Rightarrow> string \<Rightarrow> pod" where
  "smp_pod name component revision =
     \<lparr>p_meta = meta0\<lparr>m_name := name, m_ns := ''n'',
        m_labels := Some [InstanceLabelKey \<mapsto> ''i'', ComponentLabelKey \<mapsto> component,
                          ControllerRevisionHashLabelKey \<mapsto> revision]\<rparr>,
      p_spec = no_pod_spec, p_phase = ''Running'', p_cstatuses = []\<rparr>"

lemma smp_pod_simps [simp]:
  "p_name (smp_pod nm c r) = nm" "p_ns (smp_pod nm c r) = ''n''" "p_ann (smp_pod nm c r) = None"
  "mget (p_labels (smp_pod nm c r)) ControllerRevisionHashLabelKey = Some r"
  "mget (p_labels (smp_pod nm c r)) ComponentLabelKey = Some c"
  "mget (p_labels (smp_pod nm c r)) InstanceLabelKey = Some ''i''"
  "p_phase (smp_pod nm c r) = ''Running''" "p_cstatuses (smp_pod nm c r) = []"
  "p_spec (smp_pod nm c r) = no_pod_spec"
  by (simp_all add: smp_pod_def meta0_def label_key_defs)

lemma any_codec_simps [simp]:
  "j_enc_set (any_codec s p v) = (\<lambda>_. Inr ''set'')" "j_dec_set (any_codec s p v) = (\<lambda>_. Inr s)"
  "j_enc_pod (any_codec s p v) = (\<lambda>_. Inr ''pod'')" "j_dec_pod (any_codec s p v) = (\<lambda>_. Inr p)"
  "j_enc_svc (any_codec s p v) = (\<lambda>_. Inr ''svc'')" "j_dec_svc (any_codec s p v) = (\<lambda>_. Inr v)"
  by (simp_all add: any_codec_def)

lemma missing_not_found [simp]: "missing = Inr x \<longleftrightarrow> False" "missing = Inl e \<longleftrightarrow> e = NotFoundError ''missing''"
  by (auto simp: missing_def)

section \<open>A store\<close>

definition smp_store :: "int \<Rightarrow> kv_store" where
  "smp_store leaders = \<lparr>kv_id = ''1'', kv_pod_name = ''c-store-0'', kv_ip = ''ip'',
     kv_leader_count = leaders, kv_state = StoreStateUp, kv_heartbeat = None, kv_transition = None\<rparr>"

lemma smp_store_simps [simp]:
  "kv_id (smp_store n) = ''1''" "kv_pod_name (smp_store n) = ''c-store-0''"
  "kv_leader_count (smp_store n) = n" "kv_state (smp_store n) = StoreStateUp"
  "kv_transition (smp_store n) = None"
  by (simp_all add: smp_store_def)

definition smp_store_cc :: "int \<Rightarrow> cellcluster" where
  "smp_store_cc n = upd_store (\<lambda>s. s\<lparr>sto_set := Some (smp_set_status 1),
     sto_stores := [(''1'', smp_store n)]\<rparr>) smp_cc"

lemma smp_store_cc_simps [simp]:
  "cc_name (smp_store_cc n) = ''c''" "cc_ns (smp_store_cc n) = ''n''"
  "cc_pd (smp_store_cc n) = cc_pd smp_cc" "cc_spec (smp_store_cc n) = cc_spec smp_cc"
  "cc_store (smp_store_cc n) = (cc_store smp_cc)
     \<lparr>sto_set := Some (smp_set_status 1), sto_stores := [(''1'', smp_store n)]\<rparr>"
  by (simp_all add: smp_store_cc_def upd_store_def)

lemma smp_pod_0: "storePodName ''c'' 0 = ''c-store-0''"
  by code_simp

lemma show_nat_1: "show_nat 1 = ''1''"
  by code_simp

lemma parse_uint_1 [simp]: "parse_uint ''1'' = Inr 1"
  using parse_uint_show [of 1] unfolding show_nat_1 by simp

text \<open>The pod of that store, with the label PD's identifier is copied to, and its claim.\<close>

definition smp_store_pod :: pod where
  "smp_store_pod = set_p_labels (mput StoreIDLabelKey ''1'' (p_labels (smp_pod ''c-store-0'' StoreLabelVal ''r1'')))
     (smp_pod ''c-store-0'' StoreLabelVal ''r1'')"

definition smp_pvc :: "string \<Rightarrow> strmap \<Rightarrow> pvc" where
  "smp_pvc name ann = \<lparr>pvc_meta = meta0\<lparr>m_name := name, m_ns := ''n'', m_ann := ann\<rparr>,
     pvc_access_modes = [], pvc_class = None, pvc_requests = Map.empty, pvc_volume_name = ''v'',
     pvc_phase = ''Bound''\<rparr>"

lemma smp_pvc_simps [simp]:
  "m_name (pvc_meta (smp_pvc nm a)) = nm" "m_ann (pvc_meta (smp_pvc nm a)) = a"
  "pvc_volume_name (smp_pvc nm a) = ''v''" "pvc_phase (smp_pvc nm a) = ''Bound''"
  by (simp_all add: smp_pvc_def meta0_def)

lemma smp_template_equal:
  "templateEqual (any_codec x no_pod_spec z) (s_template (smp_set a b c)) (s_template (smp_set d e f))"
  by (simp add: templateEqual_def) (simp add: smp_set_def no_template_def)

end
