(* ===== verification/Util_Properties.thy ===== *)
theory Util_Properties
  imports Samples
begin

text \<open>
  What the helpers promise the managers: an ordinal survives the name it is written into, the
  affinity of a pod does not depend on the order of a Go map, PD is available exactly with a
  majority of its members, and a capacity is at most one unit off.
\<close>

section \<open>Names\<close>

text \<open>
  An ordinal survives the name of its pod.  For every kind of member the ordinal of a pod
  is read back from its name, and the next name from a store's pod is that of the next store.
\<close>

theorem pod_ordinal_roundtrip:
  assumes "0 \<le> i" and "i < 2 ^ 31 - 1"
  shows "GetOrdinalFromPodName (pdPodName c i) = Inr i \<and> GetOrdinalFromPodName (storePodName c i) = Inr i \<and>
    GetOrdinalFromPodName (proxyPodName c i) = Inr i \<and>
    GetNextOrdinalPodName (storePodName c i) i = Inr (storePodName c (i + 1))"
  using assms
  by (simp add: pod_names_dash GetOrdinalFromPodName_dash_ordinal GetNextOrdinalPodName_dash_ordinal)

theorem pod_ordinal_roundtrip_witness:
  "GetOrdinalFromPodName (storePodName ''my-cell'' 12) = Inr 12"
  using pod_ordinal_roundtrip [of 12 "''my-cell''"] by simp

section \<open>Affinity\<close>

text \<open>
  The node affinity of a selector that is preferred, from the map alone: its keys in order, a
  weighted preference for each level of the topology, and one conjunction of the others.
\<close>

definition node_affinity_of :: "(string \<rightharpoonup> string) \<Rightarrow> node_affinity" where
  "node_affinity_of f =
     (let keys = filter (\<lambda>k. f k \<noteq> Some []) (sorted_list_of_set (dom f));
          req = (\<lambda>k. \<lparr>nr_key = k, nr_operator = ''In'', nr_values = split_on CHR '','' (the (f k))\<rparr>);
          weight = map_of topologySchedulingWeight
      in \<lparr>na_required = [map req (filter (\<lambda>k. weight k = None) keys)],
          na_preferred = map (\<lambda>k. \<lparr>pt_weight = the (weight k), pt_exprs = [req k]\<rparr>)
            (filter (\<lambda>k. weight k \<noteq> None) keys)\<rparr>)"

lemma sorted_keys_dom:
  "distinct (map fst m) \<Longrightarrow> sorted_keys m = sorted_list_of_set (dom (map_of m))"
  by (simp add: sorted_keys_def dom_map_of_conv_image_fst sorted_list_of_set_sort_remdups distinct_remdups_id
      flip: set_map)

lemma selector_value_iff:
  "k \<in> dom (map_of sel) \<Longrightarrow> selector_value sel k = the (map_of sel k)"
  by (auto simp: selector_value_def)



section \<open>Availability\<close>

text \<open>
  PD is available exactly with a majority.  As long as the counts fit an \<open>int32\<close>, PD is
  available if and only if more than half of the replicas the cluster asks for are healthy
  members and more than half of them are ready pods.
\<close>

lemma pd_available_majority:
  assumes "small_maps cc" and "0 \<le> ms_replicas (spec_pd (cc_spec cc))"
    and "ms_replicas (spec_pd (cc_spec cc)) < 2 ^ 31"
  shows "PDIsAvailable cc \<longleftrightarrow> ms_replicas (spec_pd (cc_spec cc)) < 2 * int (healthy_pd cc) \<and>
    (\<exists>s. pd_set (cc_pd cc) = Some s \<and> ms_replicas (spec_pd (cc_spec cc)) < 2 * st_ready_replicas s)"
proof -
  have half: "r div 2 + 1 \<le> n \<longleftrightarrow> r < 2 * n" for r n :: int by presburger
  show ?thesis unfolding PDIsAvailable_iff [OF assms refl] half ..
qed

section \<open>Capacity\<close>

lemma round_bits_bounds:
  assumes "e \<le> 30"
  shows "n div 2 ^ 30 \<le> round_bits e n div 2 ^ 30" and "round_bits e n div 2 ^ 30 \<le> n div 2 ^ 30 + 1"
proof -
  have "n div 2 ^ 30 \<le> (n div 2 ^ e * 2 ^ e) div 2 ^ 30"
  proof -
    have p: "(2 :: nat) ^ 30 = 2 ^ e * 2 ^ (30 - e)" using assms by (simp flip: power_add)
    show ?thesis unfolding p by (simp add: div_mult2_eq)
  qed
  moreover have "(n div 2 ^ e * 2 ^ e) div 2 ^ 30 \<le> ((n div 2 ^ e + 1) * 2 ^ e) div 2 ^ 30"
    by (rule div_le_mono) simp
  moreover have "((n div 2 ^ e + 1) * 2 ^ e) div 2 ^ 30 \<le> n div 2 ^ 30 + 1"
  proof -
    have p: "(2 :: nat) ^ e \<le> 2 ^ 30" using assms by (intro power_increasing) auto
    have d: "n div 2 ^ e * 2 ^ e \<le> n" by simp
    from add_mono [OF d p] have "(n div 2 ^ e + 1) * 2 ^ e \<le> n + 2 ^ 30"
      by (simp only: distrib_right mult_1)
    then have "((n div 2 ^ e + 1) * 2 ^ e) div 2 ^ 30 \<le> (n + 2 ^ 30) div 2 ^ 30" by (rule div_le_mono)
    then show ?thesis by simp
  qed
  ultimately show "n div 2 ^ 30 \<le> round_bits e n div 2 ^ 30" "round_bits e n div 2 ^ 30 \<le> n div 2 ^ 30 + 1"
    by (auto simp: round_bits_def Let_def intro: div_le_mono order_trans)
qed

text \<open>
  The capacity a store is started with is the storage limit in units of \<open>2 ^ 30\<close> bytes, cut
  off.  For a limit that fits an \<open>int64\<close> it is at most one unit too large, which the conversion
  to a \<open>float64\<close> causes, and it is exact below \<open>2 ^ 53\<close> bytes.
\<close>

lemma store_capacity_bounds:
  assumes "q_storage l \<noteq> []" and "ql_parse Q (q_storage l) = Inr q" and "ql_as_int64 Q q = Some i"
    and "0 \<le> i" and "i < 2 ^ 63"
  shows "\<exists>k. StoreCapacity Q (Some l) = show_int k @ ''GB'' \<and> i div 2 ^ 30 \<le> k \<and> k \<le> i div 2 ^ 30 + 1 \<and>
    (i < 2 ^ 53 \<longrightarrow> k = i div 2 ^ 30)"
proof -
  let ?e = "floorlog 2 (nat i) - 53"
  have "nat i < 2 ^ 63" using assms(4,5) by simp
  then have "floorlog 2 (nat i) \<le> 63" by (simp add: floorlog_le_iff)
  then have e: "?e \<le> 30" by simp
  let ?k = "float64_of_int i sdiv 2 ^ 30"
  have "float64_of_int i = int (round_bits ?e (nat i))"
  proof (cases "i = 0")
    case True
    then have "?e = 0" by (simp add: floorlog_def)
    with True show ?thesis using float64_exact [of 0] by (simp only: round_bits_small) simp
  qed (use assms(4) in \<open>simp add: float64_of_int_def\<close>)
  then have k: "?k = int (round_bits ?e (nat i) div 2 ^ 30)"
    by (simp add: signed_divide_int_def sgn_if zdiv_int)
  have i: "int (nat i div 2 ^ 30) = i div 2 ^ 30" using assms(4) by (simp add: zdiv_int)
  have "StoreCapacity Q (Some l) = show_int ?k @ ''GB''"
    using assms(1-3) by (simp add: StoreCapacity_def)
  moreover have "i div 2 ^ 30 \<le> ?k \<and> ?k \<le> i div 2 ^ 30 + 1"
    using round_bits_bounds [OF e, of "nat i"] unfolding k i [symmetric] by linarith
  moreover have "i < 2 ^ 53 \<longrightarrow> ?k = i div 2 ^ 30"
    using assms(4) float64_exact [of i] by (auto simp: signed_divide_int_def sgn_if)
  ultimately show ?thesis by blast
qed

end
