(* ===== verification/PD_Upgrader.thy ===== *)
theory PD_Upgrader
  imports Member_Utils
begin

text \<open>
  \<^verbatim>\<open>pkg/manager/member/pd_upgrader.go\<close>: the rolling upgrade of the PD members, from the
  highest ordinal down, one pod at a time, through the partition of the StatefulSet.
\<close>

section \<open>Definitions\<close>

definition pd_selector :: "cellcluster \<Rightarrow> label" where
  "pd_selector cc =
     label_PD (label_Instance (mval (m_labels (cc_meta cc)) InstanceLabelKey) label_New)"

text \<open>The counting loop of \<open>needForceUpgrade\<close>; \<open>cc.Status.PD.StatefulSet\<close> may be nil.\<close>

fun pull_failed_loop :: "sset_status option \<Rightarrow> pod list \<Rightarrow> int \<Rightarrow> goerr + int" where
  "pull_failed_loop st [] n = Inr n"
| "pull_failed_loop st (p # ps) n =
     (case mget (p_labels p) ControllerRevisionHashLabelKey of
        None \<Rightarrow> Inl (OtherError (p_name p @ '' doesn't have label: controller-revision-hash''))
      | Some revisionHash \<Rightarrow>
          (case st of
             None \<Rightarrow> Inl (PanicError ''nil StatefulSet'')
           | Some s \<Rightarrow>
               pull_failed_loop st ps
                 (if revisionHash = st_current_revision s \<and> imagePullFailed p then n + 1 else n)))"

definition needForceUpgrade :: "'w env \<Rightarrow> cellcluster \<Rightarrow> 'w \<Rightarrow> goerr + bool" where
  "needForceUpgrade E cc w =
     (case l_pods E w (cc_ns cc) (pd_selector cc) of
        Inl e \<Rightarrow> Inl e
      | Inr pdPods \<Rightarrow>
          (case pull_failed_loop (pd_set (cc_pd cc)) pdPods 0 of
             Inl e \<Rightarrow> Inl e
           | Inr imagePullFailedCount \<Rightarrow>
               (case pd_set (cc_pd cc) of
                  None \<Rightarrow> Inl (PanicError ''nil StatefulSet'')
                | Some s \<Rightarrow> Inr (imagePullFailedCount \<ge> st_replicas s sdiv 2 + 1))))"

definition pd_forceUpgrade :: "cellcluster \<Rightarrow> sset \<Rightarrow> sset \<Rightarrow> cellcluster \<times> sset" where
  "pd_forceUpgrade cc oldSet newSet =
     (upd_pd (\<lambda>p. p\<lparr>pd_phase := UpgradePhase\<rparr>) cc, setUpgradePartition 0 newSet)"

definition upgradePDPod :: "int \<Rightarrow> sset \<Rightarrow> goerr option \<times> sset" where
  "upgradePDPod ordinal newSet = (None, setUpgradePartition ordinal newSet)"

text \<open>The body of the loop for one ordinal.\<close>

definition pd_verdict :: "'w env \<Rightarrow> cellcluster \<Rightarrow> sset_status \<Rightarrow> 'w \<Rightarrow> int \<Rightarrow> sset \<Rightarrow> sset verdict" where
  "pd_verdict E cc st w i newSet =
     (let podName = pdPodName (cc_name cc) i
      in case l_pod E w (cc_ns cc) podName of
           Inl e \<Rightarrow> Stop e newSet
         | Inr pod \<Rightarrow>
             (case mget (p_labels pod) ControllerRevisionHashLabelKey of
                None \<Rightarrow> Stop (RequeueErrorf (podName @ '' has no label'')) newSet
              | Some revision \<Rightarrow>
                  if revision = st_update_revision st then
                    (case map_of (pd_members (cc_pd cc)) podName of
                       None \<Rightarrow> Stop (RequeueErrorf (podName @ '' is not ready'')) newSet
                     | Some member \<Rightarrow>
                         if \<not> pm_health member
                         then Stop (RequeueErrorf (podName @ '' is not ready'')) newSet
                         else Pass newSet)
                  else Act newSet))"

text \<open>\<^verbatim>\<open>for i := Replicas - 1; i >= 0; i--\<close>: the argument is the number of ordinals left.\<close>

fun pd_upgrade_loop ::
  "'w env \<Rightarrow> cellcluster \<Rightarrow> sset_status \<Rightarrow> 'w \<Rightarrow> nat \<Rightarrow> sset \<Rightarrow> goerr option \<times> sset" where
  "pd_upgrade_loop E cc st w 0 newSet = (None, newSet)"
| "pd_upgrade_loop E cc st w (Suc i) newSet =
     (case pd_verdict E cc st w (int i) newSet of
        Stop e s \<Rightarrow> (Some e, s)
      | Pass s \<Rightarrow> pd_upgrade_loop E cc st w i s
      | Act s \<Rightarrow> upgradePDPod (int i) s)"

definition pd_gracefulUpgrade ::
  "'w env \<Rightarrow> cellcluster \<Rightarrow> sset \<Rightarrow> sset \<Rightarrow> 'w \<Rightarrow> goerr option \<times> cellcluster \<times> sset" where
  "pd_gracefulUpgrade E cc oldSet newSet w =
     (if \<not> pd_synced (cc_pd cc) then
        (Some (OtherError ''pd status sync failed,can not to be upgraded''), cc, newSet)
      else
        let cc1 = upd_pd (\<lambda>p. p\<lparr>pd_phase := UpgradePhase\<rparr>) cc
        in if \<not> templateEqual (e_codec E) (s_template newSet) (s_template oldSet) then (None, cc1, newSet)
           else (case us_rolling (s_strategy oldSet) of
                   Some (Some part) \<Rightarrow>
                     let new1 = setUpgradePartition part newSet
                     in (case pd_set (cc_pd cc1) of
                           None \<Rightarrow> (Some (PanicError ''nil StatefulSet''), cc1, new1)
                         | Some st \<Rightarrow>
                             (case pd_upgrade_loop E cc1 st w (nat (st_replicas st)) new1 of
                                (e, new2) \<Rightarrow> (e, cc1, new2)))
                 | _ \<Rightarrow> (Some (PanicError ''nil Partition''), cc1, newSet)))"

definition pdUpgrader_Upgrade :: "'w env \<Rightarrow> 'w upgrader" where
  "pdUpgrader_Upgrade E cc oldSet newSet w =
     (case needForceUpgrade E cc w of
        Inl e \<Rightarrow> (Some e, cc, newSet, w)
      | Inr force \<Rightarrow>
          if force then
            (case pd_forceUpgrade cc oldSet newSet of (cc', new') \<Rightarrow> (None, cc', new', w))
          else
            (case pd_gracefulUpgrade E cc oldSet newSet w of (e, cc', new') \<Rightarrow> (e, cc', new', w)))"

definition fakePDUpgrader_Upgrade :: "'w upgrader" where
  "fakePDUpgrader_Upgrade cc oldSet newSet w =
     (None, upd_pd (\<lambda>p. p\<lparr>pd_phase := UpgradePhase\<rparr>) cc, newSet, w)"

section \<open>The loop\<close>

interpretation pd_roll: rolling_loop "pd_verdict E cc st w" upgradePDPod "pd_upgrade_loop E cc st w"
  for E cc st w
  by unfold_locales simp_all

text \<open>Pod \<open>i\<close> runs the update revision and its member is healthy.\<close>

definition pd_pod_done :: "'w env \<Rightarrow> cellcluster \<Rightarrow> sset_status \<Rightarrow> 'w \<Rightarrow> int \<Rightarrow> bool" where
  "pd_pod_done E cc st w i \<longleftrightarrow>
     (case l_pod E w (cc_ns cc) (pdPodName (cc_name cc) i) of
        Inl _ \<Rightarrow> False
      | Inr pod \<Rightarrow>
          mget (p_labels pod) ControllerRevisionHashLabelKey = Some (st_update_revision st) \<and>
          (case map_of (pd_members (cc_pd cc)) (pdPodName (cc_name cc) i) of
             None \<Rightarrow> False | Some m \<Rightarrow> pm_health m))"

text \<open>Pod \<open>i\<close> runs some other revision.\<close>

definition pd_pod_outdated :: "'w env \<Rightarrow> cellcluster \<Rightarrow> sset_status \<Rightarrow> 'w \<Rightarrow> int \<Rightarrow> bool" where
  "pd_pod_outdated E cc st w i \<longleftrightarrow>
     (case l_pod E w (cc_ns cc) (pdPodName (cc_name cc) i) of
        Inl _ \<Rightarrow> False
      | Inr pod \<Rightarrow>
          (case mget (p_labels pod) ControllerRevisionHashLabelKey of
             None \<Rightarrow> False | Some r \<Rightarrow> r \<noteq> st_update_revision st))"

lemma pd_verdict_Pass: "pd_verdict E cc st w i s = Pass t \<longleftrightarrow> t = s \<and> pd_pod_done E cc st w i"
  by (auto simp: pd_verdict_def pd_pod_done_def Let_def split: sum.splits option.splits)

lemma pd_verdict_Act: "pd_verdict E cc st w i s = Act t \<longleftrightarrow> t = s \<and> pd_pod_outdated E cc st w i"
  by (auto simp: pd_verdict_def pd_pod_outdated_def Let_def split: sum.splits option.splits)

lemma pd_verdict_Stop: "pd_verdict E cc st w i s = Stop e t \<Longrightarrow> t = s"
  by (auto simp: pd_verdict_def Let_def split: sum.splits option.splits if_splits)

lemma pd_loop_spec:
  assumes "pd_upgrade_loop E cc st w n s = (e, u)"
  shows "(e = None \<and> u = s \<and> (\<forall>j < n. pd_pod_done E cc st w (int j))) \<or>
    (\<exists>i < n. e = None \<and> u = setUpgradePartition (int i) s \<and> pd_pod_outdated E cc st w (int i) \<and>
       (\<forall>j. i < j \<longrightarrow> j < n \<longrightarrow> pd_pod_done E cc st w (int j))) \<or>
    (e \<noteq> None \<and> u = s)"
proof -
  have passed: "t = s \<and> (\<forall>j. k \<le> j \<longrightarrow> j < n \<longrightarrow> pd_pod_done E cc st w (int j))"
    if "passes (pd_verdict E cc st w) n s k t" for k t
    using passes_pure [OF that] by (simp add: pd_verdict_Pass)
  from assms show ?thesis
  proof (cases rule: pd_roll.loop_outcome)
    case finished
    then show ?thesis using passed by blast
  next
    case (acted i t v)
    from passed [OF acted(2)] acted(3,4)
    have "u = setUpgradePartition (int i) s" "e = None" "pd_pod_outdated E cc st w (int i)"
      by (auto simp: pd_verdict_Act upgradePDPod_def)
    with passed [OF acted(2)] acted(1) show ?thesis by (auto simp: Suc_le_eq)
  next
    case (stopped i t e')
    from passed [OF stopped(2)] stopped(3) have "u = s" by (auto dest: pd_verdict_Stop)
    with stopped(4) show ?thesis by simp
  qed
qed

section \<open>Frame of the upgrader\<close>

lemma pd_loop_frame:
  assumes "pd_upgrade_loop E cc st w n s = (e, u)"
  shows "s_replicas u = s_replicas s \<and> s_meta u = s_meta s \<and> s_template u = s_template s \<and>
    us_type (s_strategy u) = us_type (s_strategy s)"
  using pd_loop_spec [OF assms] by auto

lemma pd_graceful_frame:
  assumes "pd_gracefulUpgrade E cc old new w = (e, cc', new')"
  shows "s_replicas new' = s_replicas new \<and> s_meta new' = s_meta new \<and>
    s_template new' = s_template new \<and> us_type (s_strategy new') = us_type (s_strategy new) \<and>
    cc' \<in> {cc, upd_pd (\<lambda>p. p\<lparr>pd_phase := UpgradePhase\<rparr>) cc}"
  using assms
  by (auto simp: pd_gracefulUpgrade_def Let_def split: if_splits option.splits prod.splits
      dest!: pd_loop_frame)

lemma pdUpgrader_frame:
  assumes "pdUpgrader_Upgrade E cc old new w = (e, cc', new', w')"
  shows "s_replicas new' = s_replicas new \<and> s_meta new' = s_meta new \<and>
    s_template new' = s_template new \<and> us_type (s_strategy new') = us_type (s_strategy new) \<and>
    w' = w \<and> cc' \<in> {cc, upd_pd (\<lambda>p. p\<lparr>pd_phase := UpgradePhase\<rparr>) cc}"
  using assms
  by (auto simp: pdUpgrader_Upgrade_def pd_forceUpgrade_def split: sum.splits if_splits prod.splits
      dest: pd_graceful_frame)

interpretation pd_up: set_upgrader "pdUpgrader_Upgrade E" for E
  by unfold_locales (auto dest: pdUpgrader_frame)

interpretation fake_pd_up: set_upgrader fakePDUpgrader_Upgrade
  by unfold_locales (auto simp: fakePDUpgrader_Upgrade_def)

section \<open>Force upgrade\<close>

lemma pull_failed_loop_count:
  "pull_failed_loop (Some st) ps n = Inr m \<Longrightarrow>
     m = n + int (length (filter (\<lambda>p. mget (p_labels p) ControllerRevisionHashLabelKey =
           Some (st_current_revision st) \<and> imagePullFailed p) ps))"
  by (induction ps arbitrary: n) (force split: option.splits if_splits)+

lemma needForceUpgrade_spec:
  assumes "needForceUpgrade E cc w = Inr b"
  shows "\<exists>st ps. pd_set (cc_pd cc) = Some st \<and> l_pods E w (cc_ns cc) (pd_selector cc) = Inr ps \<and>
    (b \<longleftrightarrow> st_replicas st sdiv 2 + 1 \<le> int (length (filter (\<lambda>p. mget (p_labels p)
         ControllerRevisionHashLabelKey = Some (st_current_revision st) \<and> imagePullFailed p) ps)))"
  using assms
  by (auto simp: needForceUpgrade_def split: sum.splits option.splits dest!: pull_failed_loop_count)

end
