(* ===== verification/Member_Common.thy ===== *)
theory Member_Common
  imports Member_Utils
begin

text \<open>
  Statements that the member managers repeat: volume claim templates, the copy of a cached
  service that gets a new spec, and the sync of a headless service.
\<close>

section \<open>Claims\<close>

text \<open>The storage request; the zero quantity when there are no requests.\<close>

definition storage_quantity :: "qlib \<Rightarrow> container_spec \<Rightarrow> goerr + quantity" where
  "storage_quantity Q k =
     (case k_requests k of
        None \<Rightarrow> Inr 0
      | Some r \<Rightarrow>
          (case ql_parse Q (q_storage r) of
             Inl _ \<Rightarrow> Inl (OtherError (''cant' get storage size: '' @ q_storage r))
           | Inr q \<Rightarrow> Inr q))"

definition storage_class :: "'w env \<Rightarrow> member_spec \<Rightarrow> string" where
  "storage_class E ms =
     (if ms_storage_class ms = [] then e_default_class E else ms_storage_class ms)"

definition claim_template :: "quantity \<Rightarrow> string \<Rightarrow> string \<Rightarrow> pvc" where
  "claim_template q name className =
     \<lparr>pvc_meta = meta0\<lparr>m_name := name\<rparr>, pvc_access_modes = [''ReadWriteOnce''],
      pvc_class = Some className, pvc_requests = [''storage'' \<mapsto> q],
      pvc_volume_name = [], pvc_phase = []\<rparr>"

section \<open>Services\<close>

text \<open>
  \<^verbatim>\<open>svc := *oldSvc\<close> copies the struct: the copy shares a non-nil annotation map with the
  cached service.
\<close>

definition touch_svc_ann :: "'w env \<Rightarrow> service \<Rightarrow> service \<Rightarrow> 'w \<Rightarrow> 'w" where
  "touch_svc_ann E oldSvc svc w =
     (if m_ann (svc_meta oldSvc) = None then w
      else t_svc E (oldSvc\<lparr>svc_meta := (svc_meta oldSvc)\<lparr>m_ann := m_ann (svc_meta svc)\<rparr>\<rparr>) w)"

definition with_new_spec :: "service \<Rightarrow> service \<Rightarrow> service" where
  "with_new_spec oldSvc newSvc =
     oldSvc\<lparr>svc_spec := (svc_spec newSvc)\<lparr>sv_cluster_ip := sv_cluster_ip (svc_spec oldSvc)\<rparr>\<rparr>"

definition create_annotated_svc ::
  "'w env \<Rightarrow> cellcluster \<Rightarrow> service \<Rightarrow> 'w \<Rightarrow> goerr option \<times> 'w" where
  "create_annotated_svc E cc newSvc w =
     (case SetServiceLastAppliedConfigAnnotation (e_codec E) newSvc of
        (Some e, _) \<Rightarrow> (Some e, w)
      | (None, annotated) \<Rightarrow> k_create_svc E cc annotated w)"

text \<open>
  The headless service; on a change the annotation is set on the new service object, which
  is not the one that is sent.
\<close>

definition sync_headless_service ::
  "'w env \<Rightarrow> cellcluster \<Rightarrow> string \<Rightarrow> service \<Rightarrow> 'w \<Rightarrow> goerr option \<times> 'w" where
  "sync_headless_service E cc svcName newSvc w =
     (case l_svc E w (cc_ns cc) svcName of
        Inl e \<Rightarrow> if is_not_found e then create_annotated_svc E cc newSvc w else (Some e, w)
      | Inr oldSvc \<Rightarrow>
          (case serviceEqual (e_codec E) newSvc oldSvc of
             Inl e \<Rightarrow> (Some e, w)
           | Inr equal \<Rightarrow>
               if \<not> equal then
                 (case SetServiceLastAppliedConfigAnnotation (e_codec E) newSvc of
                    (Some e, _) \<Rightarrow> (Some e, w)
                  | (None, _) \<Rightarrow> k_update_svc E cc (with_new_spec oldSvc newSvc) w)
               else (None, w)))"

section \<open>Lemmas\<close>

lemma with_new_spec_simps [simp]:
  "svc_meta (with_new_spec old new) = svc_meta old"
  "svc_spec (with_new_spec old new) = (svc_spec new)\<lparr>sv_cluster_ip := sv_cluster_ip (svc_spec old)\<rparr>"
  by (simp_all add: with_new_spec_def)

lemma storage_quantity_error:
  "storage_quantity Q k = Inl e \<Longrightarrow> \<exists>r. k_requests k = Some r \<and> (\<exists>e'. ql_parse Q (q_storage r) = Inl e')"
  by (auto simp: storage_quantity_def split: option.splits sum.splits)

end
