(* ===== verification/PD_Member.thy ===== *)
theory PD_Member
  imports PD_Upgrader Member_Common
begin

text \<open>
  \<^verbatim>\<open>pkg/manager/member/pd_member_manager.go\<close>: the services and the StatefulSet of the PD
  members, the status copied from PD, and the order of the steps of one \<open>Sync\<close>.
\<close>

section \<open>The objects the manager wants\<close>

definition getNewPDServiceForCellCluster :: "cellcluster \<Rightarrow> service" where
  "getNewPDServiceForCellCluster cc =
     (let instanceName = mval (m_labels (cc_meta cc)) InstanceLabelKey;
          pdLabel = label_Labels (label_PD (label_Instance instanceName label_New))
      in \<lparr>svc_meta = meta0\<lparr>m_name := PDMemberName (cc_name cc), m_ns := cc_ns cc,
             m_labels := pdLabel, m_owners := [GetOwnerRef cc]\<rparr>,
          svc_spec = \<lparr>sv_type = GetServiceType (spec_services (cc_spec cc)) PDMemberType,
             sv_ports = [\<lparr>sp_name = ''client'', sp_port = 2379, sp_target_port = 2379,
                          sp_protocol = ''TCP''\<rparr>],
             sv_selector = pdLabel, sv_cluster_ip = []\<rparr>\<rparr>)"

definition getNewPDHeadlessServiceForCellCluster :: "cellcluster \<Rightarrow> service" where
  "getNewPDHeadlessServiceForCellCluster cc =
     (let instanceName = mval (m_labels (cc_meta cc)) InstanceLabelKey;
          pdLabel = label_Labels (label_PD (label_Instance instanceName label_New))
      in \<lparr>svc_meta = meta0\<lparr>m_name := PDPeerMemberName (cc_name cc), m_ns := cc_ns cc,
             m_labels := pdLabel, m_owners := [GetOwnerRef cc]\<rparr>,
          svc_spec = \<lparr>sv_type = [],
             sv_ports = [\<lparr>sp_name = ''peer'', sp_port = 2380, sp_target_port = 2380,
                          sp_protocol = ''TCP''\<rparr>,
                         \<lparr>sp_name = ''rpc'', sp_port = 20800, sp_target_port = 20800,
                          sp_protocol = ''TCP''\<rparr>],
             sv_selector = pdLabel, sv_cluster_ip = ''None''\<rparr>\<rparr>)"

text \<open>\<open>getNewPDSetForCellCluster\<close>, in the order of its statements.\<close>

definition pd_volume_mounts :: "volume_mount list" where
  "pd_volume_mounts =
     [fst annotationsMountVolume,
      \<lparr>vm_name = ''config'', vm_readonly = True, vm_path = ''/etc/pd''\<rparr>,
      \<lparr>vm_name = ''startup-script'', vm_readonly = True, vm_path = ''/usr/local/bin/startup''\<rparr>,
      \<lparr>vm_name = PDMemberType, vm_readonly = False, vm_path = ''/var/lib/pd''\<rparr>]"

definition pd_volumes :: "cellcluster \<Rightarrow> volume list" where
  "pd_volumes cc =
     (let pdConfigMap = PDMemberName (cc_name cc)
      in [snd annotationsMountVolume,
          \<lparr>v_name = ''config'', v_source = ConfigMapVolume pdConfigMap [(''config-file'', ''pd.toml'')]\<rparr>,
          \<lparr>v_name = ''startup-script'',
           v_source = ConfigMapVolume pdConfigMap [(''startup-script'', ''pd_start_script.sh'')]\<rparr>])"

definition pd_failure_replicas :: "cellcluster \<Rightarrow> int" where
  "pd_failure_replicas cc =
     int (length (filter (\<lambda>(_, f). pf_member_deleted f) (pd_failures (cc_pd cc))))"

definition pd_container :: "'w env \<Rightarrow> cellcluster \<Rightarrow> container" where
  "pd_container E cc =
     \<lparr>c_name = PDMemberType,
      c_image = k_image (ms_container (spec_pd (cc_spec cc))),
      c_command = [''/bin/sh'', ''/usr/local/bin/startup/pd_start_script.sh''],
      c_pull_policy = k_pull_policy (ms_container (spec_pd (cc_spec cc))),
      c_ports = [\<lparr>cp_name = ''peer'', cp_port = 2380, cp_protocol = ''TCP''\<rparr>,
                 \<lparr>cp_name = ''client'', cp_port = 2379, cp_protocol = ''TCP''\<rparr>,
                 \<lparr>cp_name = ''rpc'', cp_port = 20800, cp_protocol = ''TCP''\<rparr>],
      c_mounts = pd_volume_mounts,
      c_resources = ResourceRequirement (e_q E) (ms_container (spec_pd (cc_spec cc))) [],
      c_env = [\<lparr>ev_name = ''NAMESPACE'', ev_value = EnvFieldRef ''metadata.namespace''\<rparr>,
               \<lparr>ev_name = ''PEER_SERVICE_NAME'', ev_value = EnvLiteral (PDPeerMemberName (cc_name cc))\<rparr>,
               \<lparr>ev_name = ''TZ'', ev_value = EnvLiteral (spec_timezone (cc_spec cc))\<rparr>]\<rparr>"

definition pd_template :: "'w env \<Rightarrow> cellcluster \<Rightarrow> pod_template" where
  "pd_template E cc =
     (let instanceName = mval (m_labels (cc_meta cc)) InstanceLabelKey;
          pdLabel = label_PD (label_Instance instanceName label_New);
          pd = spec_pd (cc_spec cc)
      in \<lparr>t_labels = label_Labels pdLabel, t_ann = None,
          t_spec = \<lparr>ps_scheduler = spec_scheduler (cc_spec cc),
             ps_affinity = AffinityForNodeSelector (cc_ns cc) (ms_node_selector_required pd)
                             (label_Labels pdLabel) (ms_node_selector pd),
             ps_containers = [pd_container E cc],
             ps_restart = ''Always'',
             ps_tolerations = ms_tolerations pd,
             ps_volumes = pd_volumes cc,
             ps_node_name = []\<rparr>\<rparr>)"

definition getNewPDSetForCellCluster :: "'w env \<Rightarrow> cellcluster \<Rightarrow> goerr + sset" where
  "getNewPDSetForCellCluster E cc =
     (let instanceName = mval (m_labels (cc_meta cc)) InstanceLabelKey;
          pdLabel = label_PD (label_Instance instanceName label_New);
          pd = spec_pd (cc_spec cc);
          replicas = wrap32 (ms_replicas pd + wrap32 (pd_failure_replicas cc))
      in case storage_quantity (e_q E) (ms_container pd) of
           Inl e \<Rightarrow> Inl e
         | Inr q \<Rightarrow> Inr
             \<lparr>s_meta = meta0\<lparr>m_name := PDMemberName (cc_name cc), m_ns := cc_ns cc,
                m_labels := label_Labels pdLabel, m_owners := [GetOwnerRef cc]\<rparr>,
              s_spec = \<lparr>ss_replicas = Some replicas,
                ss_selector = LabelSelector pdLabel,
                ss_template = pd_template E cc,
                ss_claims = [claim_template q PDMemberType (storage_class E pd)],
                ss_service_name = PDPeerMemberName (cc_name cc),
                ss_pod_management = ''Parallel'',
                ss_strategy = \<lparr>us_type = ''RollingUpdate'', us_rolling = Some (Some replicas)\<rparr>\<rparr>,
              s_status = sset_status0\<rparr>)"

section \<open>Services\<close>

text \<open>
  The client service: on a change the copy of the old service gets the new spec with the
  old cluster IP, and is annotated with that spec.
\<close>

definition syncPDServiceForCellCluster ::
  "'w env \<Rightarrow> cellcluster \<Rightarrow> 'w \<Rightarrow> goerr option \<times> 'w" where
  "syncPDServiceForCellCluster E cc w =
     (let newSvc = getNewPDServiceForCellCluster cc
      in case l_svc E w (cc_ns cc) (PDMemberName (cc_name cc)) of
           Inl e \<Rightarrow> if is_not_found e then create_annotated_svc E cc newSvc w else (Some e, w)
         | Inr oldSvc \<Rightarrow>
             (case serviceEqual (e_codec E) newSvc oldSvc of
                Inl e \<Rightarrow> (Some e, w)
              | Inr equal \<Rightarrow>
                  if \<not> equal then
                    (case SetServiceLastAppliedConfigAnnotation (e_codec E)
                            (with_new_spec oldSvc newSvc) of
                       (Some e, _) \<Rightarrow> (Some e, w)
                     | (None, svc) \<Rightarrow> k_update_svc E cc svc (touch_svc_ann E oldSvc svc w))
                  else (None, w)))"

definition syncPDHeadlessServiceForCellCluster ::
  "'w env \<Rightarrow> cellcluster \<Rightarrow> 'w \<Rightarrow> goerr option \<times> 'w" where
  "syncPDHeadlessServiceForCellCluster E cc w =
     sync_headless_service E cc (PDPeerMemberName (cc_name cc))
       (getNewPDHeadlessServiceForCellCluster cc) w"

section \<open>Status\<close>

definition pdStatefulSetIsUpgrading :: "'w env \<Rightarrow> sset \<Rightarrow> cellcluster \<Rightarrow> 'w \<Rightarrow> goerr + bool" where
  "pdStatefulSetIsUpgrading E sts cc w =
     (case statefulSetIsUpgrading sts of
        Inl e \<Rightarrow> Inl e
      | Inr True \<Rightarrow> Inr True
      | Inr False \<Rightarrow>
          (case l_pods E w (cc_ns cc) (pd_selector cc) of
             Inl e \<Rightarrow> Inl e
           | Inr pdPods \<Rightarrow>
               (case pd_set (cc_pd cc) of
                  None \<Rightarrow> if pdPods = [] then Inr False else Inl (PanicError ''nil StatefulSet'')
                | Some st \<Rightarrow> Inr (revision_loop (st_update_revision st) pdPods))))"

definition zero_pd_member :: pd_member where
  "zero_pd_member = \<lparr>pm_name = [], pm_id = [], pm_client_url = [], pm_health = False,
     pm_transition = None\<rparr>"

text \<open>One entry of the health report, given the members of the previous status.\<close>

definition pd_member_of :: "time \<Rightarrow> (string, pd_member) gomap \<Rightarrow> member_health \<Rightarrow> pd_member" where
  "pd_member_of now old h =
     (let clientURL = (case mh_client_urls h of [] \<Rightarrow> [] | u # _ \<Rightarrow> u);
          status = \<lparr>pm_name = mh_name h, pm_id = show_nat (mh_id h), pm_client_url = clientURL,
                    pm_health = mh_health h, pm_transition = None\<rparr>
      in case map_of old (mh_name h) of
           None \<Rightarrow> status\<lparr>pm_transition := Some now\<rparr>
         | Some oldMember \<Rightarrow>
             if mh_health h \<noteq> pm_health oldMember then status\<lparr>pm_transition := Some now\<rparr>
             else status\<lparr>pm_transition := pm_transition oldMember\<rparr>)"

fun pd_members_loop ::
  "time \<Rightarrow> (string, pd_member) gomap \<Rightarrow> member_health list \<Rightarrow> (string, pd_member) gomap \<Rightarrow>
    (string, pd_member) gomap" where
  "pd_members_loop now old [] pdStatus = pdStatus"
| "pd_members_loop now old (h # hs) pdStatus =
     (if mh_name h = [] then pd_members_loop now old hs pdStatus
      else pd_members_loop now old hs (gput (mh_name h) (pd_member_of now old h) pdStatus))"

text \<open>The part of \<open>syncCellClusterStatus\<close> that asks PD.\<close>

definition pd_pull_status ::
  "'w env \<Rightarrow> cellcluster \<Rightarrow> 'w \<Rightarrow> goerr option \<times> cellcluster \<times> 'w" where
  "pd_pull_status E cc w =
     (let unsynced = upd_pd (\<lambda>p. p\<lparr>pd_synced := False\<rparr>)
      in case c_cluster E cc w of
           (Inl e, w1) \<Rightarrow> (Some e, unsynced cc, w1)
         | (Inr cluster, w1) \<Rightarrow>
             let cc1 = cc\<lparr>cc_status := (cc_status cc)\<lparr>stat_cluster_id := cluster\<rparr>\<rparr>
             in (case c_health E cc1 w1 of
                   (Inl e, w2) \<Rightarrow> (Some e, unsynced cc1, w2)
                 | (Inr healths, w2) \<Rightarrow>
                     (case c_leader E cc1 w2 of
                        (Inl e, w3) \<Rightarrow> (Some e, unsynced cc1, w3)
                      | (Inr _, w3) \<Rightarrow>
                          (None,
                           upd_pd (\<lambda>p. p\<lparr>pd_synced := True,
                              pd_members :=
                                pd_members_loop (e_now E w3) (pd_members (cc_pd cc1)) healths [],
                              pd_leader := zero_pd_member\<rparr>) cc1,
                           w3))))"

definition pd_syncCellClusterStatus ::
  "'w env \<Rightarrow> cellcluster \<Rightarrow> sset \<Rightarrow> 'w \<Rightarrow> goerr option \<times> cellcluster \<times> 'w" where
  "pd_syncCellClusterStatus E cc sts w =
     (let cc1 = upd_pd (\<lambda>p. p\<lparr>pd_set := Some (s_status sts)\<rparr>) cc
      in case pdStatefulSetIsUpgrading E sts cc1 w of
           Inl e \<Rightarrow> (Some e, cc1, w)
         | Inr upgrading \<Rightarrow>
             pd_pull_status E
               (upd_pd (\<lambda>p. p\<lparr>pd_phase := if upgrading then UpgradePhase else NormalPhase\<rparr>) cc1) w)"

section \<open>Sync\<close>

text \<open>
  \<open>syncPDStatefulSetForCellCluster\<close>, given the upgrader the manager was built with.  A
  failed status sync is logged and the sync goes on; a panic in it does not return.
\<close>

definition syncPDStatefulSetForCellCluster ::
  "'w env \<Rightarrow> 'w upgrader \<Rightarrow> cellcluster \<Rightarrow> 'w \<Rightarrow> goerr option \<times> cellcluster \<times> 'w" where
  "syncPDStatefulSetForCellCluster E upgrade cc w =
     (case getNewPDSetForCellCluster E cc of
        Inl e \<Rightarrow> (Some e, cc, w)
      | Inr newPDSet \<Rightarrow>
          (case l_set E w (cc_ns cc) (PDMemberName (cc_name cc)) of
             Inl e \<Rightarrow>
               if \<not> is_not_found e then (Some e, cc, w)
               else (case SetLastAppliedConfigAnnotation (e_codec E) newPDSet of
                       (Some e', _) \<Rightarrow> (Some e', cc, w)
                     | (None, annotated) \<Rightarrow>
                         (case k_create_set E cc annotated w of
                            (Some e', w1) \<Rightarrow> (Some e', cc, w1)
                          | (None, w1) \<Rightarrow>
                              (Some (RequeueErrorf ''waiting for PD cluster running''),
                               upd_pd (\<lambda>p. p\<lparr>pd_set := Some sset_status0\<rparr>) cc, w1)))
           | Inr oldPDSet \<Rightarrow>
               (case pd_syncCellClusterStatus E cc oldPDSet w of
                  (err, cc1, w1) \<Rightarrow>
                    if (case err of Some e \<Rightarrow> is_panic e | None \<Rightarrow> False) then (err, cc1, w1)
                    else
                      (case (if \<not> templateEqual (e_codec E) (s_template newPDSet) (s_template oldPDSet) \<or>
                                pd_phase (cc_pd cc1) = UpgradePhase
                             then upgrade cc1 oldPDSet newPDSet w1
                             else (None, cc1, newPDSet, w1)) of
                         (Some e, cc2, _, w2) \<Rightarrow> (Some e, cc2, w2)
                       | (None, cc2, newPDSet', w2) \<Rightarrow>
                           (case (s_replicas newPDSet', s_replicas oldPDSet) of
                              (Some n, Some old) \<Rightarrow>
                                if n \<noteq> old then (None, cc2, w2)
                                else (case update_set_if_changed E cc2 newPDSet' oldPDSet w2 of
                                        (e, w3) \<Rightarrow> (e, cc2, w3))
                            | _ \<Rightarrow> (Some (PanicError ''nil Replicas''), cc2, w2))))))"

definition pdMemberManager_Sync ::
  "'w env \<Rightarrow> 'w upgrader \<Rightarrow> cellcluster \<Rightarrow> 'w \<Rightarrow> goerr option \<times> cellcluster \<times> 'w" where
  "pdMemberManager_Sync E upgrade cc w =
     (case syncPDServiceForCellCluster E cc w of
        (Some e, w1) \<Rightarrow> (Some e, cc, w1)
      | (None, w1) \<Rightarrow>
          (case syncPDHeadlessServiceForCellCluster E cc w1 of
             (Some e, w2) \<Rightarrow> (Some e, cc, w2)
           | (None, w2) \<Rightarrow> syncPDStatefulSetForCellCluster E upgrade cc w2))"

end
