(* ===== verification/PD_Properties.thy ===== *)
theory PD_Properties
  imports PD_Member Samples
begin

text \<open>
  What one sync of the PD member manager may do to the cluster: the lemmas follow the log of
  a traced run through the steps of the sync.
\<close>

section \<open>Traced runs\<close>

lemma traced_needForce [simp]: "needForceUpgrade (traced E) cc t = needForceUpgrade E cc (fst t)"
  unfolding needForceUpgrade_def traced_pure ..

lemma traced_pd_verdict [simp]: "pd_verdict (traced E) cc st t i s = pd_verdict E cc st (fst t) i s"
  unfolding pd_verdict_def traced_pure ..

lemma traced_pd_loop [simp]:
  "pd_upgrade_loop (traced E) cc st t n s = pd_upgrade_loop E cc st (fst t) n s"
  by (induction n arbitrary: s) (simp_all split: verdict.splits)

lemma traced_graceful [simp]:
  "pd_gracefulUpgrade (traced E) cc old new t = pd_gracefulUpgrade E cc old new (fst t)"
  unfolding pd_gracefulUpgrade_def traced_pure traced_pd_loop ..

lemma traced_isUpgrading [simp]:
  "pdStatefulSetIsUpgrading (traced E) s cc t = pdStatefulSetIsUpgrading E s cc (fst t)"
  unfolding pdStatefulSetIsUpgrading_def traced_pure ..

lemma traced_newPDSet [simp]:
  "getNewPDSetForCellCluster (traced E) cc = getNewPDSetForCellCluster E cc"
  unfolding getNewPDSetForCellCluster_def pd_template_def pd_container_def storage_class_def traced_pure ..

lemma traced_pd_pull:
  "pd_pull_status (traced E) cc t = (e, cc', t') \<Longrightarrow>
     pd_pull_status E cc (fst t) = (e, cc', fst t') \<and> snd t' = snd t"
  unfolding pd_pull_status_def traced_calls traced_pure
  by (auto simp: Let_def lift_read_def split: sum.splits prod.splits)

lemma traced_pd_status:
  "pd_syncCellClusterStatus (traced E) cc s t = (e, cc', t') \<Longrightarrow>
     pd_syncCellClusterStatus E cc s (fst t) = (e, cc', fst t') \<and> snd t' = snd t"
  unfolding pd_syncCellClusterStatus_def traced_isUpgrading
  by (auto simp: Let_def split: sum.splits dest: traced_pd_pull)

section \<open>Upgrade\<close>

lemma pd_pod_done_phase [simp]:
  "pd_pod_done E (upd_pd (\<lambda>p. p\<lparr>pd_phase := ph\<rparr>) cc) st w i = pd_pod_done E cc st w i"
  "pd_pod_outdated E (upd_pd (\<lambda>p. p\<lparr>pd_phase := ph\<rparr>) cc) st w i = pd_pod_outdated E cc st w i"
  by (simp_all add: pd_pod_done_def pd_pod_outdated_def split: sum.split)

text \<open>What the partition of the new set may be after \<open>Upgrade\<close>.\<close>

definition pd_partition_ok :: "'w env \<Rightarrow> cellcluster \<Rightarrow> sset \<Rightarrow> sset \<Rightarrow> 'w \<Rightarrow> int option option \<Rightarrow> bool" where
  "pd_partition_ok E cc old new w part \<longleftrightarrow>
     part = us_rolling (s_strategy new) \<or> part = us_rolling (s_strategy old) \<or>
     (part = Some (Some 0) \<and> needForceUpgrade E cc w = Inr True) \<or>
     (\<exists>st i. pd_set (cc_pd cc) = Some st \<and> i < nat (st_replicas st) \<and>
        part = Some (Some (int i)) \<and> pd_synced (cc_pd cc) \<and> pd_pod_outdated E cc st w (int i) \<and>
        (\<forall>j. i < j \<longrightarrow> j < nat (st_replicas st) \<longrightarrow> pd_pod_done E cc st w (int j)))"

lemma pd_graceful_partition:
  assumes "pd_gracefulUpgrade E cc old new w = (e, cc', new')"
  shows "pd_partition_ok E cc old new w (us_rolling (s_strategy new'))"
proof (cases "pd_synced (cc_pd cc) \<and> templateEqual (e_codec E) (s_template new) (s_template old)")
  case False
  then show ?thesis
    using assms by (auto simp: pd_gracefulUpgrade_def pd_partition_ok_def Let_def split: if_splits)
next
  case True
  note ready = this
  show ?thesis
  proof (cases "us_rolling (s_strategy old)")
    case None
    then show ?thesis
      using assms ready by (auto simp: pd_gracefulUpgrade_def pd_partition_ok_def Let_def)
  next
    case (Some q)
    show ?thesis
    proof (cases q)
      case None
      then show ?thesis
        using assms ready Some by (auto simp: pd_gracefulUpgrade_def pd_partition_ok_def Let_def)
    next
      case (Some p)
      note part = \<open>us_rolling (s_strategy old) = Some q\<close> Some
      show ?thesis
      proof (cases "pd_set (cc_pd cc)")
        case None
        then show ?thesis
          using assms ready part by (auto simp: pd_gracefulUpgrade_def pd_partition_ok_def Let_def)
      next
        case (Some st)
        let ?cc = "upd_pd (\<lambda>p. p\<lparr>pd_phase := UpgradePhase\<rparr>) cc"
        have "pd_upgrade_loop E ?cc st w (nat (st_replicas st)) (setUpgradePartition p new) = (e, new')"
          using assms ready part Some by (auto simp: pd_gracefulUpgrade_def Let_def split: prod.splits)
        from pd_loop_spec [OF this] show ?thesis
          using ready part Some by (auto simp: pd_partition_ok_def)
      qed
    qed
  qed
qed

lemma pd_upgrade_partition:
  assumes "pdUpgrader_Upgrade E cc old new w = (e, cc', new', w')"
  shows "pd_partition_ok E cc old new w (us_rolling (s_strategy new'))"
proof (cases "needForceUpgrade E cc w")
  case (Inl x)
  then show ?thesis using assms by (simp add: pdUpgrader_Upgrade_def pd_partition_ok_def)
next
  case (Inr b)
  then show ?thesis
    using assms pd_graceful_partition [of E cc old new w]
    by (cases b) (auto simp: pdUpgrader_Upgrade_def pd_forceUpgrade_def pd_partition_ok_def
        split: prod.splits)
qed

lemma traced_pd_upgrade:
  assumes "pdUpgrader_Upgrade (traced E) cc old new t = (e, cc', new', t')"
  shows "pdUpgrader_Upgrade E cc old new (fst t) = (e, cc', new', fst t') \<and> t' = t"
  using assms
  by (auto simp: pdUpgrader_Upgrade_def split: sum.splits if_splits prod.splits)

section \<open>The StatefulSet sync\<close>

text \<open>The upgrade step of the sync, taken or not.\<close>

lemma pd_upgrade_step:
  assumes "(if c then pdUpgrader_Upgrade (traced E) cc old new t else (None, cc, new, t)) =
      (e, cc', new', t')"
  shows "t' = t \<and> s_replicas new' = s_replicas new \<and>
    pd_partition_ok E cc old new (fst t) (us_rolling (s_strategy new'))"
proof (cases c)
  case True
  then have u: "pdUpgrader_Upgrade (traced E) cc old new t = (e, cc', new', t')" using assms by simp
  from traced_pd_upgrade [OF u] have "pdUpgrader_Upgrade E cc old new (fst t) = (e, cc', new', fst t')"
    and "t' = t" by auto
  from pd_upgrade_partition [OF this(1)] this pd_up.upgrade_replicas [OF u] show ?thesis by auto
qed (use assms in \<open>auto simp: pd_partition_ok_def\<close>)

lemma pd_set_sync_update:
  assumes run: "syncPDStatefulSetForCellCluster (traced E) (pdUpgrader_Upgrade (traced E)) cc (w, []) =
      (e, cc', w', acts)"
    and old: "l_set E w (cc_ns cc) (PDMemberName (cc_name cc)) = Inr old"
    and sent: "UpdateSet s \<in> set acts"
  shows "\<exists>es cc1 w1 new. getNewPDSetForCellCluster E cc = Inr new \<and>
    pd_syncCellClusterStatus E cc old w = (es, cc1, w1) \<and> s_replicas new = s_replicas old \<and>
    s_replicas s = s_replicas old \<and> s_name s = s_name old \<and>
    pd_partition_ok E cc1 old new w1 (us_rolling (s_strategy s))"
proof -
  obtain new where new: "getNewPDSetForCellCluster E cc = Inr new"
    using run sent by (cases "getNewPDSetForCellCluster E cc") (auto simp: syncPDStatefulSetForCellCluster_def)
  obtain es cc1 t1 where st: "pd_syncCellClusterStatus (traced E) cc old (w, []) = (es, cc1, t1)"
    by (metis prod.collapse)
  from traced_pd_status [OF st]
  have st': "pd_syncCellClusterStatus E cc old w = (es, cc1, fst t1)" and t1: "snd t1 = []" by auto
  let ?c = "\<not> templateEqual (e_codec E) (s_template new) (s_template old) \<or>
    pd_phase (cc_pd cc1) = UpgradePhase"
  obtain eu cc2 new' t2 where up: "(if ?c then pdUpgrader_Upgrade (traced E) cc1 old new t1
      else (None, cc1, new, t1)) = (eu, cc2, new', t2)"
    by (metis prod.collapse)
  note up' = pd_upgrade_step [OF up]
  have upd: "\<exists>e3. update_set_if_changed (traced E) cc2 new' old t2 = (e3, (w', acts)) \<and>
      s_replicas new' = s_replicas old"
    using run old sent new st up t1 up'
    by (auto simp: syncPDStatefulSetForCellCluster_def split: if_splits option.splits prod.splits)
  then obtain e3 where "update_set_if_changed (traced E) cc2 new' old t2 = (e3, (w', acts))" by blast
  from update_set_trace [OF this] sent t1 up'
  have "s_replicas s = s_replicas new'" "s_strategy s = s_strategy new'" "s_name s = s_name old" by auto
  with new st' up' upd show ?thesis by auto
qed

lemma getNewPDSet_strategy:
  "getNewPDSetForCellCluster E cc = Inr new \<Longrightarrow> us_rolling (s_strategy new) = Some (s_replicas new)"
  by (auto simp: getNewPDSetForCellCluster_def Let_def split: sum.splits)

section \<open>Properties\<close>


text \<open>The first step of the upgrade of a one-member cluster: the partition goes from 1 to 0.\<close>

definition smp_pd_codec :: codec where
  "smp_pd_codec =
     any_codec no_set_spec (t_spec (pd_template (null_env undefined :: unit env) smp_cc)) no_svc_spec"

definition smp_pd_env :: "unit env" where
  "smp_pd_env = (null_env smp_pd_codec)
     \<lparr>l_set := \<lambda>w ns n. Inr (smp_set ''c-pd'' 1 1),
      l_pod := \<lambda>w ns n. Inr (smp_pod n ''pd'' ''r1''),
      c_cluster := \<lambda>cc w. (Inr ''id'', w),
      c_health := \<lambda>cc w. (Inr [\<lparr>mh_name = ''c-pd-0'', mh_id = 7, mh_client_urls = [],
                                 mh_health = True\<rparr>], w)\<rparr>"

lemma smp_pd_env_simps [simp]:
  "l_set smp_pd_env = (\<lambda>w ns n. Inr (smp_set ''c-pd'' 1 1))"
  "l_pod smp_pd_env = (\<lambda>w ns n. Inr (smp_pod n ''pd'' ''r1''))"
  "l_pods smp_pd_env = (\<lambda>w ns sel. Inr [])" "c_cluster smp_pd_env = (\<lambda>cc w. (Inr ''id'', w))"
  "c_health smp_pd_env = (\<lambda>cc w. (Inr [\<lparr>mh_name = ''c-pd-0'', mh_id = 7, mh_client_urls = [],
     mh_health = True\<rparr>], w))"
  "c_leader smp_pd_env = (\<lambda>cc w. (Inr None, w))"
  "k_update_set smp_pd_env = (\<lambda>cc s w. (None, w))" "t_set smp_pd_env = (\<lambda>s w. w)"
  "e_now smp_pd_env = (\<lambda>w. 0)" "e_q smp_pd_env = any_qlib" "e_codec smp_pd_env = smp_pd_codec"
  by (simp_all add: smp_pd_env_def)

lemma pd_template_env: "e_q E = e_q F \<Longrightarrow> pd_template E cc = pd_template F cc"
  by (simp add: pd_template_def pd_container_def)

lemma smp_pd_template [simp]:
  "pd_template (traced smp_pd_env) smp_cc = pd_template (null_env undefined :: unit env) smp_cc"
  by (rule pd_template_env) simp

lemmas pd_sync_eval =
  syncPDStatefulSetForCellCluster_def getNewPDSetForCellCluster_def Let_def storage_quantity_def
  pd_syncCellClusterStatus_def pdStatefulSetIsUpgrading_def statefulSetIsUpgrading_def
  pd_pull_status_def traced_calls lift_read_def lift_act_def templateEqual_def
  pdUpgrader_Upgrade_def needForceUpgrade_def pd_gracefulUpgrade_def sdiv_2_nonneg
  pd_failure_replicas_def pd_verdict_def update_set_if_changed_def statefulSetEqual_def
  upgradePDPod_def SetLastAppliedConfigAnnotation_def smp_pd_codec_def no_set_spec_def

lemma smp_pd_run:
  "\<exists>e cc' A B. syncPDStatefulSetForCellCluster (traced smp_pd_env)
     (pdUpgrader_Upgrade (traced smp_pd_env)) smp_cc ((), []) = (e, cc', (), [TouchSet A, UpdateSet B])"
  by (simp add: pd_sync_eval)


text \<open>
  PD is never scaled.  When the replicas the cluster asks for (plus the deleted failure
  members) differ from those of the existing set, the sync sends no update at all.
\<close>

lemma pd_sync_never_scales:
  assumes "syncPDStatefulSetForCellCluster (traced E) (pdUpgrader_Upgrade (traced E)) cc (w, []) =
      (e, cc', w', acts)"
    and "l_set E w (cc_ns cc) (PDMemberName (cc_name cc)) = Inr old"
    and "s_replicas old = Some r"
    and "r \<noteq> wrap32 (ms_replicas (spec_pd (cc_spec cc)) + wrap32 (pd_failure_replicas cc))"
  shows "UpdateSet s \<notin> set acts"
proof
  assume "UpdateSet s \<in> set acts"
  from pd_set_sync_update [OF assms(1,2) this]
  obtain new where "getNewPDSetForCellCluster E cc = Inr new" "s_replicas new = Some r"
    using assms(3) by auto
  with assms(4) show False by (auto simp: getNewPDSetForCellCluster_def Let_def split: sum.splits)
qed

text \<open>
  The first sync of a cluster without a PD set creates exactly one set, annotated with
  the configuration it was made from, and asks to be run again once PD is up; a failed
  creation is returned as it is.
\<close>

lemma pd_sync_creates:
  assumes "l_set E w (cc_ns cc) (PDMemberName (cc_name cc)) = Inl (NotFoundError m)"
    and "getNewPDSetForCellCluster E cc = Inr new"
    and "codec_set_ok (e_codec E) (s_spec new)" and "codec_pod_ok (e_codec E) (t_spec (s_template new))"
    and "syncPDStatefulSetForCellCluster (traced E) upgrade cc (w, []) = (e, cc', w', acts)"
  shows "\<exists>s ce. acts = [CreateSet s] \<and> k_create_set E cc s w = (ce, w') \<and>
    s_replicas s = s_replicas new \<and>
    GetLastAppliedConfig (e_codec E) s = Inr (s_spec new, t_spec (s_template new)) \<and>
    (case ce of
       Some x \<Rightarrow> e = Some x \<and> cc' = cc
     | None \<Rightarrow> (\<exists>x. e = Some x \<and> IsRequeueError x) \<and> pd_set (cc_pd cc') = Some sset_status0)"
proof -
  obtain s where s: "SetLastAppliedConfigAnnotation (e_codec E) new = (None, s)"
    "GetLastAppliedConfig (e_codec E) s = Inr (s_spec new, t_spec (s_template new))"
    using GetLastApplied_Set [OF assms(3,4)] by blast
  obtain ce w1 where k: "k_create_set E cc s w = (ce, w1)" by fastforce
  have "acts = [CreateSet s] \<and> w' = w1 \<and> (case ce of
       Some x \<Rightarrow> e = Some x \<and> cc' = cc
     | None \<Rightarrow> (\<exists>x. e = Some x \<and> IsRequeueError x) \<and> pd_set (cc_pd cc') = Some sset_status0)"
    using assms(5) assms(1,2) s(1) k
    by (cases ce) (auto simp: syncPDStatefulSetForCellCluster_def traced_calls lift_act_def RequeueErrorf_def)
  then show ?thesis using s k SetLastApplied_frame(1) [OF s(1)] by auto
qed

lemma getNewPDSet_env:
  "e_q E = e_q F \<Longrightarrow> e_default_class E = e_default_class F \<Longrightarrow>
     getNewPDSetForCellCluster E cc = getNewPDSetForCellCluster F cc"
  using pd_template_env [of E F cc]
  by (simp add: getNewPDSetForCellCluster_def storage_class_def Let_def split: sum.split)

section \<open>Status\<close>

lemma pd_members_loop_map:
  "map_of (pd_members_loop now old hs acc) n =
     (case find (\<lambda>h. mh_name h = n \<and> n \<noteq> []) (rev hs) of
        Some h \<Rightarrow> Some (pd_member_of now old h) | None \<Rightarrow> map_of acc n)"
  by (induction hs arbitrary: acc)
    (auto simp: find_snoc split: option.splits)

text \<open>
  C23: after a successful status sync the members of the PD status are those of PD's health
  report that have a name, the last report of a name counting; each carries the reported
  health and identifier, and its transition time is the old one exactly when the member was
  known with the same health, and the current time otherwise.
\<close>

theorem pd_status_members:
  assumes "pd_pull_status E cc w = (None, cc', w')"
  shows "\<exists>hs w1 w2. c_health E (cc\<lparr>cc_status := (cc_status cc)\<lparr>stat_cluster_id :=
        stat_cluster_id (cc_status cc')\<rparr>\<rparr>) w1 = (Inr hs, w2) \<and> pd_synced (cc_pd cc') \<and>
    (\<forall>n. map_of (pd_members (cc_pd cc')) n =
       (case find (\<lambda>h. mh_name h = n \<and> n \<noteq> []) (rev hs) of
          None \<Rightarrow> None
        | Some h \<Rightarrow> Some
            \<lparr>pm_name = n, pm_id = show_nat (mh_id h),
             pm_client_url = (if mh_client_urls h = [] then [] else hd (mh_client_urls h)),
             pm_health = mh_health h,
             pm_transition =
               (if \<exists>m. map_of (pd_members (cc_pd cc)) n = Some m \<and> pm_health m = mh_health h
                then pm_transition (the (map_of (pd_members (cc_pd cc)) n))
                else Some (e_now E w'))\<rparr>))"
proof -
  obtain cid w1 where c: "c_cluster E cc w = (Inr cid, w1)"
    using assms by (cases "c_cluster E cc w"; cases "fst (c_cluster E cc w)") (auto simp: pd_pull_status_def)
  let ?cc = "cc\<lparr>cc_status := (cc_status cc)\<lparr>stat_cluster_id := cid\<rparr>\<rparr>"
  obtain hs w2 where h: "c_health E ?cc w1 = (Inr hs, w2)"
    using assms c
    by (cases "c_health E ?cc w1"; cases "fst (c_health E ?cc w1)") (auto simp: pd_pull_status_def Let_def)
  have cc': "cc' = upd_pd (\<lambda>p. p\<lparr>pd_synced := True,
      pd_members := pd_members_loop (e_now E w') (pd_members (cc_pd cc)) hs [],
      pd_leader := zero_pd_member\<rparr>) ?cc"
    using assms c h by (auto simp: pd_pull_status_def Let_def split: prod.splits sum.splits)
  have m: "pd_member_of now old h =
      \<lparr>pm_name = mh_name h, pm_id = show_nat (mh_id h),
       pm_client_url = (if mh_client_urls h = [] then [] else hd (mh_client_urls h)),
       pm_health = mh_health h,
       pm_transition = (if \<exists>m. map_of old (mh_name h) = Some m \<and> pm_health m = mh_health h
                        then pm_transition (the (map_of old (mh_name h))) else Some now)\<rparr>"
    for now old h
    by (auto simp: pd_member_of_def Let_def split: option.splits list.splits)
  have found: "mh_name h = n \<and> n \<noteq> []"
    if "find (\<lambda>h. mh_name h = n \<and> n \<noteq> []) (rev hs) = Some h" for n h
    using find_SomeD [OF that] by simp
  show ?thesis
    using h by (intro exI [of _ hs] exI [of _ w1] exI [of _ w2])
      (auto simp: cc' pd_members_loop_map m split: option.splits dest: found)
qed

theorem pd_status_members_witness:
  "\<exists>cc'. pd_pull_status smp_pd_env smp_cc () = (None, cc', ()) \<and>
     map_of (pd_members (cc_pd cc')) ''c-pd-0'' =
       Some \<lparr>pm_name = ''c-pd-0'', pm_id = show_nat 7, pm_client_url = [], pm_health = True,
             pm_transition = Some 0\<rparr>"
proof -
  obtain cc' where r: "pd_pull_status smp_pd_env smp_cc () = (None, cc', ())"
    by (simp add: pd_pull_status_def Let_def)
  from pd_status_members [OF r] r show ?thesis by auto
qed

section \<open>Services\<close>

lemma serviceEqual_meta:
  "m_ann (svc_meta a) = m_ann (svc_meta b) \<Longrightarrow> serviceEqual J new a = serviceEqual J new b"
  by (simp add: serviceEqual_def)


definition smp_svc :: service where
  "smp_svc = \<lparr>svc_meta = meta0\<lparr>m_ann := Some [LastAppliedConfigAnnotation \<mapsto> ''svc'']\<rparr>,
     svc_spec = no_svc_spec\<rparr>"

definition smp_new_svc :: service where
  "smp_new_svc = \<lparr>svc_meta = meta0, svc_spec = no_svc_spec\<lparr>sv_type := ''NodePort''\<rparr>\<rparr>"

definition smp_svc_env :: "unit env" where
  "smp_svc_env = (null_env (any_codec no_set_spec no_pod_spec no_svc_spec))
     \<lparr>l_svc := \<lambda>w ns n. Inr smp_svc\<rparr>"


text \<open>
  The client service is annotated after its cluster IP has been set, so the configuration
  it stores never equals the wanted one, which has none: once updated, it is updated by every
  later sync.
\<close>

theorem pd_service_never_settles:
  assumes "syncPDServiceForCellCluster (traced E) cc (w, []) = (e, w', acts)"
    and "l_svc E w (cc_ns cc) (PDMemberName (cc_name cc)) = Inr old" and "UpdateSvc s \<in> set acts"
    and "sv_cluster_ip (svc_spec old) \<noteq> []" and "codec_svc_ok (e_codec E) (svc_spec s)"
  shows "serviceEqual (e_codec E) (getNewPDServiceForCellCluster cc) s = Inr False"
proof -
  let ?new = "getNewPDServiceForCellCluster cc"
  have "SetServiceLastAppliedConfigAnnotation (e_codec E) (with_new_spec old ?new) = (None, s)"
    using assms(1,2,3)
    by (auto simp: syncPDServiceForCellCluster_def Let_def touch_svc_ann_def traced_calls lift_act_def
        create_annotated_svc_def split: sum.splits if_splits prod.splits option.splits)
  then obtain x where x: "j_enc_svc (e_codec E) (svc_spec (with_new_spec old ?new)) = Inr x"
    "svc_spec s = svc_spec (with_new_spec old ?new)"
    "mget (m_ann (svc_meta s)) LastAppliedConfigAnnotation = Some x"
    by (auto simp: SetServiceLastAppliedConfigAnnotation_def split: sum.splits)
  with assms(5) have d: "j_dec_svc (e_codec E) x = Inr (svc_spec s)"
    by (auto simp: codec_svc_ok_def)
  have "sv_cluster_ip (svc_spec s) = sv_cluster_ip (svc_spec old)" using x by simp
  moreover have "sv_cluster_ip (svc_spec ?new) = []" by (simp add: getNewPDServiceForCellCluster_def Let_def)
  ultimately have "\<not> svc_spec_equal (svc_spec s) (svc_spec ?new)"
    using assms(4) by (cases "svc_spec s"; cases "svc_spec ?new") (simp add: svc_spec_equal_def)
  then show ?thesis using x d by (simp add: serviceEqual_def)
qed

definition smp_old_svc :: service where
  "smp_old_svc = \<lparr>svc_meta = meta0\<lparr>m_ann := Some [LastAppliedConfigAnnotation \<mapsto> ''svc'']\<rparr>,
     svc_spec = no_svc_spec\<lparr>sv_cluster_ip := ''10.0.0.1''\<rparr>\<rparr>"

theorem pd_service_never_settles_witness:
  "\<exists>J a s. syncPDServiceForCellCluster (traced ((null_env J)\<lparr>l_svc := \<lambda>w ns n. Inr smp_old_svc\<rparr>)) smp_cc
       ((), []) = (None, (), [TouchSvc a, UpdateSvc s]) \<and>
     serviceEqual J (getNewPDServiceForCellCluster smp_cc) s = Inr False"
proof -
  let ?new = "getNewPDServiceForCellCluster smp_cc"
  define J where "J = any_codec no_set_spec no_pod_spec (svc_spec (with_new_spec smp_old_svc ?new))"
  let ?E = "(null_env J :: unit env)\<lparr>l_svc := \<lambda>w ns n. Inr smp_old_svc\<rparr>"
  obtain s where s: "SetServiceLastAppliedConfigAnnotation J (with_new_spec smp_old_svc ?new) = (None, s)"
    "svc_spec s = svc_spec (with_new_spec smp_old_svc ?new)"
    by (simp add: J_def SetServiceLastAppliedConfigAnnotation_def smp_old_svc_def meta0_def)
  have ip: "sv_cluster_ip (svc_spec ?new) = []" "sv_cluster_ip (svc_spec smp_old_svc) = ''10.0.0.1''"
    by (simp_all add: getNewPDServiceForCellCluster_def Let_def smp_old_svc_def)
  have "serviceEqual J ?new smp_old_svc = Inr False"
    using ip by (cases "svc_spec ?new")
      (simp add: serviceEqual_def J_def smp_old_svc_def svc_spec_equal_def)
  then obtain a where r: "syncPDServiceForCellCluster (traced ?E) smp_cc ((), []) =
      (None, (), [TouchSvc a, UpdateSvc s])"
    using s by (simp add: syncPDServiceForCellCluster_def touch_svc_ann_def traced_calls lift_act_def
        smp_old_svc_def)
  have "serviceEqual J ?new s = Inr False"
    using pd_service_never_settles [OF r, of smp_old_svc s] ip s
    by (simp add: codec_svc_ok_def J_def)
  with r show ?thesis by blast
qed

end
