(* ===== verification/PD_Rolling.thy ===== *)
theory PD_Rolling
  imports PD_Properties
begin

text \<open>
  The rolling upgrade as a system: the operator's \<open>gracefulUpgrade\<close> as the code has it, the
  StatefulSet controller, which replaces pods at or above the partition, and pods becoming
  ready.  The state is what these parties share; the step relation interleaves them freely.
\<close>

section \<open>The system\<close>

record roll =
  rl_n :: nat                    \<comment> \<open>replicas of the set\<close>
  rl_updated :: "nat \<Rightarrow> bool"    \<comment> \<open>the pod runs the update revision\<close>
  rl_healthy :: "nat \<Rightarrow> bool"    \<comment> \<open>its PD member is healthy\<close>
  rl_part :: nat                 \<comment> \<open>the partition of the set\<close>

definition rev_of :: "bool \<Rightarrow> string" where
  "rev_of updated = (if updated then ''r2'' else ''r1'')"

text \<open>What the operator reads of a state: pods with their revision labels, and, in the status
  of the cluster, one member per pod with its health.\<close>

definition roll_env :: "string \<Rightarrow> codec \<Rightarrow> roll env" where
  "roll_env ccName J = (null_env J)\<lparr>l_pod := \<lambda>r ns name.
     (case find (\<lambda>i. pdPodName ccName (int i) = name) [0..<rl_n r] of
        None \<Rightarrow> missing
      | Some i \<Rightarrow> Inr (smp_pod name PDLabelVal (rev_of (rl_updated r i))))\<rparr>"

definition roll_member :: "bool \<Rightarrow> pd_member" where
  "roll_member health = zero_pd_member\<lparr>pm_health := health\<rparr>"

definition roll_cc :: "cellcluster \<Rightarrow> roll \<Rightarrow> cellcluster" where
  "roll_cc cc r = upd_pd (\<lambda>p. p\<lparr>pd_synced := True, pd_set := Some (smp_set_status (int (rl_n r))),
     pd_members := map (\<lambda>i. (pdPodName (cc_name cc) (int i), roll_member (rl_healthy r i)))
       [0..<rl_n r]\<rparr>) cc"

text \<open>One call of the operator's code moves the partition.\<close>

definition operator_moves :: "cellcluster \<Rightarrow> codec \<Rightarrow> roll \<Rightarrow> nat \<Rightarrow> bool" where
  "operator_moves cc J r p \<longleftrightarrow>
     (\<exists>old new cc' new'. us_rolling (s_strategy old) = Some (Some (int (rl_part r))) \<and>
        templateEqual J (s_template new) (s_template old) \<and>
        pd_gracefulUpgrade (roll_env (cc_name cc) J) (roll_cc cc r) old new r = (None, cc', new') \<and>
        us_rolling (s_strategy new') = Some (Some (int p)))"

inductive roll_step :: "cellcluster \<Rightarrow> codec \<Rightarrow> roll \<Rightarrow> roll \<Rightarrow> bool" for cc J where
  operator_step: "operator_moves cc J r p \<Longrightarrow> roll_step cc J r (r\<lparr>rl_part := p\<rparr>)"
| replace_step: "rl_part r \<le> i \<Longrightarrow> i < rl_n r \<Longrightarrow> \<not> rl_updated r i \<Longrightarrow>
    roll_step cc J r (r\<lparr>rl_updated := (rl_updated r)(i := True), rl_healthy := (rl_healthy r)(i := False)\<rparr>)"
| ready_step: "i < rl_n r \<Longrightarrow> roll_step cc J r (r\<lparr>rl_healthy := (rl_healthy r)(i := True)\<rparr>)"

inductive roll_reach :: "cellcluster \<Rightarrow> codec \<Rightarrow> roll \<Rightarrow> roll \<Rightarrow> bool" for cc J where
  reach_refl: "roll_reach cc J r r"
| reach_step: "roll_reach cc J r s \<Longrightarrow> roll_step cc J s t \<Longrightarrow> roll_reach cc J r t"

inductive_cases roll_stepE: "roll_step cc J r s"

text \<open>An upgrade starts with every pod outdated and healthy, and the partition at the top.\<close>

definition roll_start :: "nat \<Rightarrow> roll" where
  "roll_start n = \<lparr>rl_n = n, rl_updated = \<lambda>_. False, rl_healthy = \<lambda>_. True, rl_part = n\<rparr>"

section \<open>What the operator sees\<close>

lemma roll_pod:
  assumes "i < rl_n r"
  shows "l_pod (roll_env n J) r ns (pdPodName n (int i)) =
    Inr (smp_pod (pdPodName n (int i)) PDLabelVal (rev_of (rl_updated r i)))"
proof -
  have "find (\<lambda>j. pdPodName n (int j) = pdPodName n (int i)) [0..<rl_n r] = Some i"
    using assms by (intro find_unique) (auto simp: pdPodName_inj)
  then show ?thesis by (simp add: roll_env_def)
qed

lemma roll_members:
  assumes "i < rl_n r"
  shows "map_of (pd_members (cc_pd (roll_cc cc r))) (pdPodName (cc_name cc) (int i)) =
    Some (roll_member (rl_healthy r i))"
proof -
  have "distinct (map fst (pd_members (cc_pd (roll_cc cc r))))"
    by (auto simp: roll_cc_def comp_def distinct_map inj_on_def pdPodName_inj)
  moreover have "(pdPodName (cc_name cc) (int i), roll_member (rl_healthy r i)) \<in>
      set (pd_members (cc_pd (roll_cc cc r)))"
    using assms by (auto simp: roll_cc_def)
  ultimately show ?thesis by simp
qed

lemma roll_cc_simps [simp]:
  "cc_meta (roll_cc cc r) = cc_meta cc" "pd_set (cc_pd (roll_cc cc r)) = Some (smp_set_status (int (rl_n r)))"
  "pd_synced (cc_pd (roll_cc cc r))"
  by (simp_all add: roll_cc_def)

lemma roll_done_iff:
  assumes "i < rl_n r"
  shows "pd_pod_done (roll_env (cc_name cc) J) (roll_cc cc r) (smp_set_status m) r (int i) \<longleftrightarrow>
      rl_updated r i \<and> rl_healthy r i"
    and "pd_pod_outdated (roll_env (cc_name cc) J) (roll_cc cc r) (smp_set_status m) r (int i) \<longleftrightarrow>
      \<not> rl_updated r i"
  using roll_pod [OF assms] roll_members [OF assms, of cc]
  by (simp_all add: pd_pod_done_def pd_pod_outdated_def roll_member_def rev_of_def)

lemma operator_moves_spec:
  assumes "operator_moves cc J r p"
  shows "p = rl_part r \<or> (p < rl_n r \<and> \<not> rl_updated r p \<and>
    (\<forall>j. p < j \<longrightarrow> j < rl_n r \<longrightarrow> rl_updated r j \<and> rl_healthy r j))"
proof -
  let ?E = "roll_env (cc_name cc) J" and ?cc = "roll_cc cc r" and ?st = "smp_set_status (int (rl_n r))"
  let ?up = "upd_pd (\<lambda>p. p\<lparr>pd_phase := UpgradePhase\<rparr>) ?cc"
  obtain old new cc' new' where o: "us_rolling (s_strategy old) = Some (Some (int (rl_part r)))"
    "templateEqual J (s_template new) (s_template old)"
    "pd_gracefulUpgrade ?E ?cc old new r = (None, cc', new')"
    "us_rolling (s_strategy new') = Some (Some (int p))"
    using assms by (auto simp: operator_moves_def)
  have "pd_upgrade_loop ?E ?up ?st r (rl_n r) (setUpgradePartition (int (rl_part r)) new) = (None, new')"
    using o(1-3) by (auto simp: pd_gracefulUpgrade_def Let_def roll_env_def split: prod.splits)
  from pd_loop_spec [OF this] o(4) show ?thesis
    using roll_done_iff [of _ r cc J "int (rl_n r)"] by auto
qed

section \<open>Invariant\<close>

definition roll_inv :: "roll \<Rightarrow> bool" where
  "roll_inv r \<longleftrightarrow>
     (\<forall>i < rl_n r. rl_part r < i \<longrightarrow> rl_updated r i) \<and>
     (\<forall>i < rl_n r. \<not> rl_healthy r i \<longrightarrow> i = rl_part r \<and> rl_updated r i)"

lemma roll_step_inv:
  assumes "roll_step cc J r s" and "roll_inv r"
  shows "roll_inv s \<and> rl_n s = rl_n r"
  using assms(1)
proof cases
  case (operator_step p)
  from operator_moves_spec [OF operator_step(2)] show ?thesis
  proof
    assume "p = rl_part r"
    then show ?thesis using assms(2) operator_step(1) by (simp add: roll_inv_def)
  next
    assume p: "p < rl_n r \<and> \<not> rl_updated r p \<and>
      (\<forall>j. p < j \<longrightarrow> j < rl_n r \<longrightarrow> rl_updated r j \<and> rl_healthy r j)"
    have "rl_healthy r i" if "i < rl_n r" for i
    proof (rule ccontr)
      assume "\<not> rl_healthy r i"
      with assms(2) that have i: "i = rl_part r" "rl_updated r i" by (auto simp: roll_inv_def)
      from p assms(2) have "p \<le> rl_part r" by (force simp: roll_inv_def)
      with i p that \<open>\<not> rl_healthy r i\<close> show False by (metis le_neq_implies_less)
    qed
    then show ?thesis using p operator_step(1) by (simp add: roll_inv_def)
  qed
next
  case (replace_step i)
  then have "i = rl_part r" using assms(2) by (force simp: roll_inv_def)
  then show ?thesis using assms(2) replace_step by (auto simp: roll_inv_def)
next
  case (ready_step i)
  then show ?thesis using assms(2) by (auto simp: roll_inv_def)
qed

lemma roll_reach_inv: "roll_reach cc J r s \<Longrightarrow> roll_inv r \<Longrightarrow> roll_inv s \<and> rl_n s = rl_n r"
  by (induction rule: roll_reach.induct) (auto dest: roll_step_inv)

lemma roll_start_inv: "roll_inv (roll_start n)"
  by (simp add: roll_inv_def roll_start_def)

text \<open>
  C3: during a rolling upgrade of PD, in every reachable state and however the operator, the
  StatefulSet controller and the pods interleave, at most one member is unhealthy because of
  the upgrade: the one at the partition.
\<close>

theorem pd_rolling_one_unhealthy:
  assumes "roll_reach cc J (roll_start n) r"
  shows "{i. i < n \<and> \<not> rl_healthy r i} \<subseteq> {rl_part r}"
  using roll_reach_inv [OF assms roll_start_inv] by (auto simp: roll_inv_def roll_start_def)

section \<open>Progress\<close>

lemma operator_loop_acts:
  assumes "\<forall>i < rl_n r. rl_healthy r i" and "m \<le> rl_n r"
  shows "\<exists>u. pd_upgrade_loop (roll_env (cc_name cc) J)
        (upd_pd (\<lambda>p. p\<lparr>pd_phase := UpgradePhase\<rparr>) (roll_cc cc r)) (smp_set_status k) r m s = (None, u) \<and>
    ((\<forall>i < m. rl_updated r i) \<or>
     (\<exists>i < m. \<not> rl_updated r i \<and> us_rolling (s_strategy u) = Some (Some (int i))))"
  using assms(2)
proof (induction m)
  case (Suc m)
  let ?E = "roll_env (cc_name cc) J"
  let ?cc = "upd_pd (\<lambda>p. p\<lparr>pd_phase := UpgradePhase\<rparr>) (roll_cc cc r)"
  from Suc.prems have m: "m < rl_n r" by simp
  show ?case
  proof (cases "rl_updated r m")
    case True
    then have "pd_verdict ?E ?cc (smp_set_status k) r (int m) s = Pass s"
      using m assms(1) by (simp add: pd_verdict_Pass roll_done_iff)
    with Suc True show ?thesis by (auto simp: less_Suc_eq)
  next
    case False
    then have "pd_verdict ?E ?cc (smp_set_status k) r (int m) s = Act s"
      using m by (simp add: pd_verdict_Act roll_done_iff)
    with False show ?thesis by (auto simp: upgradePDPod_def)
  qed
qed simp

lemma operator_can_act:
  assumes "\<forall>i < rl_n r. rl_healthy r i" and "i < rl_n r" and "\<not> rl_updated r i"
    and J: "j_dec_pod J x = Inr p"
  shows "\<exists>k < rl_n r. \<not> rl_updated r k \<and> operator_moves cc J r k"
proof -
  let ?old = "set_s_template (no_template\<lparr>t_ann := Some [LastAppliedConfigAnnotation \<mapsto> x]\<rparr>)
    (smp_set ''c'' (int (rl_n r)) (int (rl_part r)))"
  let ?new = "set_s_template (no_template\<lparr>t_spec := p\<rparr>) ?old"
  have t: "templateEqual J (s_template ?new) (s_template ?old)"
    by (simp add: templateEqual_def set_s_template_def J)
  have part: "us_rolling (s_strategy ?old) = Some (Some (int (rl_part r)))"
    by (simp add: set_s_template_def smp_set_def no_set_spec_def)
  obtain u k where u: "pd_upgrade_loop (roll_env (cc_name cc) J)
      (upd_pd (\<lambda>p. p\<lparr>pd_phase := UpgradePhase\<rparr>) (roll_cc cc r)) (smp_set_status (int (rl_n r))) r
      (rl_n r) (setUpgradePartition (int (rl_part r)) ?new) = (None, u)"
    "k < rl_n r" "\<not> rl_updated r k" "us_rolling (s_strategy u) = Some (Some (int k))"
    using operator_loop_acts [OF assms(1) order_refl] assms(2,3) by blast
  have "pd_gracefulUpgrade (roll_env (cc_name cc) J) (roll_cc cc r) ?old ?new r =
      (None, upd_pd (\<lambda>p. p\<lparr>pd_phase := UpgradePhase\<rparr>) (roll_cc cc r), u)"
    using u(1) t part by (simp add: pd_gracefulUpgrade_def Let_def roll_env_def)
  then have "operator_moves cc J r k"
    unfolding operator_moves_def using t part u(4) by blast
  with u(2,3) show ?thesis by blast
qed

lemma roll_reach_trans: "roll_reach cc J s t \<Longrightarrow> roll_reach cc J r s \<Longrightarrow> roll_reach cc J r t"
  by (induction rule: roll_reach.induct) (auto intro: reach_step)

lemma heal_all:
  "m \<le> rl_n r \<Longrightarrow> \<exists>s. roll_reach cc J r s \<and> rl_updated s = rl_updated r \<and> rl_part s = rl_part r \<and>
     rl_n s = rl_n r \<and> (\<forall>i < m. rl_healthy s i)"
proof (induction m)
  case (Suc m)
  then obtain s where s: "roll_reach cc J r s" "rl_updated s = rl_updated r" "rl_part s = rl_part r"
    "rl_n s = rl_n r" "\<forall>i < m. rl_healthy s i" by auto
  let ?t = "s\<lparr>rl_healthy := (rl_healthy s)(m := True)\<rparr>"
  have "roll_step cc J s ?t" using Suc.prems s(4) by (auto intro: ready_step)
  with s show ?case by (intro exI [of _ ?t]) (auto intro: reach_step simp: less_Suc_eq)
qed (auto intro: reach_refl)

definition outdated :: "roll \<Rightarrow> nat set" where
  "outdated r = {i. i < rl_n r \<and> \<not> rl_updated r i}"

text \<open>One round: the pods become ready, the operator moves the partition, one pod is replaced.\<close>

lemma roll_round:
  assumes "outdated r \<noteq> {}" and J: "j_dec_pod J x = Inr p"
  shows "\<exists>s. roll_reach cc J r s \<and> rl_n s = rl_n r \<and> outdated s \<subset> outdated r"
proof -
  obtain h where h: "roll_reach cc J r h" "rl_updated h = rl_updated r" "rl_n h = rl_n r"
    "\<forall>i < rl_n h. rl_healthy h i"
    using heal_all [of "rl_n r" r cc J] by auto
  obtain k where k: "k < rl_n h" "\<not> rl_updated h k" "operator_moves cc J h k"
    using assms(1) operator_can_act [OF h(4) _ _ J] h(2,3) by (auto simp: outdated_def)
  let ?o = "h\<lparr>rl_part := k\<rparr>"
  let ?s = "?o\<lparr>rl_updated := (rl_updated ?o)(k := True), rl_healthy := (rl_healthy ?o)(k := False)\<rparr>"
  have "roll_step cc J h ?o" using k(3) by (rule operator_step)
  moreover have "roll_step cc J ?o ?s" using k by (intro replace_step) simp_all
  ultimately have "roll_reach cc J r ?s" using h(1) by (meson reach_step)
  moreover have "outdated ?s \<subset> outdated r" using k h by (auto simp: outdated_def)
  ultimately show ?thesis using h(3) by (intro exI [of _ ?s]) simp
qed

lemma roll_completes:
  assumes J: "j_dec_pod J x = Inr p"
  shows "\<exists>s. roll_reach cc J r s \<and> rl_n s = rl_n r \<and> outdated s = {}"
proof (induction "card (outdated r)" arbitrary: r rule: less_induct)
  case less
  show ?case
  proof (cases "outdated r = {}")
    case False
    from roll_round [OF this J] obtain s where s: "roll_reach cc J r s" "rl_n s = rl_n r"
      "outdated s \<subset> outdated r" by blast
    have "finite (outdated r)" by (simp add: outdated_def)
    with s(3) have "card (outdated s) < card (outdated r)" by (simp add: psubset_card_mono)
    from less [OF this] s(1,2) show ?thesis by (metis roll_reach_trans)
  qed (auto intro: reach_refl)
qed

text \<open>
  A rolling upgrade of PD cannot get stuck: from every reachable state the operator's
  code, the controller and the pods have a way to the state in which every pod runs the new
  revision and is healthy.
\<close>

theorem pd_rolling_can_complete:
  assumes "roll_reach cc J (roll_start n) r" and "j_dec_pod J x = Inr p"
  shows "\<exists>s. roll_reach cc J r s \<and> (\<forall>i < n. rl_updated s i \<and> rl_healthy s i)"
proof -
  have n: "rl_n r = n" using roll_reach_inv [OF assms(1) roll_start_inv] by (simp add: roll_start_def)
  obtain s where s: "roll_reach cc J r s" "rl_n s = n" "outdated s = {}"
    using roll_completes [OF assms(2)] n by blast
  obtain t where "roll_reach cc J s t" "rl_updated t = rl_updated s" "rl_n t = rl_n s"
    "\<forall>i < n. rl_healthy t i"
    using heal_all [of n s cc J] s(2) by auto
  with s show ?thesis by (auto simp: outdated_def intro: roll_reach_trans)
qed

section \<open>A run of two members\<close>

definition smp_roll_codec :: codec where
  "smp_roll_codec = any_codec no_set_spec no_pod_spec no_svc_spec"

definition smp_roll :: roll where
  "smp_roll = (roll_start 2)\<lparr>rl_part := 1, rl_updated := (\<lambda>_. False)(1 := True),
     rl_healthy := (\<lambda>_. True)(1 := False)\<rparr>"

lemma smp_roll_reached: "roll_reach smp_cc smp_roll_codec (roll_start 2) smp_roll"
proof -
  let ?r = "roll_start 2"
  let ?old = "smp_set ''c'' 2 2"
  have loop: "pd_upgrade_loop (roll_env (cc_name smp_cc) smp_roll_codec)
      (upd_pd (\<lambda>p. p\<lparr>pd_phase := UpgradePhase\<rparr>) (roll_cc smp_cc ?r)) (smp_set_status 2) ?r
      2 (setUpgradePartition 2 ?old) = (None, setUpgradePartition 1 (setUpgradePartition 2 ?old))"
    (is "pd_upgrade_loop ?E ?cc ?st ?r 2 ?s = _")
  proof -
    have "pd_verdict ?E ?cc ?st ?r (int 1) ?s = Act ?s"
      using roll_done_iff(2) [of 1 ?r smp_cc smp_roll_codec 2]
      by (simp add: pd_verdict_Act roll_start_def)
    then show ?thesis by (simp add: numeral_2_eq_2 upgradePDPod_def)
  qed
  have "pd_gracefulUpgrade (roll_env (cc_name smp_cc) smp_roll_codec) (roll_cc smp_cc ?r) ?old ?old ?r =
      (None, upd_pd (\<lambda>p. p\<lparr>pd_phase := UpgradePhase\<rparr>) (roll_cc smp_cc ?r),
       setUpgradePartition 1 (setUpgradePartition 2 ?old))"
    using loop by (simp add: pd_gracefulUpgrade_def Let_def roll_env_def templateEqual_def
        smp_roll_codec_def smp_set_def no_set_spec_def no_template_def roll_start_def)
  then have "operator_moves smp_cc smp_roll_codec ?r 1"
    unfolding operator_moves_def
    by (intro exI [of _ ?old] exI) (auto simp: templateEqual_def smp_roll_codec_def smp_set_def
        no_set_spec_def no_template_def roll_start_def setter_defs setUpgradePartition_def)
  then have "roll_step smp_cc smp_roll_codec ?r (?r\<lparr>rl_part := 1\<rparr>)" by (rule operator_step)
  moreover have "roll_step smp_cc smp_roll_codec (?r\<lparr>rl_part := 1\<rparr>) smp_roll"
    using replace_step [of "?r\<lparr>rl_part := 1\<rparr>" 1] by (simp add: roll_start_def smp_roll_def)
  ultimately show ?thesis by (meson reach_refl reach_step)
qed

theorem pd_rolling_one_unhealthy_witness:
  "{i. i < 2 \<and> \<not> rl_healthy smp_roll i} \<subseteq> {rl_part smp_roll} \<and> \<not> rl_healthy smp_roll 1"
  using pd_rolling_one_unhealthy [OF smp_roll_reached] by (simp add: smp_roll_def)

theorem pd_rolling_can_complete_witness:
  "\<exists>s. roll_reach smp_cc smp_roll_codec smp_roll s \<and> (\<forall>i < 2. rl_updated s i \<and> rl_healthy s i)"
  by (rule pd_rolling_can_complete [OF smp_roll_reached, of "''pod''" no_pod_spec])
    (simp add: smp_roll_codec_def)

end
