(* ===== verification/PD_Termination.thy ===== *)
theory PD_Termination
  imports PD_Rolling
begin

text \<open>
  The rolling upgrade of PD ends: every step that changes something reduces the work that is
  left, and the only state in which nothing can change is the completed upgrade.
\<close>

section \<open>Runs\<close>

text \<open>A run of \<open>k\<close> steps each of which changes the state.\<close>

inductive roll_run :: "cellcluster \<Rightarrow> codec \<Rightarrow> nat \<Rightarrow> roll \<Rightarrow> roll \<Rightarrow> bool" for cc J where
  run_0: "roll_run cc J 0 r r"
| run_Suc: "roll_run cc J k r s \<Longrightarrow> roll_step cc J s t \<Longrightarrow> t \<noteq> s \<Longrightarrow> roll_run cc J (Suc k) r t"

lemma roll_run_reach: "roll_run cc J k r s \<Longrightarrow> roll_reach cc J r s"
  by (induction rule: roll_run.induct) (auto intro: reach_refl reach_step)

definition unhealthy :: "roll \<Rightarrow> nat set" where
  "unhealthy r = {i. i < rl_n r \<and> \<not> rl_healthy r i}"

text \<open>What is left to do: a replacement makes one member unhealthy, and so counts twice.\<close>

definition work_left :: "roll \<Rightarrow> nat" where
  "work_left r = 2 * card (outdated r) + card (unhealthy r) + rl_part r"

lemma finite_roll [simp]: "finite (outdated r)" "finite (unhealthy r)"
  by (simp_all add: outdated_def unhealthy_def)

lemma roll_step_work:
  assumes "roll_step cc J r s" and "roll_inv r" and "s \<noteq> r"
  shows "work_left s < work_left r"
  using assms(1)
proof cases
  case (operator_step p)
  have "p \<noteq> rl_part r" using assms(3) operator_step(1) by auto
  with operator_moves_spec [OF operator_step(2)] have p: "p < rl_n r" "\<not> rl_updated r p" by auto
  with assms(2) \<open>p \<noteq> rl_part r\<close> have "p < rl_part r" by (force simp: roll_inv_def)
  then show ?thesis using operator_step(1) by (simp add: work_left_def outdated_def unhealthy_def)
next
  case (replace_step i)
  have o: "outdated r = insert i (outdated s)" "i \<notin> outdated s"
    using replace_step by (auto simp: outdated_def)
  have "unhealthy s \<subseteq> insert i (unhealthy r)" using replace_step by (auto simp: unhealthy_def)
  then have "card (unhealthy s) \<le> Suc (card (unhealthy r))"
    using card_mono [of "insert i (unhealthy r)" "unhealthy s"] by (simp add: card_insert_if split: if_splits)
  then show ?thesis using o replace_step(1) by (simp add: work_left_def)
next
  case (ready_step i)
  have "\<not> rl_healthy r i"
  proof
    assume "rl_healthy r i"
    then have "s = r" using ready_step(1) by (simp add: fun_upd_idem)
    with assms(3) show False by simp
  qed
  then have "unhealthy r = insert i (unhealthy s)" "i \<notin> unhealthy s"
    using ready_step by (auto simp: unhealthy_def)
  moreover have "outdated s = outdated r" using ready_step(1) by (simp add: outdated_def)
  ultimately show ?thesis using ready_step(1) by (simp add: work_left_def)
qed

lemma roll_run_work:
  "roll_run cc J k r s \<Longrightarrow> roll_inv r \<Longrightarrow> k + work_left s \<le> work_left r"
proof (induction rule: roll_run.induct)
  case (run_Suc k r s t)
  have "roll_inv s" using roll_reach_inv [OF roll_run_reach [OF run_Suc(1)] run_Suc.prems] by simp
  from roll_step_work [OF run_Suc(2) this run_Suc(3)] run_Suc.IH [OF run_Suc.prems] show ?case by simp
qed simp

text \<open>A state no step can change is the one the upgrade is for.\<close>

lemma roll_stuck:
  assumes "\<And>s. roll_step cc J r s \<Longrightarrow> s = r" and J: "j_dec_pod J x = Inr p" and "i < rl_n r"
  shows "rl_updated r i \<and> rl_healthy r i"
proof -
  have h: "\<forall>i < rl_n r. rl_healthy r i"
  proof (intro allI impI)
    fix i assume "i < rl_n r"
    from assms(1) [OF ready_step [OF this]] show "rl_healthy r i"
      by (metis fun_upd_same roll.select_convs(3) roll.surjective roll.update_convs(3))
  qed
  have "rl_updated r i"
  proof (rule ccontr)
    assume "\<not> rl_updated r i"
    from operator_can_act [OF h assms(3) this J] obtain k where
      k: "k < rl_n r" "\<not> rl_updated r k" "operator_moves cc J r k" by blast
    from assms(1) [OF operator_step [OF k(3)]] have "rl_part r = k"
      by (metis roll.select_convs(4) roll.surjective roll.update_convs(4))
    with assms(1) [OF replace_step [of r k]] k show False
      by (metis fun_upd_same le_refl roll.select_convs(2) roll.surjective roll.update_convs(2,3))
  qed
  with h assms(3) show ?thesis by simp
qed

text \<open>
  C9: a rolling upgrade of PD ends.  From its start with \<open>n\<close> members no run has more than
  \<open>3 * n\<close> steps that change something, whoever takes them, and when nothing can change any more
  every pod runs the new revision and is healthy.
\<close>

theorem pd_rolling_terminates:
  assumes "roll_run cc J k (roll_start n) r" and "j_dec_pod J x = Inr p"
  shows "k \<le> 3 * n \<and>
    ((\<forall>s. roll_step cc J r s \<longrightarrow> s = r) \<longrightarrow> (\<forall>i < n. rl_updated r i \<and> rl_healthy r i))"
proof -
  have "k + work_left r \<le> work_left (roll_start n)"
    by (rule roll_run_work [OF assms(1) roll_start_inv])
  moreover have "work_left (roll_start n) = 3 * n"
    by (simp add: work_left_def outdated_def unhealthy_def roll_start_def)
  moreover have "rl_n r = n"
    using roll_reach_inv [OF roll_run_reach [OF assms(1)] roll_start_inv] by (simp add: roll_start_def)
  ultimately show ?thesis using roll_stuck [OF _ assms(2)] by auto
qed

text \<open>The steps that change nothing can be left out of a run.\<close>

lemma roll_reach_run: "roll_reach cc J r s \<Longrightarrow> \<exists>k. roll_run cc J k r s"
proof (induction rule: roll_reach.induct)
  case (reach_step r s t)
  then show ?case by (cases "t = s") (auto intro: run_Suc)
qed (auto intro: run_0)

theorem pd_rolling_terminates_witness:
  "\<exists>k. roll_run smp_cc smp_roll_codec k (roll_start 2) smp_roll \<and> k \<noteq> 0 \<and> k \<le> 6"
proof -
  obtain k where k: "roll_run smp_cc smp_roll_codec k (roll_start 2) smp_roll"
    using roll_reach_run [OF smp_roll_reached] by blast
  have "roll_start 2 \<noteq> smp_roll" by (simp add: roll_start_def smp_roll_def)
  with k have "k \<noteq> 0" by (auto elim: roll_run.cases)
  with pd_rolling_terminates [OF k, of "''pod''" no_pod_spec] k show ?thesis
    by (auto simp: smp_roll_codec_def)
qed

end
