(* ===== verification/Sync_Settles.thy ===== *)
theory Sync_Settles
  imports Member_Utils Samples
begin

text \<open>
  When the syncs of a StatefulSet come to rest.  The member managers compare the set they want with
  the configuration recorded in an annotation of the set they find; this theory has the contract
  of such a sync (\<open>set_syncer\<close>) and shows that it implies rest.
\<close>

section \<open>Wanted and stored sets\<close>

text \<open>What a sync wants depends on the metadata, the spec and the recorded failures.\<close>

definition same_wishes :: "(cellcluster \<Rightarrow> 'f) \<Rightarrow> cellcluster \<Rightarrow> cellcluster \<Rightarrow> bool" where
  "same_wishes failures cc cc' \<longleftrightarrow>
     cc_meta cc' = cc_meta cc \<and> cc_spec cc' = cc_spec cc \<and> failures cc' = failures cc"

text \<open>The set an object stands for when the managers compare it with the wanted one.\<close>

definition set_stored :: "codec \<Rightarrow> sset \<Rightarrow> sset \<Rightarrow> bool" where
  "set_stored J new s \<longleftrightarrow> statefulSetEqual J new s \<and> templateEqual J (s_template new) (s_template s)"

lemma set_stored_status [simp]: "set_stored J new (s\<lparr>s_status := st\<rparr>) = set_stored J new s"
  by (simp add: set_stored_def statefulSetEqual_def)

definition sent_spec :: "sset \<Rightarrow> sset \<Rightarrow> sset_spec" where
  "sent_spec new old = (s_spec old)\<lparr>ss_replicas := s_replicas new, ss_template := s_template new,
     ss_strategy := s_strategy new\<rparr>"

text \<open>A sync sends the replicas, the template and the strategy of the set it computed.\<close>

definition same_view :: "sset \<Rightarrow> sset \<Rightarrow> bool" where
  "same_view new' new \<longleftrightarrow>
     s_replicas new' = s_replicas new \<and> s_template new' = s_template new \<and> s_strategy new' = s_strategy new"

lemma same_view_stored: "same_view new' new \<Longrightarrow> set_stored J new' s = set_stored J new s"
  by (simp add: same_view_def set_stored_def statefulSetEqual_def split: option.splits sum.splits)

lemma same_view_sent: "same_view new' new \<Longrightarrow> sent_spec new' old = sent_spec new old"
  by (simp add: same_view_def sent_spec_def)

lemma annotated_stored:
  assumes "codec_set_ok J (s_spec new)" "codec_pod_ok J (t_spec (s_template new))"
    and "SetLastAppliedConfigAnnotation J new = (None, s)"
  shows "set_stored J new s \<and> s_replicas s = s_replicas new"
  using statefulSetEqual_Set [OF assms] SetLastApplied_frame [OF assms(3)] by (simp add: set_stored_def)

lemma updated_stored:
  assumes run: "update_set_if_changed (traced E) cc new old (w, []) = (e, (w', acts))"
    and sent: "UpdateSet s \<in> set acts" and codec: "codec_set_ok (e_codec E) (sent_spec new old)"
    and pod: "codec_pod_ok (e_codec E) (t_spec (s_template new))"
  shows "set_stored (e_codec E) new s"
proof -
  obtain n m where r: "s_replicas new = Some n" "s_replicas old = Some m"
    using run sent by (auto simp: update_set_if_changed_def split: if_splits option.splits)
  let ?sts = "set_s_strategy (s_strategy new) (set_s_replicas n (set_s_template (s_template new) old))"
  have spec: "s_spec ?sts = sent_spec new old" using r by (simp add: setter_defs sent_spec_def)
  have s: "SetLastAppliedConfigAnnotation (e_codec E) ?sts = (None, s)"
    using run sent r
    by (auto simp: update_set_if_changed_def Let_def traced_calls lift_act_def
        split: if_splits option.splits prod.splits)
  have "statefulSetEqual (e_codec E) new s \<and> templateEqual (e_codec E) (s_template new) (s_template s)"
  proof (rule statefulSetEqual_Set [OF _ _ s])
    show "codec_set_ok (e_codec E) (s_spec ?sts)" unfolding spec by (rule codec)
    show "codec_pod_ok (e_codec E) (t_spec (s_template ?sts))" using pod by (simp add: setter_defs)
  qed (use r in \<open>simp_all add: setter_defs\<close>)
  then show ?thesis by (simp add: set_stored_def)
qed

text \<open>The log of an update is appended to what was logged before.\<close>

lemma update_set_appends:
  assumes "update_set_if_changed (traced E) cc new old (v, l) = (e, (w', acts))"
  shows "\<exists>rest. acts = l @ rest \<and> update_set_if_changed (traced E) cc new old (v, []) = (e, (w', rest))"
  using assms
  by (auto simp: update_set_if_changed_def Let_def traced_calls lift_act_def
      split: if_splits option.splits prod.splits)

section \<open>Syncs of a StatefulSet\<close>

text \<open>
  Where the set is there, a sync makes other requests first and ends in an update of the set at most.
  When it is calm, that is when no upgrade is going on, it sends the wanted template and
  strategy; when moreover the set has the wanted replicas, it sends these and nothing before.
\<close>

definition ends_in_update ::
  "'w env \<Rightarrow> sset \<Rightarrow> sset \<Rightarrow> bool \<Rightarrow> goerr option \<Rightarrow> 'w \<Rightarrow> action list \<Rightarrow> bool" where
  "ends_in_update E old new calm e w' acts \<longleftrightarrow>
     (\<exists>pre rest. acts = pre @ rest \<and> list_all (\<lambda>a. \<not> is_set_request a) pre \<and>
        (rest = [] \<or> (\<exists>v c new'. update_set_if_changed (traced E) c new' old (v, []) = (e, (w', rest)) \<and>
           (calm \<longrightarrow> s_template new' = s_template new \<and> s_strategy new' = s_strategy new) \<and>
           (s_replicas old = s_replicas new \<longrightarrow> s_replicas new' = s_replicas new))) \<and>
        (calm \<and> s_replicas old = s_replicas new \<longrightarrow> pre = []))"

lemma ends_nothing: "ends_in_update E old new calm e w []"
  by (auto simp: ends_in_update_def)

lemma ends_quiet:
  "list_all (\<lambda>a. \<not> is_set_request a) acts \<Longrightarrow> \<not> (calm \<and> s_replicas old = s_replicas new) \<Longrightarrow>
     ends_in_update E old new calm e w acts"
  by (auto simp: ends_in_update_def)

lemma ends_updated:
  assumes "update_set_if_changed (traced E) c new' old (v, pre) = (e, (w', acts))"
    and "list_all (\<lambda>a. \<not> is_set_request a) pre" and "calm \<and> s_replicas old = s_replicas new \<Longrightarrow> pre = []"
    and "calm \<Longrightarrow> s_template new' = s_template new \<and> s_strategy new' = s_strategy new"
    and "s_replicas old = s_replicas new \<Longrightarrow> s_replicas new' = s_replicas new"
  shows "ends_in_update E old new calm e w' acts"
  using update_set_appends [OF assms(1)] assms(2-) unfolding ends_in_update_def by blast

locale set_syncer =
  fixes E :: "'w env"
    and sync :: "cellcluster \<Rightarrow> 'w traced \<Rightarrow> goerr option \<times> cellcluster \<times> 'w traced"
    and wanted :: "cellcluster \<Rightarrow> goerr + sset" and set_name :: "string \<Rightarrow> string"
    and calm :: "cellcluster \<Rightarrow> bool" and failures :: "cellcluster \<Rightarrow> 'f"
  assumes creating: "sync cc (w, []) = (e, cc', (w', acts)) \<Longrightarrow>
      l_set E w (cc_ns cc) (set_name (cc_name cc)) = Inl x \<Longrightarrow> wanted cc = Inr new \<Longrightarrow>
      acts = [] \<or> (\<exists>s. SetLastAppliedConfigAnnotation (e_codec E) new = (None, s) \<and> acts = [CreateSet s])"
    and existing: "sync cc (w, []) = (e, cc', (w', acts)) \<Longrightarrow>
      l_set E w (cc_ns cc) (set_name (cc_name cc)) = Inr old \<Longrightarrow> wanted cc = Inr new \<Longrightarrow>
      ends_in_update E old new (calm cc') e w' acts"
    and wanted_same: "same_wishes failures cc cc' \<Longrightarrow> wanted cc' = wanted cc"
begin

lemma sent_is_stored:
  assumes new: "wanted cc = Inr new"
    and codec: "codec_set_ok (e_codec E) (s_spec new)" "codec_pod_ok (e_codec E) (t_spec (s_template new))"
      "\<And>old. l_set E w (cc_ns cc) (set_name (cc_name cc)) = Inr old \<Longrightarrow> codec_set_ok (e_codec E) (sent_spec new old)"
    and run: "sync cc (w, []) = (e, cc1, (w1, acts))"
    and sent: "CreateSet s \<in> set acts \<or> (UpdateSet s \<in> set acts \<and> calm cc1 \<and> s_replicas s = s_replicas new)"
  shows "set_stored (e_codec E) new s \<and> s_replicas s = s_replicas new"
proof (cases "l_set E w (cc_ns cc) (set_name (cc_name cc))")
  case (Inl x)
  from creating [OF run Inl new] sent annotated_stored [OF codec(1,2)] show ?thesis by auto
next
  case (Inr old)
  from existing [OF run Inr new] obtain pre rest where a: "acts = pre @ rest"
    "list_all (\<lambda>a. \<not> is_set_request a) pre" and r: "rest = [] \<or> (\<exists>v c new'.
      update_set_if_changed (traced E) c new' old (v, []) = (e, (w1, rest)) \<and>
      (calm cc1 \<longrightarrow> s_template new' = s_template new \<and> s_strategy new' = s_strategy new))"
    unfolding ends_in_update_def by blast
  have in_rest: "CreateSet s \<in> set rest \<or> UpdateSet s \<in> set rest"
    using sent a by (auto simp: list_all_iff)
  with r obtain v c new' where u: "update_set_if_changed (traced E) c new' old (v, []) = (e, (w1, rest))"
    "calm cc1 \<longrightarrow> s_template new' = s_template new \<and> s_strategy new' = s_strategy new" by auto
  from update_set_trace [OF u(1)] in_rest
  have upd: "UpdateSet s \<in> set rest" "s_replicas s = s_replicas new'" and "CreateSet s \<notin> set rest" by auto
  then have "CreateSet s \<notin> set acts" using a by (auto simp: list_all_iff)
  with sent have c: "calm cc1" "s_replicas s = s_replicas new" by blast+
  from u(2) upd(2) c have view: "same_view new' new" by (simp add: same_view_def)
  have "codec_set_ok (e_codec E) (sent_spec new' old)"
    unfolding same_view_sent [OF view] by (rule codec(3) [OF Inr])
  moreover have "codec_pod_ok (e_codec E) (t_spec (s_template new'))"
    using codec(2) view unfolding same_view_def by simp
  ultimately have "set_stored (e_codec E) new' s" by (rule updated_stored [OF u(1) upd(1)])
  with c(2) show ?thesis unfolding same_view_stored [OF view] by simp
qed

lemma stored_is_quiet:
  assumes new: "wanted cc = Inr new"
    and found: "l_set E v (cc_ns cc) (set_name (cc_name cc)) = Inr (s\<lparr>s_status := st\<rparr>)"
    and stored: "set_stored (e_codec E) new s" "s_replicas s = s_replicas new"
    and run: "sync cc (v, []) = (e, cc1, (w1, acts))" and calm: "calm cc1"
  shows "acts = []"
proof -
  have "ends_in_update E (s\<lparr>s_status := st\<rparr>) new True e w1 acts"
    using existing [OF run found new] calm by simp
  then consider "acts = []" | u c new' where
    "update_set_if_changed (traced E) c new' (s\<lparr>s_status := st\<rparr>) (u, []) = (e, (w1, acts))" "same_view new' new"
    using stored(2) by (auto simp: ends_in_update_def same_view_def)
  then show ?thesis
  proof cases
    case 2
    have "set_stored (e_codec E) new' (s\<lparr>s_status := st\<rparr>)"
      unfolding same_view_stored [OF 2(2)] set_stored_status by (rule stored(1))
    then have "statefulSetEqual (e_codec E) new' (s\<lparr>s_status := st\<rparr>)" by (simp only: set_stored_def)
    with 2(1) show ?thesis by (simp add: update_set_if_changed_def)
  qed
qed

lemma settles:
  assumes "wanted cc = Inr new"
    and "codec_set_ok (e_codec E) (s_spec new)" "codec_pod_ok (e_codec E) (t_spec (s_template new))"
      "\<And>old. l_set E w (cc_ns cc) (set_name (cc_name cc)) = Inr old \<Longrightarrow> codec_set_ok (e_codec E) (sent_spec new old)"
    and "sync cc (w, []) = (e, cc1, (w1, acts))"
    and "CreateSet s \<in> set acts \<or> (UpdateSet s \<in> set acts \<and> calm cc1 \<and> s_replicas s = s_replicas new)"
    and "l_set E v (cc_ns cc) (set_name (cc_name cc)) = Inr (s\<lparr>s_status := st\<rparr>)"
    and same: "same_wishes failures cc cc2"
    and second: "sync cc2 (v, []) = (e2, cc3, (w2, acts2))" "calm cc3"
  shows "acts2 = []"
proof -
  have "cc_ns cc2 = cc_ns cc" "cc_name cc2 = cc_name cc" using same by (simp_all add: same_wishes_def)
  with assms(7) have found: "l_set E v (cc_ns cc2) (set_name (cc_name cc2)) = Inr (s\<lparr>s_status := st\<rparr>)" by simp
  have new: "wanted cc2 = Inr new" using wanted_same [OF same] assms(1) by simp
  from sent_is_stored [OF assms(1-6)] stored_is_quiet [OF new found _ _ second] show ?thesis by blast
qed

end

section \<open>A sample\<close>

text \<open>An API server that holds one StatefulSet, and a PD that knows no store.\<close>

definition smp_one_set :: "codec \<Rightarrow> sset option env" where
  "smp_one_set J = (null_env J)\<lparr>l_set := \<lambda>w ns n. case w of None \<Rightarrow> missing | Some s \<Rightarrow> Inr s,
     k_create_set := \<lambda>cc s w. (None, Some s), c_stores := \<lambda>cc w. (Inr [], w),
     c_tombstones := \<lambda>cc w. (Inr [], w)\<rparr>"

lemma smp_one_set_simps [simp]:
  "l_set (smp_one_set J) = (\<lambda>w ns n. case w of None \<Rightarrow> missing | Some s \<Rightarrow> Inr s)"
  "k_create_set (smp_one_set J) = (\<lambda>cc s w. (None, Some s))" "e_codec (smp_one_set J) = J"
  "l_pods (smp_one_set J) = (\<lambda>w ns sel. Inr [])" "c_cluster (smp_one_set J) = (\<lambda>cc w. (missing, w))"
  "c_stores (smp_one_set J) = (\<lambda>cc w. (Inr [], w))" "c_tombstones (smp_one_set J) = (\<lambda>cc w. (Inr [], w))"
  by (simp_all add: smp_one_set_def)

end
