(* ===== verification/PD_Settles.thy ===== *)
theory PD_Settles
  imports PD_Properties Sync_Settles
begin

text \<open>
  When the syncs of PD come to rest: after a StatefulSet has been created or updated outside an
  upgrade, a sync that finds nothing to upgrade sends nothing.
\<close>

section \<open>The sync of PD's set\<close>

abbreviation pd_wishes :: "cellcluster \<Rightarrow> cellcluster \<Rightarrow> bool" where
  "pd_wishes \<equiv> same_wishes (\<lambda>c. pd_failures (cc_pd c))"

lemma getNewPDSet_same:
  assumes "pd_wishes cc cc'"
  shows "getNewPDSetForCellCluster E cc' = getNewPDSetForCellCluster E cc"
proof -
  have t: "pd_template E cc' = pd_template E cc"
    using assms by (simp add: pd_template_def pd_container_def pd_volumes_def Let_def same_wishes_def)
  have o: "GetOwnerRef cc' = GetOwnerRef cc" and f: "pd_failure_replicas cc' = pd_failure_replicas cc"
    using assms by (simp_all add: GetOwnerRef_def pd_failure_replicas_def same_wishes_def)
  have c: "cc_meta cc' = cc_meta cc" "cc_spec cc' = cc_spec cc"
    using assms by (simp_all add: same_wishes_def)
  show ?thesis unfolding getNewPDSetForCellCluster_def t o f c by (rule refl)
qed

lemma pd_upgrader_phase:
  assumes "pdUpgrader_Upgrade E cc old new t = (None, cc', new', t')"
  shows "pd_phase (cc_pd cc') = UpgradePhase"
  using assms
  by (auto simp: pdUpgrader_Upgrade_def pd_forceUpgrade_def pd_gracefulUpgrade_def Let_def
      split: sum.splits if_splits prod.splits option.splits)

text \<open>
  A sync of an existing set ends in an update of it at most; where it ends without the phase of an
  upgrade, the upgrader has not run.
\<close>

lemma pd_sync_existing:
  assumes run: "syncPDStatefulSetForCellCluster (traced E) (pdUpgrader_Upgrade (traced E)) cc (w, []) =
      (e, cc', w', acts)"
    and old: "l_set E w (cc_ns cc) (PDMemberName (cc_name cc)) = Inr old"
    and new: "getNewPDSetForCellCluster E cc = Inr new"
  shows "acts = [] \<or>
    (\<exists>v cc1 new'. update_set_if_changed (traced E) cc1 new' old (v, []) = (e, (w', acts)) \<and>
       s_replicas new' = s_replicas new \<and> (pd_phase (cc_pd cc') \<noteq> UpgradePhase \<longrightarrow> new' = new))"
proof -
  obtain es cc1 t1 where st: "pd_syncCellClusterStatus (traced E) cc old (w, []) = (es, cc1, t1)"
    by (metis prod.collapse)
  from traced_pd_status [OF st] have t1: "snd t1 = []" by simp
  let ?c = "\<not> templateEqual (e_codec E) (s_template new) (s_template old) \<or>
    pd_phase (cc_pd cc1) = UpgradePhase"
  obtain eu cc2 new' t2 where up: "(if ?c then pdUpgrader_Upgrade (traced E) cc1 old new t1
      else (None, cc1, new, t1)) = (eu, cc2, new', t2)"
    by (metis prod.collapse)
  note up' = pd_upgrade_step [OF up]
  consider (panic) "case es of Some x \<Rightarrow> is_panic x | None \<Rightarrow> False"
    | (stop) x where "eu = Some x" "\<not> (case es of Some x \<Rightarrow> is_panic x | None \<Rightarrow> False)"
    | (go) "eu = None" "\<not> (case es of Some x \<Rightarrow> is_panic x | None \<Rightarrow> False)"
    by (cases eu) auto
  then show ?thesis
  proof cases
    case panic
    then have "acts = snd t1" using run old new st by (auto simp: syncPDStatefulSetForCellCluster_def)
    with t1 show ?thesis by simp
  next
    case stop
    then have "acts = snd t2" using run old new st up by (auto simp: syncPDStatefulSetForCellCluster_def)
    with t1 up' show ?thesis by simp
  next
    case go
    have cc: "cc' = cc2" using run old new st up go
      by (auto simp: syncPDStatefulSetForCellCluster_def split: option.splits if_splits prod.splits)
    have "new' = new" if "pd_phase (cc_pd cc') \<noteq> UpgradePhase"
    proof -
      have "\<not> ?c" using up go(1) that cc pd_upgrader_phase by (metis (full_types))
      then show ?thesis using up by auto
    qed
    then show ?thesis using run old new st up go t1 up'
      by (cases t1) (auto simp: syncPDStatefulSetForCellCluster_def split: option.splits if_splits prod.splits)
  qed
qed

abbreviation pd_calm :: "cellcluster \<Rightarrow> bool" where
  "pd_calm cc \<equiv> pd_phase (cc_pd cc) \<noteq> UpgradePhase"

lemma pd_sync_creating:
  assumes run: "syncPDStatefulSetForCellCluster (traced E) upgrade cc (w, []) = (e, cc', (w', acts))"
    and missing: "l_set E w (cc_ns cc) (PDMemberName (cc_name cc)) = Inl x"
    and new: "getNewPDSetForCellCluster E cc = Inr new"
  shows "acts = [] \<or> (\<exists>s. SetLastAppliedConfigAnnotation (e_codec E) new = (None, s) \<and> acts = [CreateSet s])"
  using run missing new
  by (auto simp: syncPDStatefulSetForCellCluster_def traced_calls lift_act_def
      split: if_splits prod.splits option.splits)

interpretation pd_sets: set_syncer E "syncPDStatefulSetForCellCluster (traced E) (pdUpgrader_Upgrade (traced E))"
  "getNewPDSetForCellCluster E" PDMemberName pd_calm "\<lambda>c. pd_failures (cc_pd c)" for E
proof
  fix cc cc' w w' e acts old new
  assume run: "syncPDStatefulSetForCellCluster (traced E) (pdUpgrader_Upgrade (traced E)) cc (w, []) = (e, cc', (w', acts))"
    and old: "l_set E w (cc_ns cc) (PDMemberName (cc_name cc)) = Inr old"
    and new: "getNewPDSetForCellCluster E cc = Inr new"
  from pd_sync_existing [OF run old new]
  show "ends_in_update E old new (pd_calm cc') e w' acts"
  proof (elim disjE exE conjE)
    fix v c new'
    assume "update_set_if_changed (traced E) c new' old (v, []) = (e, (w', acts))"
      and "s_replicas new' = s_replicas new" "pd_calm cc' \<longrightarrow> new' = new"
    then show ?thesis by - (rule ends_updated, assumption, auto)
  qed (simp add: ends_nothing)
qed (rule pd_sync_creating getNewPDSet_same, assumption+)+

text \<open>What the sync of PD updates has the wanted replicas: it does not scale.\<close>

lemma pd_update_replicas:
  assumes run: "syncPDStatefulSetForCellCluster (traced E) (pdUpgrader_Upgrade (traced E)) cc (w, []) = (e, cc', (w', acts))"
    and new: "getNewPDSetForCellCluster E cc = Inr new" and sent: "UpdateSet s \<in> set acts"
  shows "s_replicas s = s_replicas new"
proof (cases "l_set E w (cc_ns cc) (PDMemberName (cc_name cc))")
  case (Inl x)
  from pd_sync_creating [OF run Inl new] sent show ?thesis by auto
next
  case (Inr old)
  from pd_sync_existing [OF run Inr new] sent obtain v c new' where
    u: "update_set_if_changed (traced E) c new' old (v, []) = (e, (w', acts))" "s_replicas new' = s_replicas new"
    by auto
  from update_set_trace [OF u(1)] sent u(2) show ?thesis by auto
qed


lemma smp_second_status:
  "s_status s = sset_status0 \<Longrightarrow> \<exists>x c. pd_syncCellClusterStatus (traced (smp_one_set J)) smp_cc s (Some s, []) =
     (Some x, c, (Some s, [])) \<and> \<not> is_panic x \<and> pd_phase (cc_pd c) = NormalPhase"
  by (simp add: pd_syncCellClusterStatus_def Let_def pdStatefulSetIsUpgrading_def statefulSetIsUpgrading_def
      sset_status0_def pd_pull_status_def traced_calls lift_act_def lift_read_def missing_def)


end
