(* ===== verification/Store_Upgrader.thy ===== *)
theory Store_Upgrader
  imports Member_Utils
begin

text \<open>
  \<^verbatim>\<open>pkg/manager/member/store_upgrader.go\<close>: the rolling upgrade of the stores.  Before a
  store's pod is replaced its Raft leaders are evicted through PD, and the pod carries an
  annotation with the time the eviction began; once the pod runs the update revision and
  its store is up again the eviction is ended.
\<close>

section \<open>Definitions\<close>

definition EvictLeaderBeginTime :: string where
  "EvictLeaderBeginTime = ''evictLeaderBeginTime''"

text \<open>Three minutes, in nanoseconds.\<close>

definition EvictLeaderTimeout :: time where
  "EvictLeaderTimeout = 3 * 60 * 1000000000"

text \<open>\<open>for _, store := range cc.Status.Store.Stores { if store.PodName == podName ... }\<close>.\<close>

definition store_of_pod :: "string \<Rightarrow> (string, kv_store) gomap \<Rightarrow> kv_store option" where
  "store_of_pod podName stores =
     (case find (\<lambda>(_, store). kv_pod_name store = podName) stores of
        None \<Rightarrow> None | Some (_, store) \<Rightarrow> Some store)"

definition getStoreByOrdinal :: "cellcluster \<Rightarrow> int \<Rightarrow> kv_store option" where
  "getStoreByOrdinal cc ordinal =
     store_of_pod (storePodName (cc_name cc) ordinal) (sto_stores (cc_store cc))"

definition readyToUpgrade :: "'w env \<Rightarrow> pod \<Rightarrow> kv_store \<Rightarrow> 'w \<Rightarrow> bool" where
  "readyToUpgrade E upgradePod store w =
     (if kv_leader_count store = 0 then True
      else (case mget (p_ann upgradePod) EvictLeaderBeginTime of
              None \<Rightarrow> False
            | Some evictLeaderBeginTimeStr \<Rightarrow>
                (case e_parse E evictLeaderBeginTimeStr of
                   None \<Rightarrow> False
                 | Some evictLeaderBeginTime \<Rightarrow>
                     if e_now E w > evictLeaderBeginTime + EvictLeaderTimeout then True else False)))"

text \<open>The annotation is written to the cached pod, then the pod is sent.\<close>

definition beginEvictLeader :: "'w env \<Rightarrow> cellcluster \<Rightarrow> nat \<Rightarrow> pod \<Rightarrow> 'w \<Rightarrow> goerr option \<times> 'w" where
  "beginEvictLeader E cc storeID pod w =
     (case c_begin_evict E cc storeID w of
        (Some e, w1) \<Rightarrow> (Some e, w1)
      | (None, w1) \<Rightarrow>
          let pod' = set_p_ann (mput EvictLeaderBeginTime (e_fmt E (e_now E w1)) (p_ann pod)) pod
          in k_update_pod E cc pod' (t_pod E pod' w1))"

definition endEvictLeader :: "'w env \<Rightarrow> cellcluster \<Rightarrow> int \<Rightarrow> 'w \<Rightarrow> goerr option \<times> 'w" where
  "endEvictLeader E cc ordinal w =
     (case getStoreByOrdinal cc ordinal of
        None \<Rightarrow> (Some (PanicError ''nil store''), w)
      | Some store \<Rightarrow>
          (case parse_uint (kv_id store) of
             Inl e \<Rightarrow> (Some e, w)
           | Inr storeID \<Rightarrow>
               (case l_pod E w (cc_ns cc) (storePodName (cc_name cc) ordinal) of
                  Inl e \<Rightarrow> (Some e, w)
                | Inr upgradedPod \<Rightarrow>
                    (if mget (p_ann upgradedPod) EvictLeaderBeginTime \<noteq> None then
                       let pod' = set_p_ann (mdel EvictLeaderBeginTime (p_ann upgradedPod)) upgradedPod
                       in (case k_update_pod E cc pod' (t_pod E pod' w) of
                             (Some e, w1) \<Rightarrow> (Some e, w1)
                           | (None, w1) \<Rightarrow> c_end_evict E cc storeID w1)
                     else c_end_evict E cc storeID w))))"

definition upgradeStorePod ::
  "'w env \<Rightarrow> cellcluster \<Rightarrow> int \<Rightarrow> sset \<times> 'w \<Rightarrow> goerr option \<times> sset \<times> 'w" where
  "upgradeStorePod E cc ordinal s =
     (case s of (newSet, w) \<Rightarrow>
        let upgradePodName = storePodName (cc_name cc) ordinal
        in case l_pod E w (cc_ns cc) upgradePodName of
             Inl e \<Rightarrow> (Some e, newSet, w)
           | Inr upgradePod \<Rightarrow>
               (case store_of_pod upgradePodName (sto_stores (cc_store cc)) of
                  None \<Rightarrow> (Some (RequeueErrorf (''no store status found for '' @ upgradePodName)), newSet, w)
                | Some store \<Rightarrow>
                    (case parse_uint (kv_id store) of
                       Inl e \<Rightarrow> (Some e, newSet, w)
                     | Inr storeID \<Rightarrow>
                         if readyToUpgrade E upgradePod store w
                         then (None, setUpgradePartition ordinal newSet, w)
                         else if mget (p_ann upgradePod) EvictLeaderBeginTime = None then
                           (case beginEvictLeader E cc storeID upgradePod w of (e, w1) \<Rightarrow> (e, newSet, w1))
                         else (Some (RequeueErrorf (upgradePodName @ '' is evicting leader'')), newSet, w))))"

text \<open>The body of the loop for one ordinal.\<close>

definition store_verdict ::
  "'w env \<Rightarrow> cellcluster \<Rightarrow> sset_status \<Rightarrow> int \<Rightarrow> sset \<times> 'w \<Rightarrow> (sset \<times> 'w) verdict" where
  "store_verdict E cc st i s =
     (case s of (newSet, w) \<Rightarrow>
        (case getStoreByOrdinal cc i of
           None \<Rightarrow> Pass (newSet, w)
         | Some store \<Rightarrow>
             let podName = storePodName (cc_name cc) i
             in (case l_pod E w (cc_ns cc) podName of
                   Inl e \<Rightarrow> Stop e (newSet, w)
                 | Inr pod \<Rightarrow>
                     (case mget (p_labels pod) ControllerRevisionHashLabelKey of
                        None \<Rightarrow> Stop (RequeueErrorf (podName @ '' has no label'')) (newSet, w)
                      | Some revision \<Rightarrow>
                          if revision = st_update_revision st then
                            if p_phase pod \<noteq> ''Running''
                            then Stop (RequeueErrorf (podName @ '' is not running'')) (newSet, w)
                            else if kv_state store \<noteq> StoreStateUp
                            then Stop (RequeueErrorf (podName @ '' is not all ready'')) (newSet, w)
                            else (case endEvictLeader E cc i w of
                                    (Some e, w1) \<Rightarrow> Stop e (newSet, w1)
                                  | (None, w1) \<Rightarrow> Pass (newSet, w1))
                          else Act (newSet, w)))))"

fun store_upgrade_loop ::
  "'w env \<Rightarrow> cellcluster \<Rightarrow> sset_status \<Rightarrow> nat \<Rightarrow> sset \<times> 'w \<Rightarrow> goerr option \<times> sset \<times> 'w" where
  "store_upgrade_loop E cc st 0 s = (None, s)"
| "store_upgrade_loop E cc st (Suc i) s =
     (case store_verdict E cc st (int i) s of
        Stop e t \<Rightarrow> (Some e, t)
      | Pass t \<Rightarrow> store_upgrade_loop E cc st i t
      | Act t \<Rightarrow> upgradeStorePod E cc (int i) t)"

definition storeUpgrader_Upgrade :: "'w env \<Rightarrow> 'w upgrader" where
  "storeUpgrader_Upgrade E cc oldSet newSet w =
     (if pd_phase (cc_pd cc) = UpgradePhase then
        (case GetLastAppliedConfig (e_codec E) oldSet of
           Inl e \<Rightarrow> (Some e, cc, newSet, w)
         | Inr (_, podSpec) \<Rightarrow>
             (None, cc, set_s_template ((s_template newSet)\<lparr>t_spec := podSpec\<rparr>) newSet, w))
      else if \<not> sto_synced (cc_store cc) then
        (Some (OtherError ''store status sync failed, can not to be upgraded''), cc, newSet, w)
      else
        let cc1 = upd_store (\<lambda>s. s\<lparr>sto_phase := UpgradePhase\<rparr>) cc
        in if \<not> templateEqual (e_codec E) (s_template newSet) (s_template oldSet)
           then (None, cc1, newSet, w)
           else (case us_rolling (s_strategy oldSet) of
                   Some (Some part) \<Rightarrow>
                     let new1 = setUpgradePartition part newSet
                     in (case sto_set (cc_store cc1) of
                           None \<Rightarrow> (Some (PanicError ''nil StatefulSet''), cc1, new1, w)
                         | Some st \<Rightarrow>
                             (case store_upgrade_loop E cc1 st (nat (st_replicas st)) (new1, w) of
                                (e, new2, w1) \<Rightarrow> (e, cc1, new2, w1)))
                 | _ \<Rightarrow> (Some (PanicError ''nil Partition''), cc1, newSet, w)))"

definition fakeStoreUpgrader_Upgrade :: "'w upgrader" where
  "fakeStoreUpgrader_Upgrade cc oldSet newSet w =
     (None, upd_store (\<lambda>s. s\<lparr>sto_phase := UpgradePhase\<rparr>) cc, newSet, w)"

section \<open>The loop\<close>

interpretation store_roll:
  rolling_loop "store_verdict E cc st" "upgradeStorePod E cc" "store_upgrade_loop E cc st"
  for E cc st
  by unfold_locales simp_all

text \<open>
  Pod \<open>i\<close>, looked at in \<open>w\<close>, runs the update revision, its store is up, and its eviction has
  been ended; \<open>w'\<close> is the world after that.
\<close>

definition store_pod_done ::
  "'w env \<Rightarrow> cellcluster \<Rightarrow> sset_status \<Rightarrow> int \<Rightarrow> 'w \<Rightarrow> 'w \<Rightarrow> bool" where
  "store_pod_done E cc st i w w' \<longleftrightarrow>
     (\<exists>store pod. getStoreByOrdinal cc i = Some store \<and> kv_state store = StoreStateUp \<and>
        l_pod E w (cc_ns cc) (storePodName (cc_name cc) i) = Inr pod \<and>
        mget (p_labels pod) ControllerRevisionHashLabelKey = Some (st_update_revision st) \<and>
        p_phase pod = ''Running'' \<and> endEvictLeader E cc i w = (None, w'))"

definition store_pod_outdated :: "'w env \<Rightarrow> cellcluster \<Rightarrow> sset_status \<Rightarrow> int \<Rightarrow> 'w \<Rightarrow> bool" where
  "store_pod_outdated E cc st i w \<longleftrightarrow>
     (\<exists>pod r. l_pod E w (cc_ns cc) (storePodName (cc_name cc) i) = Inr pod \<and>
        mget (p_labels pod) ControllerRevisionHashLabelKey = Some r \<and> r \<noteq> st_update_revision st)"

lemma store_verdict_Pass:
  "store_verdict E cc st i (s, w) = Pass t \<longleftrightarrow>
     (getStoreByOrdinal cc i = None \<and> t = (s, w)) \<or>
     (\<exists>w'. store_pod_done E cc st i w w' \<and> t = (s, w'))"
  by (auto simp: store_verdict_def store_pod_done_def Let_def
      split: option.splits sum.splits if_splits prod.splits)

lemma store_verdict_Act:
  "store_verdict E cc st i (s, w) = Act t \<longleftrightarrow>
     t = (s, w) \<and> getStoreByOrdinal cc i \<noteq> None \<and> store_pod_outdated E cc st i w"
  by (auto simp: store_verdict_def store_pod_outdated_def Let_def
      split: option.splits sum.splits if_splits prod.splits)

lemma store_verdict_Stop: "store_verdict E cc st i (s, w) = Stop e t \<Longrightarrow> fst t = s"
  by (auto simp: store_verdict_def Let_def split: option.splits sum.splits if_splits prod.splits)

lemma store_passes_set:
  assumes "passes (store_verdict E cc st) n s j t"
  shows "fst t = fst s"
proof -
  have "fst y = fst s" if "store_verdict E cc st i x = Pass y" and "fst x = fst s" for i x y
    using that by (cases x) (auto simp: store_verdict_Pass)
  then show ?thesis using passes_inv [OF assms, of "\<lambda>x. fst x = fst s"] by blast
qed

lemma store_passes_done:
  assumes "passes (store_verdict E cc st) n s k t" and "k \<le> j" and "j < n"
  shows "getStoreByOrdinal cc (int j) = None \<or> (\<exists>w w'. store_pod_done E cc st (int j) w w')"
proof -
  obtain x y where "store_verdict E cc st (int j) x = Pass y" using passes_each [OF assms] by blast
  then show ?thesis by (cases x) (auto simp: store_verdict_Pass)
qed

section \<open>Replacing one pod\<close>

text \<open>A pod may be replaced: no leaders, or its eviction began more than the timeout ago.\<close>

definition store_drained :: "'w env \<Rightarrow> cellcluster \<Rightarrow> int \<Rightarrow> 'w \<Rightarrow> bool" where
  "store_drained E cc i w \<longleftrightarrow>
     (\<exists>store pod. getStoreByOrdinal cc i = Some store \<and>
        l_pod E w (cc_ns cc) (storePodName (cc_name cc) i) = Inr pod \<and>
        (kv_leader_count store = 0 \<or>
         (\<exists>b t. mget (p_ann pod) EvictLeaderBeginTime = Some b \<and> e_parse E b = Some t \<and>
            t + EvictLeaderTimeout < e_now E w)))"

lemma readyToUpgrade_iff:
  "readyToUpgrade E pod store w \<longleftrightarrow>
     kv_leader_count store = 0 \<or>
     (\<exists>b t. mget (p_ann pod) EvictLeaderBeginTime = Some b \<and> e_parse E b = Some t \<and>
        t + EvictLeaderTimeout < e_now E w)"
  by (auto simp: readyToUpgrade_def split: option.splits)

lemma upgradeStorePod_cases:
  assumes "upgradeStorePod E cc i (s, w) = (e, s', w')"
  shows "(e = None \<and> s' = setUpgradePartition i s \<and> w' = w \<and> store_drained E cc i w) \<or>
    (s' = s \<and> (\<exists>store pod n. getStoreByOrdinal cc i = Some store \<and> kv_leader_count store \<noteq> 0 \<and>
       l_pod E w (cc_ns cc) (storePodName (cc_name cc) i) = Inr pod \<and>
       mget (p_ann pod) EvictLeaderBeginTime = None \<and> parse_uint (kv_id store) = Inr n \<and>
       beginEvictLeader E cc n pod w = (e, w'))) \<or>
    (e \<noteq> None \<and> s' = s \<and> w' = w)"
  using assms
  by (auto simp: upgradeStorePod_def Let_def store_drained_def readyToUpgrade_iff getStoreByOrdinal_def
      split: sum.splits option.splits if_splits prod.splits)

lemma upgradeStorePod_frame:
  "upgradeStorePod E cc i (s, w) = (e, s', w') \<Longrightarrow> s' = s \<or> s' = setUpgradePartition i s"
  by (drule upgradeStorePod_cases) auto

lemma store_loop_spec:
  assumes "store_upgrade_loop E cc st n (s, w) = (e, s', w')" and "s' \<noteq> s"
  shows "\<exists>i < n. \<exists>v. e = None \<and> s' = setUpgradePartition (int i) s \<and> w' = v \<and>
    store_pod_outdated E cc st (int i) v \<and> store_drained E cc (int i) v \<and>
    (\<forall>j. i < j \<longrightarrow> j < n \<longrightarrow>
       getStoreByOrdinal cc (int j) = None \<or> (\<exists>u u'. store_pod_done E cc st (int j) u u'))"
  using assms(1)
proof (cases rule: store_roll.loop_outcome)
  case finished
  then show ?thesis using store_passes_set assms(2) by fastforce
next
  case (stopped i t e')
  then have "s' = s"
    using store_passes_set [OF stopped(2)] store_verdict_Stop [of E cc st "int i" "fst t" "snd t"]
    by fastforce
  with assms(2) show ?thesis by simp
next
  case (acted i t v)
  obtain u where t: "t = (s, u)" using store_passes_set [OF acted(2)] by (cases t) simp
  with acted(3) have v: "v = (s, u)" and o: "store_pod_outdated E cc st (int i) u"
    by (auto simp: store_verdict_Act)
  from acted(4) v assms(2)
  have "e = None" "s' = setUpgradePartition (int i) s" "w' = u" "store_drained E cc (int i) u"
    by (auto dest: upgradeStorePod_cases)
  with o acted(1) store_passes_done [OF acted(2)] show ?thesis
    by (auto simp: Suc_le_eq)
qed

section \<open>Frame of the upgrader\<close>

lemma store_loop_frame:
  assumes "store_upgrade_loop E cc st n (s, w) = (e, s', w')"
  shows "s_replicas s' = s_replicas s \<and> s_meta s' = s_meta s \<and> s_template s' = s_template s \<and>
    us_type (s_strategy s') = us_type (s_strategy s)"
  using store_loop_spec [OF assms] by (cases "s' = s") auto

lemma set_s_template_simps [simp]:
  "s_replicas (set_s_template t s) = s_replicas s" "s_template (set_s_template t s) = t"
  "s_strategy (set_s_template t s) = s_strategy s" "s_meta (set_s_template t s) = s_meta s"
  "s_status (set_s_template t s) = s_status s"
  by (simp_all add: set_s_template_def)

lemma storeUpgrader_frame:
  assumes "storeUpgrader_Upgrade E cc old new w = (e, cc', new', w')"
  shows "s_replicas new' = s_replicas new \<and> s_meta new' = s_meta new \<and>
    us_type (s_strategy new') = us_type (s_strategy new) \<and>
    cc' \<in> {cc, upd_store (\<lambda>s. s\<lparr>sto_phase := UpgradePhase\<rparr>) cc}"
  using assms
  by (auto simp: storeUpgrader_Upgrade_def Let_def split: if_splits option.splits prod.splits sum.splits
      dest!: store_loop_frame)

interpretation store_up: set_upgrader "storeUpgrader_Upgrade E" for E
  by unfold_locales (auto dest: storeUpgrader_frame)

interpretation fake_store_up: set_upgrader fakeStoreUpgrader_Upgrade
  by unfold_locales (auto simp: fakeStoreUpgrader_Upgrade_def)

end
