(* ===== verification/Store_Scaler.thy ===== *)
theory Store_Scaler
  imports Store_Upgrader
begin

text \<open>
  \<^verbatim>\<open>pkg/manager/member/scaler.go\<close>, \<^verbatim>\<open>store_scaler.go\<close> and \<^verbatim>\<open>store_failover.go\<close>: adding and
  removing one store at a time, and recording the stores that have been down for too long.
\<close>

type_synonym 'w scaler = "cellcluster \<Rightarrow> sset \<Rightarrow> sset \<Rightarrow> 'w \<Rightarrow> goerr option \<times> sset \<times> 'w"

section \<open>scaler.go\<close>

definition skipReasonScalerPVCNotFound :: string where
  "skipReasonScalerPVCNotFound = ''scaler: pvc is not found''"
definition skipReasonScalerAnnIsNil :: string where
  "skipReasonScalerAnnIsNil = ''scaler: pvc annotations is nil''"
definition skipReasonScalerAnnDeferDeletingIsEmpty :: string where
  "skipReasonScalerAnnDeferDeletingIsEmpty = ''scaler: pvc annotations defer deleting is empty''"

definition deleteDeferDeletingPVC ::
  "'w env \<Rightarrow> cellcluster \<Rightarrow> string \<Rightarrow> string \<Rightarrow> int \<Rightarrow> 'w \<Rightarrow> (int, string) gomap \<times> goerr option \<times> 'w"
where
  "deleteDeferDeletingPVC E cc setName memberType ordinal w =
     (case l_pvc E w (cc_ns cc) (ordinalPVCName memberType setName ordinal) of
        Inl e \<Rightarrow> if is_not_found e then ([(ordinal, skipReasonScalerPVCNotFound)], None, w)
                else ([], Some e, w)
      | Inr pvc \<Rightarrow>
          if m_ann (pvc_meta pvc) = None then ([(ordinal, skipReasonScalerAnnIsNil)], None, w)
          else if mget (m_ann (pvc_meta pvc)) AnnPVCDeferDeleting = None
          then ([(ordinal, skipReasonScalerAnnDeferDeletingIsEmpty)], None, w)
          else (case k_delete_pvc E cc pvc w of (e, w1) \<Rightarrow> ([], e, w1)))"

section \<open>store_scaler.go\<close>

text \<open>A return after one of the replica assignments.\<close>

definition replicas_then :: "goerr + sset \<Rightarrow> goerr option \<Rightarrow> sset \<Rightarrow> 'w \<Rightarrow> goerr option \<times> sset \<times> 'w" where
  "replicas_then r err newSet w =
     (case r of Inl panic \<Rightarrow> (Some panic, newSet, w) | Inr s \<Rightarrow> (err, s, w))"

definition storeScaler_ScaleOut :: "'w env \<Rightarrow> 'w scaler" where
  "storeScaler_ScaleOut E cc oldSet newSet w =
     (if StoreUpgrading cc then replicas_then (resetReplicas newSet oldSet) None newSet w
      else (case s_replicas oldSet of
              None \<Rightarrow> (Some (PanicError ''nil Replicas''), newSet, w)
            | Some r \<Rightarrow>
                (case deleteDeferDeletingPVC E cc (s_name oldSet) StoreMemberType r w of
                   (_, Some e, w1) \<Rightarrow> replicas_then (resetReplicas newSet oldSet) (Some e) newSet w1
                 | (_, None, w1) \<Rightarrow> replicas_then (increaseReplicas newSet oldSet) None newSet w1)))"

text \<open>The branch of \<open>ScaleIn\<close> for a store that PD still lists.\<close>

definition scale_in_listed ::
  "'w env \<Rightarrow> cellcluster \<Rightarrow> sset \<Rightarrow> sset \<Rightarrow> kv_store \<Rightarrow> 'w \<Rightarrow> goerr option \<times> sset \<times> 'w" where
  "scale_in_listed E cc oldSet newSet store w =
     (case parse_uint (kv_id store) of
        Inl e \<Rightarrow> replicas_then (resetReplicas newSet oldSet) (Some e) newSet w
      | Inr i \<Rightarrow>
          (case (if kv_state store \<noteq> StoreStateOffline then c_delete_store E cc i w else (None, w)) of
             (Some e, w1) \<Rightarrow> replicas_then (resetReplicas newSet oldSet) (Some e) newSet w1
           | (None, w1) \<Rightarrow>
               replicas_then (resetReplicas newSet oldSet)
                 (Some (RequeueErrorf (''Store '' @ kv_id store @ ''  still in cluster, state: '' @ kv_state store)))
                 newSet w1))"

text \<open>The branch for a tombstone store: its claim is marked, then the replicas go down.\<close>

definition scale_in_tombstone ::
  "'w env \<Rightarrow> cellcluster \<Rightarrow> sset \<Rightarrow> sset \<Rightarrow> int \<Rightarrow> kv_store \<Rightarrow> 'w \<Rightarrow> goerr option \<times> sset \<times> 'w" where
  "scale_in_tombstone E cc oldSet newSet ordinal store w =
     (case parse_uint (kv_id store) of
        Inl e \<Rightarrow> replicas_then (resetReplicas newSet oldSet) (Some e) newSet w
      | Inr _ \<Rightarrow>
          (case l_pvc E w (cc_ns cc) (ordinalPVCName StoreMemberType (s_name oldSet) ordinal) of
             Inl e \<Rightarrow> replicas_then (resetReplicas newSet oldSet) (Some e) newSet w
           | Inr pvc \<Rightarrow>
               let pvc' = pvc\<lparr>pvc_meta := (pvc_meta pvc)\<lparr>m_ann :=
                            mput AnnPVCDeferDeleting (e_fmt E (e_now E w)) (m_ann (pvc_meta pvc))\<rparr>\<rparr>
               in (case k_update_pvc E cc pvc' (t_pvc E pvc' w) of
                     (Some e, w1) \<Rightarrow> replicas_then (resetReplicas newSet oldSet) (Some e) newSet w1
                   | (None, w1) \<Rightarrow> replicas_then (decreaseReplicas newSet oldSet) None newSet w1)))"

definition storeScaler_ScaleIn :: "'w env \<Rightarrow> 'w scaler" where
  "storeScaler_ScaleIn E cc oldSet newSet w =
     (case s_replicas oldSet of
        None \<Rightarrow> (Some (PanicError ''nil Replicas''), newSet, w)
      | Some r \<Rightarrow>
          let ordinal = wrap32 (r - 1); podName = ordinalPodName StoreMemberType (cc_name cc) ordinal
          in if StoreUpgrading cc then replicas_then (resetReplicas newSet oldSet) None newSet w
             else (case l_pod E w (cc_ns cc) podName of
                     Inl e \<Rightarrow> replicas_then (resetReplicas newSet oldSet) (Some e) newSet w
                   | Inr pod \<Rightarrow>
                       (case store_of_pod podName (sto_stores (cc_store cc)) of
                          Some store \<Rightarrow> scale_in_listed E cc oldSet newSet store w
                        | None \<Rightarrow>
                            (case find (\<lambda>(i, store). kv_pod_name store = podName \<and>
                                     mval (p_labels pod) StoreIDLabelKey = i)
                                   (sto_tombstones (cc_store cc)) of
                               Some (_, store) \<Rightarrow> scale_in_tombstone E cc oldSet newSet ordinal store w
                             | None \<Rightarrow>
                                 replicas_then (resetReplicas newSet oldSet)
                                   (Some (OtherError (''Store '' @ podName @ '' not found in cluster'')))
                                   newSet w))))"

definition fakeStoreScaler_ScaleOut :: "'w scaler" where
  "fakeStoreScaler_ScaleOut cc oldSet newSet w =
     replicas_then (increaseReplicas newSet oldSet) None newSet w"

definition fakeStoreScaler_ScaleIn :: "'w scaler" where
  "fakeStoreScaler_ScaleIn cc oldSet newSet w =
     replicas_then (decreaseReplicas newSet oldSet) None newSet w"

section \<open>store_failover.go\<close>

text \<open>The loop over the stores; the failure map grows while it runs.\<close>

fun failover_loop ::
  "'w env \<Rightarrow> int \<Rightarrow> 'w \<Rightarrow> (string, kv_store) gomap \<Rightarrow> (string, kv_failure_store) gomap \<Rightarrow>
    (string, kv_failure_store) gomap" where
  "failover_loop E maxDown w [] failures = failures"
| "failover_loop E maxDown w ((storeID, store) # stores) failures =
     (case kv_transition store of
        None \<Rightarrow> failover_loop E maxDown w stores failures
      | Some transition \<Rightarrow>
          let deadline = transition + maxDown;
              exist = list_ex (\<lambda>(_, f). kf_pod_name f = kv_pod_name store) failures
          in if kv_state store = StoreStateDown \<and> e_now E w > deadline \<and> \<not> exist
             then failover_loop E maxDown w stores
                    (gput storeID \<lparr>kf_pod_name = kv_pod_name store, kf_store_id = kv_id store\<rparr> failures)
             else failover_loop E maxDown w stores failures)"

definition storeFailover_Failover :: "'w env \<Rightarrow> cellcluster \<Rightarrow> 'w \<Rightarrow> goerr option \<times> cellcluster \<times> 'w" where
  "storeFailover_Failover E cc w =
     (case c_config E cc w of
        (Inl e, w1) \<Rightarrow> (Some e, cc, w1)
      | (Inr maxStoreDownTimeDuration, w1) \<Rightarrow>
          (None,
           upd_store (\<lambda>s. s\<lparr>sto_failures :=
             failover_loop E maxStoreDownTimeDuration w1 (sto_stores s) (sto_failures s)\<rparr>) cc, w1))"

definition storeFailover_Recover :: "cellcluster \<Rightarrow> cellcluster" where
  "storeFailover_Recover cc = cc"

definition fakeStoreFailover_Failover :: "cellcluster \<Rightarrow> 'w \<Rightarrow> goerr option \<times> cellcluster \<times> 'w" where
  "fakeStoreFailover_Failover cc w = (None, cc, w)"

section \<open>The contract of a scaler\<close>

text \<open>
  One call moves the replicas of the new set to at most one away from those of the old set,
  stays put on an error, and changes nothing else of the set.
\<close>

locale set_scaler =
  fixes scale :: "'w scaler" and step :: int
  assumes scale_replicas:
    "scale cc old new w = (e, new', w') \<Longrightarrow> s_replicas old = Some r \<Longrightarrow> s_replicas new = Some n \<Longrightarrow>
       \<exists>n'. s_replicas new' = Some n' \<and> (n' = r \<or> (e = None \<and> n' = wrap32 (r + step)))"
    and scale_frame:
    "scale cc old new w = (e, new', w') \<Longrightarrow>
       s_template new' = s_template new \<and> s_strategy new' = s_strategy new \<and> s_meta new' = s_meta new"
begin

lemma scale_error_keeps:
  "scale cc old new w = (Some x, new', w') \<Longrightarrow> s_replicas old = Some r \<Longrightarrow> s_replicas new = Some n \<Longrightarrow>
     s_replicas new' = Some r"
  using scale_replicas [of cc old new w "Some x" new' w' r n] by auto

end

lemma reset_some:
  "s_replicas old = Some r \<Longrightarrow> s_replicas new = Some n \<Longrightarrow>
     resetReplicas new old = Inr (set_s_replicas r new) \<and>
     increaseReplicas new old = Inr (set_s_replicas (wrap32 (r + 1)) new) \<and>
     decreaseReplicas new old = Inr (set_s_replicas (wrap32 (r - 1)) new)"
  by (simp add: resetReplicas_def increaseReplicas_def decreaseReplicas_def assign_replicas_def)

lemma replicas_then_frame:
  "replicas_then (resetReplicas new old) e new w = (e', new', w') \<Longrightarrow>
     s_template new' = s_template new \<and> s_strategy new' = s_strategy new \<and> s_meta new' = s_meta new"
  "replicas_then (increaseReplicas new old) e new w = (e', new', w') \<Longrightarrow>
     s_template new' = s_template new \<and> s_strategy new' = s_strategy new \<and> s_meta new' = s_meta new"
  "replicas_then (decreaseReplicas new old) e new w = (e', new', w') \<Longrightarrow>
     s_template new' = s_template new \<and> s_strategy new' = s_strategy new \<and> s_meta new' = s_meta new"
  by (auto simp: replicas_then_def increaseReplicas_def decreaseReplicas_def split: sum.splits
      dest!: resetReplicas_Inr assign_replicas_Inr)

interpretation store_scale_out: set_scaler "storeScaler_ScaleOut E" 1 for E
proof (unfold_locales, goal_cases)
  case (1 cc old new w e new' w' r n)
  then show ?case
    using reset_some [OF 1(2,3)]
    by (auto simp: storeScaler_ScaleOut_def replicas_then_def split: if_splits prod.splits option.splits)
next
  case (2 cc old new w e new' w')
  then show ?case
    by (auto simp: storeScaler_ScaleOut_def split: if_splits prod.splits option.splits
        dest: replicas_then_frame)
qed

lemma scale_in_listed_outcome:
  assumes "scale_in_listed E cc old new store w = (e, new', w')"
    and "s_replicas old = Some r" and "s_replicas new = Some n"
  shows "e \<noteq> None \<and> new' = set_s_replicas r new"
  using assms(1) reset_some [OF assms(2,3)]
  by (auto simp: scale_in_listed_def replicas_then_def split: sum.splits prod.splits option.splits if_splits)

lemma scale_in_tombstone_outcome:
  assumes "scale_in_tombstone E cc old new i store w = (e, new', w')"
    and "s_replicas old = Some r" and "s_replicas new = Some n"
  shows "(e \<noteq> None \<and> new' = set_s_replicas r new) \<or>
    (e = None \<and> new' = set_s_replicas (wrap32 (r - 1)) new)"
  using assms(1) reset_some [OF assms(2,3)]
  by (auto simp: scale_in_tombstone_def Let_def replicas_then_def
      split: sum.splits prod.splits option.splits if_splits)

lemma ScaleIn_outcome:
  assumes "storeScaler_ScaleIn E cc old new w = (e, new', w')"
    and "s_replicas old = Some r" and "s_replicas new = Some n"
  shows "new' = set_s_replicas r new \<or> (e = None \<and> new' = set_s_replicas (wrap32 (r - 1)) new)"
  using assms(1) reset_some [OF assms(2,3)]
  by (auto simp: storeScaler_ScaleIn_def assms(2) Let_def replicas_then_def
      split: sum.splits prod.splits option.splits if_splits
      dest!: scale_in_listed_outcome [OF _ assms(2,3)] scale_in_tombstone_outcome [OF _ assms(2,3)])

lemma ScaleIn_frame:
  assumes "storeScaler_ScaleIn E cc old new w = (e, new', w')"
  shows "s_template new' = s_template new \<and> s_strategy new' = s_strategy new \<and> s_meta new' = s_meta new"
  using assms
  by (auto simp: storeScaler_ScaleIn_def Let_def scale_in_listed_def scale_in_tombstone_def
      split: sum.splits prod.splits option.splits if_splits dest: replicas_then_frame)

interpretation store_scale_in: set_scaler "storeScaler_ScaleIn E" "-1" for E
  by unfold_locales (auto dest: ScaleIn_outcome ScaleIn_frame)

lemma fake_scale_frame:
  "fakeStoreScaler_ScaleOut cc old new w = (e, new', w') \<Longrightarrow>
     s_template new' = s_template new \<and> s_strategy new' = s_strategy new \<and> s_meta new' = s_meta new"
  "fakeStoreScaler_ScaleIn cc old new w = (e, new', w') \<Longrightarrow>
     s_template new' = s_template new \<and> s_strategy new' = s_strategy new \<and> s_meta new' = s_meta new"
  by (auto simp: fakeStoreScaler_ScaleOut_def fakeStoreScaler_ScaleIn_def dest: replicas_then_frame)

lemma fake_scale_replicas:
  assumes "s_replicas old = Some r" and "s_replicas new = Some n"
  shows "fakeStoreScaler_ScaleOut cc old new w = (None, set_s_replicas (wrap32 (r + 1)) new, w)"
    "fakeStoreScaler_ScaleIn cc old new w = (None, set_s_replicas (wrap32 (r - 1)) new, w)"
  using reset_some [OF assms]
  by (simp_all add: fakeStoreScaler_ScaleOut_def fakeStoreScaler_ScaleIn_def replicas_then_def)

interpretation fake_scale_out: set_scaler fakeStoreScaler_ScaleOut 1
  by unfold_locales (auto simp: fake_scale_replicas dest: fake_scale_frame)

interpretation fake_scale_in: set_scaler fakeStoreScaler_ScaleIn "-1"
  by unfold_locales (auto simp: fake_scale_replicas dest: fake_scale_frame)

end
