(* ===== verification/Store_Member.thy ===== *)
theory Store_Member
  imports Store_Scaler Member_Common
begin

text \<open>
  \<^verbatim>\<open>pkg/manager/member/store_member_manager.go\<close>: the headless service and the StatefulSet of
  the stores, the status copied from PD, and the labels PD keeps for each store.
\<close>

section \<open>The objects the manager wants\<close>

definition labelStore :: "cellcluster \<Rightarrow> label" where
  "labelStore cc =
     label_Store (label_Instance (mval (m_labels (cc_meta cc)) InstanceLabelKey) label_New)"

definition getNewStoreHeadlessServiceForCellCluster :: "cellcluster \<Rightarrow> service" where
  "getNewStoreHeadlessServiceForCellCluster cc =
     (let instanceName = mval (m_labels (cc_meta cc)) InstanceLabelKey;
          storeLabel = label_Labels (label_Store (label_Instance instanceName label_New))
      in \<lparr>svc_meta = meta0\<lparr>m_name := StorePeerName (cc_name cc), m_ns := cc_ns cc,
             m_labels := storeLabel, m_owners := [GetOwnerRef cc]\<rparr>,
          svc_spec = \<lparr>sv_type = [],
             sv_ports = [\<lparr>sp_name = ''cell-peer'', sp_port = 10800, sp_target_port = 10800,
                          sp_protocol = ''TCP''\<rparr>,
                         \<lparr>sp_name = ''cell-cli'', sp_port = 6370, sp_target_port = 6370,
                          sp_protocol = ''TCP''\<rparr>],
             sv_selector = storeLabel, sv_cluster_ip = ''None''\<rparr>\<rparr>)"

definition store_volume_mounts :: "volume_mount list" where
  "store_volume_mounts =
     [fst annotationsMountVolume,
      \<lparr>vm_name = StoreMemberType, vm_readonly = False, vm_path = ''/var/lib/store''\<rparr>,
      \<lparr>vm_name = ''config'', vm_readonly = True, vm_path = ''/etc/store''\<rparr>,
      \<lparr>vm_name = ''startup-script'', vm_readonly = True, vm_path = ''/usr/local/bin/startup''\<rparr>]"

definition store_volumes :: "cellcluster \<Rightarrow> volume list" where
  "store_volumes cc =
     (let storeConfigMap = StoreMemberName (cc_name cc)
      in [snd annotationsMountVolume,
          \<lparr>v_name = ''config'',
           v_source = ConfigMapVolume storeConfigMap [(''config-file'', ''store.toml'')]\<rparr>,
          \<lparr>v_name = ''startup-script'',
           v_source = ConfigMapVolume storeConfigMap [(''startup-script'', ''store_start_script.sh'')]\<rparr>])"

definition store_container :: "'w env \<Rightarrow> cellcluster \<Rightarrow> container" where
  "store_container E cc =
     \<lparr>c_name = StoreMemberType,
      c_image = k_image (ms_container (spec_store (cc_spec cc))),
      c_command = [''/bin/sh'', ''/usr/local/bin/startup/store_start_script.sh''],
      c_pull_policy = k_pull_policy (ms_container (spec_store (cc_spec cc))),
      c_ports = [\<lparr>cp_name = ''store-server'', cp_port = 10800, cp_protocol = ''TCP''\<rparr>,
                 \<lparr>cp_name = ''redis-cli'', cp_port = 6370, cp_protocol = ''TCP''\<rparr>],
      c_mounts = store_volume_mounts,
      c_resources = ResourceRequirement (e_q E) (ms_container (spec_store (cc_spec cc))) [],
      c_env = [\<lparr>ev_name = ''NAMESPACE'', ev_value = EnvFieldRef ''metadata.namespace''\<rparr>,
               \<lparr>ev_name = ''PEER_SERVICE_NAME'', ev_value = EnvLiteral (StorePeerName (cc_name cc))\<rparr>,
               \<lparr>ev_name = ''CLUSTER_NAME'', ev_value = EnvLiteral (cc_name cc)\<rparr>,
               \<lparr>ev_name = ''CAPACITY'',
                ev_value = EnvLiteral
                  (StoreCapacity (e_q E) (k_limits (ms_container (spec_store (cc_spec cc)))))\<rparr>,
               \<lparr>ev_name = ''TZ'', ev_value = EnvLiteral (spec_timezone (cc_spec cc))\<rparr>]\<rparr>"

definition store_template :: "'w env \<Rightarrow> cellcluster \<Rightarrow> pod_template" where
  "store_template E cc =
     (let storeLabel = labelStore cc; store = spec_store (cc_spec cc)
      in \<lparr>t_labels = label_Labels storeLabel, t_ann = None,
          t_spec = \<lparr>ps_scheduler = spec_scheduler (cc_spec cc),
             ps_affinity = AffinityForNodeSelector (cc_ns cc) (ms_node_selector_required store)
                             (label_Labels storeLabel) (ms_node_selector store),
             ps_containers = [store_container E cc],
             ps_restart = ''Always'',
             ps_tolerations = ms_tolerations store,
             ps_volumes = store_volumes cc,
             ps_node_name = []\<rparr>\<rparr>)"

definition getNewSetForCellCluster :: "'w env \<Rightarrow> cellcluster \<Rightarrow> goerr + sset" where
  "getNewSetForCellCluster E cc =
     (let storeLabel = labelStore cc; store = spec_store (cc_spec cc)
      in case storage_quantity (e_q E) (ms_container store) of
           Inl e \<Rightarrow> Inl e
         | Inr q \<Rightarrow> Inr
             \<lparr>s_meta = meta0\<lparr>m_name := StoreMemberName (cc_name cc), m_ns := cc_ns cc,
                m_labels := label_Labels storeLabel, m_owners := [GetOwnerRef cc]\<rparr>,
              s_spec = \<lparr>ss_replicas = Some (StoreRealReplicas cc),
                ss_selector = LabelSelector storeLabel,
                ss_template = store_template E cc,
                ss_claims = [claim_template q StoreMemberType (storage_class E store)],
                ss_service_name = StorePeerName (cc_name cc),
                ss_pod_management = ''Parallel'',
                ss_strategy = \<lparr>us_type = ''RollingUpdate'',
                               us_rolling = Some (Some (StoreRealReplicas cc))\<rparr>\<rparr>,
              s_status = sset_status0\<rparr>)"

definition syncStoreHeadlessServiceForCellCluster ::
  "'w env \<Rightarrow> cellcluster \<Rightarrow> 'w \<Rightarrow> goerr option \<times> 'w" where
  "syncStoreHeadlessServiceForCellCluster E cc w =
     sync_headless_service E cc (StorePeerName (cc_name cc))
       (getNewStoreHeadlessServiceForCellCluster cc) w"

section \<open>Status\<close>

definition getKVStore :: "store_info option \<Rightarrow> kv_store option" where
  "getKVStore store =
     (case store of
        None \<Rightarrow> None
      | Some s \<Rightarrow>
          (case si_status s of
             None \<Rightarrow> None
           | Some status \<Rightarrow>
               let ip = hd (split_on CHR '':'' (si_address s));
                   podName = hd (split_on CHR ''.'' ip)
               in Some
                 \<lparr>kv_id = show_nat (si_id s), kv_pod_name = podName, kv_ip = ip,
                  kv_leader_count = wrap32 (ss_leader_count status),
                  kv_state = (if si_state s = 1 then StoreStateDown
                              else if si_state s = 2 then StoreStateTombstone else StoreStateUp),
                  kv_heartbeat = (if ss_heartbeat_ts status > 0
                                  then Some (ss_heartbeat_ts status * 1000000000) else None),
                  kv_transition = None\<rparr>))"

text \<open>One store, given the stores of the previous status: a zero heartbeat keeps the old one,
  and the transition time moves when the state does.\<close>

definition kv_store_of :: "time \<Rightarrow> (string, kv_store) gomap \<Rightarrow> kv_store \<Rightarrow> kv_store" where
  "kv_store_of now previous status =
     (let s1 = (if kv_heartbeat status = None then
                  (case map_of previous (kv_id status) of
                     Some oldStatus \<Rightarrow> status\<lparr>kv_heartbeat := kv_heartbeat oldStatus\<rparr>
                   | None \<Rightarrow> status)
                else status)
      in case map_of previous (kv_id status) of
           None \<Rightarrow> s1\<lparr>kv_transition := Some now\<rparr>
         | Some oldStore \<Rightarrow>
             if kv_state s1 \<noteq> kv_state oldStore then s1\<lparr>kv_transition := Some now\<rparr>
             else s1\<lparr>kv_transition := kv_transition oldStore\<rparr>)"

fun kv_stores_loop ::
  "(kv_store \<Rightarrow> kv_store) \<Rightarrow> stores_info \<Rightarrow> (string, kv_store) gomap \<Rightarrow> (string, kv_store) gomap"
where
  "kv_stores_loop f [] stores = stores"
| "kv_stores_loop f (s # ss) stores =
     (case getKVStore s of
        None \<Rightarrow> kv_stores_loop f ss stores
      | Some status \<Rightarrow> kv_stores_loop f ss (gput (kv_id status) (f status) stores))"

definition storeStatefulSetIsUpgrading :: "'w env \<Rightarrow> sset \<Rightarrow> cellcluster \<Rightarrow> 'w \<Rightarrow> goerr + bool" where
  "storeStatefulSetIsUpgrading E sts cc w =
     (case statefulSetIsUpgrading sts of
        Inl e \<Rightarrow> Inl e
      | Inr True \<Rightarrow> Inr True
      | Inr False \<Rightarrow>
          (case l_pods E w (cc_ns cc) (labelStore cc) of
             Inl e \<Rightarrow> Inl e
           | Inr storePods \<Rightarrow>
               (case sto_set (cc_store cc) of
                  None \<Rightarrow> if storePods = [] then Inr False else Inl (PanicError ''nil StatefulSet'')
                | Some st \<Rightarrow> Inr (revision_loop (st_update_revision st) storePods))))"

text \<open>The part of \<open>syncCellClusterStatus\<close> that asks PD.\<close>

definition store_pull_status ::
  "'w env \<Rightarrow> cellcluster \<Rightarrow> 'w \<Rightarrow> goerr option \<times> cellcluster \<times> 'w" where
  "store_pull_status E cc w =
     (let unsynced = upd_store (\<lambda>s. s\<lparr>sto_synced := False\<rparr>);
          previousStores = sto_stores (cc_store cc)
      in case c_stores E cc w of
           (Inl e, w1) \<Rightarrow> (Some e, unsynced cc, w1)
         | (Inr storeInfo, w1) \<Rightarrow>
             let stores = kv_stores_loop (kv_store_of (e_now E w1) previousStores) storeInfo []
             in (case c_tombstones E cc w1 of
                   (Inl e, w2) \<Rightarrow> (Some e, unsynced cc, w2)
                 | (Inr tombstoneStoresInfo, w2) \<Rightarrow>
                     (None,
                      upd_store (\<lambda>s. s\<lparr>sto_synced := True, sto_stores := stores,
                         sto_tombstones := kv_stores_loop (\<lambda>x. x) tombstoneStoresInfo []\<rparr>) cc,
                      w2)))"

definition store_syncCellClusterStatus ::
  "'w env \<Rightarrow> cellcluster \<Rightarrow> sset \<Rightarrow> 'w \<Rightarrow> goerr option \<times> cellcluster \<times> 'w" where
  "store_syncCellClusterStatus E cc sts w =
     (let cc1 = upd_store (\<lambda>s. s\<lparr>sto_set := Some (s_status sts)\<rparr>) cc
      in case storeStatefulSetIsUpgrading E sts cc1 w of
           Inl e \<Rightarrow> (Some e, cc1, w)
         | Inr upgrading \<Rightarrow>
             store_pull_status E
               (upd_store (\<lambda>s. s\<lparr>sto_phase :=
                  if upgrading \<and> pd_phase (cc_pd cc1) \<noteq> UpgradePhase
                  then UpgradePhase else NormalPhase\<rparr>) cc1) w)"

section \<open>Store labels\<close>

text \<open>The topology labels of a node; \<open>host\<close> is its hostname label.\<close>

definition topology_labels :: "strmap \<Rightarrow> (string, string) gomap" where
  "topology_labels ls =
     concat (map (\<lambda>(key, from). case mget ls from of None \<Rightarrow> [] | Some v \<Rightarrow> [(key, v)])
       [(''region'', ''region''), (''zone'', ''zone''), (''rack'', ''rack''), (''host'', LabelHostname)])"

definition getNodeLabels :: "'w env \<Rightarrow> string \<Rightarrow> 'w \<Rightarrow> goerr + (string, string) gomap" where
  "getNodeLabels E nodeName w =
     (case l_node E w nodeName of
        Inl e \<Rightarrow> Inl e
      | Inr node \<Rightarrow>
          if n_labels node \<noteq> None then Inr (topology_labels (n_labels node))
          else Inl (OtherError ''labels not found''))"

fun labels_from_store ::
  "(string, string) gomap \<Rightarrow> (string \<times> string) list \<Rightarrow> (string, string) gomap \<Rightarrow> (string, string) gomap"
where
  "labels_from_store nodeLabels [] ls = ls"
| "labels_from_store nodeLabels ((key, val) # rest) ls =
     labels_from_store nodeLabels rest
       (if map_of nodeLabels key \<noteq> None then gput key val ls else ls)"

definition storeLabelsEqualNodeLabels ::
  "(string \<times> string) list \<Rightarrow> (string, string) gomap \<Rightarrow> bool" where
  "storeLabelsEqualNodeLabels storeLabels nodeLabels \<longleftrightarrow>
     gequal (labels_from_store nodeLabels storeLabels []) nodeLabels"

fun store_labels_loop ::
  "'w env \<Rightarrow> cellcluster \<Rightarrow> stores_info \<Rightarrow> int \<Rightarrow> 'w \<Rightarrow> int \<times> goerr option \<times> 'w" where
  "store_labels_loop E cc [] setCount w = (setCount, None, w)"
| "store_labels_loop E cc (store # stores) setCount w =
     (case (store, getKVStore store) of
        (Some s, Some status) \<Rightarrow>
          (case l_pod E w (cc_ns cc) (kv_pod_name status) of
             Inl e \<Rightarrow> (setCount, Some e, w)
           | Inr pod \<Rightarrow>
               (case getNodeLabels E (ps_node_name (p_spec pod)) w of
                  Inl _ \<Rightarrow> store_labels_loop E cc stores setCount w
                | Inr ls \<Rightarrow>
                    if \<not> storeLabelsEqualNodeLabels (si_labels s) ls then
                      (case c_set_labels E cc (si_id s) (map_of ls) w of
                         (Inl _, w1) \<Rightarrow> store_labels_loop E cc stores setCount w1
                       | (Inr ok, w1) \<Rightarrow>
                           store_labels_loop E cc stores (if ok then setCount + 1 else setCount) w1)
                    else store_labels_loop E cc stores setCount w))
      | _ \<Rightarrow> store_labels_loop E cc stores setCount w)"

definition setStoreLabelsForStore :: "'w env \<Rightarrow> cellcluster \<Rightarrow> 'w \<Rightarrow> int \<times> goerr option \<times> 'w" where
  "setStoreLabelsForStore E cc w =
     (case c_stores E cc w of
        (Inl e, w1) \<Rightarrow> (0, Some e, w1)
      | (Inr storesInfo, w1) \<Rightarrow> store_labels_loop E cc storesInfo 0 w1)"

section \<open>Sync\<close>

text \<open>The replica steps of the sync, with the scaler the manager was built with.\<close>

definition store_scale_step ::
  "'w scaler \<Rightarrow> cellcluster \<Rightarrow> sset \<Rightarrow> sset \<Rightarrow> 'w \<Rightarrow> goerr option \<times> sset \<times> 'w" where
  "store_scale_step scaleOut cc oldSet newSet w =
     (case (s_replicas newSet, s_replicas oldSet) of
        (Some n, Some old) \<Rightarrow>
          (case (if n > old then scaleOut cc oldSet newSet w else (None, newSet, w)) of
             (Some e, new1, w1) \<Rightarrow> (Some e, new1, w1)
           | (None, new1, w1) \<Rightarrow>
               (case s_replicas new1 of
                  None \<Rightarrow> (Some (PanicError ''nil Replicas''), new1, w1)
                | Some n1 \<Rightarrow> (None, if n1 < old then set_s_replicas old new1 else new1, w1)))
      | _ \<Rightarrow> (Some (PanicError ''nil Replicas''), newSet, w))"

definition syncStatefulSetForCellCluster ::
  "'w env \<Rightarrow> 'w upgrader \<Rightarrow> 'w scaler \<Rightarrow> cellcluster \<Rightarrow> 'w \<Rightarrow> goerr option \<times> cellcluster \<times> 'w" where
  "syncStatefulSetForCellCluster E upgrade scaleOut cc w =
     (case getNewSetForCellCluster E cc of
        Inl e \<Rightarrow> (Some e, cc, w)
      | Inr newSet \<Rightarrow>
          (case l_set E w (cc_ns cc) (StoreMemberName (cc_name cc)) of
             Inl e \<Rightarrow>
               if \<not> is_not_found e then (Some e, cc, w)
               else (case SetLastAppliedConfigAnnotation (e_codec E) newSet of
                       (Some e', _) \<Rightarrow> (Some e', cc, w)
                     | (None, annotated) \<Rightarrow>
                         (case k_create_set E cc annotated w of
                            (Some e', w1) \<Rightarrow> (Some e', cc, w1)
                          | (None, w1) \<Rightarrow>
                              (None, upd_store (\<lambda>s. s\<lparr>sto_set := Some sset_status0\<rparr>) cc, w1)))
           | Inr oldSet \<Rightarrow>
               (case store_syncCellClusterStatus E cc oldSet w of
                  (Some e, cc1, w1) \<Rightarrow> (Some e, cc1, w1)
                | (None, cc1, w1) \<Rightarrow>
                    (case (if \<not> templateEqual (e_codec E) (s_template newSet) (s_template oldSet) \<or>
                              sto_phase (cc_store cc1) = UpgradePhase
                           then upgrade cc1 oldSet newSet w1
                           else (None, cc1, newSet, w1)) of
                       (Some e, cc2, _, w2) \<Rightarrow> (Some e, cc2, w2)
                     | (None, cc2, new1, w2) \<Rightarrow>
                         (case store_scale_step scaleOut cc2 oldSet new1 w2 of
                            (Some e, _, w3) \<Rightarrow> (Some e, cc2, w3)
                          | (None, new2, w3) \<Rightarrow>
                              (case update_set_if_changed E cc2 new2 oldSet w3 of
                                 (e, w4) \<Rightarrow> (e, cc2, w4)))))))"

definition storeMemberManager_Sync ::
  "'w env \<Rightarrow> 'w upgrader \<Rightarrow> 'w scaler \<Rightarrow> cellcluster \<Rightarrow> 'w \<Rightarrow> goerr option \<times> cellcluster \<times> 'w" where
  "storeMemberManager_Sync E upgrade scaleOut cc w =
     (if \<not> PDIsAvailable cc
      then (Some (RequeueErrorf ''waiting for PD cluster running''), cc, w)
      else (case syncStoreHeadlessServiceForCellCluster E cc w of
              (Some e, w1) \<Rightarrow> (Some e, cc, w1)
            | (None, w1) \<Rightarrow> syncStatefulSetForCellCluster E upgrade scaleOut cc w1))"

end
