(* ===== verification/Store_Properties.thy ===== *)
theory Store_Properties
  imports Store_Member Samples
begin

text \<open>
  What the store member manager, its upgrader, its scaler and its failover may do: when a
  store's pod is replaced, when a store is added or removed, and what the status says.
\<close>

section \<open>Traced runs\<close>

abbreviation quiet :: "'w traced \<Rightarrow> 'w traced \<Rightarrow> bool" where
  "quiet \<equiv> adds (\<lambda>a. \<not> is_set_request a)"

lemma traced_beginEvict:
  "beginEvictLeader (traced E) cc n pod t = (e, t') \<Longrightarrow> quiet t t'"
  by (auto simp: beginEvictLeader_def Let_def traced_calls lift_act_def adds_def
      split: option.splits prod.splits)

lemma traced_endEvict:
  "endEvictLeader (traced E) cc i t = (e, t') \<Longrightarrow> quiet t t'"
  by (auto simp: endEvictLeader_def Let_def traced_calls lift_act_def adds_def
      split: option.splits prod.splits sum.splits if_splits)

lemma traced_upgradeStorePod:
  assumes "upgradeStorePod (traced E) cc i (s, t) = (e, s', t')"
  shows "quiet t t'"
  using upgradeStorePod_cases [OF assms] by (auto dest: traced_beginEvict)

lemma traced_store_Pass:
  "store_verdict (traced E) cc st i (s, t) = Pass u \<Longrightarrow> quiet t (snd u)"
  by (auto simp: store_verdict_Pass store_pod_done_def dest: traced_endEvict)

lemma traced_store_passes:
  assumes "passes (store_verdict (traced E) cc st) n s j u"
  shows "quiet (snd s) (snd u)"
proof -
  have "quiet (snd s) (snd y)"
    if "store_verdict (traced E) cc st i x = Pass y" and "quiet (snd s) (snd x)" for i x y
    using adds_trans [OF that(2) traced_store_Pass [of E cc st i "fst x" "snd x" y]] that(1) by simp
  then show ?thesis using passes_inv [OF assms, of "\<lambda>x. quiet (snd s) (snd x)"] by blast
qed

lemma traced_store_Stop:
  "store_verdict (traced E) cc st i (s, t) = Stop e u \<Longrightarrow> quiet t (snd u)"
  by (auto simp: store_verdict_def Let_def dest: traced_endEvict
      split: option.splits sum.splits if_splits prod.splits)

lemma traced_store_loop:
  assumes "store_upgrade_loop (traced E) cc st n (s, t) = (e, s', t')"
  shows "quiet t t'"
  using assms
proof (cases rule: store_roll.loop_outcome)
  case finished
  then show ?thesis using traced_store_passes by fastforce
next
  case (acted i u v)
  have "quiet t (snd u)" using traced_store_passes [OF acted(2)] by simp
  moreover have "snd v = snd u" using acted(3) by (cases u) (simp add: store_verdict_Act)
  moreover have "quiet (snd v) t'"
    using traced_upgradeStorePod [of E cc "int i" "fst v" "snd v"] acted(4) by simp
  ultimately show ?thesis by (metis adds_trans)
next
  case (stopped i u e')
  have "quiet t (snd u)" using traced_store_passes [OF stopped(2)] by simp
  moreover have "quiet (snd u) t'"
    using traced_store_Stop [of E cc st "int i" "fst u" "snd u"] stopped(3) by simp
  ultimately show ?thesis by (rule adds_trans)
qed

interpretation quiet_store_up: quiet_upgrader "storeUpgrader_Upgrade (traced E)" for E
  by unfold_locales
    (auto simp: storeUpgrader_Upgrade_def Let_def dest: traced_store_loop
      split: if_splits sum.splits option.splits prod.splits)

interpretation quiet_fake_up: quiet_upgrader fakeStoreUpgrader_Upgrade
  by unfold_locales (auto simp: fakeStoreUpgrader_Upgrade_def)

text \<open>A scaler that does not send StatefulSets.\<close>

locale quiet_scaler = set_scaler scale step for scale :: "'w traced scaler" and step +
  assumes scale_quiet: "scale cc old new t = (e, new', t') \<Longrightarrow> quiet t t'"
begin

text \<open>
  The replica step of the sync: the replicas stay, or go one step when the new set asks for
  more; they never go below those of the old set.
\<close>

lemma scale_step:
  assumes "store_scale_step scale cc old new t = (None, new', t')"
    and "s_replicas old = Some r"
  shows "quiet t t' \<and> s_strategy new' = s_strategy new \<and> s_template new' = s_template new \<and>
    (\<exists>n n'. s_replicas new = Some n \<and> s_replicas new' = Some n' \<and>
       (n' = r \<or> (r < n \<and> r < n' \<and> n' = wrap32 (r + step)) \<or> (n = r \<and> n' = r)))"
proof -
  obtain n where n: "s_replicas new = Some n"
    using assms by (auto simp: store_scale_step_def split: option.splits)
  show ?thesis
  proof (cases "r < n")
    case True
    then obtain new1 where s: "scale cc old new t = (None, new1, t')"
      and new': "\<exists>n1. s_replicas new1 = Some n1 \<and> new' = (if n1 < r then set_s_replicas r new1 else new1)"
      using assms n by (auto simp: store_scale_step_def split: prod.splits option.splits)
    from scale_replicas [OF s assms(2) n] scale_frame [OF s] scale_quiet [OF s] new' True n
    show ?thesis by auto
  next
    case False
    then show ?thesis using assms n by (auto simp: store_scale_step_def)
  qed
qed

end

lemma traced_deleteDefer:
  "deleteDeferDeletingPVC (traced E) cc nm mt i t = (k, e, t') \<Longrightarrow> quiet t t'"
  by (auto simp: deleteDeferDeletingPVC_def traced_calls lift_act_def adds_def
      split: sum.splits if_splits prod.splits)

lemma replicas_then_world: "replicas_then r e s w = (e', s', w') \<Longrightarrow> w' = w"
  by (auto simp: replicas_then_def split: sum.splits)

interpretation quiet_scale_out: quiet_scaler "storeScaler_ScaleOut (traced E)" 1 for E
  by unfold_locales
    (auto simp: storeScaler_ScaleOut_def split: if_splits option.splits prod.splits
      dest!: replicas_then_world dest: traced_deleteDefer)

interpretation quiet_fake_scale: quiet_scaler fakeStoreScaler_ScaleOut 1
  by unfold_locales (auto simp: fakeStoreScaler_ScaleOut_def dest!: replicas_then_world)

section \<open>The StatefulSet sync\<close>

lemma traced_storeIsUpgrading [simp]:
  "storeStatefulSetIsUpgrading (traced E) s cc t = storeStatefulSetIsUpgrading E s cc (fst t)"
  unfolding storeStatefulSetIsUpgrading_def traced_pure ..

lemma traced_newSet [simp]: "getNewSetForCellCluster (traced E) cc = getNewSetForCellCluster E cc"
  unfolding getNewSetForCellCluster_def store_template_def store_container_def storage_class_def
    traced_pure ..

lemma traced_store_pull:
  "store_pull_status (traced E) cc t = (e, cc', t') \<Longrightarrow>
     store_pull_status E cc (fst t) = (e, cc', fst t') \<and> snd t' = snd t"
  unfolding store_pull_status_def traced_calls traced_pure
  by (auto simp: Let_def lift_read_def split: sum.splits prod.splits)

lemma traced_store_status:
  "store_syncCellClusterStatus (traced E) cc s t = (e, cc', t') \<Longrightarrow>
     store_syncCellClusterStatus E cc s (fst t) = (e, cc', fst t') \<and> snd t' = snd t"
  unfolding store_syncCellClusterStatus_def traced_storeIsUpgrading
  by (auto simp: Let_def split: sum.splits dest: traced_store_pull)

locale store_syncing = quiet_upgrader upgrade + quiet_scaler scale 1
  for upgrade :: "'w traced upgrader" and scale :: "'w traced scaler"
begin

text \<open>The steps behind an update that was sent.\<close>

lemma sync_steps:
  assumes run: "syncStatefulSetForCellCluster (traced E) upgrade scale cc (w, []) = (e, cc', w', acts)"
    and old: "l_set E w (cc_ns cc) (StoreMemberName (cc_name cc)) = Inr old"
    and r: "s_replicas old = Some r" and sent: "UpdateSet s \<in> set acts"
  obtains new cc1 t1 cc2 new1 t2 new2 t3 where
    "getNewSetForCellCluster E cc = Inr new"
    "store_syncCellClusterStatus (traced E) cc old (w, []) = (None, cc1, t1)"
    "(if \<not> templateEqual (e_codec E) (s_template new) (s_template old) \<or>
         sto_phase (cc_store cc1) = UpgradePhase
      then upgrade cc1 old new t1 else (None, cc1, new, t1)) = (None, cc2, new1, t2)"
    "store_scale_step scale cc2 old new1 t2 = (None, new2, t3)"
    "s_replicas s = s_replicas new2" "s_strategy s = s_strategy new2"
    "t_spec (s_template s) = t_spec (s_template new2)" "s_name s = s_name old"
proof -
  obtain new where new: "getNewSetForCellCluster E cc = Inr new"
    using run sent by (cases "getNewSetForCellCluster E cc") (auto simp: syncStatefulSetForCellCluster_def)
  obtain es cc1 t1 where st: "store_syncCellClusterStatus (traced E) cc old (w, []) = (es, cc1, t1)"
    by (metis prod.collapse)
  have t1: "snd t1 = []" using traced_store_status [OF st] by simp
  then have q1: "quiet (w, []) t1" by (simp add: adds_def)
  have es: "es = None" using run old sent new st t1 by (cases es) (auto simp: syncStatefulSetForCellCluster_def)
  let ?c = "\<not> templateEqual (e_codec E) (s_template new) (s_template old) \<or>
    sto_phase (cc_store cc1) = UpgradePhase"
  obtain eu cc2 new1 t2 where up: "(if ?c then upgrade cc1 old new t1 else (None, cc1, new, t1)) =
      (eu, cc2, new1, t2)"
    by (metis prod.collapse)
  note up' = step_frame [OF up]
  have q2: "quiet (w, []) t2" using q1 up' adds_trans by blast
  have no: "UpdateSet s \<notin> set (snd t2)" using q2 by (auto simp: adds_def list_all_iff)
  have eu: "eu = None"
    using run old sent new st es up no by (cases eu) (auto simp: syncStatefulSetForCellCluster_def)
  obtain ec new2 t3 where sc: "store_scale_step scale cc2 old new1 t2 = (ec, new2, t3)"
    by (metis prod.collapse)
  have q3: "quiet t2 t3" if "ec \<noteq> None"
    using sc that scale_quiet by (auto simp: store_scale_step_def split: option.splits prod.splits if_splits)
  have ec: "ec = None"
  proof (rule ccontr)
    assume "ec \<noteq> None"
    moreover from this have "t3 = (w', acts)"
      using run old new st es up eu sc by (auto simp: syncStatefulSetForCellCluster_def)
    ultimately show False using adds_trans [OF q2 q3] sent by (auto simp: adds_def list_all_iff)
  qed
  have upd: "update_set_if_changed (traced E) cc2 new2 old t3 = (e, (w', acts))"
    using run old new st es up eu sc ec by (auto simp: syncStatefulSetForCellCluster_def split: prod.splits)
  have "quiet (w, []) t3" using q2 scale_step [OF sc [unfolded ec] r] adds_trans by blast
  from update_set_sent [OF upd this] sent show ?thesis
    using that [OF new] st es up eu sc ec by simp
qed

lemma sync_update:
  assumes "syncStatefulSetForCellCluster (traced E) upgrade scale cc (w, []) = (e, cc', w', acts)"
    and "l_set E w (cc_ns cc) (StoreMemberName (cc_name cc)) = Inr old"
    and r: "s_replicas old = Some r" and "UpdateSet s \<in> set acts"
  shows "s_name s = s_name old \<and>
    (s_replicas s = Some r \<or>
     (r < StoreRealReplicas cc \<and> r < wrap32 (r + 1) \<and> s_replicas s = Some (wrap32 (r + 1))))"
  using assms
proof (rule sync_steps)
  fix new cc1 t1 cc2 new1 t2 new2 t3
  assume new: "getNewSetForCellCluster E cc = Inr new"
    and up: "(if \<not> templateEqual (e_codec E) (s_template new) (s_template old) \<or>
         sto_phase (cc_store cc1) = UpgradePhase
      then upgrade cc1 old new t1 else (None, cc1, new, t1)) = (None, cc2, new1, t2)"
    and sc: "store_scale_step scale cc2 old new1 t2 = (None, new2, t3)"
    and s: "s_replicas s = s_replicas new2" "s_name s = s_name old"
  have "s_replicas new = Some (StoreRealReplicas cc)"
    using new by (auto simp: getNewSetForCellCluster_def Let_def split: sum.splits)
  then show ?thesis using step_frame [OF up] scale_step [OF sc r] s by auto
qed

text \<open>An upgrader that, while PD is being upgraded, puts the last applied pod spec back.\<close>

lemma sync_pd_upgrading:
  assumes "syncStatefulSetForCellCluster (traced E) upgrade scale cc (w, []) = (e, cc', w', acts)"
    and "l_set E w (cc_ns cc) (StoreMemberName (cc_name cc)) = Inr old"
    and r: "s_replicas old = Some r" and "UpdateSet s \<in> set acts"
    and keeps: "\<And>cc1 new t e cc2 new1 t2. pd_phase (cc_pd cc1) = UpgradePhase \<Longrightarrow>
      upgrade cc1 old new t = (e, cc2, new1, t2) \<Longrightarrow> e = None \<Longrightarrow>
      t_spec (s_template new1) = spec \<and> s_strategy new1 = s_strategy new"
    and applied: "mget (t_ann (s_template old)) LastAppliedConfigAnnotation = Some tx"
      "j_dec_pod (e_codec E) tx = Inr spec"
    and pd: "pd_phase (cc_pd cc) = UpgradePhase"
  shows "(t_spec (s_template s) = spec \<or> pod_spec_equal spec (t_spec (s_template s))) \<and>
    us_rolling (s_strategy s) = Some (Some (StoreRealReplicas cc))"
  using assms(1-4)
proof (rule sync_steps)
  fix new cc1 t1 cc2 new1 t2 new2 t3
  assume new: "getNewSetForCellCluster E cc = Inr new"
    and st: "store_syncCellClusterStatus (traced E) cc old (w, []) = (None, cc1, t1)"
    and up: "(if \<not> templateEqual (e_codec E) (s_template new) (s_template old) \<or>
         sto_phase (cc_store cc1) = UpgradePhase
      then upgrade cc1 old new t1 else (None, cc1, new, t1)) = (None, cc2, new1, t2)"
    and sc: "store_scale_step scale cc2 old new1 t2 = (None, new2, t3)"
    and s: "s_strategy s = s_strategy new2" "t_spec (s_template s) = t_spec (s_template new2)"
  have strat: "us_rolling (s_strategy new) = Some (Some (StoreRealReplicas cc))"
    using new by (auto simp: getNewSetForCellCluster_def Let_def split: sum.splits)
  have "pd_phase (cc_pd cc1) = UpgradePhase"
    using st pd by (auto simp: store_syncCellClusterStatus_def store_pull_status_def Let_def
        split: sum.splits prod.splits)
  note k = keeps [OF this]
  have "(t_spec (s_template new1) = spec \<or> pod_spec_equal spec (t_spec (s_template new1))) \<and>
      s_strategy new1 = s_strategy new"
  proof (cases "templateEqual (e_codec E) (s_template new) (s_template old) \<and>
      sto_phase (cc_store cc1) \<noteq> UpgradePhase")
    case True
    then show ?thesis using up applied by (auto simp: templateEqual_def)
  next
    case False
    then have "upgrade cc1 old new t1 = (None, cc2, new1, t2)" using up by (auto split: if_splits)
    then show ?thesis using k by blast
  qed
  then show ?thesis using scale_step [OF sc r] s strat by auto
qed

end

interpretation real_store_sync:
  store_syncing "storeUpgrader_Upgrade (traced E)" "storeScaler_ScaleOut (traced E)" for E
  by unfold_locales

interpretation fake_store_sync: store_syncing fakeStoreUpgrader_Upgrade fakeStoreScaler_ScaleOut
  by unfold_locales

section \<open>Properties of the sync\<close>

text \<open>
  C26: the store sync never removes a store.  Every StatefulSet update it sends keeps the
  replicas of the existing set or raises them by exactly one, and it raises them only when
  the cluster asks for more than there are.
\<close>

theorem store_sync_no_scale_in:
  assumes "syncStatefulSetForCellCluster (traced E) (storeUpgrader_Upgrade (traced E))
      (storeScaler_ScaleOut (traced E)) cc (w, []) = (e, cc', w', acts)"
    and "l_set E w (cc_ns cc) (StoreMemberName (cc_name cc)) = Inr old"
    and "s_replicas old = Some r" and "UpdateSet s \<in> set acts"
  shows "s_name s = s_name old \<and>
    (s_replicas s = Some r \<or>
     (r < StoreRealReplicas cc \<and> r < wrap32 (r + 1) \<and> s_replicas s = Some (wrap32 (r + 1))))"
  by (rule real_store_sync.sync_update [OF assms])

definition smp_store_codec :: codec where
  "smp_store_codec =
     any_codec no_set_spec (t_spec (store_template (null_env undefined :: unit env) smp_cc)) no_svc_spec"

text \<open>A set of no stores, at rest, in a cluster that asks for one.\<close>

definition smp_store_env :: "unit env" where
  "smp_store_env = (null_env smp_store_codec)
     \<lparr>l_set := \<lambda>w ns n. Inr ((smp_set ''c-store'' 0 0)\<lparr>s_status := (smp_set_status 0)
                \<lparr>st_current_revision := ''r2''\<rparr>\<rparr>),
      c_stores := \<lambda>cc w. (Inr [], w), c_tombstones := \<lambda>cc w. (Inr [], w)\<rparr>"

lemma smp_store_env_simps [simp]:
  "l_set smp_store_env = (\<lambda>w ns n. Inr ((smp_set ''c-store'' 0 0)\<lparr>s_status := (smp_set_status 0)
     \<lparr>st_current_revision := ''r2''\<rparr>\<rparr>))"
  "l_pods smp_store_env = (\<lambda>w ns sel. Inr [])" "l_pvc smp_store_env = (\<lambda>w ns n. missing)"
  "c_stores smp_store_env = (\<lambda>cc w. (Inr [], w))" "c_tombstones smp_store_env = (\<lambda>cc w. (Inr [], w))"
  "k_update_set smp_store_env = (\<lambda>cc s w. (None, w))" "t_set smp_store_env = (\<lambda>s w. w)"
  "e_now smp_store_env = (\<lambda>w. 0)" "e_q smp_store_env = any_qlib" "e_codec smp_store_env = smp_store_codec"
  by (simp_all add: smp_store_env_def)

lemma store_template_env: "e_q E = e_q F \<Longrightarrow> store_template E cc = store_template F cc"
  by (simp add: store_template_def store_container_def)

lemma smp_store_template [simp]:
  "store_template (traced smp_store_env) smp_cc = store_template (null_env undefined :: unit env) smp_cc"
  by (rule store_template_env) simp

lemmas store_sync_eval =
  syncStatefulSetForCellCluster_def getNewSetForCellCluster_def Let_def storage_quantity_def
  store_syncCellClusterStatus_def storeStatefulSetIsUpgrading_def statefulSetIsUpgrading_def
  store_pull_status_def traced_calls lift_read_def lift_act_def templateEqual_def
  update_set_if_changed_def statefulSetEqual_def SetLastAppliedConfigAnnotation_def
  smp_store_codec_def no_set_spec_def store_scale_step_def storeScaler_ScaleOut_def
  deleteDeferDeletingPVC_def StoreUpgrading_def StoreRealReplicas_def replicas_then_def
  increaseReplicas_def assign_replicas_def

lemma smp_store_run:
  "\<exists>e cc' A B. syncStatefulSetForCellCluster (traced smp_store_env)
     (storeUpgrader_Upgrade (traced smp_store_env)) (storeScaler_ScaleOut (traced smp_store_env))
     smp_cc ((), []) = (e, cc', (), [TouchSet A, UpdateSet B]) \<and> s_replicas B = Some 1"
  by (simp add: store_sync_eval missing_def setter_defs)

theorem store_sync_no_scale_in_witness:
  "\<exists>e cc' A B. syncStatefulSetForCellCluster (traced smp_store_env)
     (storeUpgrader_Upgrade (traced smp_store_env)) (storeScaler_ScaleOut (traced smp_store_env))
     smp_cc ((), []) = (e, cc', (), [TouchSet A, UpdateSet B]) \<and>
     s_name B = ''c-store'' \<and> s_replicas B = Some (wrap32 (0 + 1))"
proof -
  obtain e cc' A B where r: "syncStatefulSetForCellCluster (traced smp_store_env)
      (storeUpgrader_Upgrade (traced smp_store_env)) (storeScaler_ScaleOut (traced smp_store_env))
      smp_cc ((), []) = (e, cc', (), [TouchSet A, UpdateSet B])" and B: "s_replicas B = Some 1"
    using smp_store_run by blast
  have "s_name B = ''c-store'' \<and> (s_replicas B = Some 0 \<or>
      ((0::int) < StoreRealReplicas smp_cc \<and> (0::int) < wrap32 (0 + 1) \<and>
       s_replicas B = Some (wrap32 (0 + 1))))"
    using store_sync_no_scale_in [OF r, of "(smp_set ''c-store'' 0 0)\<lparr>s_status :=
      (smp_set_status 0)\<lparr>st_current_revision := ''r2''\<rparr>\<rparr>" 0 B] by simp
  with B r show ?thesis by simp
qed

text \<open>
  The stores wait for PD.  While PD is not available, meaning that fewer members than a
  majority of the replicas are healthy or ready, the store sync does nothing at all and asks
  to be run again.
\<close>

lemma store_sync_waits_for_pd:
  assumes "small_maps cc" and "0 \<le> r" and "r < 2 ^ 31" and "r = ms_replicas (spec_pd (cc_spec cc))"
    and "int (healthy_pd cc) < r div 2 + 1 \<or> pd_set (cc_pd cc) = None \<or>
      (\<exists>st. pd_set (cc_pd cc) = Some st \<and> st_ready_replicas st < r div 2 + 1)"
  shows "\<exists>x. IsRequeueError x \<and> storeMemberManager_Sync E up sc cc w = (Some x, cc, w)"
proof -
  have "\<not> PDIsAvailable cc" using PDIsAvailable_iff [OF assms(1-4)] assms(5) by auto
  then show ?thesis by (simp add: storeMemberManager_Sync_def RequeueErrorf_def)
qed

text \<open>
  The stores wait for PD's upgrade.  While PD is being upgraded, every StatefulSet update
  the store sync sends carries the pod spec that was applied last, or one that is equal to
  it, and a partition that lets no pod be replaced.
\<close>

theorem store_waits_for_pd_upgrade:
  assumes "syncStatefulSetForCellCluster (traced E) (storeUpgrader_Upgrade (traced E))
      (storeScaler_ScaleOut (traced E)) cc (w, []) = (e, cc', w', acts)"
    and "l_set E w (cc_ns cc) (StoreMemberName (cc_name cc)) = Inr old"
    and "s_replicas old = Some r" and "UpdateSet s \<in> set acts"
    and "GetLastAppliedConfig (e_codec E) old = Inr (applied, spec)"
    and "pd_phase (cc_pd cc) = UpgradePhase"
  shows "(t_spec (s_template s) = spec \<or> pod_spec_equal spec (t_spec (s_template s))) \<and>
    us_rolling (s_strategy s) = Some (Some (StoreRealReplicas cc))"
proof -
  obtain tx where a: "mget (t_ann (s_template old)) LastAppliedConfigAnnotation = Some tx"
    "j_dec_pod (e_codec E) tx = Inr spec"
    using assms(5) by (auto simp: GetLastAppliedConfig_def split: option.splits sum.splits)
  have keeps: "t_spec (s_template new1) = spec \<and> s_strategy new1 = s_strategy new"
    if "pd_phase (cc_pd cc1) = UpgradePhase"
      and "storeUpgrader_Upgrade (traced E) cc1 old new t = (e, cc2, new1, t2)" and "e = None"
    for cc1 new t e cc2 new1 t2
    using that assms(5) by (auto simp: storeUpgrader_Upgrade_def)
  show ?thesis
    by (rule real_store_sync.sync_pd_upgrading [OF assms(1-4) keeps a assms(6)])
qed

definition smp_pd_upgrading :: cellcluster where
  "smp_pd_upgrading = upd_pd (\<lambda>s. s\<lparr>pd_phase := UpgradePhase\<rparr>) smp_cc"

lemma smp_pd_upgrading_simps [simp]:
  "cc_meta smp_pd_upgrading = cc_meta smp_cc" "cc_spec smp_pd_upgrading = cc_spec smp_cc"
  "cc_store smp_pd_upgrading = cc_store smp_cc" "pd_phase (cc_pd smp_pd_upgrading) = UpgradePhase"
  by (simp_all add: smp_pd_upgrading_def)

lemma smp_store_template_upgrading [simp]:
  "store_template (traced smp_store_env) smp_pd_upgrading =
     store_template (null_env undefined :: unit env) smp_cc"
  unfolding smp_store_template [symmetric]
  by (simp add: store_template_def store_container_def labelStore_def store_volumes_def)

lemma smp_store_upgrading_run:
  "\<exists>e cc' A B. syncStatefulSetForCellCluster (traced smp_store_env)
     (storeUpgrader_Upgrade (traced smp_store_env)) (storeScaler_ScaleOut (traced smp_store_env))
     smp_pd_upgrading ((), []) = (e, cc', (), [TouchSet A, UpdateSet B]) \<and> s_replicas B = Some 1"
  by (simp add: store_sync_eval missing_def setter_defs)

theorem store_waits_for_pd_upgrade_witness:
  "\<exists>e cc' A B. syncStatefulSetForCellCluster (traced smp_store_env)
     (storeUpgrader_Upgrade (traced smp_store_env)) (storeScaler_ScaleOut (traced smp_store_env))
     smp_pd_upgrading ((), []) = (e, cc', (), [TouchSet A, UpdateSet B]) \<and>
     us_rolling (s_strategy B) = Some (Some 1)"
proof -
  obtain e cc' A B where r: "syncStatefulSetForCellCluster (traced smp_store_env)
      (storeUpgrader_Upgrade (traced smp_store_env)) (storeScaler_ScaleOut (traced smp_store_env))
      smp_pd_upgrading ((), []) = (e, cc', (), [TouchSet A, UpdateSet B])" and B: "s_replicas B = Some 1"
    using smp_store_upgrading_run by blast
  have "us_rolling (s_strategy B) = Some (Some (StoreRealReplicas smp_pd_upgrading))"
    using store_waits_for_pd_upgrade [OF r, of "(smp_set ''c-store'' 0 0)\<lparr>s_status :=
      (smp_set_status 0)\<lparr>st_current_revision := ''r2''\<rparr>\<rparr>" 0 B no_set_spec
      "t_spec (store_template (null_env undefined :: unit env) smp_cc)"]
    by (simp add: GetLastAppliedConfig_def smp_store_codec_def)
  with r show ?thesis by (simp add: StoreRealReplicas_def)
qed

section \<open>Properties of the upgrade\<close>


definition smp_up_env :: "unit env" where
  "smp_up_env = (null_env (any_codec no_set_spec no_pod_spec no_svc_spec))
     \<lparr>l_pod := \<lambda>w ns n. Inr (smp_pod n StoreLabelVal ''r1'')\<rparr>"

lemma smp_up_env_simps [simp]:
  "l_pod smp_up_env = (\<lambda>w ns n. Inr (smp_pod n StoreLabelVal ''r1''))"
  "e_codec smp_up_env = any_codec no_set_spec no_pod_spec no_svc_spec"
  "c_begin_evict smp_up_env = (\<lambda>cc i w. (None, w))" "k_update_pod smp_up_env = (\<lambda>cc p w. (None, w))"
  "t_pod smp_up_env = (\<lambda>p w. w)" "e_now smp_up_env = (\<lambda>w. 0)" "e_fmt smp_up_env = (\<lambda>t. ''now'')"
  by (simp_all add: smp_up_env_def)

lemma smp_upgrade_run:
  "storeUpgrader_Upgrade smp_up_env (smp_store_cc 0) (smp_set ''c-store'' 1 1)
      (smp_set ''c-store'' 1 1) () = (None, upd_store (\<lambda>s. s\<lparr>sto_phase := UpgradePhase\<rparr>) (smp_store_cc 0),
      setUpgradePartition 0 (setUpgradePartition 1 (smp_set ''c-store'' 1 1)), ())"
  apply (simp add: storeUpgrader_Upgrade_def Let_def smp_template_equal)
  apply (simp add: store_verdict_def
       getStoreByOrdinal_def store_of_pod_def smp_pod_0 upgradeStorePod_def readyToUpgrade_iff)
  done

text \<open>
  Leaders go first.  When the pod to be replaced belongs to a store that still leads
  regions and no eviction has begun, the upgrader leaves the new set alone and asks PD to
  evict the leaders before anything else; if that succeeds it writes the time to the pod's
  annotation, in the cache and on the API server, and does nothing more.
\<close>

theorem store_upgrade_evicts_first:
  assumes "upgradeStorePod (traced E) cc i (new, (w, [])) = (e, new', (w', acts))"
    and "mget (p_ann pod) EvictLeaderBeginTime = None"
    and "l_pod E w (cc_ns cc) (storePodName (cc_name cc) i) = Inr pod"
    and "getStoreByOrdinal cc i = Some store" and "kv_leader_count store \<noteq> 0"
    and "parse_uint (kv_id store) = Inr n"
  shows "new' = new \<and> hd acts = BeginEvict n \<and>
    (e = None \<longrightarrow> (\<exists>t. acts = [BeginEvict n,
       TouchPod (set_p_ann (mput EvictLeaderBeginTime (e_fmt E t) (p_ann pod)) pod),
       UpdatePod (set_p_ann (mput EvictLeaderBeginTime (e_fmt E t) (p_ann pod)) pod)]))"
  using assms
  by (auto simp: upgradeStorePod_def getStoreByOrdinal_def Let_def readyToUpgrade_iff beginEvictLeader_def
       traced_calls lift_act_def split: prod.splits option.splits)


definition smp_marked_pod :: pod where
  "smp_marked_pod = set_p_ann (mput EvictLeaderBeginTime ''now'' (p_ann (smp_pod ''c-store-0'' StoreLabelVal ''r1'')))
     (smp_pod ''c-store-0'' StoreLabelVal ''r1'')"

theorem store_upgrade_evicts_first_witness:
  "\<exists>acts. upgradeStorePod (traced smp_up_env) (smp_store_cc 2) 0 (smp_set ''c-store'' 1 1, ((), [])) =
     (None, smp_set ''c-store'' 1 1, ((), acts)) \<and> hd acts = BeginEvict 1"
proof -
  have r: "upgradeStorePod (traced smp_up_env) (smp_store_cc 2) 0 (smp_set ''c-store'' 1 1, ((), [])) =
     (None, smp_set ''c-store'' 1 1, ((), [BeginEvict 1, TouchPod smp_marked_pod, UpdatePod smp_marked_pod]))"
    by (simp add: upgradeStorePod_def smp_pod_0 store_of_pod_def readyToUpgrade_iff beginEvictLeader_def
      traced_calls lift_act_def Let_def smp_marked_pod_def)
  have "getStoreByOrdinal (smp_store_cc 2) 0 = Some (smp_store 2)"
    by (simp add: getStoreByOrdinal_def smp_pod_0 store_of_pod_def)
  with store_upgrade_evicts_first [OF r, of "smp_pod ''c-store-0'' StoreLabelVal ''r1''" "smp_store 2" 1] r
  show ?thesis by (simp add: smp_pod_0)
qed
end
