(* ===== verification/Proxy_Member.thy ===== *)
theory Proxy_Member
  imports Member_Common
begin

text \<open>
  \<^verbatim>\<open>pkg/manager/member/proxy_upgrader.go\<close> and \<^verbatim>\<open>proxy_member_manager.go\<close>: the StatefulSet of
  the proxies, its status, and its rolling upgrade, which waits for PD and for the stores.
\<close>

section \<open>proxy_upgrader.go\<close>

definition upgradeProxyPod :: "int \<Rightarrow> sset \<Rightarrow> goerr option \<times> sset" where
  "upgradeProxyPod ordinal newSet = (None, setUpgradePartition ordinal newSet)"

definition proxy_verdict ::
  "'w env \<Rightarrow> cellcluster \<Rightarrow> sset_status \<Rightarrow> 'w \<Rightarrow> int \<Rightarrow> sset \<Rightarrow> sset verdict" where
  "proxy_verdict E cc st w i newSet =
     (let podName = proxyPodName (cc_name cc) i
      in case l_pod E w (cc_ns cc) podName of
           Inl e \<Rightarrow> Stop e newSet
         | Inr pod \<Rightarrow>
             (case mget (p_labels pod) ControllerRevisionHashLabelKey of
                None \<Rightarrow> Stop (RequeueErrorf (podName @ '' has no label'')) newSet
              | Some revision \<Rightarrow>
                  if revision = st_update_revision st then
                    (case map_of (px_members (cc_proxy cc)) podName of
                       None \<Rightarrow> Stop (RequeueErrorf (podName @ '' is not ready'')) newSet
                     | Some member \<Rightarrow>
                         if \<not> xm_health member
                         then Stop (RequeueErrorf (podName @ '' is not ready'')) newSet
                         else Pass newSet)
                  else Act newSet))"

fun proxy_upgrade_loop ::
  "'w env \<Rightarrow> cellcluster \<Rightarrow> sset_status \<Rightarrow> 'w \<Rightarrow> nat \<Rightarrow> sset \<Rightarrow> goerr option \<times> sset" where
  "proxy_upgrade_loop E cc st w 0 newSet = (None, newSet)"
| "proxy_upgrade_loop E cc st w (Suc i) newSet =
     (case proxy_verdict E cc st w (int i) newSet of
        Stop e s \<Rightarrow> (Some e, s)
      | Pass s \<Rightarrow> proxy_upgrade_loop E cc st w i s
      | Act s \<Rightarrow> upgradeProxyPod (int i) s)"

definition proxyUpgrader_Upgrade :: "'w env \<Rightarrow> 'w upgrader" where
  "proxyUpgrader_Upgrade E cc oldSet newSet w =
     (if pd_phase (cc_pd cc) = UpgradePhase \<or> sto_phase (cc_store cc) = UpgradePhase then
        (case GetLastAppliedConfig (e_codec E) oldSet of
           Inl e \<Rightarrow> (Some e, cc, newSet, w)
         | Inr (_, podSpec) \<Rightarrow>
             (None, cc, set_s_template ((s_template newSet)\<lparr>t_spec := podSpec\<rparr>) newSet, w))
      else
        let cc1 = upd_proxy (\<lambda>p. p\<lparr>px_phase := UpgradePhase\<rparr>) cc
        in if \<not> templateEqual (e_codec E) (s_template newSet) (s_template oldSet)
           then (None, cc1, newSet, w)
           else (case us_rolling (s_strategy oldSet) of
                   Some (Some part) \<Rightarrow>
                     let new1 = setUpgradePartition part newSet
                     in (case px_set (cc_proxy cc1) of
                           None \<Rightarrow> (Some (PanicError ''nil StatefulSet''), cc1, new1, w)
                         | Some st \<Rightarrow>
                             (case proxy_upgrade_loop E cc1 st w (nat (st_replicas st)) new1 of
                                (e, new2) \<Rightarrow> (e, cc1, new2, w)))
                 | _ \<Rightarrow> (Some (PanicError ''nil Partition''), cc1, newSet, w)))"

definition fakeProxyUpgrader_Upgrade :: "'w upgrader" where
  "fakeProxyUpgrader_Upgrade cc oldSet newSet w =
     (None, upd_proxy (\<lambda>p. p\<lparr>px_phase := UpgradePhase\<rparr>) cc, newSet, w)"

section \<open>proxy_member_manager.go\<close>

definition proxy_selector :: "cellcluster \<Rightarrow> label" where
  "proxy_selector cc =
     label_Proxy (label_Instance (mval (m_labels (cc_meta cc)) InstanceLabelKey) label_New)"

definition proxy_volume_mounts :: "volume_mount list" where
  "proxy_volume_mounts =
     [fst annotationsMountVolume,
      \<lparr>vm_name = ''startup-script'', vm_readonly = True, vm_path = ''/usr/local/bin/startup''\<rparr>]"

definition proxy_volumes :: "cellcluster \<Rightarrow> volume list" where
  "proxy_volumes cc =
     [snd annotationsMountVolume,
      \<lparr>v_name = ''startup-script'',
       v_source = ConfigMapVolume (ProxyMemberName (cc_name cc))
         [(''startup-script'', ''proxy_start_script.sh'')]\<rparr>]"

definition proxy_container :: "'w env \<Rightarrow> cellcluster \<Rightarrow> container" where
  "proxy_container E cc =
     \<lparr>c_name = ProxyMemberType,
      c_image = k_image (ms_container (spec_proxy (cc_spec cc))),
      c_command = [''/bin/sh'', ''/usr/local/bin/startup/proxy_start_script.sh''],
      c_pull_policy = k_pull_policy (ms_container (spec_proxy (cc_spec cc))),
      c_ports = [\<lparr>cp_name = ''redis'', cp_port = 6379, cp_protocol = ''TCP''\<rparr>],
      c_mounts = proxy_volume_mounts,
      c_resources = ResourceRequirement (e_q E) (ms_container (spec_proxy (cc_spec cc))) [],
      c_env = [\<lparr>ev_name = ''NAMESPACE'', ev_value = EnvFieldRef ''metadata.namespace''\<rparr>,
               \<lparr>ev_name = ''CLUSTER_NAME'', ev_value = EnvLiteral (cc_name cc)\<rparr>,
               \<lparr>ev_name = ''TZ'', ev_value = EnvLiteral (spec_timezone (cc_spec cc))\<rparr>]\<rparr>"

definition proxy_template :: "'w env \<Rightarrow> cellcluster \<Rightarrow> pod_template" where
  "proxy_template E cc =
     (let proxyLabel = proxy_selector cc; proxy = spec_proxy (cc_spec cc)
      in \<lparr>t_labels = label_Labels proxyLabel, t_ann = None,
          t_spec = \<lparr>ps_scheduler = spec_scheduler (cc_spec cc),
             ps_affinity = AffinityForNodeSelector (cc_ns cc) (ms_node_selector_required proxy)
                             (label_Labels proxyLabel) (ms_node_selector proxy),
             ps_containers = [proxy_container E cc],
             ps_restart = ''Always'',
             ps_tolerations = ms_tolerations proxy,
             ps_volumes = proxy_volumes cc,
             ps_node_name = []\<rparr>\<rparr>)"

definition getNewProxySetForCellCluster :: "'w env \<Rightarrow> cellcluster \<Rightarrow> sset" where
  "getNewProxySetForCellCluster E cc =
     (let proxyLabel = proxy_selector cc
      in \<lparr>s_meta = meta0\<lparr>m_name := ProxyMemberName (cc_name cc), m_ns := cc_ns cc,
             m_labels := label_Labels proxyLabel, m_owners := [GetOwnerRef cc]\<rparr>,
          s_spec = \<lparr>ss_replicas = Some (ProxyRealReplicas cc),
             ss_selector = LabelSelector proxyLabel,
             ss_template = proxy_template E cc,
             ss_claims = [],
             ss_service_name = [],
             ss_pod_management = ''Parallel'',
             ss_strategy = \<lparr>us_type = ''RollingUpdate'',
                            us_rolling = Some (Some (ProxyRealReplicas cc))\<rparr>\<rparr>,
          s_status = sset_status0\<rparr>)"

definition proxyStatefulSetIsUpgrading :: "'w env \<Rightarrow> sset \<Rightarrow> cellcluster \<Rightarrow> 'w \<Rightarrow> goerr + bool" where
  "proxyStatefulSetIsUpgrading E sts cc w =
     (case statefulSetIsUpgrading sts of
        Inl e \<Rightarrow> Inl e
      | Inr True \<Rightarrow> Inr True
      | Inr False \<Rightarrow>
          (case l_pods E w (cc_ns cc) (proxy_selector cc) of
             Inl e \<Rightarrow> Inl e
           | Inr proxyPods \<Rightarrow>
               (case px_set (cc_proxy cc) of
                  None \<Rightarrow> if proxyPods = [] then Inr False else Inl (PanicError ''nil StatefulSet'')
                | Some st \<Rightarrow> Inr (revision_loop (st_update_revision st) proxyPods))))"

definition proxy_syncCellClusterStatus ::
  "'w env \<Rightarrow> cellcluster \<Rightarrow> sset \<Rightarrow> 'w \<Rightarrow> goerr option \<times> cellcluster" where
  "proxy_syncCellClusterStatus E cc sts w =
     (let cc1 = upd_proxy (\<lambda>p. p\<lparr>px_set := Some (s_status sts)\<rparr>) cc
      in case proxyStatefulSetIsUpgrading E sts cc1 w of
           Inl e \<Rightarrow> (Some e, cc1)
         | Inr upgrading \<Rightarrow>
             (None, upd_proxy (\<lambda>p. p\<lparr>px_phase :=
                if upgrading \<and> sto_phase (cc_store cc1) \<noteq> UpgradePhase \<and>
                   pd_phase (cc_pd cc1) \<noteq> UpgradePhase
                then UpgradePhase else NormalPhase\<rparr>) cc1))"

definition syncProxyStatefulSetForCellCluster ::
  "'w env \<Rightarrow> 'w upgrader \<Rightarrow> cellcluster \<Rightarrow> 'w \<Rightarrow> goerr option \<times> cellcluster \<times> 'w" where
  "syncProxyStatefulSetForCellCluster E upgrade cc w =
     (let newProxySet = getNewProxySetForCellCluster E cc
      in case l_set E w (cc_ns cc) (ProxyMemberName (cc_name cc)) of
           Inl e \<Rightarrow>
             if is_not_found e then
               (case SetLastAppliedConfigAnnotation (e_codec E) newProxySet of
                  (Some e', _) \<Rightarrow> (Some e', cc, w)
                | (None, annotated) \<Rightarrow>
                    (case k_create_set E cc annotated w of
                       (Some e', w1) \<Rightarrow> (Some e', cc, w1)
                     | (None, w1) \<Rightarrow>
                         (None, upd_proxy (\<lambda>p. p\<lparr>px_set := Some sset_status0\<rparr>) cc, w1)))
             else (Some e, cc, w)
         | Inr oldProxySet \<Rightarrow>
             (case proxy_syncCellClusterStatus E cc oldProxySet w of
                (Some e, cc1) \<Rightarrow> (Some e, cc1, w)
              | (None, cc1) \<Rightarrow>
                  (case (if \<not> templateEqual (e_codec E) (s_template newProxySet) (s_template oldProxySet) \<or>
                            px_phase (cc_proxy cc1) = UpgradePhase
                         then upgrade cc1 oldProxySet newProxySet w
                         else (None, cc1, newProxySet, w)) of
                     (Some e, cc2, _, w2) \<Rightarrow> (Some e, cc2, w2)
                   | (None, cc2, newProxySet', w2) \<Rightarrow>
                       (case update_set_if_changed E cc2 newProxySet' oldProxySet w2 of
                          (e, w3) \<Rightarrow> (e, cc2, w3)))))"

definition proxyMemberManager_Sync ::
  "'w env \<Rightarrow> 'w upgrader \<Rightarrow> cellcluster \<Rightarrow> 'w \<Rightarrow> goerr option \<times> cellcluster \<times> 'w" where
  "proxyMemberManager_Sync E upgrade cc w =
     (if \<not> StoreIsAvailable cc
      then (Some (RequeueErrorf ''waiting for Store cluster running''), cc, w)
      else syncProxyStatefulSetForCellCluster E upgrade cc w)"

section \<open>The loop\<close>

interpretation proxy_roll:
  rolling_loop "proxy_verdict E cc st w" upgradeProxyPod "proxy_upgrade_loop E cc st w"
  for E cc st w
  by unfold_locales simp_all

lemma proxy_verdict_kept:
  "proxy_verdict E cc st w i s = Pass t \<Longrightarrow> t = s"
  "proxy_verdict E cc st w i s = Act t \<Longrightarrow> t = s"
  "proxy_verdict E cc st w i s = Stop e t \<Longrightarrow> t = s"
  by (auto simp: proxy_verdict_def Let_def split: sum.splits option.splits if_splits)

lemma proxy_passes_kept: "passes (proxy_verdict E cc st w) n s j t \<Longrightarrow> t = s"
  using passes_pure [of "proxy_verdict E cc st w"] by (blast dest: proxy_verdict_kept)

lemma proxy_loop_cases:
  assumes "proxy_upgrade_loop E cc st w n s = (e, u)"
  shows "u = s \<or> (\<exists>i < n. u = setUpgradePartition (int i) s)"
  using assms
proof (cases rule: proxy_roll.loop_outcome)
  case (acted i t v)
  then show ?thesis
    using proxy_passes_kept [OF acted(2)] proxy_verdict_kept(2) [OF acted(3)]
    by (auto simp: upgradeProxyPod_def)
next
  case (stopped i t e')
  then show ?thesis
    using proxy_passes_kept [OF stopped(2)] proxy_verdict_kept(3) [OF stopped(3)] by simp
qed (simp add: proxy_passes_kept)

lemma proxyUpgrader_frame:
  assumes "proxyUpgrader_Upgrade E cc old new w = (e, cc', new', w')"
  shows "s_replicas new' = s_replicas new \<and> s_meta new' = s_meta new \<and>
    us_type (s_strategy new') = us_type (s_strategy new) \<and> w' = w \<and>
    cc' \<in> {cc, upd_proxy (\<lambda>p. p\<lparr>px_phase := UpgradePhase\<rparr>) cc}"
  using assms
  by (auto simp: proxyUpgrader_Upgrade_def Let_def set_s_template_def
      split: if_splits option.splits prod.splits sum.splits dest!: proxy_loop_cases)

interpretation proxy_up: set_upgrader "proxyUpgrader_Upgrade E" for E
  by unfold_locales (auto dest: proxyUpgrader_frame)

interpretation fake_proxy_up: set_upgrader fakeProxyUpgrader_Upgrade
  by unfold_locales (auto simp: fakeProxyUpgrader_Upgrade_def)

end
