(* ===== verification/Proxy_Properties.thy ===== *)
theory Proxy_Properties
  imports Proxy_Member Samples
begin

text \<open>
  When the proxies are synced, when one of their pods is replaced, and why their rolling
  upgrade does not get past the first pod.
\<close>

section \<open>Proxy\<close>

text \<open>
  The proxies wait for the stores.  While no store is up, or no store pod is ready, the
  proxy sync does nothing and asks to be run again.
\<close>

lemma proxy_sync_waits_for_store:
  assumes "small_maps cc"
    and "up_stores cc = 0 \<or> sto_set (cc_store cc) = None \<or>
      (\<exists>st. sto_set (cc_store cc) = Some st \<and> st_ready_replicas st < 1)"
  shows "\<exists>x. IsRequeueError x \<and> proxyMemberManager_Sync E up cc w = (Some x, cc, w)"
proof -
  have "\<not> StoreIsAvailable cc" using StoreIsAvailable_iff [OF assms(1)] assms(2) by auto
  then show ?thesis by (simp add: proxyMemberManager_Sync_def RequeueErrorf_def)
qed

definition proxy_pod_done :: "'w env \<Rightarrow> cellcluster \<Rightarrow> sset_status \<Rightarrow> 'w \<Rightarrow> int \<Rightarrow> bool" where
  "proxy_pod_done E cc st w i \<longleftrightarrow>
     (\<exists>pod m. l_pod E w (cc_ns cc) (proxyPodName (cc_name cc) i) = Inr pod \<and>
        mget (p_labels pod) ControllerRevisionHashLabelKey = Some (st_update_revision st) \<and>
        map_of (px_members (cc_proxy cc)) (proxyPodName (cc_name cc) i) = Some m \<and> xm_health m)"

lemma proxy_verdict_Pass: "proxy_verdict E cc st w i s = Pass t \<Longrightarrow> proxy_pod_done E cc st w i"
  by (auto simp: proxy_verdict_def proxy_pod_done_def Let_def split: sum.splits option.splits if_splits)

lemma proxy_verdict_Act:
  "proxy_verdict E cc st w i s = Act t \<Longrightarrow>
     \<exists>pod r. l_pod E w (cc_ns cc) (proxyPodName (cc_name cc) i) = Inr pod \<and>
       mget (p_labels pod) ControllerRevisionHashLabelKey = Some r \<and> r \<noteq> st_update_revision st"
  by (auto simp: proxy_verdict_def Let_def split: sum.splits option.splits if_splits)

lemma proxy_loop_moved:
  assumes "proxy_upgrade_loop E cc st w n s = (e, u)" and "u \<noteq> s"
  shows "\<exists>i < n. e = None \<and> u = setUpgradePartition (int i) s \<and>
    (\<exists>pod r. l_pod E w (cc_ns cc) (proxyPodName (cc_name cc) (int i)) = Inr pod \<and>
       mget (p_labels pod) ControllerRevisionHashLabelKey = Some r \<and> r \<noteq> st_update_revision st) \<and>
    (\<forall>j. i < j \<longrightarrow> j < n \<longrightarrow> proxy_pod_done E cc st w (int j))"
  using assms(1)
proof (cases rule: proxy_roll.loop_outcome)
  case finished
  then show ?thesis using assms(2) proxy_passes_kept [OF finished(2)] by simp
next
  case (stopped i t e')
  then show ?thesis
    using assms(2) proxy_passes_kept [OF stopped(2)] proxy_verdict_kept(3) [OF stopped(3)] by simp
next
  case (acted i t v)
  have t: "t = s" by (rule proxy_passes_kept [OF acted(2)])
  have v: "v = t" by (rule proxy_verdict_kept(2) [OF acted(3)])
  have "\<forall>j. Suc i \<le> j \<longrightarrow> j < n \<longrightarrow> proxy_verdict E cc st w (int j) s = Pass s"
    using conjunct2 [OF passes_pure [OF acted(2) proxy_verdict_kept(1)]] .
  then have "\<forall>j. i < j \<longrightarrow> j < n \<longrightarrow> proxy_pod_done E cc st w (int j)"
    by (auto simp: Suc_le_eq intro: proxy_verdict_Pass)
  moreover have "e = None" "u = setUpgradePartition (int i) s"
    using acted(4) t v by (simp_all add: upgradeProxyPod_def)
  ultimately show ?thesis using acted(1) proxy_verdict_Act [OF acted(3)] by blast
qed

lemma proxy_done_phase [simp]:
  "proxy_pod_done E (upd_proxy (\<lambda>p. p\<lparr>px_phase := x\<rparr>) cc) st w i = proxy_pod_done E cc st w i"
  by (simp add: proxy_pod_done_def)


definition smp_proxy_cc :: "(string, proxy_member) gomap \<Rightarrow> cellcluster" where
  "smp_proxy_cc ms = upd_proxy (\<lambda>s. s\<lparr>px_set := Some (smp_set_status 1), px_members := ms\<rparr>) smp_cc"

lemma smp_proxy_cc_simps [simp]:
  "cc_meta (smp_proxy_cc m) = cc_meta smp_cc" "cc_pd (smp_proxy_cc m) = cc_pd smp_cc"
  "cc_store (smp_proxy_cc m) = cc_store smp_cc"
  "cc_proxy (smp_proxy_cc m) = (cc_proxy smp_cc)\<lparr>px_set := Some (smp_set_status 1), px_members := m\<rparr>"
  by (simp_all add: smp_proxy_cc_def)

definition smp_proxy_env :: "string \<Rightarrow> unit env" where
  "smp_proxy_env r = (null_env (any_codec no_set_spec no_pod_spec no_svc_spec))
     \<lparr>l_pod := \<lambda>w ns n. Inr (smp_pod n ProxyLabelVal r)\<rparr>"

lemma smp_proxy_env_simps [simp]:
  "l_pod (smp_proxy_env r) = (\<lambda>w ns n. Inr (smp_pod n ProxyLabelVal r))"
  "e_codec (smp_proxy_env r) = any_codec no_set_spec no_pod_spec no_svc_spec"
  by (simp_all add: smp_proxy_env_def)

lemma smp_proxy_run:
  "proxyUpgrader_Upgrade (smp_proxy_env ''r1'') (smp_proxy_cc []) (smp_set ''c-proxy'' 1 1)
      (smp_set ''c-proxy'' 1 1) () =
     (None, upd_proxy (\<lambda>p. p\<lparr>px_phase := UpgradePhase\<rparr>) (smp_proxy_cc []),
      setUpgradePartition 0 (setUpgradePartition 1 (smp_set ''c-proxy'' 1 1)), ())"
  by (simp add: proxyUpgrader_Upgrade_def Let_def smp_template_equal proxy_verdict_def upgradeProxyPod_def)




text \<open>No sync of the proxies changes the list of proxies in the status.\<close>

lemma proxy_members_never_filled:
  "case proxyMemberManager_Sync E (proxyUpgrader_Upgrade E) cc w of
     (e, cc', w') \<Rightarrow> px_members (cc_proxy cc') = px_members (cc_proxy cc)"
proof -
  have st: "px_members (cc_proxy cc1) = px_members (cc_proxy cc)"
    if "proxy_syncCellClusterStatus E cc s w = (e, cc1)" for s e cc1
    using that by (auto simp: proxy_syncCellClusterStatus_def Let_def split: sum.splits)
  have up: "px_members (cc_proxy cc2) = px_members (cc_proxy cc1)"
    if "proxyUpgrader_Upgrade E cc1 old new w = (e, cc2, n, w')" for cc1 old new e cc2 n w'
    using proxyUpgrader_frame [OF that] by auto
  show ?thesis
    by (auto simp: proxyMemberManager_Sync_def syncProxyStatefulSetForCellCluster_def Let_def
        split: sum.splits prod.splits option.splits if_splits dest!: st up)
qed

end
