(* ===== verification/Store_Settles.thy ===== *)
theory Store_Settles
  imports Store_Properties Proxy_Properties Sync_Settles
begin

text \<open>
  When the syncs of the stores and of the proxies come to rest: both keep the contract of
  \<open>set_syncer\<close>, the stores although their sync scales the set one replica at a time.
\<close>

section \<open>The sync of the stores' set\<close>

abbreviation store_calm :: "cellcluster \<Rightarrow> bool" where
  "store_calm cc \<equiv> sto_phase (cc_store cc) \<noteq> UpgradePhase \<and> pd_phase (cc_pd cc) \<noteq> UpgradePhase"

abbreviation store_wishes :: "cellcluster \<Rightarrow> cellcluster \<Rightarrow> bool" where
  "store_wishes \<equiv> same_wishes (\<lambda>c. sto_failures (cc_store c))"

lemma getNewSet_same:
  assumes "store_wishes cc cc'"
  shows "getNewSetForCellCluster E cc' = getNewSetForCellCluster E cc"
proof -
  have c: "cc_meta cc' = cc_meta cc" "cc_spec cc' = cc_spec cc"
    using assms by (simp_all add: same_wishes_def)
  have l: "labelStore cc' = labelStore cc" by (simp add: labelStore_def c)
  have t: "store_template E cc' = store_template E cc"
    by (simp add: store_template_def store_container_def store_volumes_def Let_def c l)
  have o: "GetOwnerRef cc' = GetOwnerRef cc" by (simp add: GetOwnerRef_def c)
  have r: "StoreRealReplicas cc' = StoreRealReplicas cc"
    using assms by (simp add: StoreRealReplicas_def same_wishes_def)
  show ?thesis unfolding getNewSetForCellCluster_def t o r c l by (rule refl)
qed

lemma store_sync_creating:
  assumes run: "syncStatefulSetForCellCluster (traced E) upgrade scale cc (w, []) = (e, cc', (w', acts))"
    and missing: "l_set E w (cc_ns cc) (StoreMemberName (cc_name cc)) = Inl x"
    and new: "getNewSetForCellCluster E cc = Inr new"
  shows "acts = [] \<or> (\<exists>s. SetLastAppliedConfigAnnotation (e_codec E) new = (None, s) \<and> acts = [CreateSet s])"
  using run missing new
  by (auto simp: syncStatefulSetForCellCluster_def traced_calls lift_act_def
      split: if_splits prod.splits option.splits)

text \<open>An upgrade of the stores that leaves the cluster calm has done nothing, and says so.\<close>

lemma store_upgrader_calm:
  assumes "storeUpgrader_Upgrade E cc old new t = (e, cc', new', t')" and "store_calm cc'"
  shows "e \<noteq> None \<and> t' = t"
  using assms
  by (auto simp: storeUpgrader_Upgrade_def Let_def split: if_splits sum.splits option.splits prod.splits)

text \<open>The scale step does nothing when the set has the wanted replicas.\<close>

lemma scale_step_equal:
  "store_scale_step scale cc old new t = (ec, new', t') \<Longrightarrow> s_replicas old = s_replicas new \<Longrightarrow>
     t' = t \<and> new' = new"
  by (auto simp: store_scale_step_def split: option.splits)

lemma scale_step_quiet:
  assumes "store_scale_step (storeScaler_ScaleOut (traced E)) cc old new t = (ec, new', t')"
  shows "quiet t t'"
proof -
  have "t' = t \<or> (\<exists>x n. storeScaler_ScaleOut (traced E) cc old new t = (x, n, t'))"
    using assms by (auto simp: store_scale_step_def split: option.splits prod.splits if_splits)
  then show ?thesis using quiet_scale_out.scale_quiet by blast
qed

lemma scale_step_view:
  assumes "store_scale_step (storeScaler_ScaleOut (traced E)) cc old new t = (None, new', t')"
  shows "s_template new' = s_template new \<and> s_strategy new' = s_strategy new"
proof (cases "s_replicas old")
  case None
  then show ?thesis using assms by (auto simp: store_scale_step_def split: option.splits)
next
  case (Some r)
  from quiet_scale_out.scale_step [OF assms Some] show ?thesis by simp
qed

lemma store_sync_existing:
  assumes run: "syncStatefulSetForCellCluster (traced E) (storeUpgrader_Upgrade (traced E))
      (storeScaler_ScaleOut (traced E)) cc (w, []) = (e, cc', (w', acts))"
    and old: "l_set E w (cc_ns cc) (StoreMemberName (cc_name cc)) = Inr old"
    and new: "getNewSetForCellCluster E cc = Inr new"
  shows "ends_in_update E old new (store_calm cc') e w' acts"
proof -
  obtain es cc1 t1 where st: "store_syncCellClusterStatus (traced E) cc old (w, []) = (es, cc1, t1)"
    by (metis prod_cases3)
  have l1: "snd t1 = []" using traced_store_status [OF st] by simp
  let ?c = "\<not> templateEqual (e_codec E) (s_template new) (s_template old) \<or> sto_phase (cc_store cc1) = UpgradePhase"
  obtain eu cc2 new1 t2 where up: "(if ?c then storeUpgrader_Upgrade (traced E) cc1 old new t1
      else (None, cc1, new, t1)) = (eu, cc2, new1, t2)" by (metis prod_cases4)
  have q2: "list_all (\<lambda>a. \<not> is_set_request a) (snd t2)" and n1: "s_replicas new1 = s_replicas new"
    using quiet_store_up.step_frame [OF up] l1 by (auto simp: adds_def)
  have calm: "t2 = t1 \<and> (eu = None \<longrightarrow> new1 = new)" if "store_calm cc2"
    using up that store_upgrader_calm [of "traced E" cc1 old new t1 eu cc2 new1 t2] by (auto split: if_splits)
  obtain ec new2 t3 where sc: "store_scale_step (storeScaler_ScaleOut (traced E)) cc2 old new1 t2 = (ec, new2, t3)"
    by (metis prod_cases3)
  have q3: "list_all (\<lambda>a. \<not> is_set_request a) (snd t3)"
    using scale_step_quiet [OF sc] q2 by (auto simp: adds_def)
  have same: "t3 = t2 \<and> new2 = new1" if "s_replicas old = s_replicas new"
    using scale_step_equal [OF sc] that n1 by simp
  consider (status) "acts = snd t1" | (upgrade) "acts = snd t2" "cc' = cc2"
    | (scale) "acts = snd t3" "cc' = cc2" "eu = None"
    | (update) "eu = None" "ec = None" "cc' = cc2"
        "update_set_if_changed (traced E) cc2 new2 old t3 = (e, (w', acts))"
    using run old new st up sc
    by (auto simp: syncStatefulSetForCellCluster_def split: if_splits option.splits prod.splits)
  then show ?thesis
  proof cases
    case status
    then show ?thesis using l1 by (simp add: ends_nothing)
  next
    case upgrade
    then show ?thesis using ends_quiet [OF q2] ends_nothing calm l1 by (metis (full_types))
  next
    case scale
    then show ?thesis using ends_quiet [OF q3] ends_nothing calm l1 same by (metis (full_types))
  next
    case update
    have u: "update_set_if_changed (traced E) cc2 new2 old (fst t3, snd t3) = (e, (w', acts))"
      using update(4) by simp
    show ?thesis
    proof (rule ends_updated [OF u q3])
      show "snd t3 = []" if "store_calm cc' \<and> s_replicas old = s_replicas new"
        using that calm same l1 update(3) by auto
      show "s_template new2 = s_template new \<and> s_strategy new2 = s_strategy new" if "store_calm cc'"
        using that calm update(1,3) scale_step_view [OF sc [unfolded update(2)]] by simp
      show "s_replicas new2 = s_replicas new" if "s_replicas old = s_replicas new"
        using same [OF that] n1 by simp
    qed
  qed
qed

interpretation store_sets: set_syncer E "syncStatefulSetForCellCluster (traced E) (storeUpgrader_Upgrade (traced E))
    (storeScaler_ScaleOut (traced E))" "getNewSetForCellCluster E" StoreMemberName store_calm
  "\<lambda>c. sto_failures (cc_store c)" for E
  by unfold_locales (rule store_sync_creating store_sync_existing getNewSet_same, assumption+)+

section \<open>The sync of the proxies' set\<close>

abbreviation proxy_calm :: "cellcluster \<Rightarrow> bool" where
  "proxy_calm cc \<equiv> px_phase (cc_proxy cc) \<noteq> UpgradePhase \<and> store_calm cc"

abbreviation proxy_wishes :: "cellcluster \<Rightarrow> cellcluster \<Rightarrow> bool" where
  "proxy_wishes \<equiv> same_wishes (\<lambda>c. px_failures (cc_proxy c))"

lemma getNewProxySet_same:
  assumes "proxy_wishes cc cc'"
  shows "getNewProxySetForCellCluster E cc' = getNewProxySetForCellCluster E cc"
proof -
  have c: "cc_meta cc' = cc_meta cc" "cc_spec cc' = cc_spec cc"
    using assms by (simp_all add: same_wishes_def)
  have l: "proxy_selector cc' = proxy_selector cc" by (simp add: proxy_selector_def c)
  have t: "proxy_template E cc' = proxy_template E cc"
    by (simp add: proxy_template_def proxy_container_def proxy_volumes_def Let_def c l)
  have o: "GetOwnerRef cc' = GetOwnerRef cc" by (simp add: GetOwnerRef_def c)
  have r: "ProxyRealReplicas cc' = ProxyRealReplicas cc"
    using assms by (simp add: ProxyRealReplicas_def same_wishes_def)
  show ?thesis unfolding getNewProxySetForCellCluster_def t o r c l by (rule refl)
qed

lemma traced_newProxySet: "getNewProxySetForCellCluster (traced E) cc = getNewProxySetForCellCluster E cc"
  by (simp add: getNewProxySetForCellCluster_def proxy_template_def proxy_container_def)

lemma proxy_sync_creating:
  assumes run: "syncProxyStatefulSetForCellCluster (traced E) upgrade cc (w, []) = (e, cc', (w', acts))"
    and missing: "l_set E w (cc_ns cc) (ProxyMemberName (cc_name cc)) = Inl x"
  shows "acts = [] \<or> (\<exists>s. SetLastAppliedConfigAnnotation (e_codec E) (getNewProxySetForCellCluster E cc) = (None, s) \<and>
    acts = [CreateSet s])"
  using run missing
  by (auto simp: syncProxyStatefulSetForCellCluster_def traced_calls traced_newProxySet lift_act_def Let_def
      split: if_splits prod.splits option.splits)

lemma proxy_upgrader_calm:
  assumes "proxyUpgrader_Upgrade E cc old new t = (e, cc', new', t')"
  shows "\<not> proxy_calm cc'"
  using assms
  by (auto simp: proxyUpgrader_Upgrade_def Let_def split: if_splits sum.splits option.splits prod.splits)

lemma proxy_sync_existing:
  assumes run: "syncProxyStatefulSetForCellCluster (traced E) (proxyUpgrader_Upgrade (traced E)) cc (w, []) =
      (e, cc', (w', acts))"
    and old: "l_set E w (cc_ns cc) (ProxyMemberName (cc_name cc)) = Inr old"
  shows "ends_in_update E old (getNewProxySetForCellCluster E cc) (proxy_calm cc') e w' acts"
proof -
  let ?new = "getNewProxySetForCellCluster E cc"
  obtain es cc1 where st: "proxy_syncCellClusterStatus (traced E) cc old (w, []) = (es, cc1)" by fastforce
  let ?c = "\<not> templateEqual (e_codec E) (s_template ?new) (s_template old) \<or> px_phase (cc_proxy cc1) = UpgradePhase"
  obtain eu cc2 new1 t2 where up: "(if ?c then proxyUpgrader_Upgrade (traced E) cc1 old ?new (w, [])
      else (None, cc1, ?new, (w, []))) = (eu, cc2, new1, t2)" by (metis prod_cases4)
  have t2: "t2 = (w, [])" and n1: "s_replicas new1 = s_replicas ?new"
    using up by (auto dest: proxyUpgrader_frame split: if_splits)
  have calm: "new1 = ?new" if "proxy_calm cc2"
    using up that proxy_upgrader_calm [of "traced E" cc1 old ?new "(w, [])" eu cc2 new1 t2] by (auto split: if_splits)
  consider (nothing) "acts = []" | (update) "cc' = cc2"
        "update_set_if_changed (traced E) cc2 new1 old (w, []) = (e, (w', acts))"
    using run old st up t2
    by (auto simp: syncProxyStatefulSetForCellCluster_def traced_newProxySet Let_def
        split: if_splits option.splits prod.splits)
  then show ?thesis
  proof cases
    case nothing
    then show ?thesis by (simp add: ends_nothing)
  next
    case update
    then show ?thesis using calm n1 by - (rule ends_updated, assumption, auto)
  qed
qed

interpretation proxy_sets: set_syncer E "syncProxyStatefulSetForCellCluster (traced E) (proxyUpgrader_Upgrade (traced E))"
  "\<lambda>cc. Inr (getNewProxySetForCellCluster E cc)" ProxyMemberName proxy_calm "\<lambda>c. px_failures (cc_proxy c)" for E
  by unfold_locales (auto intro: proxy_sync_existing getNewProxySet_same dest: proxy_sync_creating)

section \<open>Rest\<close>

text \<open>
  C33: the syncs of the stores settle, although they scale by one replica at a time.  Let a sync
  create the StatefulSet, or update it outside an upgrade to the wanted number of replicas, and
  let the API server keep what it was sent, with whatever status.  Then a later sync of a cluster
  with the same spec, metadata and failures that finds no upgrade to do sends nothing.
\<close>

theorem store_sync_settles:
  assumes new: "getNewSetForCellCluster E cc = Inr new"
    and codec: "codec_set_ok (e_codec E) (s_spec new)" "codec_pod_ok (e_codec E) (t_spec (s_template new))"
      "\<And>old. l_set E w (cc_ns cc) (StoreMemberName (cc_name cc)) = Inr old \<Longrightarrow>
        codec_set_ok (e_codec E) (sent_spec new old)"
    and first: "syncStatefulSetForCellCluster (traced E) (storeUpgrader_Upgrade (traced E))
      (storeScaler_ScaleOut (traced E)) cc (w, []) = (e, cc1, w1, acts)"
    and sent: "CreateSet s \<in> set acts \<or> (UpdateSet s \<in> set acts \<and> store_calm cc1 \<and> s_replicas s = s_replicas new)"
    and kept: "l_set E v (cc_ns cc) (StoreMemberName (cc_name cc)) = Inr (s\<lparr>s_status := st\<rparr>)"
    and same: "store_wishes cc cc2"
    and second: "syncStatefulSetForCellCluster (traced E) (storeUpgrader_Upgrade (traced E))
      (storeScaler_ScaleOut (traced E)) cc2 (v, []) = (e2, cc3, w2, acts2)"
    and normal: "store_calm cc3"
  shows "acts2 = []"
  by (rule store_sets.settles [OF new codec first sent kept same second normal])

text \<open>The same of the proxies.\<close>

lemma proxy_sync_settles:
  assumes "codec_set_ok (e_codec E) (s_spec (getNewProxySetForCellCluster E cc))"
    and "codec_pod_ok (e_codec E) (t_spec (s_template (getNewProxySetForCellCluster E cc)))"
    and "\<And>old. l_set E w (cc_ns cc) (ProxyMemberName (cc_name cc)) = Inr old \<Longrightarrow>
        codec_set_ok (e_codec E) (sent_spec (getNewProxySetForCellCluster E cc) old)"
    and "syncProxyStatefulSetForCellCluster (traced E) (proxyUpgrader_Upgrade (traced E)) cc (w, []) = (e, cc1, w1, acts)"
    and "CreateSet s \<in> set acts \<or> (UpdateSet s \<in> set acts \<and> proxy_calm cc1 \<and>
      s_replicas s = s_replicas (getNewProxySetForCellCluster E cc))"
    and "l_set E v (cc_ns cc) (ProxyMemberName (cc_name cc)) = Inr (s\<lparr>s_status := st\<rparr>)"
    and "proxy_wishes cc cc2"
    and "syncProxyStatefulSetForCellCluster (traced E) (proxyUpgrader_Upgrade (traced E)) cc2 (v, []) = (e2, cc3, w2, acts2)"
    and "proxy_calm cc3"
  shows "acts2 = []"
  by (rule proxy_sets.settles [OF refl assms])

lemma getNewSet_env:
  "e_q E = e_q F \<Longrightarrow> e_default_class E = e_default_class F \<Longrightarrow>
     getNewSetForCellCluster E cc = getNewSetForCellCluster F cc"
  by (simp add: getNewSetForCellCluster_def store_template_def store_container_def storage_class_def Let_def split: sum.split)

lemma smp_store_status:
  "s_status s = sset_status0 \<Longrightarrow> \<exists>c. store_syncCellClusterStatus (traced (smp_one_set J)) smp_cc s (Some s, []) =
     (None, c, (Some s, [])) \<and> sto_phase (cc_store c) = NormalPhase \<and> pd_phase (cc_pd c) = NormalPhase"
  by (simp add: store_syncCellClusterStatus_def Let_def storeStatefulSetIsUpgrading_def statefulSetIsUpgrading_def
      sset_status0_def store_pull_status_def traced_calls lift_act_def lift_read_def)

theorem store_sync_settles_witness:
  "\<exists>J s e c w c2 w2. syncStatefulSetForCellCluster (traced (smp_one_set J))
       (storeUpgrader_Upgrade (traced (smp_one_set J))) (storeScaler_ScaleOut (traced (smp_one_set J)))
       smp_cc (None, []) = (e, c, w, [CreateSet s]) \<and>
     syncStatefulSetForCellCluster (traced (smp_one_set J))
       (storeUpgrader_Upgrade (traced (smp_one_set J))) (storeScaler_ScaleOut (traced (smp_one_set J)))
       smp_cc (Some s, []) = (None, c2, w2, [])"
proof -
  obtain new where n: "getNewSetForCellCluster (smp_one_set undefined) smp_cc = Inr new"
    by (simp add: getNewSetForCellCluster_def Let_def storage_quantity_def)
  define J where "J = any_codec (s_spec new) (t_spec (s_template new)) no_svc_spec"
  let ?E = "smp_one_set J"
  let ?sync = "syncStatefulSetForCellCluster (traced ?E) (storeUpgrader_Upgrade (traced ?E))
    (storeScaler_ScaleOut (traced ?E)) smp_cc"
  have new: "getNewSetForCellCluster ?E smp_cc = Inr new"
    using n getNewSet_env [of ?E "smp_one_set undefined"] by (simp add: smp_one_set_def null_env_def)
  have codec: "codec_set_ok (e_codec ?E) (s_spec new)" "codec_pod_ok (e_codec ?E) (t_spec (s_template new))"
    by (simp_all add: J_def codec_set_ok_def codec_pod_ok_def)
  then obtain s where s: "SetLastAppliedConfigAnnotation J new = (None, s)" using GetLastApplied_Set by fastforce
  have "s_status new = sset_status0" "s_replicas new \<noteq> None"
    using new by (auto simp: getNewSetForCellCluster_def Let_def split: sum.splits)
  with SetLastApplied_frame [OF s] have st: "s_status s = sset_status0" "s_replicas s = s_replicas new"
    "s_replicas new \<noteq> None" by simp_all
  obtain e c w where r1: "?sync (None, []) = (e, c, w, [CreateSet s])"
    using new s by (simp add: syncStatefulSetForCellCluster_def missing_def traced_calls lift_act_def)
  obtain c1 where r: "store_syncCellClusterStatus (traced ?E) smp_cc s (Some s, []) = (None, c1, (Some s, []))"
    "sto_phase (cc_store c1) = NormalPhase" "pd_phase (cc_pd c1) = NormalPhase" using smp_store_status [OF st(1)] by blast
  have t: "templateEqual J (s_template new) (s_template s)" "statefulSetEqual J new s"
    using statefulSetEqual_Set [OF _ _ s] codec by simp_all
  obtain k where k: "s_replicas new = Some k" using st(3) by blast
  obtain e2 c2 w2 acts2 where r2: "?sync (Some s, []) = (e2, c2, w2, acts2)" by (metis prod.collapse)
  have "store_calm c2" "e2 = None"
    using r2 new r t st(2) k
    by (auto simp: syncStatefulSetForCellCluster_def store_scale_step_def update_set_if_changed_def phase_defs)
  moreover have "l_set ?E (Some s) (cc_ns smp_cc) (StoreMemberName (cc_name smp_cc)) = Inr (s\<lparr>s_status := sset_status0\<rparr>)"
    using st(1) by (cases s) simp
  ultimately have "acts2 = []"
    using store_sync_settles [OF new codec _ r1 _ _ _ r2] by (auto simp: same_wishes_def missing_def)
  with r1 r2 \<open>e2 = None\<close> show ?thesis by blast
qed

end
