(* ===== verification/Store_Scaling.thy ===== *)
theory Store_Scaling
  imports Store_Properties
begin

text \<open>
  Adding and removing stores, recording the stores that failed, and the status the stores
  are reported with.
\<close>

section \<open>Scaling\<close>

lemma ScaleIn_moved:
  assumes run: "storeScaler_ScaleIn (traced E) cc old new (w, []) = (e, new', (w', acts))"
    and r: "s_replicas old = Some r" and n: "s_replicas new = Some n" and moved: "s_replicas new' \<noteq> Some r"
  shows "e = None \<and> s_replicas new' = Some (wrap32 (r - 1)) \<and> \<not> StoreUpgrading cc \<and>
    (let i = wrap32 (r - 1); podName = ordinalPodName StoreMemberType (cc_name cc) i
     in store_of_pod podName (sto_stores (cc_store cc)) = None \<and>
       (\<exists>storeID store. (storeID, store) \<in> set (sto_tombstones (cc_store cc)) \<and>
          kv_pod_name store = podName) \<and>
       (\<exists>pvc pvc'. l_pvc E w (cc_ns cc) (ordinalPVCName StoreMemberType (s_name old) i) = Inr pvc \<and>
          pvc' = pvc\<lparr>pvc_meta := (pvc_meta pvc)\<lparr>m_ann :=
            mput AnnPVCDeferDeleting (e_fmt E (e_now E w)) (m_ann (pvc_meta pvc))\<rparr>\<rparr> \<and>
          acts = [TouchPVC pvc', UpdatePVC pvc']))"
proof -
  let ?i = "wrap32 (r - 1)"
  let ?pod = "ordinalPodName StoreMemberType (cc_name cc) ?i"
  note reset = reset_some [OF r n]
  have up: "\<not> StoreUpgrading cc"
    using run r moved reset by (auto simp: storeScaler_ScaleIn_def replicas_then_def)
  obtain pod where pod: "l_pod E w (cc_ns cc) ?pod = Inr pod"
    using run r moved reset up
    by (cases "l_pod E w (cc_ns cc) ?pod") (auto simp: storeScaler_ScaleIn_def replicas_then_def Let_def)
  have none: "store_of_pod ?pod (sto_stores (cc_store cc)) = None"
  proof (rule ccontr)
    assume "store_of_pod ?pod (sto_stores (cc_store cc)) \<noteq> None"
    then obtain s where "store_of_pod ?pod (sto_stores (cc_store cc)) = Some s" by auto
    then have "scale_in_listed (traced E) cc old new s (w, []) = (e, new', (w', acts))"
      using run r up pod by (simp add: storeScaler_ScaleIn_def Let_def)
    from scale_in_listed_outcome [OF this r n] moved show False by simp
  qed
  obtain k s where f: "find (\<lambda>(i, store). kv_pod_name store = ?pod \<and>
      mval (p_labels pod) StoreIDLabelKey = i) (sto_tombstones (cc_store cc)) = Some (k, s)"
    using run r moved reset up pod none
    by (cases "find (\<lambda>(i, store). kv_pod_name store = ?pod \<and>
      mval (p_labels pod) StoreIDLabelKey = i) (sto_tombstones (cc_store cc))")
      (auto simp: storeScaler_ScaleIn_def replicas_then_def Let_def)
  have t: "scale_in_tombstone (traced E) cc old new ?i s (w, []) = (e, new', (w', acts))"
    using run r up pod none f by (simp add: storeScaler_ScaleIn_def Let_def)
  have "(k, s) \<in> set (sto_tombstones (cc_store cc)) \<and> kv_pod_name s = ?pod"
    using find_SomeD [OF f] by auto
  moreover have "e = None \<and> s_replicas new' = Some ?i"
    using scale_in_tombstone_outcome [OF t r n] moved by auto
  moreover have "\<exists>pvc pvc'. l_pvc E w (cc_ns cc) (ordinalPVCName StoreMemberType (s_name old) ?i) = Inr pvc \<and>
          pvc' = pvc\<lparr>pvc_meta := (pvc_meta pvc)\<lparr>m_ann :=
            mput AnnPVCDeferDeleting (e_fmt E (e_now E w)) (m_ann (pvc_meta pvc))\<rparr>\<rparr> \<and>
          acts = [TouchPVC pvc', UpdatePVC pvc']"
    using t reset moved
    by (auto simp: scale_in_tombstone_def Let_def replicas_then_def traced_calls lift_act_def
      split: sum.splits prod.splits option.splits)
  ultimately show ?thesis using up none by (auto simp: Let_def)
qed
 
text \<open>
  C1: a store is taken away only when PD has given it up.  If scaling in changes the
  replicas, they go down by one, nothing is being upgraded, PD no longer lists the store of
  the last pod and lists it as a tombstone, and the only requests sent are the ones that
  mark the pod's claim as deferred for deletion.
\<close>

theorem store_scale_in_safe:
  assumes run: "storeScaler_ScaleIn (traced E) cc old new (w, []) = (e, new', (w', acts))"
    and r: "s_replicas old = Some r" and n: "s_replicas new = Some n" and moved: "s_replicas new' \<noteq> Some r"
  shows "e = None \<and> s_replicas new' = Some (wrap32 (r - 1)) \<and> \<not> StoreUpgrading cc \<and>
    (let i = wrap32 (r - 1); podName = ordinalPodName StoreMemberType (cc_name cc) i
     in store_of_pod podName (sto_stores (cc_store cc)) = None \<and>
       (\<exists>storeID store. (storeID, store) \<in> set (sto_tombstones (cc_store cc)) \<and>
          kv_pod_name store = podName) \<and>
       (\<exists>pvc pvc'. l_pvc E w (cc_ns cc) (ordinalPVCName StoreMemberType (s_name old) i) = Inr pvc \<and>
          pvc' = pvc\<lparr>pvc_meta := (pvc_meta pvc)\<lparr>m_ann :=
            mput AnnPVCDeferDeleting (e_fmt E (e_now E w)) (m_ann (pvc_meta pvc))\<rparr>\<rparr> \<and>
          acts = [TouchPVC pvc', UpdatePVC pvc']))"
  by (rule ScaleIn_moved [OF assms])

definition smp_scale_env :: "pvc \<Rightarrow> unit env" where
  "smp_scale_env pvc = (null_env (any_codec no_set_spec no_pod_spec no_svc_spec))
     \<lparr>l_pod := \<lambda>w ns n. Inr smp_store_pod, l_pvc := \<lambda>w ns n. Inr pvc\<rparr>"

lemma smp_scale_env_simps [simp]:
  "l_pod (smp_scale_env pvc) = (\<lambda>w ns n. Inr smp_store_pod)"
  "l_pvc (smp_scale_env pvc) = (\<lambda>w ns n. Inr pvc)" "t_pvc (smp_scale_env pvc) = (\<lambda>p w. w)"
  "k_update_pvc (smp_scale_env pvc) = (\<lambda>cc p w. (None, w))"
  "k_delete_pvc (smp_scale_env pvc) = (\<lambda>cc p w. (None, w))"
  "c_delete_store (smp_scale_env pvc) = (\<lambda>cc i w. (None, w))"
  "e_now (smp_scale_env pvc) = (\<lambda>w. 0)" "e_fmt (smp_scale_env pvc) = (\<lambda>t. ''now'')"
  by (simp_all add: smp_scale_env_def)

lemma smp_store_pod_label [simp]: "mval (p_labels smp_store_pod) StoreIDLabelKey = ''1''"
  by (simp add: smp_store_pod_def setter_defs)

definition smp_gone_cc :: cellcluster where
  "smp_gone_cc = upd_store (\<lambda>s. s\<lparr>sto_tombstones := [(''1'', smp_store 0)]\<rparr>) smp_cc"

lemma smp_ordinal_pod: "ordinalPodName StoreMemberType ''c'' 0 = ''c-store-0''"
  by code_simp

theorem store_scale_in_safe_witness:
  "\<exists>e new' acts. storeScaler_ScaleIn (traced (smp_scale_env (smp_pvc ''p'' None))) smp_gone_cc
     (smp_set ''c-store'' 1 1) (smp_set ''c-store'' 0 0) ((), []) = (e, new', ((), acts)) \<and>
     e = None \<and> s_replicas new' = Some (wrap32 (1 - 1)) \<and> \<not> StoreUpgrading smp_gone_cc"
proof -
  let ?p = "(smp_pvc ''p'' None)\<lparr>pvc_meta := (pvc_meta (smp_pvc ''p'' None))\<lparr>m_ann :=
    mput AnnPVCDeferDeleting ''now'' None\<rparr>\<rparr>"
  have r: "storeScaler_ScaleIn (traced (smp_scale_env (smp_pvc ''p'' None))) smp_gone_cc
     (smp_set ''c-store'' 1 1) (smp_set ''c-store'' 0 0) ((), []) =
     (None, set_s_replicas 0 (smp_set ''c-store'' 0 0), ((), [TouchPVC ?p, UpdatePVC ?p]))"
    by (simp add: storeScaler_ScaleIn_def smp_gone_cc_def StoreUpgrading_def store_of_pod_def
        smp_ordinal_pod scale_in_tombstone_def replicas_then_def decreaseReplicas_def
        assign_replicas_def traced_calls lift_act_def Let_def)
  show ?thesis using store_scale_in_safe [OF r, of 1 0] r by simp
qed



text \<open>
  C28: a new store starts without old data.  If scaling out changes the replicas, they go up
  by one, nothing is being upgraded, and the claim of the new ordinal either does not exist,
  or was not marked by a scale-in, or is deleted first.
\<close>

theorem store_scale_out_reclaims:
  assumes run: "storeScaler_ScaleOut (traced E) cc old new (w, []) = (e, new', (w', acts))"
    and r: "s_replicas old = Some r" and n: "s_replicas new = Some n" and moved: "s_replicas new' \<noteq> Some r"
  shows "e = None \<and> s_replicas new' = Some (wrap32 (r + 1)) \<and> \<not> StoreUpgrading cc \<and>
    (case l_pvc E w (cc_ns cc) (ordinalPVCName StoreMemberType (s_name old) r) of
       Inl x \<Rightarrow> is_not_found x \<and> acts = []
     | Inr pvc \<Rightarrow> acts = (if mget (m_ann (pvc_meta pvc)) AnnPVCDeferDeleting = None then [] else [DeletePVC pvc]))"
  using run r n moved reset_some [OF r n]
  by (auto simp: storeScaler_ScaleOut_def deleteDeferDeletingPVC_def replicas_then_def traced_calls lift_act_def
      split: if_splits sum.splits prod.splits option.splits)

theorem store_scale_out_reclaims_witness:
  "\<exists>new' acts. storeScaler_ScaleOut
     (traced (smp_scale_env (smp_pvc ''p'' (Some [AnnPVCDeferDeleting \<mapsto> ''now''])))) smp_cc
     (smp_set ''c-store'' 0 0) (smp_set ''c-store'' 1 1) ((), []) = (None, new', ((), acts)) \<and>
     s_replicas new' = Some 1 \<and>
     acts = [DeletePVC (smp_pvc ''p'' (Some [AnnPVCDeferDeleting \<mapsto> ''now'']))]"
proof -
  let ?p = "smp_pvc ''p'' (Some [AnnPVCDeferDeleting \<mapsto> ''now''])"
  have r: "storeScaler_ScaleOut (traced (smp_scale_env ?p)) smp_cc
     (smp_set ''c-store'' 0 0) (smp_set ''c-store'' 1 1) ((), []) =
     (None, set_s_replicas 1 (smp_set ''c-store'' 1 1), ((), [DeletePVC ?p]))"
    by (simp add: storeScaler_ScaleOut_def StoreUpgrading_def deleteDeferDeletingPVC_def
        replicas_then_def increaseReplicas_def assign_replicas_def traced_calls lift_act_def)
  show ?thesis using store_scale_out_reclaims [OF r, of 0 1] r by simp
qed

section \<open>Failover\<close>

text \<open>A store that has been down for longer than the limit.\<close>

definition overdue :: "'w env \<Rightarrow> int \<Rightarrow> 'w \<Rightarrow> kv_store \<Rightarrow> bool" where
  "overdue E maxDown w s \<longleftrightarrow> kv_state s = StoreStateDown \<and>
     (\<exists>t. kv_transition s = Some t \<and> t + maxDown < e_now E w)"

definition failure_of :: "kv_store \<Rightarrow> kv_failure_store" where
  "failure_of s = \<lparr>kf_pod_name = kv_pod_name s, kf_store_id = kv_id s\<rparr>"

abbreviation listed_pod :: "(string, kv_failure_store) gomap \<Rightarrow> string \<Rightarrow> bool" where
  "listed_pod fs p \<equiv> list_ex (\<lambda>(_, f). kf_pod_name f = p) fs"

lemma failover_step:
  "failover_loop E d w ((i, s) # ss) fs =
     failover_loop E d w ss
       (if overdue E d w s \<and> \<not> listed_pod fs (kv_pod_name s) then gput i (failure_of s) fs else fs)"
  by (auto simp: overdue_def failure_of_def Let_def split: option.splits)

declare failover_loop.simps(2) [simp del]

text \<open>Every entry is an old one or that of an overdue store.\<close>

lemma failover_sound:
  "map_of (failover_loop E d w ss fs) i = Some f \<Longrightarrow>
     map_of fs i = Some f \<or> (\<exists>s. (i, s) \<in> set ss \<and> overdue E d w s \<and> f = failure_of s)"
proof (induction ss arbitrary: fs)
  case (Cons x ss)
  obtain j s where x: "x = (j, s)" by fastforce
  show ?case
    using Cons.IH [of "if overdue E d w s \<and> \<not> listed_pod fs (kv_pod_name s)
        then gput j (failure_of s) fs else fs"] Cons.prems
    by (auto simp: x failover_step split: if_splits)
qed simp

text \<open>The entries of the stores still to come belong to them, so nothing is overwritten.\<close>

definition entries_match :: "(string, kv_failure_store) gomap \<Rightarrow> (string \<times> kv_store) list \<Rightarrow> bool" where
  "entries_match fs ss \<longleftrightarrow>
     (\<forall>(i, s) \<in> set ss. \<forall>f. map_of fs i = Some f \<longrightarrow> kf_pod_name f = kv_pod_name s)"

lemma listed_pod_get: "map_of fs i = Some f \<Longrightarrow> listed_pod fs (kf_pod_name f)"
  by (auto simp: list_ex_iff dest!: map_of_SomeD)

lemma listed_pod_iff:
  "distinct (map fst fs) \<Longrightarrow> listed_pod fs p \<longleftrightarrow> (\<exists>j f. map_of fs j = Some f \<and> kf_pod_name f = p)"
  by (auto simp: list_ex_iff map_of_eq_Some_iff)

lemma entries_match_gput:
  "j \<notin> fst ` set ss \<Longrightarrow> entries_match (gput j f fs) ss \<longleftrightarrow> entries_match fs ss"
  unfolding entries_match_def by (rule ball_cong) force+

text \<open>What one store adds, and that the rest of the stores still match.\<close>

lemma failover_head:
  assumes "distinct (map fst ((j, s) # ss))" and "entries_match fs ((j, s) # ss)"
    and "distinct (map fst fs)"
  obtains fs' where "failover_loop E d w ((j, s) # ss) fs = failover_loop E d w ss fs'"
    "distinct (map fst fs')" "entries_match fs' ss" "map_of fs \<subseteq>\<^sub>m map_of fs'"
    "overdue E d w s \<Longrightarrow> \<exists>i f. map_of fs' i = Some f \<and> kf_pod_name f = kv_pod_name s"
proof (cases "overdue E d w s \<and> \<not> listed_pod fs (kv_pod_name s)")
  case True
  have "map_of fs j = None"
    using True assms(2) listed_pod_get [of fs j]
    by (cases "map_of fs j") (auto simp: entries_match_def)
  then have "map_of fs \<subseteq>\<^sub>m map_of (gput j (failure_of s) fs)"
    by (auto simp: map_le_def)
  moreover have "entries_match (gput j (failure_of s) fs) ss"
    using assms(1,2) entries_match_gput [of j ss] by (simp add: entries_match_def)
  moreover have "\<exists>i f. map_of (gput j (failure_of s) fs) i = Some f \<and> kf_pod_name f = kv_pod_name s"
    by (rule exI [of _ j]) (simp add: failure_of_def)
  moreover have "failover_loop E d w ((j, s) # ss) fs = failover_loop E d w ss (gput j (failure_of s) fs)"
    using True by (simp add: failover_step)
  moreover have "distinct (map fst (gput j (failure_of s) fs))" using assms(3) by simp
  ultimately show ?thesis using that by blast
next
  case False
  then have "failover_loop E d w ((j, s) # ss) fs = failover_loop E d w ss fs"
    by (simp only: failover_step if_False)
  moreover have "overdue E d w s \<Longrightarrow> \<exists>i f. map_of fs i = Some f \<and> kf_pod_name f = kv_pod_name s"
    using False listed_pod_iff [OF assms(3)] by blast
  moreover have "entries_match fs ss" using assms(2) by (simp add: entries_match_def)
  ultimately show ?thesis using that [of fs, OF _ assms(3) _ map_le_refl] by blast
qed

lemma failover_grows:
  assumes "distinct (map fst ss)" and "entries_match fs ss" and "distinct (map fst fs)"
  shows "map_of fs \<subseteq>\<^sub>m map_of (failover_loop E d w ss fs)"
  using assms
proof (induction ss arbitrary: fs)
  case (Cons x ss)
  obtain j s where x: "x = (j, s)" by fastforce
  obtain fs' where "failover_loop E d w (x # ss) fs = failover_loop E d w ss fs'"
    "distinct (map fst fs')" "entries_match fs' ss" "map_of fs \<subseteq>\<^sub>m map_of fs'"
    using failover_head [OF Cons.prems [unfolded x]] x by metis
  then show ?case using Cons.IH [of fs'] Cons.prems(1) by (auto intro: map_le_trans)
qed simp

lemma failover_complete:
  assumes "distinct (map fst ss)" and "entries_match fs ss" and "distinct (map fst fs)"
    and "(i, s) \<in> set ss" and "overdue E d w s"
  shows "\<exists>j f. map_of (failover_loop E d w ss fs) j = Some f \<and> kf_pod_name f = kv_pod_name s"
  using assms
proof (induction ss arbitrary: fs)
  case (Cons x ss)
  obtain j t where x: "x = (j, t)" by fastforce
  obtain fs' where l: "failover_loop E d w (x # ss) fs = failover_loop E d w ss fs'"
    and d: "distinct (map fst fs')" and m: "entries_match fs' ss"
    and t: "overdue E d w t \<Longrightarrow> \<exists>i f. map_of fs' i = Some f \<and> kf_pod_name f = kv_pod_name t"
    using failover_head [OF Cons.prems(1-3) [unfolded x], of E d w] x by metis
  show ?case
  proof (cases "(i, s) \<in> set ss")
    case True
    then show ?thesis using Cons.IH [OF _ m d _ Cons.prems(5)] Cons.prems(1) l by simp
  next
    case False
    with Cons.prems(4) x have "s = t" by simp
    then obtain k f where "map_of fs' k = Some f" "kf_pod_name f = kv_pod_name s"
      using t Cons.prems(5) by blast
    moreover have "map_of fs' \<subseteq>\<^sub>m map_of (failover_loop E d w (x # ss) fs)"
      using failover_grows [OF _ m d, of E d w] Cons.prems(1) l by simp
    ultimately show ?thesis by (metis domI map_le_def)
  qed
qed simp


definition smp_down_cc :: cellcluster where
  "smp_down_cc = upd_store (\<lambda>s. s\<lparr>sto_stores :=
     [(''1'', (smp_store 0)\<lparr>kv_state := StoreStateDown, kv_transition := Some (- 5)\<rparr>)]\<rparr>) smp_cc"

section \<open>Status\<close>

text \<open>The stores of an answer of PD that have both a description and a status.\<close>

abbreviation reported :: "stores_info \<Rightarrow> kv_store list" where
  "reported infos \<equiv> List.map_filter getKVStore infos"

lemma kv_stores_loop_fold:
  "kv_stores_loop f infos acc = fold (\<lambda>s. gput (kv_id s) (f s)) (reported infos) acc"
  by (induction f infos acc rule: kv_stores_loop.induct) (simp_all add: List.map_filter_simps split: option.splits)

lemma map_of_fold_gput:
  "map_of (fold (\<lambda>s. gput (k s) (f s)) xs m) i =
     (case find (\<lambda>s. k s = i) (rev xs) of Some s \<Rightarrow> Some (f s) | None \<Rightarrow> map_of m i)"
  by (induction xs arbitrary: m) (auto simp: find_snoc split: option.splits)

lemma kv_stores_loop_get:
  assumes "distinct (map kv_id (reported infos))" and "s \<in> set (reported infos)"
  shows "map_of (kv_stores_loop f infos []) (kv_id s) = Some (f s)"
proof -
  have "find (\<lambda>t. kv_id t = kv_id s) (rev (reported infos)) = Some s"
  proof -
    obtain t where t: "find (\<lambda>t. kv_id t = kv_id s) (rev (reported infos)) = Some t"
      using assms(2) by (cases "find (\<lambda>t. kv_id t = kv_id s) (rev (reported infos))")
        (auto simp: find_None_iff)
    then have "t \<in> set (reported infos)" "kv_id t = kv_id s" using find_SomeD by fastforce+
    then have "t = s" using assms by (auto simp: distinct_map inj_on_def)
    with t show ?thesis by simp
  qed
  then show ?thesis by (simp add: kv_stores_loop_fold map_of_fold_gput)
qed

lemma kv_store_of_frame:
  "kv_id (kv_store_of now prev s) = kv_id s" "kv_state (kv_store_of now prev s) = kv_state s"
  "kv_leader_count (kv_store_of now prev s) = kv_leader_count s"
  "kv_pod_name (kv_store_of now prev s) = kv_pod_name s"
  by (auto simp: kv_store_of_def Let_def split: option.splits)


definition smp_info :: "int \<Rightarrow> store_info" where
  "smp_info state = \<lparr>si_id = 1, si_address = ''c-store-0:1'', si_state = state, si_labels = [],
     si_status = Some \<lparr>ss_heartbeat_ts = 0, ss_leader_count = 2\<rparr>\<rparr>"

definition smp_info_env :: "unit env" where
  "smp_info_env = (null_env smp_store_codec)
     \<lparr>c_stores := \<lambda>cc w. (Inr [Some (smp_info 1)], w), c_tombstones := \<lambda>cc w. (Inr [], w)\<rparr>"


end
