(* ===== verification/Store_Rolling.thy ===== *)
theory Store_Rolling
  imports PD_Rolling Store_Properties
begin

text \<open>
  The rolling upgrade of the stores as a system: the upgrader as the code has it, the StatefulSet
  controller, which replaces pods at or above the partition, PD, which reports the stores and
  moves their leaders, and the clock.  PD and the API server may refuse any call.
\<close>

section \<open>The system\<close>

record sroll =
  sl_n :: nat                              \<comment> \<open>replicas of the set\<close>
  sl_updated :: "nat \<Rightarrow> bool"             \<comment> \<open>the pod runs the update revision\<close>
  sl_up :: "nat \<Rightarrow> bool"                  \<comment> \<open>PD reports the store as up\<close>
  sl_leaders :: "nat \<Rightarrow> int"              \<comment> \<open>and with so many leaders\<close>
  sl_mark :: "nat \<Rightarrow> string option"       \<comment> \<open>when the pod's eviction began\<close>
  sl_clock :: time
  sl_part :: nat                           \<comment> \<open>the partition of the set\<close>

text \<open>The libraries: JSON, and the time format, which drops fractions of a second.\<close>

record roll_libs =
  lib_codec :: codec
  lib_fmt :: "time \<Rightarrow> string"
  lib_parse :: "string \<Rightarrow> time option"

definition libs_ok :: "roll_libs \<Rightarrow> bool" where
  "libs_ok L \<longleftrightarrow> (\<forall>t. \<exists>u. lib_parse L (lib_fmt L t) = Some u \<and> u \<le> t) \<and>
     (\<exists>x p. j_dec_pod (lib_codec L) x = Inr p)"

text \<open>What PD and the API server answer to the upgrader's calls.\<close>

record roll_answers =
  an_begin :: "goerr option"
  an_end :: "goerr option"
  an_update :: "goerr option"

definition pod_ordinal :: "string \<Rightarrow> sroll \<Rightarrow> string \<Rightarrow> nat option" where
  "pod_ordinal ccName r name = find (\<lambda>i. storePodName ccName (int i) = name) [0..<sl_n r]"

definition sroll_pod :: "sroll \<Rightarrow> string \<Rightarrow> nat \<Rightarrow> pod" where
  "sroll_pod r name i = set_p_ann (map_option (\<lambda>b. [EvictLeaderBeginTime \<mapsto> b]) (sl_mark r i))
     (smp_pod name StoreLabelVal (rev_of (sl_updated r i)))"

definition write_mark :: "string \<Rightarrow> pod \<Rightarrow> sroll \<Rightarrow> sroll" where
  "write_mark ccName pod r =
     (case pod_ordinal ccName r (p_name pod) of
        None \<Rightarrow> r
      | Some i \<Rightarrow> r\<lparr>sl_mark := (sl_mark r)(i := mget (p_ann pod) EvictLeaderBeginTime)\<rparr>)"

definition sroll_env :: "roll_libs \<Rightarrow> string \<Rightarrow> roll_answers \<Rightarrow> sroll env" where
  "sroll_env L ccName A = (null_env (lib_codec L))
     \<lparr>l_pod := \<lambda>r ns name. (case pod_ordinal ccName r name of
         None \<Rightarrow> missing | Some i \<Rightarrow> Inr (sroll_pod r name i)),
      t_pod := write_mark ccName,
      k_update_pod := \<lambda>cc p r. (an_update A, r),
      c_begin_evict := \<lambda>cc i r. (an_begin A, r),
      c_end_evict := \<lambda>cc i r. (an_end A, r),
      e_now := sl_clock, e_fmt := lib_fmt L, e_parse := lib_parse L\<rparr>"

text \<open>The status of the cluster: one store per pod, as PD reports it.\<close>

definition sroll_store :: "string \<Rightarrow> sroll \<Rightarrow> nat \<Rightarrow> kv_store" where
  "sroll_store ccName r i = (smp_store (sl_leaders r i))
     \<lparr>kv_id := show_nat (i + 1), kv_pod_name := storePodName ccName (int i),
      kv_state := if sl_up r i then StoreStateUp else StoreStateDown\<rparr>"

definition sroll_cc :: "cellcluster \<Rightarrow> sroll \<Rightarrow> cellcluster" where
  "sroll_cc cc r = upd_store (\<lambda>s. s\<lparr>sto_synced := True, sto_set := Some (smp_set_status (int (sl_n r))),
       sto_stores := map (\<lambda>i. (show_nat (i + 1), sroll_store (cc_name cc) r i)) [0..<sl_n r]\<rparr>)
     (upd_pd (\<lambda>p. p\<lparr>pd_phase := NormalPhase\<rparr>) cc)"

text \<open>One call of the upgrader.  The set is updated with what it returns, unless it fails or the
  update does.\<close>

definition upgrader_moves :: "cellcluster \<Rightarrow> roll_libs \<Rightarrow> sroll \<Rightarrow> sroll \<Rightarrow> bool" where
  "upgrader_moves cc L r s \<longleftrightarrow>
     (\<exists>A old new e cc' new' w p. us_rolling (s_strategy old) = Some (Some (int (sl_part r))) \<and>
        templateEqual (lib_codec L) (s_template new) (s_template old) \<and>
        storeUpgrader_Upgrade (sroll_env L (cc_name cc) A) (sroll_cc cc r) old new r = (e, cc', new', w) \<and>
        us_rolling (s_strategy new') = Some (Some (int p)) \<and>
        (s = w \<or> e = None \<and> s = w\<lparr>sl_part := p\<rparr>))"

inductive sroll_step :: "cellcluster \<Rightarrow> roll_libs \<Rightarrow> sroll \<Rightarrow> sroll \<Rightarrow> bool" for cc L where
  upgrader_step: "upgrader_moves cc L r s \<Longrightarrow> sroll_step cc L r s"
| replaced_step: "sl_part r \<le> i \<Longrightarrow> i < sl_n r \<Longrightarrow> \<not> sl_updated r i \<Longrightarrow>
    sroll_step cc L r (r\<lparr>sl_updated := (sl_updated r)(i := True), sl_up := (sl_up r)(i := up),
      sl_mark := (sl_mark r)(i := None)\<rparr>)"
| report_step: "i < sl_n r \<Longrightarrow> sroll_step cc L r (r\<lparr>sl_up := (sl_up r)(i := True)\<rparr>)"
| leaders_step: "sroll_step cc L r (r\<lparr>sl_leaders := l\<rparr>)"
| clock_step: "sl_clock r \<le> t \<Longrightarrow> sroll_step cc L r (r\<lparr>sl_clock := t\<rparr>)"

inductive sroll_reach :: "cellcluster \<Rightarrow> roll_libs \<Rightarrow> sroll \<Rightarrow> sroll \<Rightarrow> bool" for cc L where
  sreach_refl: "sroll_reach cc L r r"
| sreach_step: "sroll_reach cc L r s \<Longrightarrow> sroll_step cc L s t \<Longrightarrow> sroll_reach cc L r t"

inductive_cases sroll_stepE: "sroll_step cc L r s"

text \<open>An upgrade starts with every pod outdated and every store up; leaders and clock are arbitrary.\<close>

definition sroll_starts :: "nat \<Rightarrow> sroll \<Rightarrow> bool" where
  "sroll_starts n r \<longleftrightarrow> sl_n r = n \<and> sl_part r = n \<and>
     (\<forall>i. \<not> sl_updated r i \<and> sl_up r i \<and> sl_mark r i = None)"

section \<open>What the upgrader sees\<close>

lemma sroll_env_simps [simp]:
  "l_pod (sroll_env L c A) r ns name = (case pod_ordinal c r name of
     None \<Rightarrow> missing | Some i \<Rightarrow> Inr (sroll_pod r name i))"
  "t_pod (sroll_env L c A) = write_mark c" "k_update_pod (sroll_env L c A) = (\<lambda>cc p r. (an_update A, r))"
  "c_begin_evict (sroll_env L c A) = (\<lambda>cc i r. (an_begin A, r))"
  "c_end_evict (sroll_env L c A) = (\<lambda>cc i r. (an_end A, r))"
  "e_now (sroll_env L c A) = sl_clock" "e_fmt (sroll_env L c A) = lib_fmt L"
  "e_parse (sroll_env L c A) = lib_parse L" "e_codec (sroll_env L c A) = lib_codec L"
  by (simp_all add: sroll_env_def)

lemma pod_ordinal_own: "i < sl_n r \<Longrightarrow> pod_ordinal c r (storePodName c (int i)) = Some i"
  unfolding pod_ordinal_def by (intro find_unique) (auto simp: storePodName_inj)

lemma sroll_pod_simps [simp]:
  "mget (p_ann (sroll_pod r name i)) EvictLeaderBeginTime = sl_mark r i"
  "mget (p_labels (sroll_pod r name i)) ControllerRevisionHashLabelKey = Some (rev_of (sl_updated r i))"
  "p_name (sroll_pod r name i) = name" "p_phase (sroll_pod r name i) = ''Running''"
proof -
  show "mget (p_ann (sroll_pod r name i)) EvictLeaderBeginTime = sl_mark r i"
    by (cases "sl_mark r i") (simp_all add: sroll_pod_def set_p_ann_def mget_def)
  show "mget (p_labels (sroll_pod r name i)) ControllerRevisionHashLabelKey = Some (rev_of (sl_updated r i))"
    using smp_pod_simps(4) [of name StoreLabelVal] by (simp add: sroll_pod_def set_p_ann_def)
qed (simp_all add: sroll_pod_def set_p_ann_def smp_pod_def)

lemma sroll_cc_simps [simp]:
  "cc_meta (sroll_cc cc r) = cc_meta cc" "pd_phase (cc_pd (sroll_cc cc r)) = NormalPhase"
  "sto_synced (cc_store (sroll_cc cc r))" "sto_set (cc_store (sroll_cc cc r)) = Some (smp_set_status (int (sl_n r)))"
  by (simp_all add: sroll_cc_def)

definition sroll_up_cc :: "cellcluster \<Rightarrow> sroll \<Rightarrow> cellcluster" where
  "sroll_up_cc cc r = upd_store (\<lambda>s. s\<lparr>sto_phase := UpgradePhase\<rparr>) (sroll_cc cc r)"

lemma sroll_up_cc_meta [simp]: "cc_meta (sroll_up_cc cc r) = cc_meta cc"
  by (simp add: sroll_up_cc_def)

lemma sroll_store_of_pod:
  assumes "i < sl_n r"
  shows "getStoreByOrdinal (sroll_up_cc cc r) (int i) = Some (sroll_store (cc_name cc) r i)"
proof -
  let ?e = "\<lambda>i. (show_nat (i + 1), sroll_store (cc_name cc) r i)"
  have "find (\<lambda>(_, store). kv_pod_name store = storePodName (cc_name cc) (int i)) (map ?e [0..<sl_n r]) = Some (?e i)"
    using assms by (intro find_unique) (auto simp: sroll_store_def storePodName_inj)
  then show ?thesis
    by (simp add: getStoreByOrdinal_def store_of_pod_def sroll_up_cc_def sroll_cc_def)
qed

text \<open>The upgrader changes nothing of this state but the marks.\<close>

definition marks_only :: "roll_libs \<Rightarrow> sroll \<Rightarrow> sroll \<Rightarrow> bool" where
  "marks_only L r w \<longleftrightarrow> w = r\<lparr>sl_mark := sl_mark w\<rparr> \<and>
     (\<forall>i. sl_mark w i \<in> {sl_mark r i, None, Some (lib_fmt L (sl_clock r))})"

lemma marks_only_refl [simp]: "marks_only L r r"
  by (simp add: marks_only_def)

lemma marks_only_same:
  "marks_only L r w \<Longrightarrow> sl_n w = sl_n r \<and> sl_updated w = sl_updated r \<and> sl_up w = sl_up r \<and>
     sl_leaders w = sl_leaders r \<and> sl_clock w = sl_clock r \<and> sl_part w = sl_part r"
proof -
  assume "marks_only L r w"
  then have "w = r\<lparr>sl_mark := sl_mark w\<rparr>" by (simp add: marks_only_def)
  then show ?thesis by (metis sroll.select_convs sroll.surjective sroll.update_convs(5))
qed

lemma marks_only_trans:
  assumes "marks_only L r v" and "marks_only L v w"
  shows "marks_only L r w"
proof -
  have "v = r\<lparr>sl_mark := sl_mark v\<rparr>" "w = v\<lparr>sl_mark := sl_mark w\<rparr>"
    using assms by (simp_all add: marks_only_def)
  then have "w = r\<lparr>sl_mark := sl_mark w\<rparr>" by (metis sroll.surjective sroll.update_convs(5))
  moreover have "sl_mark w i \<in> {sl_mark r i, None, Some (lib_fmt L (sl_clock r))}" for i
    using assms marks_only_same [OF assms(1)] unfolding marks_only_def by (metis insertE insertI1 insertI2)
  ultimately show ?thesis unfolding marks_only_def by blast
qed

lemma write_mark_only:
  "mget (p_ann p) EvictLeaderBeginTime \<in> {None, Some (lib_fmt L (sl_clock r))} \<Longrightarrow>
     marks_only L r (write_mark c p r)"
  by (auto simp: write_mark_def marks_only_def split: option.splits)

lemma p_ann_set [simp]: "p_ann (set_p_ann a p) = a"
  by (simp add: set_p_ann_def)

lemma endEvict_marks:
  assumes "endEvictLeader (sroll_env L c A) cc i w = (e, w')"
  shows "marks_only L w w'"
  using assms write_mark_only
  by (auto simp: endEvictLeader_def Let_def split: option.splits sum.splits if_splits prod.splits)

lemma verdict_marks:
  assumes "store_verdict (sroll_env L c A) cc st i (s, w) = v" and "v \<in> {Pass t, Stop e t, Act t}"
  shows "marks_only L w (snd t)"
  using assms
  by (auto simp: store_verdict_def Let_def endEvict_marks split: option.splits sum.splits if_splits prod.splits)

lemma upgradePod_marks:
  assumes "upgradeStorePod (sroll_env L c A) cc i (s, w) = (e, s', w')"
  shows "marks_only L w w'"
  using upgradeStorePod_cases [OF assms] write_mark_only
  by (auto simp: beginEvictLeader_def Let_def split: option.splits)

lemma loop_marks:
  "store_upgrade_loop (sroll_env L c A) cc st n (s, w) = (e, s', w') \<Longrightarrow> marks_only L w w'"
proof (induction n arbitrary: s w)
  case (Suc n)
  show ?case
  proof (cases "store_verdict (sroll_env L c A) cc st (int n) (s, w)")
    case (Pass t)
    then have "marks_only L w (snd t)" by (rule verdict_marks) simp
    moreover have "marks_only L (snd t) w'" using Suc Pass by (cases t) simp
    ultimately show ?thesis by (rule marks_only_trans)
  next
    case (Act t)
    then have "marks_only L w (snd t)" by (rule verdict_marks) simp
    moreover have "marks_only L (snd t) w'" using Suc.prems Act by (cases t) (auto dest: upgradePod_marks)
    ultimately show ?thesis by (rule marks_only_trans)
  next
    case (Stop e' t)
    then have "marks_only L w (snd t)" by (rule verdict_marks) simp
    with Stop Suc.prems show ?thesis by simp
  qed
qed simp

section \<open>Safety\<close>

lemma done_in_state:
  assumes "store_pod_done (sroll_env L (cc_name cc) A) (sroll_up_cc cc r) (smp_set_status m) (int j) v v'"
    and "marks_only L r v" and "j < sl_n r"
  shows "sl_updated r j \<and> sl_up r j"
  using assms marks_only_same [OF assms(2)]
  by (auto simp: store_pod_done_def sroll_store_of_pod sroll_store_def pod_ordinal_own rev_of_def
      split: if_splits)

definition waited_out :: "roll_libs \<Rightarrow> sroll \<Rightarrow> nat \<Rightarrow> bool" where
  "waited_out L r i \<longleftrightarrow>
     sl_leaders r i = 0 \<or>
     (\<exists>b t. sl_mark r i = Some b \<and> lib_parse L b = Some t \<and> t + EvictLeaderTimeout < sl_clock r)"

lemma drained_in_state:
  assumes "store_drained (sroll_env L (cc_name cc) A) (sroll_up_cc cc r) (int i) w" and "marks_only L r w"
    and "i < sl_n r"
  shows "waited_out L w i"
  using assms marks_only_same [OF assms(2)]
  by (auto simp: store_drained_def sroll_store_of_pod sroll_store_def pod_ordinal_own waited_out_def)

lemma outdated_in_state:
  assumes "store_pod_outdated (sroll_env L (cc_name cc) A) (sroll_up_cc cc r) (smp_set_status m) (int i) w"
    and "marks_only L r w" and "i < sl_n r"
  shows "\<not> sl_updated r i"
  using assms marks_only_same [OF assms(2)]
  by (auto simp: store_pod_outdated_def pod_ordinal_own rev_of_def split: if_splits)

lemma sroll_loop:
  assumes "store_upgrade_loop (sroll_env L (cc_name cc) A) (sroll_up_cc cc r) (smp_set_status k) m (x, w) = (e, y, w')"
    and "marks_only L r w" and "m \<le> sl_n r" and "y \<noteq> x"
  shows "\<exists>i < m. e = None \<and> y = setUpgradePartition (int i) x \<and> \<not> sl_updated r i \<and> waited_out L w' i \<and>
    (\<forall>j. i < j \<longrightarrow> j < m \<longrightarrow> sl_updated r j \<and> sl_up r j)"
  using assms(1-3)
proof (induction m arbitrary: w)
  case 0
  then show ?case using assms(4) by simp
next
  case (Suc m)
  let ?E = "sroll_env L (cc_name cc) A" and ?cc = "sroll_up_cc cc r" and ?st = "smp_set_status k"
  have m: "m < sl_n r" using Suc.prems by simp
  show ?case
  proof (cases "store_verdict ?E ?cc ?st (int m) (x, w)")
    case (Pass t)
    from verdict_marks [OF this] have mo: "marks_only L w (snd t)" by simp
    from Pass m obtain v where v: "store_pod_done ?E ?cc ?st (int m) w v" "t = (x, v)"
      by (auto simp: store_verdict_Pass sroll_store_of_pod)
    have "\<exists>i < m. e = None \<and> y = setUpgradePartition (int i) x \<and> \<not> sl_updated r i \<and> waited_out L w' i \<and>
        (\<forall>j. i < j \<longrightarrow> j < m \<longrightarrow> sl_updated r j \<and> sl_up r j)"
      using Suc.prems Pass v mo by (intro Suc.IH [of v]) (auto intro: marks_only_trans)
    with done_in_state [OF v(1) Suc.prems(2) m] show ?thesis by (metis less_Suc_eq)
  next
    case (Act t)
    then have t: "t = (x, w)" and o: "store_pod_outdated ?E ?cc ?st (int m) w"
      by (simp_all add: store_verdict_Act)
    have u: "upgradeStorePod ?E ?cc (int m) (x, w) = (e, y, w')" using Suc.prems(1) Act t by simp
    with assms(4) have "e = None" "y = setUpgradePartition (int m) x" "w' = w" "store_drained ?E ?cc (int m) w"
      by (auto dest: upgradeStorePod_cases)
    with drained_in_state [OF _ Suc.prems(2) m] outdated_in_state [OF o Suc.prems(2) m] show ?thesis
      by (intro exI [of _ m]) auto
  next
    case (Stop e' t)
    from store_verdict_Stop [OF this] Stop Suc.prems(1) assms(4) show ?thesis by simp
  qed
qed

text \<open>What one call of the upgrader does to the state.\<close>

lemma upgrader_moves_spec:
  assumes "upgrader_moves cc L r s"
  shows "marks_only L r s \<or>
    (\<exists>p w. s = w\<lparr>sl_part := p\<rparr> \<and> marks_only L r w \<and> p < sl_n r \<and> \<not> sl_updated r p \<and> waited_out L s p \<and>
      (\<forall>j. p < j \<longrightarrow> j < sl_n r \<longrightarrow> sl_updated r j \<and> sl_up r j))"
proof -
  obtain A old new e cc' new' w p where
    o: "us_rolling (s_strategy old) = Some (Some (int (sl_part r)))"
    "templateEqual (lib_codec L) (s_template new) (s_template old)"
    "storeUpgrader_Upgrade (sroll_env L (cc_name cc) A) (sroll_cc cc r) old new r = (e, cc', new', w)"
    "us_rolling (s_strategy new') = Some (Some (int p))" and s: "s = w \<or> e = None \<and> s = w\<lparr>sl_part := p\<rparr>"
    using assms unfolding upgrader_moves_def by blast
  let ?new = "setUpgradePartition (int (sl_part r)) new"
  have loop: "store_upgrade_loop (sroll_env L (cc_name cc) A) (sroll_up_cc cc r)
      (smp_set_status (int (sl_n r))) (sl_n r) (?new, r) = (e, new', w)"
    using o(1-3) by (auto simp: storeUpgrader_Upgrade_def Let_def sroll_up_cc_def split: prod.splits)
  have w: "marks_only L r w" by (rule loop_marks [OF loop])
  show ?thesis
  proof (cases "s = w \<or> new' = ?new")
    case True
    then have "s = w"
    proof
      assume "new' = ?new"
      then have "p = sl_part w" using o(4) marks_only_same [OF w] by simp
      with s show "s = w" by auto
    qed
    with w show ?thesis by simp
  next
    case False
    with s have sw: "s = w\<lparr>sl_part := p\<rparr>" by blast
    from False sroll_loop [OF loop marks_only_refl order_refl] obtain i where i: "i < sl_n r"
      "new' = setUpgradePartition (int i) ?new" "\<not> sl_updated r i" "waited_out L w i"
      "\<forall>j. i < j \<longrightarrow> j < sl_n r \<longrightarrow> sl_updated r j \<and> sl_up r j" by blast
    moreover have "p = i" using i(2) o(4) by simp
    moreover have "waited_out L s i" using i(4) sw by (simp add: waited_out_def)
    ultimately show ?thesis using sw w by blast
  qed
qed

text \<open>Pods below the partition are outdated, pods above it are updated, and only the store at the
  partition is reported down.\<close>

definition sroll_inv :: "sroll \<Rightarrow> bool" where
  "sroll_inv r \<longleftrightarrow>
     (\<forall>i < sl_n r. (sl_part r < i \<longrightarrow> sl_updated r i) \<and> (sl_updated r i \<longrightarrow> sl_part r \<le> i)) \<and>
     (\<forall>i < sl_n r. \<not> sl_up r i \<longrightarrow> i = sl_part r \<and> sl_updated r i)"

lemma marks_only_inv: "marks_only L r s \<Longrightarrow> sroll_inv s = sroll_inv r"
  using marks_only_same [of L r s] by (simp add: sroll_inv_def)

lemma sroll_step_inv:
  assumes "sroll_step cc L r s" and "sroll_inv r"
  shows "sroll_inv s \<and> sl_n s = sl_n r"
  using assms(1)
proof cases
  case upgrader_step
  from upgrader_moves_spec [OF this] show ?thesis
  proof
    assume "marks_only L r s"
    with assms(2) show ?thesis by (simp add: marks_only_inv marks_only_same)
  next
    assume "\<exists>p w. s = w\<lparr>sl_part := p\<rparr> \<and> marks_only L r w \<and> p < sl_n r \<and> \<not> sl_updated r p \<and> waited_out L s p \<and>
      (\<forall>j. p < j \<longrightarrow> j < sl_n r \<longrightarrow> sl_updated r j \<and> sl_up r j)"
    then obtain p w where s: "s = w\<lparr>sl_part := p\<rparr>" "marks_only L r w" and p: "p < sl_n r" "\<not> sl_updated r p"
      "\<forall>j. p < j \<longrightarrow> j < sl_n r \<longrightarrow> sl_updated r j \<and> sl_up r j" by blast
    have up: "sl_up r i" if "i < sl_n r" for i
    proof (rule ccontr)
      assume d: "\<not> sl_up r i"
      with assms(2) that have i: "i = sl_part r" "sl_updated r i" by (auto simp: sroll_inv_def)
      from p assms(2) have "p \<le> sl_part r" by (force simp: sroll_inv_def)
      with i p that d show False by (metis le_neq_implies_less)
    qed
    have "p \<le> i" if "i < sl_n r" "sl_updated r i" for i
    proof -
      have "sl_part r \<le> i" "p \<le> sl_part r" using that p assms(2) by (force simp: sroll_inv_def)+
      then show ?thesis by simp
    qed
    then show ?thesis using p(3) up s(1) marks_only_same [OF s(2)] by (simp add: sroll_inv_def)
  qed
next
  case (replaced_step i up)
  then have "i = sl_part r" using assms(2) by (force simp: sroll_inv_def)
  then show ?thesis using assms(2) replaced_step by (auto simp: sroll_inv_def)
next
  case (report_step i)
  then show ?thesis using assms(2) by (auto simp: sroll_inv_def)
qed (use assms(2) in \<open>simp_all add: sroll_inv_def\<close>)

lemma sroll_reach_inv: "sroll_reach cc L r s \<Longrightarrow> sroll_inv r \<Longrightarrow> sroll_inv s \<and> sl_n s = sl_n r"
  by (induction rule: sroll_reach.induct) (auto dest: sroll_step_inv)

lemma sroll_starts_inv: "sroll_starts n r \<Longrightarrow> sroll_inv r \<and> sl_n r = n"
  by (simp add: sroll_starts_def sroll_inv_def)

text \<open>Every pod that may be replaced was waited out when the partition came to it.\<close>

definition drained_before :: "cellcluster \<Rightarrow> roll_libs \<Rightarrow> sroll \<Rightarrow> sroll \<Rightarrow> nat \<Rightarrow> bool" where
  "drained_before cc L r s i \<longleftrightarrow>
     (\<exists>t. sroll_reach cc L r t \<and> sroll_reach cc L t s \<and> \<not> sl_updated t i \<and> waited_out L t i \<and>
        (\<forall>j. i < j \<longrightarrow> j < sl_n t \<longrightarrow> sl_updated t j \<and> sl_up t j))"

lemma drained_before_step:
  "drained_before cc L r s i \<Longrightarrow> sroll_step cc L s t \<Longrightarrow> drained_before cc L r t i"
  unfolding drained_before_def by (meson sreach_step)

lemma sroll_history:
  assumes "sroll_reach cc L r s" and "sroll_starts n r"
  shows "\<forall>i < n. sl_part s \<le> i \<longrightarrow> drained_before cc L r s i"
  using assms
proof (induction rule: sroll_reach.induct)
  case (sreach_refl r)
  then show ?case by (simp add: sroll_starts_def)
next
  case (sreach_step r s t)
  have inv: "sroll_inv s" "sl_n s = n"
    using sroll_reach_inv [OF sreach_step(1)] sroll_starts_inv [OF sreach_step.prems] by auto
  have keep: "\<forall>i < n. sl_part s \<le> i \<longrightarrow> drained_before cc L r t i"
    using sreach_step.IH [OF sreach_step.prems] drained_before_step [OF _ sreach_step(2)] by blast
  from sreach_step(2) show ?case
  proof cases
    case upgrader_step
    from upgrader_moves_spec [OF this] show ?thesis
    proof
      assume "marks_only L s t"
      with keep show ?thesis by (simp add: marks_only_same)
    next
      assume "\<exists>p w. t = w\<lparr>sl_part := p\<rparr> \<and> marks_only L s w \<and> p < sl_n s \<and> \<not> sl_updated s p \<and> waited_out L t p \<and>
        (\<forall>j. p < j \<longrightarrow> j < sl_n s \<longrightarrow> sl_updated s j \<and> sl_up s j)"
      then obtain p w where t: "t = w\<lparr>sl_part := p\<rparr>" "marks_only L s w" and p: "p < n" "\<not> sl_updated s p"
        "waited_out L t p" "\<forall>j. p < j \<longrightarrow> j < n \<longrightarrow> sl_updated s j \<and> sl_up s j"
        using inv(2) by auto
      have "drained_before cc L r t p"
        unfolding drained_before_def
        using sroll_reach.sreach_step [OF sreach_step(1,2)] p t(1) marks_only_same [OF t(2)] inv(2)
        by (intro exI [of _ t]) (auto intro: sreach_refl)
      moreover have "sl_part s \<le> i" if "i < n" "p < i" for i
        using that p(4) inv by (auto simp: sroll_inv_def)
      ultimately show ?thesis using keep t(1) by (auto simp: le_less)
    qed
  qed (use keep in simp_all)
qed

text \<open>
  C7: the rolling upgrade of the stores, in every reachable state and however the upgrader, the
  StatefulSet controller, PD and the clock interleave, whatever PD and the API server refuse: at
  most the store at the partition is reported down, and every pod that has been replaced was still
  there at a moment when its store had no leaders or its eviction had begun more than three
  minutes before, with every store above it updated and up.
\<close>

theorem store_rolling_safe:
  assumes "sroll_reach cc L r s" and "sroll_starts n r"
  shows "{i. i < n \<and> \<not> sl_up s i} \<subseteq> {sl_part s} \<and>
    (\<forall>i < n. sl_updated s i \<longrightarrow> drained_before cc L r s i)"
proof -
  have "sroll_inv s" "sl_n s = n"
    using sroll_reach_inv [OF assms(1)] sroll_starts_inv [OF assms(2)] by auto
  then show ?thesis using sroll_history [OF assms] by (auto simp: sroll_inv_def)
qed

section \<open>Progress\<close>

text \<open>When nothing is refused.\<close>

definition all_granted :: roll_answers where
  "all_granted = \<lparr>an_begin = None, an_end = None, an_update = None\<rparr>"

lemma all_granted_simps [simp]:
  "an_begin all_granted = None" "an_end all_granted = None" "an_update all_granted = None"
  by (simp_all add: all_granted_def)

abbreviation granted_env :: "roll_libs \<Rightarrow> cellcluster \<Rightarrow> sroll env" where
  "granted_env L cc \<equiv> sroll_env L (cc_name cc) all_granted"

lemma sroll_store_simps [simp]:
  "sl_n r < 2 ^ 31 \<Longrightarrow> i < sl_n r \<Longrightarrow> parse_uint (kv_id (sroll_store c r i)) = Inr (i + 1)"
  "kv_leader_count (sroll_store c r i) = sl_leaders r i"
  "kv_state (sroll_store c r i) = StoreStateUp \<longleftrightarrow> sl_up r i"
  by (simp_all add: sroll_store_def)

lemma write_mark_own:
  "i < sl_n w \<Longrightarrow> p_name p = storePodName c (int i) \<Longrightarrow>
     write_mark c p w = w\<lparr>sl_mark := (sl_mark w)(i := mget (p_ann p) EvictLeaderBeginTime)\<rparr>"
  by (simp add: write_mark_def pod_ordinal_own)

lemma p_name_set_ann [simp]: "p_name (set_p_ann a p) = p_name p"
  by (simp add: set_p_ann_def)

lemma pass_granted:
  assumes "i < sl_n r" and "sl_n r < 2 ^ 31" and "marks_only L r w" and "sl_updated r i" and "sl_up r i"
  shows "\<exists>w'. store_verdict (granted_env L cc) (sroll_up_cc cc r) (smp_set_status k) (int i) (x, w) = Pass (x, w') \<and>
    marks_only L r w' \<and> (\<forall>j. j \<noteq> i \<longrightarrow> sl_mark w' j = sl_mark w j)"
proof -
  note m = marks_only_same [OF assms(3)]
  have "\<exists>w'. endEvictLeader (granted_env L cc) (sroll_up_cc cc r) (int i) w = (None, w') \<and>
      (\<forall>j. j \<noteq> i \<longrightarrow> sl_mark w' j = sl_mark w j)"
    using assms m
    by (simp add: endEvictLeader_def sroll_store_of_pod pod_ordinal_own write_mark_own Let_def)
  then obtain w' where w': "endEvictLeader (granted_env L cc) (sroll_up_cc cc r) (int i) w = (None, w')"
    "\<forall>j. j \<noteq> i \<longrightarrow> sl_mark w' j = sl_mark w j" by blast
  moreover have "marks_only L r w'" by (rule marks_only_trans [OF assms(3) endEvict_marks [OF w'(1)]])
  ultimately show ?thesis using assms m
    by (intro exI [of _ w'])
      (simp add: store_verdict_def sroll_store_of_pod pod_ordinal_own rev_of_def Let_def)
qed

lemma loop_granted:
  assumes "k < m" and "m \<le> sl_n r" and "sl_n r < 2 ^ 31" and "marks_only L r v"
    and "\<forall>j. k < j \<longrightarrow> j < m \<longrightarrow> sl_updated r j" and "\<forall>j < sl_n r. sl_up r j" and "\<not> sl_updated r k"
  shows "\<exists>w. marks_only L r w \<and> sl_mark w k = sl_mark v k \<and>
    store_upgrade_loop (granted_env L cc) (sroll_up_cc cc r) (smp_set_status n) m (x, v) =
      upgradeStorePod (granted_env L cc) (sroll_up_cc cc r) (int k) (x, w)"
  using assms(1,2,4,5)
proof (induction m arbitrary: v)
  case (Suc m)
  let ?E = "granted_env L cc" and ?cc = "sroll_up_cc cc r" and ?st = "smp_set_status n"
  have m: "m < sl_n r" using Suc.prems by simp
  show ?case
  proof (cases "m = k")
    case True
    have "store_verdict ?E ?cc ?st (int k) (x, v) = Act (x, v)"
      using m True assms(7) marks_only_same [OF Suc.prems(3)]
      by (simp add: store_verdict_Act store_pod_outdated_def sroll_store_of_pod pod_ordinal_own rev_of_def)
    with True Suc.prems show ?thesis by (intro exI [of _ v]) simp
  next
    case False
    then have "k < m" using Suc.prems by simp
    have "sl_updated r m" "sl_up r m" using \<open>k < m\<close> Suc.prems(4) assms(6) m by auto
    from pass_granted [OF m assms(3) Suc.prems(3) this, of cc n x] obtain w where
      w: "store_verdict ?E ?cc ?st (int m) (x, v) = Pass (x, w)" "marks_only L r w" "sl_mark w k = sl_mark v k"
      using \<open>k < m\<close> by auto
    moreover have "\<exists>u. marks_only L r u \<and> sl_mark u k = sl_mark w k \<and>
        store_upgrade_loop ?E ?cc ?st m (x, w) = upgradeStorePod ?E ?cc (int k) (x, u)"
      using \<open>k < m\<close> Suc.prems w(2) by (intro Suc.IH) auto
    ultimately show ?thesis by auto
  qed
qed simp

lemma upgradeStorePod_granted:
  assumes "k < sl_n r" and "sl_n r < 2 ^ 31" and "marks_only L r w"
  shows "waited_out L w k \<Longrightarrow> upgradeStorePod (granted_env L cc) (sroll_up_cc cc r) (int k) (x, w) =
      (None, setUpgradePartition (int k) x, w)"
    and "sl_leaders r k \<noteq> 0 \<Longrightarrow> sl_mark w k = None \<Longrightarrow>
      upgradeStorePod (granted_env L cc) (sroll_up_cc cc r) (int k) (x, w) =
      (None, x, w\<lparr>sl_mark := (sl_mark w)(k := Some (lib_fmt L (sl_clock r)))\<rparr>)"
proof -
  note m = marks_only_same [OF assms(3)]
  have s: "store_of_pod (storePodName (cc_name cc) (int k)) (sto_stores (cc_store (sroll_up_cc cc r))) =
      Some (sroll_store (cc_name cc) r k)"
    using sroll_store_of_pod [OF assms(1), of cc] by (simp add: getStoreByOrdinal_def)
  show "upgradeStorePod (granted_env L cc) (sroll_up_cc cc r) (int k) (x, w) =
      (None, setUpgradePartition (int k) x, w)" if "waited_out L w k"
    using that assms(1,2) m s
    by (simp add: upgradeStorePod_def pod_ordinal_own readyToUpgrade_iff waited_out_def Let_def)
  show "upgradeStorePod (granted_env L cc) (sroll_up_cc cc r) (int k) (x, w) =
      (None, x, w\<lparr>sl_mark := (sl_mark w)(k := Some (lib_fmt L (sl_clock r)))\<rparr>)"
    if "sl_leaders r k \<noteq> 0" "sl_mark w k = None"
    using that assms(1,2) m s
    by (simp add: upgradeStorePod_def pod_ordinal_own readyToUpgrade_iff beginEvictLeader_def write_mark_own Let_def)
qed

text \<open>Calls of the upgrader that are granted everything, on sets with an unchanged template.\<close>

lemma sets_exist:
  assumes "j_dec_pod J c = Inr p"
  shows "\<exists>old new. us_rolling (s_strategy old) = Some (Some part) \<and>
    templateEqual J (s_template new) (s_template old)"
proof -
  let ?old = "set_s_template (no_template\<lparr>t_ann := Some [LastAppliedConfigAnnotation \<mapsto> c]\<rparr>) (smp_set ''c'' 1 part)"
  have "us_rolling (s_strategy ?old) = Some (Some part)" by simp
  moreover have "templateEqual J (s_template (set_s_template (no_template\<lparr>t_spec := p\<rparr>) ?old)) (s_template ?old)"
    by (simp add: templateEqual_def assms)
  ultimately show ?thesis by blast
qed

lemma upgrader_by_loop:
  assumes "us_rolling (s_strategy old) = Some (Some (int (sl_part r)))"
    and "templateEqual (lib_codec L) (s_template new) (s_template old)"
    and "store_upgrade_loop (granted_env L cc) (sroll_up_cc cc r) (smp_set_status (int (sl_n r))) (sl_n r)
      (setUpgradePartition (int (sl_part r)) new, r) = (None, y, w)"
    and "us_rolling (s_strategy y) = Some (Some (int q))"
  shows "upgrader_moves cc L r (w\<lparr>sl_part := q\<rparr>)"
proof -
  have "storeUpgrader_Upgrade (granted_env L cc) (sroll_cc cc r) old new r = (None, sroll_up_cc cc r, y, w)"
    using assms(1-3) by (simp add: storeUpgrader_Upgrade_def Let_def sroll_up_cc_def)
  with assms(1,2,4) show ?thesis unfolding upgrader_moves_def by blast
qed

text \<open>The last outdated pod is the next one to be replaced.\<close>

definition next_pod :: "sroll \<Rightarrow> nat \<Rightarrow> bool" where
  "next_pod r k \<longleftrightarrow> k < sl_n r \<and> sl_n r < 2 ^ 31 \<and> \<not> sl_updated r k \<and>
     (\<forall>j. k < j \<longrightarrow> j < sl_n r \<longrightarrow> sl_updated r j) \<and> (\<forall>j < sl_n r. sl_up r j)"

lemma next_pod_loop:
  assumes "next_pod r k"
  shows "\<exists>w. marks_only L r w \<and> sl_mark w k = sl_mark r k \<and>
    store_upgrade_loop (granted_env L cc) (sroll_up_cc cc r) (smp_set_status (int (sl_n r))) (sl_n r) (x, r) =
      upgradeStorePod (granted_env L cc) (sroll_up_cc cc r) (int k) (x, w)"
  using assms by (intro loop_granted) (auto simp: next_pod_def)

lemma upgrader_advances:
  assumes "next_pod r k" and "waited_out L r k" and "libs_ok L"
  shows "\<exists>w. upgrader_moves cc L r (w\<lparr>sl_part := k\<rparr>) \<and> marks_only L r w"
proof -
  obtain old new where sets: "us_rolling (s_strategy old) = Some (Some (int (sl_part r)))"
    "templateEqual (lib_codec L) (s_template new) (s_template old)"
    using assms(3) sets_exist by (auto simp: libs_ok_def) metis
  obtain w where w: "marks_only L r w" "sl_mark w k = sl_mark r k"
    "store_upgrade_loop (granted_env L cc) (sroll_up_cc cc r) (smp_set_status (int (sl_n r))) (sl_n r)
      (setUpgradePartition (int (sl_part r)) new, r) =
     upgradeStorePod (granted_env L cc) (sroll_up_cc cc r) (int k) (setUpgradePartition (int (sl_part r)) new, w)"
    using next_pod_loop [OF assms(1)] by blast
  have "waited_out L w k"
    using assms(2) w(2) marks_only_same [OF w(1)] by (simp add: waited_out_def)
  with upgradeStorePod_granted(1) [OF _ _ w(1)] assms(1) w(3)
  have "store_upgrade_loop (granted_env L cc) (sroll_up_cc cc r) (smp_set_status (int (sl_n r))) (sl_n r)
      (setUpgradePartition (int (sl_part r)) new, r) =
    (None, setUpgradePartition (int k) (setUpgradePartition (int (sl_part r)) new), w)"
    by (simp add: next_pod_def)
  from upgrader_by_loop [OF sets this, of k] w(1) show ?thesis by auto
qed

lemma upgrader_marks:
  assumes "next_pod r k" and "sl_leaders r k \<noteq> 0" and "sl_mark r k = None" and "libs_ok L"
  shows "\<exists>w. upgrader_moves cc L r w \<and> marks_only L r w \<and> sl_mark w k = Some (lib_fmt L (sl_clock r))"
proof -
  obtain old new where sets: "us_rolling (s_strategy old) = Some (Some (int (sl_part r)))"
    "templateEqual (lib_codec L) (s_template new) (s_template old)"
    using assms(4) sets_exist by (auto simp: libs_ok_def) metis
  let ?x = "setUpgradePartition (int (sl_part r)) new"
  obtain w where w: "marks_only L r w" "sl_mark w k = sl_mark r k"
    "store_upgrade_loop (granted_env L cc) (sroll_up_cc cc r) (smp_set_status (int (sl_n r))) (sl_n r) (?x, r) =
     upgradeStorePod (granted_env L cc) (sroll_up_cc cc r) (int k) (?x, w)"
    using next_pod_loop [OF assms(1)] by blast
  let ?w = "w\<lparr>sl_mark := (sl_mark w)(k := Some (lib_fmt L (sl_clock r)))\<rparr>"
  have "store_upgrade_loop (granted_env L cc) (sroll_up_cc cc r) (smp_set_status (int (sl_n r))) (sl_n r)
      (?x, r) = (None, ?x, ?w)"
    using upgradeStorePod_granted(2) [OF _ _ w(1)] assms(1-3) w(2,3) by (simp add: next_pod_def)
  from upgrader_by_loop [OF sets this, of "sl_part r"] have "upgrader_moves cc L r (?w\<lparr>sl_part := sl_part r\<rparr>)"
    by simp
  moreover have "?w\<lparr>sl_part := sl_part r\<rparr> = ?w"
    using marks_only_same [OF w(1)] by (cases w) simp
  moreover have "marks_only L r ?w"
    using w(1) by (cases r; cases w) (auto simp: marks_only_def)
  ultimately show ?thesis by (intro exI [of _ ?w]) simp
qed

text \<open>Every mark was written by the upgrader, and can be read.\<close>

definition marks_ok :: "roll_libs \<Rightarrow> sroll \<Rightarrow> bool" where
  "marks_ok L r \<longleftrightarrow> (\<forall>i b. sl_mark r i = Some b \<longrightarrow> (\<exists>u. lib_parse L b = Some u))"

lemma marks_only_ok:
  assumes "marks_only L r s" and "marks_ok L r" and "libs_ok L"
  shows "marks_ok L s"
  unfolding marks_ok_def
proof (intro allI impI)
  fix i b assume b: "sl_mark s i = Some b"
  have "sl_mark s i \<in> {sl_mark r i, None, Some (lib_fmt L (sl_clock r))}"
    using assms(1) by (simp add: marks_only_def)
  with b assms(2,3) show "\<exists>u. lib_parse L b = Some u" by (auto simp: marks_ok_def libs_ok_def)
qed

lemma sroll_step_marks:
  assumes "sroll_step cc L r s" and "marks_ok L r" and "libs_ok L"
  shows "marks_ok L s"
  using assms(1)
proof cases
  case upgrader_step
  from upgrader_moves_spec [OF this] obtain w where "marks_only L r w" "sl_mark s = sl_mark w" by auto
  with marks_only_ok [OF _ assms(2,3)] show ?thesis by (simp add: marks_ok_def)
qed (use assms(2) in \<open>auto simp: marks_ok_def\<close>)

lemma sroll_reach_marks:
  "sroll_reach cc L r s \<Longrightarrow> libs_ok L \<Longrightarrow> marks_ok L r \<Longrightarrow> marks_ok L s"
  by (induction rule: sroll_reach.induct) (auto dest: sroll_step_marks)

lemma sroll_reach_trans: "sroll_reach cc L s t \<Longrightarrow> sroll_reach cc L r s \<Longrightarrow> sroll_reach cc L r t"
  by (induction rule: sroll_reach.induct) (auto intro: sreach_step)

lemma sroll_step_reach: "sroll_step cc L r s \<Longrightarrow> sroll_reach cc L r s"
  by (meson sreach_refl sreach_step)

text \<open>With the leaders where they are, a store can be waited out.\<close>

definition same_but_time :: "sroll \<Rightarrow> sroll \<Rightarrow> bool" where
  "same_but_time r s \<longleftrightarrow> sl_n s = sl_n r \<and> sl_updated s = sl_updated r \<and> sl_up s = sl_up r \<and>
     sl_leaders s = sl_leaders r"

lemma same_next_pod: "same_but_time r s \<Longrightarrow> next_pod s k = next_pod r k"
  by (simp add: same_but_time_def next_pod_def)

lemma clock_waits_out:
  assumes "sl_mark r k = Some b" and "marks_ok L r"
  shows "\<exists>s. sroll_reach cc L r s \<and> same_but_time r s \<and> waited_out L s k"
proof -
  obtain u where u: "lib_parse L b = Some u" using assms by (auto simp: marks_ok_def)
  let ?t = "max (sl_clock r) (u + EvictLeaderTimeout + 1)"
  have "sroll_step cc L r (r\<lparr>sl_clock := ?t\<rparr>)" by (rule clock_step) simp
  with assms(1) u show ?thesis
    by (intro exI [of _ "r\<lparr>sl_clock := ?t\<rparr>"]) (auto simp: same_but_time_def waited_out_def sroll_step_reach)
qed

lemma can_wait_out:
  assumes "next_pod r k" and "marks_ok L r" and "libs_ok L"
  shows "\<exists>s. sroll_reach cc L r s \<and> same_but_time r s \<and> waited_out L s k"
proof (cases "sl_leaders r k = 0")
  case True
  then show ?thesis by (intro exI [of _ r]) (simp add: sreach_refl same_but_time_def waited_out_def)
next
  case leaders: False
  show ?thesis
  proof (cases "sl_mark r k")
    case (Some b)
    then show ?thesis by (rule clock_waits_out [OF _ assms(2)])
  next
    case None
    from upgrader_marks [OF assms(1) leaders None assms(3)] obtain w where
      w: "upgrader_moves cc L r w" "marks_only L r w" "sl_mark w k = Some (lib_fmt L (sl_clock r))" by blast
    from clock_waits_out [OF w(3) marks_only_ok [OF w(2) assms(2,3)]] obtain s where
      "sroll_reach cc L w s" "same_but_time w s" "waited_out L s k" by blast
    with w(1) marks_only_same [OF w(2)] show ?thesis
      by (intro exI [of _ s])
        (auto simp: same_but_time_def intro: sroll_reach_trans sroll_step_reach upgrader_step)
  qed
qed

lemma report_all:
  "m \<le> sl_n r \<Longrightarrow> \<exists>s. sroll_reach cc L r s \<and> sl_n s = sl_n r \<and> sl_updated s = sl_updated r \<and>
     sl_leaders s = sl_leaders r \<and> sl_mark s = sl_mark r \<and> (\<forall>i < m. sl_up s i)"
proof (induction m)
  case (Suc m)
  then obtain s where s: "sroll_reach cc L r s" "sl_n s = sl_n r" "sl_updated s = sl_updated r"
    "sl_leaders s = sl_leaders r" "sl_mark s = sl_mark r" "\<forall>i < m. sl_up s i" by auto
  let ?t = "s\<lparr>sl_up := (sl_up s)(m := True)\<rparr>"
  have "sroll_step cc L s ?t" using Suc.prems s(2) by (auto intro: report_step)
  with s show ?case by (intro exI [of _ ?t]) (auto intro: sreach_step simp: less_Suc_eq)
qed (auto intro: sreach_refl)

definition to_replace :: "sroll \<Rightarrow> nat set" where
  "to_replace r = {i. i < sl_n r \<and> \<not> sl_updated r i}"

text \<open>One round: the stores come up, the next one is waited out, the upgrader moves the
  partition, and the pod is replaced.\<close>

lemma sroll_round:
  assumes "to_replace r \<noteq> {}" and "sl_n r < 2 ^ 31" and "marks_ok L r" and "libs_ok L"
  shows "\<exists>s. sroll_reach cc L r s \<and> sl_n s = sl_n r \<and> sl_leaders s = sl_leaders r \<and> to_replace s \<subset> to_replace r"
proof -
  define k where "k = Max (to_replace r)"
  have fin: "finite (to_replace r)" by (simp add: to_replace_def)
  from Max_in [OF this assms(1)] have k: "k < sl_n r" "\<not> sl_updated r k" by (auto simp: k_def to_replace_def)
  have above: "\<forall>j. k < j \<longrightarrow> j < sl_n r \<longrightarrow> sl_updated r j"
  proof (intro allI impI, rule ccontr)
    fix j assume j: "k < j" "j < sl_n r" "\<not> sl_updated r j"
    then have "j \<le> k" unfolding k_def by (intro Max_ge [OF fin]) (simp add: to_replace_def)
    with j(1) show False by simp
  qed
  obtain h where h: "sroll_reach cc L r h" "sl_n h = sl_n r" "sl_updated h = sl_updated r"
    "sl_leaders h = sl_leaders r" "sl_mark h = sl_mark r" "\<forall>i < sl_n r. sl_up h i"
    using report_all [of "sl_n r" r cc L] by blast
  have nk: "next_pod h k" using k above h assms(2) by (simp add: next_pod_def)
  have "marks_ok L h" using assms(3) h(5) by (simp add: marks_ok_def)
  from can_wait_out [OF nk this assms(4)] obtain v where
    v: "sroll_reach cc L h v" "same_but_time h v" "waited_out L v k" by blast
  from upgrader_advances [of v k L cc] v nk assms(4) obtain w where
    w: "upgrader_moves cc L v (w\<lparr>sl_part := k\<rparr>)" "marks_only L v w"
    by (auto simp: same_next_pod)
  let ?w = "w\<lparr>sl_part := k\<rparr>"
  let ?s = "?w\<lparr>sl_updated := (sl_updated ?w)(k := True), sl_up := (sl_up ?w)(k := False), sl_mark := (sl_mark ?w)(k := None)\<rparr>"
  have same: "sl_n w = sl_n r" "sl_updated w = sl_updated r" "sl_leaders w = sl_leaders r"
    using marks_only_same [OF w(2)] v(2) h by (simp_all add: same_but_time_def)
  have "sroll_step cc L ?w ?s" using k same by (intro replaced_step) simp_all
  with upgrader_step [OF w(1)] have "sroll_reach cc L v ?s" by (meson sroll_step_reach sreach_step)
  then have "sroll_reach cc L r ?s" using h(1) v(1) by (blast intro: sroll_reach_trans)
  moreover have "to_replace ?s \<subset> to_replace r" using k same by (auto simp: to_replace_def)
  ultimately show ?thesis using same by (intro exI [of _ ?s]) simp
qed

lemma sroll_completes:
  assumes "libs_ok L"
  shows "sl_n r < 2 ^ 31 \<Longrightarrow> marks_ok L r \<Longrightarrow>
    \<exists>s. sroll_reach cc L r s \<and> sl_n s = sl_n r \<and> sl_leaders s = sl_leaders r \<and> to_replace s = {}"
proof (induction "card (to_replace r)" arbitrary: r rule: less_induct)
  case less
  show ?case
  proof (cases "to_replace r = {}")
    case False
    from sroll_round [OF this less.prems assms] obtain s where
      s: "sroll_reach cc L r s" "sl_n s = sl_n r" "sl_leaders s = sl_leaders r" "to_replace s \<subset> to_replace r"
      by blast
    have "finite (to_replace r)" by (simp add: to_replace_def)
    then have "card (to_replace s) < card (to_replace r)" using s(4) by (rule psubset_card_mono)
    from less.hyps [OF this] s less.prems sroll_reach_marks [OF s(1) assms]
    show ?thesis by (metis sroll_reach_trans)
  qed (auto intro: sreach_refl)
qed

text \<open>
  C8: a rolling upgrade of the stores cannot get stuck.  From every reachable state there is a way
  to the state in which every pod runs the new revision and every store is up, even if no leader
  ever leaves its store (PD's client does nothing when it is asked to evict them): then the clock
  has to pass the three minutes of each store.
\<close>

theorem store_rolling_can_complete:
  assumes "sroll_reach cc L r s" and "sroll_starts n r" and "n < 2 ^ 31" and "libs_ok L"
  shows "\<exists>t. sroll_reach cc L s t \<and> sl_leaders t = sl_leaders s \<and> (\<forall>i < n. sl_updated t i \<and> sl_up t i)"
proof -
  have n: "sl_n s = n" using sroll_reach_inv [OF assms(1)] sroll_starts_inv [OF assms(2)] by simp
  have "marks_ok L r" using assms(2) by (simp add: sroll_starts_def marks_ok_def)
  from sroll_reach_marks [OF assms(1,4) this] assms(3) n obtain u where
    u: "sroll_reach cc L s u" "sl_n u = n" "sl_leaders u = sl_leaders s" "to_replace u = {}"
    using sroll_completes [OF assms(4), of s] by auto
  obtain t where "sroll_reach cc L u t" "sl_updated t = sl_updated u" "sl_leaders t = sl_leaders u"
    "\<forall>i < n. sl_up t i"
    using report_all [of n u cc L] u(2) by auto
  with u show ?thesis by (intro exI [of _ t]) (auto simp: to_replace_def intro: sroll_reach_trans)
qed

section \<open>A run of two stores\<close>

text \<open>A time format in unary.\<close>

definition smp_libs :: roll_libs where
  "smp_libs = \<lparr>lib_codec = smp_roll_codec,
     lib_fmt = \<lambda>t. if t < 0 then replicate (nat (- t)) (CHR ''-'') else replicate (nat t) (CHR ''+''),
     lib_parse = \<lambda>s. Some (if s \<noteq> [] \<and> hd s = CHR ''-'' then - int (length s) else int (length s))\<rparr>"

definition smp_sroll :: sroll where
  "smp_sroll = \<lparr>sl_n = 2, sl_updated = \<lambda>_. False, sl_up = \<lambda>_. True, sl_leaders = \<lambda>_. 0,
     sl_mark = \<lambda>_. None, sl_clock = 0, sl_part = 2\<rparr>"

lemma smp_libs_ok: "libs_ok smp_libs"
  unfolding libs_ok_def
proof
  show "\<forall>t. \<exists>u. lib_parse smp_libs (lib_fmt smp_libs t) = Some u \<and> u \<le> t"
    by (simp add: smp_libs_def)
  show "\<exists>x p. j_dec_pod (lib_codec smp_libs) x = Inr p" by (simp add: smp_libs_def smp_roll_codec_def)
qed

lemma smp_sroll_starts: "sroll_starts 2 smp_sroll"
  by (simp add: sroll_starts_def smp_sroll_def)

lemma smp_sroll_run:
  "\<exists>s. sroll_reach smp_cc smp_libs smp_sroll s \<and> sl_updated s 1 \<and> \<not> sl_up s 1 \<and> sl_part s = 1"
proof -
  have "next_pod smp_sroll 1" "waited_out smp_libs smp_sroll 1"
    by (simp_all add: next_pod_def waited_out_def smp_sroll_def)
  from upgrader_advances [OF this smp_libs_ok] obtain w where
    w: "upgrader_moves smp_cc smp_libs smp_sroll (w\<lparr>sl_part := 1\<rparr>)" "marks_only smp_libs smp_sroll w" by blast
  let ?w = "w\<lparr>sl_part := 1\<rparr>"
  let ?s = "?w\<lparr>sl_updated := (sl_updated ?w)(1 := True), sl_up := (sl_up ?w)(1 := False), sl_mark := (sl_mark ?w)(1 := None)\<rparr>"
  have "sroll_step smp_cc smp_libs ?w ?s"
    using marks_only_same [OF w(2)] by (intro replaced_step) (simp_all add: smp_sroll_def)
  with upgrader_step [OF w(1)] have "sroll_reach smp_cc smp_libs smp_sroll ?s"
    by (meson sroll_step_reach sreach_step)
  then show ?thesis by (intro exI [of _ ?s]) simp
qed

theorem store_rolling_safe_witness:
  "\<exists>s. sroll_reach smp_cc smp_libs smp_sroll s \<and> {i. i < 2 \<and> \<not> sl_up s i} = {1} \<and>
     drained_before smp_cc smp_libs smp_sroll s 1"
proof -
  obtain s where s: "sroll_reach smp_cc smp_libs smp_sroll s" "sl_updated s 1" "\<not> sl_up s 1" "sl_part s = 1"
    using smp_sroll_run by blast
  with store_rolling_safe [OF s(1) smp_sroll_starts] show ?thesis
    by (intro exI [of _ s]) auto
qed

theorem store_rolling_can_complete_witness:
  "\<exists>s t. sroll_reach smp_cc smp_libs smp_sroll s \<and> sl_updated s 1 \<and> \<not> sl_updated smp_sroll 1 \<and>
     sroll_reach smp_cc smp_libs s t \<and> (\<forall>i < 2. sl_updated t i \<and> sl_up t i)"
proof -
  obtain s where s: "sroll_reach smp_cc smp_libs smp_sroll s" "sl_updated s 1" using smp_sroll_run by blast
  from store_rolling_can_complete [OF s(1) smp_sroll_starts _ smp_libs_ok] s show ?thesis
    by (auto simp: smp_sroll_def)
qed

end
