(* ===== verification/PD_Client.thy ===== *)
theory PD_Client
  imports Member_Utils
begin

text \<open>
  \<^verbatim>\<open>pkg/controller/pd_control.go\<close> and \<^verbatim>\<open>etcd_client.go\<close>: the cache of PD clients, and the PD
  client over PD's HTTP interface and its embedded etcd.  The HTTP client, the etcd client
  and the decoding of the store lists are parameters.
\<close>

section \<open>GetPDClient\<close>

definition pdClientKey :: "string \<Rightarrow> string \<Rightarrow> string" where
  "pdClientKey namespace clusterName = clusterName @ ''.'' @ namespace"

definition pdClientURL :: "string \<Rightarrow> string \<Rightarrow> string" where
  "pdClientURL namespace clusterName = ''http://'' @ clusterName @ ''-pd.'' @ namespace @ '':2379''"

record pd_client =
  pc_url :: string
  pc_endpoint :: string

definition NewPDClient :: "string \<Rightarrow> pd_client" where
  "NewPDClient url = \<lparr>pc_url = url, pc_endpoint = trim_prefix url ''http://''\<rparr>"

text \<open>The map of clients is state; the call returns the client and the updated map.\<close>

definition GetPDClient ::
  "cellcluster \<Rightarrow> (string, pd_client) gomap \<Rightarrow> pd_client \<times> (string, pd_client) gomap" where
  "GetPDClient cc pdClients =
     (let key = pdClientKey (cc_ns cc) (cc_name cc);
          pdClients' = (if map_of pdClients key = None
                        then gput key (NewPDClient (pdClientURL (cc_ns cc) (cc_name cc))) pdClients
                        else pdClients)
      in (the (map_of pdClients' key), pdClients'))"

text \<open>The two controls start without clients; the fake one is given the client of a cluster.\<close>

definition NewDefaultPDControl :: "(string, 'c) gomap" where
  "NewDefaultPDControl = []"

definition NewFakePDControl :: "(string, 'c) gomap" where
  "NewFakePDControl = []"

definition SetPDClient :: "cellcluster \<Rightarrow> 'c \<Rightarrow> (string, 'c) gomap \<Rightarrow> (string, 'c) gomap" where
  "SetPDClient cc pdclient pdClients = gput (pdClientKey (cc_ns cc) (cc_name cc)) pdclient pdClients"

text \<open>A client that was set is the one that is got, and getting a client again gives the same one.\<close>

lemma GetPDClient_set: "GetPDClient cc (SetPDClient cc c m) = (c, SetPDClient cc c m)"
  by (simp add: GetPDClient_def SetPDClient_def)

lemma GetPDClient_again: "GetPDClient cc m = (c, m') \<Longrightarrow> GetPDClient cc m' = (c, m')"
  by (auto simp: GetPDClient_def Let_def split: if_splits)

section \<open>The PD client\<close>

text \<open>\<open>uint64\<close> identifiers are \<open>nat\<close>; a store of the answer may be null.\<close>

record stores_answer =
  sa_code :: int
  sa_err :: string
  sa_stores :: stores_info

record store_answer =
  so_code :: int
  so_err :: string
  so_store :: "store_info option"

record members_info =
  mi_members :: "pd_peer list"
  mi_leader :: "pd_peer option"

record etcd_member =
  em_id :: nat
  em_name :: string
  em_peer_urls :: "string list"
  em_client_urls :: "string list"

text \<open>
  A response has a status code and a body that may fail to be read.  \<open>etcd_new\<close> stands for
  \<^verbatim>\<open>clientv3.New\<close>, whose client is used once and closed.
\<close>

record 'w pd_net =
  http_get :: "string \<Rightarrow> 'w \<Rightarrow> (goerr + (int \<times> (goerr + string))) \<times> 'w"
  http_delete :: "string \<Rightarrow> 'w \<Rightarrow> (goerr + (int \<times> (goerr + string))) \<times> 'w"
  dec_stores :: "string \<Rightarrow> goerr + stores_answer"
  dec_store :: "string \<Rightarrow> goerr + store_answer"
  etcd_new :: "string \<Rightarrow> 'w \<Rightarrow> goerr option"
  etcd_members :: "string \<Rightarrow> 'w \<Rightarrow> (goerr + etcd_member list) \<times> 'w"
  etcd_remove :: "string \<Rightarrow> nat \<Rightarrow> 'w \<Rightarrow> goerr option \<times> 'w"
  etcd_add :: "string \<Rightarrow> string list \<Rightarrow> 'w \<Rightarrow> goerr option \<times> 'w"
  etcd_get :: "string \<Rightarrow> string \<Rightarrow> 'w \<Rightarrow> goerr option \<times> 'w"

definition MaxStoreDownTimeDuration :: int where
  "MaxStoreDownTimeDuration = 3600 * 1000 * 1000 * 1000"

definition TombStoneStoreState :: int where "TombStoneStoreState = 1"

definition storesPrefix :: string where "storesPrefix = ''pd/api/v1/stores''"

definition getBodyOK :: "'w pd_net \<Rightarrow> string \<Rightarrow> 'w \<Rightarrow> (goerr + string) \<times> 'w" where
  "getBodyOK P apiURL w =
     (case http_get P apiURL w of
        (Inl e, w1) \<Rightarrow> (Inl e, w1)
      | (Inr (status, body), w1) \<Rightarrow>
          if status \<ge> 400 then (Inl (OtherError (''Error response '' @ show_int status)), w1)
          else (body, w1))"

definition memberAdd :: "'w pd_net \<Rightarrow> string \<Rightarrow> string \<Rightarrow> 'w \<Rightarrow> goerr option \<times> 'w" where
  "memberAdd P endpoint peerURL w =
     (case etcd_new P endpoint w of
        Some e \<Rightarrow> (Some e, w)
      | None \<Rightarrow> etcd_add P endpoint [peerURL] w)"

definition memberList :: "'w pd_net \<Rightarrow> string \<Rightarrow> 'w \<Rightarrow> (goerr + members_info) \<times> 'w" where
  "memberList P endpoint w =
     (case etcd_new P endpoint w of
        Some e \<Rightarrow> (Inl e, w)
      | None \<Rightarrow>
          (case etcd_members P endpoint w of
             (Inl e, w1) \<Rightarrow> (Inl e, w1)
           | (Inr ms, w1) \<Rightarrow>
               let members = map (\<lambda>m. \<lparr>pp_id = em_id m, pp_name = em_name m,
                                      pp_peer_urls = em_peer_urls m\<rparr>) ms
               in (case members of
                     [] \<Rightarrow> (Inl (PanicError ''index out of range''), w1)
                   | leader # _ \<Rightarrow> (Inr \<lparr>mi_members = members, mi_leader = Some leader\<rparr>, w1))))"

definition memberRemoveById :: "'w pd_net \<Rightarrow> string \<Rightarrow> nat \<Rightarrow> 'w \<Rightarrow> goerr option \<times> 'w" where
  "memberRemoveById P endpoint i w =
     (case etcd_new P endpoint w of Some e \<Rightarrow> (Some e, w) | None \<Rightarrow> etcd_remove P endpoint i w)"

definition getKV :: "'w pd_net \<Rightarrow> string \<Rightarrow> 'w \<Rightarrow> bool \<times> 'w" where
  "getKV P endpoint w =
     (case etcd_new P endpoint w of
        Some e \<Rightarrow> (False, w)
      | None \<Rightarrow> (case etcd_get P endpoint ''health'' w of (e, w1) \<Rightarrow> (e = None, w1)))"

fun health_loop ::
  "'w pd_net \<Rightarrow> etcd_member list \<Rightarrow> member_health list \<Rightarrow> 'w \<Rightarrow> member_health list \<times> 'w" where
  "health_loop P [] acc w = (acc, w)"
| "health_loop P (m # ms) acc w =
     (case (case em_client_urls m of [] \<Rightarrow> (False, w) | url # _ \<Rightarrow> getKV P url w) of
        (health, w1) \<Rightarrow>
          health_loop P ms
            (acc @ [\<lparr>mh_name = em_name m, mh_id = em_id m, mh_client_urls = em_client_urls m,
                     mh_health = health\<rparr>]) w1)"

definition getHealth :: "'w pd_net \<Rightarrow> string \<Rightarrow> 'w \<Rightarrow> (goerr + member_health list) \<times> 'w" where
  "getHealth P endpoint w =
     (case etcd_new P endpoint w of
        Some e \<Rightarrow> (Inl e, w)
      | None \<Rightarrow>
          (case etcd_members P endpoint w of
             (Inl e, w1) \<Rightarrow> (Inl e, w1)
           | (Inr ms, w1) \<Rightarrow> (case health_loop P ms [] w1 of (hs, w2) \<Rightarrow> (Inr hs, w2))))"

definition pdClient_GetHealth ::
  "'w pd_net \<Rightarrow> pd_client \<Rightarrow> 'w \<Rightarrow> (goerr + member_health list) \<times> 'w" where
  "pdClient_GetHealth P pc w = getHealth P (pc_endpoint pc) w"

definition pdClient_GetConfig :: "goerr + int" where
  "pdClient_GetConfig = Inr MaxStoreDownTimeDuration"

definition pdClient_GetCluster :: "goerr + string" where
  "pdClient_GetCluster = Inr ''elasticell-cluster-demo''"

definition pdClient_GetMembers :: "'w pd_net \<Rightarrow> pd_client \<Rightarrow> 'w \<Rightarrow> (goerr + members_info) \<times> 'w" where
  "pdClient_GetMembers P pc w = memberList P (pc_endpoint pc) w"

definition DeleteMemberByID :: "'w pd_net \<Rightarrow> pd_client \<Rightarrow> nat \<Rightarrow> 'w \<Rightarrow> goerr option \<times> 'w" where
  "DeleteMemberByID P pc memberID w =
     (case memberList P (pc_endpoint pc) w of
        (Inl e, w1) \<Rightarrow> (Some e, w1)
      | (Inr members, w1) \<Rightarrow>
          let exist = list_ex (\<lambda>m. pp_id m = memberID) (mi_members members)
          in if \<not> exist then (None, w1) else memberRemoveById P (pc_endpoint pc) memberID w1)"

definition DeleteMember :: "'w pd_net \<Rightarrow> pd_client \<Rightarrow> string \<Rightarrow> 'w \<Rightarrow> goerr option \<times> 'w" where
  "DeleteMember P pc name w =
     (case pdClient_GetMembers P pc w of
        (Inl e, w1) \<Rightarrow> (Some e, w1)
      | (Inr members, w1) \<Rightarrow>
          (case find (\<lambda>m. pp_name m = name) (mi_members members) of
             None \<Rightarrow> (None, w1)
           | Some m \<Rightarrow> memberRemoveById P (pc_endpoint pc) (pp_id m) w1))"

definition pdClient_GetStores :: "'w pd_net \<Rightarrow> pd_client \<Rightarrow> 'w \<Rightarrow> (goerr + stores_info) \<times> 'w" where
  "pdClient_GetStores P pc w =
     (case getBodyOK P (pc_url pc @ ''/'' @ storesPrefix) w of
        (Inl e, w1) \<Rightarrow> (Inl e, w1)
      | (Inr body, w1) \<Rightarrow>
          (case dec_stores P body of
             Inl e \<Rightarrow> (Inl e, w1)
           | Inr storesInfo \<Rightarrow>
               if sa_code storesInfo \<noteq> 0 then (Inl (OtherError (sa_err storesInfo)), w1)
               else (Inr (sa_stores storesInfo), w1)))"

text \<open>\<open>store.Meta.State\<close> dereferences a null store.\<close>

fun tombstone_loop :: "stores_info \<Rightarrow> stores_info \<Rightarrow> goerr + stores_info" where
  "tombstone_loop [] acc = Inr acc"
| "tombstone_loop (store # stores) acc =
     (case store of
        None \<Rightarrow> Inl (PanicError ''nil store'')
      | Some s \<Rightarrow>
          if si_state s = TombStoneStoreState then tombstone_loop stores (acc @ [store])
          else tombstone_loop stores acc)"

definition pdClient_GetTombStoneStores ::
  "'w pd_net \<Rightarrow> pd_client \<Rightarrow> 'w \<Rightarrow> (goerr + stores_info) \<times> 'w" where
  "pdClient_GetTombStoneStores P pc w =
     (case getBodyOK P (pc_url pc @ ''/'' @ storesPrefix) w of
        (Inl e, w1) \<Rightarrow> (Inl e, w1)
      | (Inr body, w1) \<Rightarrow>
          (case dec_stores P body of
             Inl e \<Rightarrow> (Inl e, w1)
           | Inr storesInfo \<Rightarrow>
               if sa_code storesInfo \<noteq> 0 then (Inl (OtherError (sa_err storesInfo)), w1)
               else (tombstone_loop (sa_stores storesInfo) [], w1)))"

definition pdClient_GetStore ::
  "'w pd_net \<Rightarrow> pd_client \<Rightarrow> nat \<Rightarrow> 'w \<Rightarrow> (goerr + store_info option) \<times> 'w" where
  "pdClient_GetStore P pc storeID w =
     (case getBodyOK P (pc_url pc @ ''/'' @ storesPrefix @ ''/'' @ show_nat storeID) w of
        (Inl e, w1) \<Rightarrow> (Inl e, w1)
      | (Inr body, w1) \<Rightarrow>
          (case dec_store P body of
             Inl e \<Rightarrow> (Inl e, w1)
           | Inr storeInfo \<Rightarrow>
               if so_code storeInfo \<noteq> 0 then (Inl (OtherError (so_err storeInfo)), w1)
               else (Inr (so_store storeInfo), w1)))"

definition pdClient_DeleteStore :: "'w pd_net \<Rightarrow> pd_client \<Rightarrow> nat \<Rightarrow> 'w \<Rightarrow> goerr option \<times> 'w" where
  "pdClient_DeleteStore P pc storeID w =
     (case pdClient_GetStore P pc storeID w of
        (Inl e, w1) \<Rightarrow> (Some e, w1)
      | (Inr _, w1) \<Rightarrow>
          (case http_delete P (pc_url pc @ ''/'' @ storesPrefix @ ''/'' @ show_nat storeID) w1 of
             (Inl e, w2) \<Rightarrow> (Some e, w2)
           | (Inr (status, body), w2) \<Rightarrow>
               if status = 200 \<or> status = 404 then (None, w2)
               else (case body of
                       Inl e \<Rightarrow> (Some e, w2)
                     | Inr text \<Rightarrow>
                         (Some (OtherError (''failed to delete store '' @ show_nat storeID @ '': '' @ text)), w2))))"

text \<open>Calls that PD has no interface for yet.\<close>

definition pdClient_SetStoreLabels :: "nat \<Rightarrow> label \<Rightarrow> goerr + bool" where
  "pdClient_SetStoreLabels storeID labels = Inr True"

definition pdClient_BeginEvictLeader :: "nat \<Rightarrow> goerr option" where
  "pdClient_BeginEvictLeader storeID = None"

definition pdClient_EndEvictLeader :: "nat \<Rightarrow> goerr option" where
  "pdClient_EndEvictLeader storeID = None"

definition pdClient_GetEvictLeaderSchedulers :: "goerr + string list" where
  "pdClient_GetEvictLeaderSchedulers = Inr []"

definition pdClient_GetPDLeader :: "goerr + pd_peer option" where
  "pdClient_GetPDLeader = Inr None"

definition pdClient_TransferPDLeader :: "string \<Rightarrow> goerr option" where
  "pdClient_TransferPDLeader memberName = None"

section \<open>Lemmas\<close>

lemma pdClientKey_inj:
  assumes "CHR ''.'' \<notin> set ns" and "CHR ''.'' \<notin> set ns'"
  shows "pdClientKey ns n = pdClientKey ns' n' \<longleftrightarrow> ns = ns' \<and> n = n'"
proof
  assume eq: "pdClientKey ns n = pdClientKey ns' n'"
  then have "length n = length n'"
    using last_index_append [OF assms(1), of n] last_index_append [OF assms(2), of n']
    by (simp add: pdClientKey_def)
  with eq show "ns = ns' \<and> n = n'" by (simp add: pdClientKey_def)
qed simp

text \<open>Every cached client is the one of its key.\<close>

definition clients_ok :: "(string, pd_client) gomap \<Rightarrow> bool" where
  "clients_ok m \<longleftrightarrow>
     (\<forall>k c. map_of m k = Some c \<longrightarrow>
        (\<exists>ns n. CHR ''.'' \<notin> set ns \<and> k = pdClientKey ns n \<and> c = NewPDClient (pdClientURL ns n)))"

lemma clients_ok_gput:
  assumes "clients_ok m" and "CHR ''.'' \<notin> set ns"
  shows "clients_ok (gput (pdClientKey ns n) (NewPDClient (pdClientURL ns n)) m)"
  unfolding clients_ok_def
proof (intro allI impI)
  fix k c assume "map_of (gput (pdClientKey ns n) (NewPDClient (pdClientURL ns n)) m) k = Some c"
  then have "(k = pdClientKey ns n \<and> c = NewPDClient (pdClientURL ns n)) \<or> map_of m k = Some c"
    by (auto split: if_splits)
  then show "\<exists>ns n. CHR ''.'' \<notin> set ns \<and> k = pdClientKey ns n \<and> c = NewPDClient (pdClientURL ns n)"
    using assms unfolding clients_ok_def by blast
qed

lemma clients_ok_GetPDClient:
  assumes "clients_ok m" and "CHR ''.'' \<notin> set (cc_ns cc)" and "GetPDClient cc m = (c, m')"
  shows "clients_ok m' \<and> c = NewPDClient (pdClientURL (cc_ns cc) (cc_name cc))"
proof (cases "map_of m (pdClientKey (cc_ns cc) (cc_name cc))")
  case None
  with assms(3) have "m' = gput (pdClientKey (cc_ns cc) (cc_name cc))
      (NewPDClient (pdClientURL (cc_ns cc) (cc_name cc))) m"
    "c = NewPDClient (pdClientURL (cc_ns cc) (cc_name cc))"
    by (auto simp: GetPDClient_def Let_def)
  then show ?thesis using clients_ok_gput [OF assms(1,2)] by simp
next
  case (Some d)
  with assms(3) have "m' = m" "c = d" by (simp_all add: GetPDClient_def)
  moreover from Some assms(1) obtain ns n where
    "CHR ''.'' \<notin> set ns" "pdClientKey (cc_ns cc) (cc_name cc) = pdClientKey ns n"
    "d = NewPDClient (pdClientURL ns n)"
    unfolding clients_ok_def by blast
  ultimately show ?thesis using assms(1) pdClientKey_inj [OF assms(2)] by metis
qed

lemma tombstone_loop_filter:
  "tombstone_loop ss acc = Inr r \<Longrightarrow>
     r = acc @ filter (\<lambda>s. case s of None \<Rightarrow> False | Some x \<Rightarrow> si_state x = TombStoneStoreState) ss"
  by (induction ss acc rule: tombstone_loop.induct) (auto split: option.splits if_splits)

lemma health_loop_acc:
  "health_loop P ms acc w = (hs, w') \<Longrightarrow>
     \<exists>ts. hs = acc @ ts \<and> map (\<lambda>h. (mh_name h, mh_id h)) ts = map (\<lambda>m. (em_name m, em_id m)) ms"
  by (induction ms arbitrary: acc w) (fastforce split: prod.splits list.splits)+

end
