(* ===== verification/Controls.thy ===== *)
theory Controls
  imports PD_Client
begin

text \<open>
  The real control interfaces of \<^verbatim>\<open>pkg/controller\<close>: pod_control.go, pvc_control.go,
  pv_control.go, stateful_set_control.go and service_control.go.  Each sends its object to the
  API server, retries on a conflict with a copy taken from the lister, and records an event.
\<close>

section \<open>The API server and the event recorder\<close>

record event =
  ev_type :: string
  ev_reason :: string
  ev_message :: string

record 'w kube =
  kb_pod_update :: "string \<Rightarrow> pod \<Rightarrow> 'w \<Rightarrow> (goerr + pod) \<times> 'w"
  kb_pod_delete :: "string \<Rightarrow> string \<Rightarrow> 'w \<Rightarrow> goerr option \<times> 'w"
  kb_pvc_update :: "string \<Rightarrow> pvc \<Rightarrow> 'w \<Rightarrow> (goerr + pvc) \<times> 'w"
  kb_pvc_delete :: "string \<Rightarrow> string \<Rightarrow> 'w \<Rightarrow> goerr option \<times> 'w"
  kb_pv_update :: "pv \<Rightarrow> 'w \<Rightarrow> (goerr + pv) \<times> 'w"
  kb_pv_patch :: "string \<Rightarrow> string \<Rightarrow> 'w \<Rightarrow> goerr option \<times> 'w"
  kb_set_create :: "string \<Rightarrow> sset \<Rightarrow> 'w \<Rightarrow> goerr option \<times> 'w"
  kb_set_update :: "string \<Rightarrow> sset \<Rightarrow> 'w \<Rightarrow> (goerr + sset) \<times> 'w"
  kb_set_delete :: "string \<Rightarrow> string \<Rightarrow> 'w \<Rightarrow> goerr option \<times> 'w"
  kb_svc_create :: "string \<Rightarrow> service \<Rightarrow> 'w \<Rightarrow> goerr option \<times> 'w"
  kb_svc_update :: "string \<Rightarrow> service \<Rightarrow> 'w \<Rightarrow> (goerr + service) \<times> 'w"
  kb_svc_delete :: "string \<Rightarrow> string \<Rightarrow> 'w \<Rightarrow> goerr option \<times> 'w"
  kb_event :: "cellcluster \<Rightarrow> event \<Rightarrow> 'w \<Rightarrow> 'w"
  kb_members :: "cellcluster \<Rightarrow> 'w \<Rightarrow> (goerr + members_info) \<times> 'w"
  kb_touch_pv :: "pv \<Rightarrow> 'w \<Rightarrow> 'w"

text \<open>The text of an error, as \<open>%s\<close> prints it.\<close>

fun err_text :: "goerr \<Rightarrow> string" where
  "err_text (RequeueError m) = m"
| "err_text (NotFoundError m) = m"
| "err_text (ConflictError m) = m"
| "err_text (AlreadyExistsError m) = m"
| "err_text (OtherError m) = m"
| "err_text (PanicError m) = m"
| "err_text (AggregateError es) = concat (map err_text es)"

definition title_verb :: "string \<Rightarrow> string" where
  "title_verb s =
     (case s of
        [] \<Rightarrow> []
      | c # cs \<Rightarrow>
          (if 97 \<le> (of_char c :: nat) \<and> (of_char c :: nat) \<le> 122
           then char_of ((of_char c :: nat) - 32) else c) # cs)"

text \<open>\<open>recordPodEvent\<close>, \<open>recordPVCEvent\<close>, \<open>recordPVEvent\<close>, \<open>recordServiceEvent\<close> and
  \<open>recordStatefulSetEvent\<close> differ in the kind they name.\<close>

definition object_event :: "string \<Rightarrow> string \<Rightarrow> cellcluster \<Rightarrow> string \<Rightarrow> goerr option \<Rightarrow> event" where
  "object_event kind verb cc name err =
     (case err of
        None \<Rightarrow>
          \<lparr>ev_type = ''Normal'', ev_reason = ''Successful'' @ title_verb verb,
           ev_message = verb @ '' '' @ kind @ '' '' @ name @ '' in CellCluster '' @ cc_name cc
             @ '' successful''\<rparr>
      | Some e \<Rightarrow>
          \<lparr>ev_type = ''Warning'', ev_reason = ''Failed'' @ title_verb verb,
           ev_message = verb @ '' '' @ kind @ '' '' @ name @ '' in CellCluster '' @ cc_name cc
             @ '' failed error: '' @ err_text e\<rparr>)"

definition record_event ::
  "'w kube \<Rightarrow> string \<Rightarrow> string \<Rightarrow> cellcluster \<Rightarrow> string \<Rightarrow> goerr option \<Rightarrow> 'w \<Rightarrow> goerr option \<times> 'w" where
  "record_event K kind verb cc name err w =
     (err, kb_event K cc (object_event kind verb cc name err) w)"

definition recordPodEvent ::
  "'w kube \<Rightarrow> string \<Rightarrow> cellcluster \<Rightarrow> string \<Rightarrow> goerr option \<Rightarrow> 'w \<Rightarrow> goerr option \<times> 'w" where
  "recordPodEvent K verb cc podName err w = record_event K ''Pod'' verb cc podName err w"

definition recordPVCEvent ::
  "'w kube \<Rightarrow> string \<Rightarrow> cellcluster \<Rightarrow> string \<Rightarrow> goerr option \<Rightarrow> 'w \<Rightarrow> goerr option \<times> 'w" where
  "recordPVCEvent K verb cc pvcName err w = record_event K ''PVC'' verb cc pvcName err w"

definition recordPVEvent ::
  "'w kube \<Rightarrow> string \<Rightarrow> cellcluster \<Rightarrow> string \<Rightarrow> goerr option \<Rightarrow> 'w \<Rightarrow> goerr option \<times> 'w" where
  "recordPVEvent K verb cc pvName err w = record_event K ''PV'' verb cc pvName err w"

definition recordStatefulSetEvent ::
  "'w kube \<Rightarrow> string \<Rightarrow> cellcluster \<Rightarrow> sset \<Rightarrow> goerr option \<Rightarrow> 'w \<Rightarrow> goerr option \<times> 'w" where
  "recordStatefulSetEvent K verb cc sts err w = record_event K ''StatefulSet'' verb cc (s_name sts) err w"

definition recordServiceEvent ::
  "'w kube \<Rightarrow> string \<Rightarrow> cellcluster \<Rightarrow> service \<Rightarrow> goerr option \<Rightarrow> 'w \<Rightarrow> goerr option \<times> 'w" where
  "recordServiceEvent K verb cc svc err w =
     record_event K ''Service'' verb cc (m_name (svc_meta svc)) err w"

lemmas record_events =
  recordPodEvent_def recordPVCEvent_def recordPVEvent_def recordStatefulSetEvent_def
  recordServiceEvent_def record_event_def

section \<open>Retry on conflict\<close>

text \<open>
  \<^verbatim>\<open>retry.RetryOnConflict\<close>: the function runs again after a conflict, as often as the backoff
  has steps, and the last conflict is what the caller gets.  The state \<open>'s\<close> holds the
  variables the closure assigns.
\<close>

definition default_retry_steps :: nat where "default_retry_steps = 5"
definition default_backoff_steps :: nat where "default_backoff_steps = 4"

fun retry_on_conflict ::
  "nat \<Rightarrow> ('s \<Rightarrow> goerr option \<times> 's) \<Rightarrow> goerr option \<Rightarrow> 's \<Rightarrow> goerr option \<times> 's" where
  "retry_on_conflict 0 fn last_err s = (last_err, s)"
| "retry_on_conflict (Suc n) fn last_err s =
     (case fn s of
        (None, s') \<Rightarrow> (None, s')
      | (Some e, s') \<Rightarrow>
          if is_conflict e then retry_on_conflict n fn (Some e) s' else (Some e, s'))"

text \<open>One attempt: send the object; on an error take the lister's copy and reapply the change.\<close>

definition update_attempt ::
  "('o \<Rightarrow> 'w \<Rightarrow> (goerr + 'o) \<times> 'w) \<Rightarrow> ('w \<Rightarrow> goerr + 'o) \<Rightarrow> ('o \<Rightarrow> 'o) \<Rightarrow> 'o \<times> 'w \<Rightarrow>
    goerr option \<times> 'o \<times> 'w" where
  "update_attempt send get reapply s =
     (case s of (x, w) \<Rightarrow>
        (case send x w of
           (Inr _, w1) \<Rightarrow> (None, x, w1)
         | (Inl e, w1) \<Rightarrow>
             (Some e, (case get w1 of Inr cur \<Rightarrow> reapply cur | Inl _ \<Rightarrow> x), w1)))"

definition update_with_retry ::
  "nat \<Rightarrow> ('o \<Rightarrow> 'w \<Rightarrow> (goerr + 'o) \<times> 'w) \<Rightarrow> ('w \<Rightarrow> goerr + 'o) \<Rightarrow> ('o \<Rightarrow> 'o) \<Rightarrow> 'o \<Rightarrow> 'w \<Rightarrow>
    goerr option \<times> 'o \<times> 'w" where
  "update_with_retry steps send get reapply x w =
     retry_on_conflict steps (update_attempt send get reapply) None (x, w)"

section \<open>pod_control.go\<close>

definition realPodControl_UpdatePod ::
  "'w env \<Rightarrow> 'w kube \<Rightarrow> cellcluster \<Rightarrow> pod \<Rightarrow> 'w \<Rightarrow> goerr option \<times> 'w" where
  "realPodControl_UpdatePod E K cc pod w =
     (let ns = cc_ns cc; podName = p_name pod; labels = p_labels pod; ann = p_ann pod
      in case update_with_retry default_retry_steps (kb_pod_update K ns)
                (\<lambda>w. l_pod E w ns podName) (\<lambda>cur. set_p_ann ann (set_p_labels labels cur)) pod w of
           (err, _, w1) \<Rightarrow> recordPodEvent K ''update'' cc podName err w1)"

text \<open>The identifiers that \<open>UpdateMetaInfo\<close> asks PD for when their labels are missing.\<close>

definition meta_cluster_id ::
  "'w env \<Rightarrow> cellcluster \<Rightarrow> strmap \<Rightarrow> 'w \<Rightarrow> (goerr + string) \<times> 'w" where
  "meta_cluster_id E cc labels w =
     (if mval labels ClusterIDLabelKey = [] then
        (case c_cluster E cc w of
           (Inl e, w1) \<Rightarrow>
             (Inl (OtherError (''failed to get cell cluster info from pd, err: '' @ err_text e)), w1)
         | (Inr cluster, w1) \<Rightarrow> (Inr cluster, w1))
      else (Inr (mval labels ClusterIDLabelKey), w))"

definition meta_member_id ::
  "'w kube \<Rightarrow> cellcluster \<Rightarrow> strmap \<Rightarrow> string \<Rightarrow> 'w \<Rightarrow> (goerr + string) \<times> 'w" where
  "meta_member_id K cc labels podName w =
     (let memberID = mval labels MemberIDLabelKey
      in if mval labels ComponentLabelKey = PDLabelVal \<and> memberID = [] then
           (case kb_members K cc w of
              (Inl e, w1) \<Rightarrow>
                (Inl (OtherError (''failed to get pd members info from pd, err: '' @ err_text e)), w1)
            | (Inr members, w1) \<Rightarrow>
                (case find (\<lambda>m. pp_name m = podName) (mi_members members) of
                   None \<Rightarrow> (Inr memberID, w1)
                 | Some m \<Rightarrow> (Inr (show_nat (pp_id m)), w1)))
         else (Inr memberID, w))"

text \<open>A null store of the answer is dereferenced.\<close>

fun find_store_id :: "string \<Rightarrow> stores_info \<Rightarrow> string \<Rightarrow> goerr + string" where
  "find_store_id podName [] storeID = Inr storeID"
| "find_store_id podName (store # stores) storeID =
     (case store of
        None \<Rightarrow> Inl (PanicError ''nil store'')
      | Some s \<Rightarrow>
          if hd (split_on CHR '':'' (si_address s)) = podName then Inr (show_nat (si_id s))
          else find_store_id podName stores storeID)"

definition meta_store_id ::
  "'w env \<Rightarrow> cellcluster \<Rightarrow> strmap \<Rightarrow> string \<Rightarrow> 'w \<Rightarrow> (goerr + string) \<times> 'w" where
  "meta_store_id E cc labels podName w =
     (let storeID = mval labels StoreIDLabelKey
      in if mval labels ComponentLabelKey = StoreLabelVal \<and> storeID = [] then
           (case c_stores E cc w of
              (Inl e, w1) \<Rightarrow>
                (Inl (OtherError (''failed to get stores info from pd, err: '' @ err_text e)), w1)
            | (Inr storesInfo, w1) \<Rightarrow> (find_store_id podName storesInfo storeID, w1))
         else (Inr storeID, w))"

definition put_ids :: "string \<Rightarrow> string \<Rightarrow> string \<Rightarrow> strmap \<Rightarrow> strmap" where
  "put_ids clusterID memberID storeID labels =
     setIfNotEmpty StoreIDLabelKey storeID
       (setIfNotEmpty MemberIDLabelKey memberID (setIfNotEmpty ClusterIDLabelKey clusterID labels))"

definition has_ids :: "string \<Rightarrow> string \<Rightarrow> string \<Rightarrow> strmap \<Rightarrow> bool" where
  "has_ids clusterID memberID storeID labels \<longleftrightarrow>
     mval labels ClusterIDLabelKey = clusterID \<and> mval labels MemberIDLabelKey = memberID \<and>
     mval labels StoreIDLabelKey = storeID"

text \<open>
  \<open>labels\<close> is the map of the cached pod, so writing it changes the cache before the update is
  sent.  The result carries the pod the caller holds.
\<close>

definition realPodControl_UpdateMetaInfo ::
  "'w env \<Rightarrow> 'w kube \<Rightarrow> cellcluster \<Rightarrow> pod \<Rightarrow> 'w \<Rightarrow> goerr option \<times> pod \<times> 'w" where
  "realPodControl_UpdateMetaInfo E K cc pod w =
     (let ns = p_ns pod; podName = p_name pod; labels = p_labels pod
      in if labels = None then (Some (OtherError (''pod '' @ podName @ '' has empty labels'')), pod, w)
         else if mget labels InstanceLabelKey = None
         then (Some (OtherError (''pod '' @ podName @ '' doesn't have instance label'')), pod, w)
         else (case meta_cluster_id E cc labels w of
           (Inl e, w1) \<Rightarrow> (Some e, pod, w1)
         | (Inr clusterID, w1) \<Rightarrow>
             (case meta_member_id K cc labels podName w1 of
                (Inl e, w2) \<Rightarrow> (Some e, pod, w2)
              | (Inr memberID, w2) \<Rightarrow>
                  (case meta_store_id E cc labels podName w2 of
                     (Inl e, w3) \<Rightarrow> (Some e, pod, w3)
                   | (Inr storeID, w3) \<Rightarrow>
                       if has_ids clusterID memberID storeID labels then (None, pod, w3)
                       else
                         let labels' = put_ids clusterID memberID storeID labels;
                             pod' = set_p_labels labels' pod
                         in (case update_with_retry default_backoff_steps (kb_pod_update K ns)
                                    (\<lambda>w. l_pod E w ns podName) (set_p_labels labels') pod'
                                    (t_pod E pod' w3) of
                               (err, _, w4) \<Rightarrow>
                                 (case recordPodEvent K ''update'' cc podName err w4 of
                                    (err', w5) \<Rightarrow> (err', pod', w5)))))))"

definition realPodControl_DeletePod ::
  "'w kube \<Rightarrow> cellcluster \<Rightarrow> pod \<Rightarrow> 'w \<Rightarrow> goerr option \<times> 'w" where
  "realPodControl_DeletePod K cc pod w =
     (case kb_pod_delete K (cc_ns cc) (p_name pod) w of
        (err, w1) \<Rightarrow> recordPodEvent K ''delete'' cc (p_name pod) err w1)"

section \<open>pvc_control.go\<close>

definition pvc_with :: "strmap \<Rightarrow> strmap \<Rightarrow> pvc \<Rightarrow> pvc" where
  "pvc_with labels ann pvc = pvc\<lparr>pvc_meta := (pvc_meta pvc)\<lparr>m_labels := labels, m_ann := ann\<rparr>\<rparr>"

definition realPVCControl_DeletePVC ::
  "'w kube \<Rightarrow> cellcluster \<Rightarrow> pvc \<Rightarrow> 'w \<Rightarrow> goerr option \<times> 'w" where
  "realPVCControl_DeletePVC K cc pvc w =
     (let pvcName = m_name (pvc_meta pvc)
      in case kb_pvc_delete K (cc_ns cc) pvcName w of
           (err, w1) \<Rightarrow> recordPVCEvent K ''delete'' cc pvcName err w1)"

definition send_pvc ::
  "'w env \<Rightarrow> 'w kube \<Rightarrow> cellcluster \<Rightarrow> pvc \<Rightarrow> 'w \<Rightarrow> goerr option \<times> 'w" where
  "send_pvc E K cc pvc w =
     (let ns = cc_ns cc; pvcName = m_name (pvc_meta pvc)
      in case update_with_retry default_backoff_steps (kb_pvc_update K ns)
                (\<lambda>w. l_pvc E w ns pvcName)
                (pvc_with (m_labels (pvc_meta pvc)) (m_ann (pvc_meta pvc))) pvc w of
           (err, _, w1) \<Rightarrow> recordPVCEvent K ''update'' cc pvcName err w1)"

definition realPVCControl_UpdatePVC ::
  "'w env \<Rightarrow> 'w kube \<Rightarrow> cellcluster \<Rightarrow> pvc \<Rightarrow> 'w \<Rightarrow> goerr option \<times> 'w" where
  "realPVCControl_UpdatePVC E K cc pvc w = send_pvc E K cc pvc w"

text \<open>\<^verbatim>\<open>if m == nil { m = make(map[string]string) }\<close>.\<close>

definition non_nil :: "strmap \<Rightarrow> strmap" where
  "non_nil m = (case m of None \<Rightarrow> Some Map.empty | Some f \<Rightarrow> Some f)"

definition realPVCControl_UpdateMetaInfo ::
  "'w env \<Rightarrow> 'w kube \<Rightarrow> cellcluster \<Rightarrow> pvc \<Rightarrow> pod \<Rightarrow> 'w \<Rightarrow> goerr option \<times> pvc \<times> 'w" where
  "realPVCControl_UpdateMetaInfo E K cc pvc pod w =
     (let podName = p_name pod;
          clusterID = mval (p_labels pod) ClusterIDLabelKey;
          storeID = mval (p_labels pod) StoreIDLabelKey;
          memberID = mval (p_labels pod) MemberIDLabelKey;
          labels0 = non_nil (m_labels (pvc_meta pvc));
          ann0 = non_nil (m_ann (pvc_meta pvc));
          pvc0 = pvc_with labels0 ann0 pvc
      in if has_ids clusterID memberID storeID labels0 \<and> mval ann0 AnnPodNameKey = podName
         then (None, pvc0, t_pvc E pvc0 w)
         else
           let pvc1 = pvc_with (put_ids clusterID memberID storeID labels0)
                        (setIfNotEmpty AnnPodNameKey podName ann0) pvc
           in (case send_pvc E K cc pvc1 (t_pvc E pvc1 w) of (err, w1) \<Rightarrow> (err, pvc1, w1)))"

section \<open>pv_control.go\<close>

definition pv_with :: "strmap \<Rightarrow> strmap \<Rightarrow> pv \<Rightarrow> pv" where
  "pv_with labels ann pv = pv\<lparr>pv_meta := (pv_meta pv)\<lparr>m_labels := labels, m_ann := ann\<rparr>\<rparr>"

definition reclaim_patch :: "string \<Rightarrow> string" where
  "reclaim_patch policy =
     ''{\"spec\":{\"persistentVolumeReclaimPolicy\":\"'' @ policy @ ''\"}}''"

definition patch_attempt :: "'w kube \<Rightarrow> string \<Rightarrow> string \<Rightarrow> 'w \<Rightarrow> goerr option \<times> 'w" where
  "patch_attempt K pvName policy w = kb_pv_patch K pvName (reclaim_patch policy) w"

definition realPVControl_PatchPVReclaimPolicy ::
  "'w kube \<Rightarrow> cellcluster \<Rightarrow> pv \<Rightarrow> string \<Rightarrow> 'w \<Rightarrow> goerr option \<times> 'w" where
  "realPVControl_PatchPVReclaimPolicy K cc pv policy w =
     (let pvName = m_name (pv_meta pv)
      in case retry_on_conflict default_backoff_steps (patch_attempt K pvName policy) None w of
           (err, w1) \<Rightarrow> recordPVEvent K ''patch'' cc pvName err w1)"

text \<open>The labels a volume takes over from its claim.\<close>

definition pv_synced :: "string \<Rightarrow> pvc \<Rightarrow> pv \<Rightarrow> bool" where
  "pv_synced ns pvc pv \<longleftrightarrow>
     (let pl = m_labels (pvc_meta pvc); l = m_labels (pv_meta pv)
      in mval l NamespaceLabelKey = ns \<and>
         mval l ComponentLabelKey = mval pl ComponentLabelKey \<and>
         mval l NameLabelKey = mval pl NameLabelKey \<and>
         mval l ManagedByLabelKey = mval pl ManagedByLabelKey \<and>
         mval l InstanceLabelKey = mval pl InstanceLabelKey \<and>
         has_ids (mval pl ClusterIDLabelKey) (mval pl MemberIDLabelKey) (mval pl StoreIDLabelKey) l \<and>
         mval (m_ann (pv_meta pv)) AnnPodNameKey = mval (m_ann (pvc_meta pvc)) AnnPodNameKey)"

definition pv_sync :: "string \<Rightarrow> pvc \<Rightarrow> pv \<Rightarrow> pv" where
  "pv_sync ns pvc pv =
     (let pl = m_labels (pvc_meta pvc);
          l1 = mput NamespaceLabelKey ns (m_labels (pv_meta pv));
          l2 = mput ComponentLabelKey (mval pl ComponentLabelKey) l1;
          l3 = mput NameLabelKey (mval pl NameLabelKey) l2;
          l4 = mput ManagedByLabelKey (mval pl ManagedByLabelKey) l3;
          l5 = mput InstanceLabelKey (mval pl InstanceLabelKey) l4
      in pv_with
           (put_ids (mval pl ClusterIDLabelKey) (mval pl MemberIDLabelKey) (mval pl StoreIDLabelKey) l5)
           (setIfNotEmpty AnnPodNameKey (mval (m_ann (pvc_meta pvc)) AnnPodNameKey)
              (m_ann (pv_meta pv))) pv)"

definition realPVControl_UpdateMetaInfo ::
  "'w env \<Rightarrow> 'w kube \<Rightarrow> cellcluster \<Rightarrow> pv \<Rightarrow> 'w \<Rightarrow> goerr option \<times> 'w" where
  "realPVControl_UpdateMetaInfo E K cc pv w =
     (let ns = cc_ns cc; pvName = m_name (pv_meta pv);
          pv0 = pv_with (non_nil (m_labels (pv_meta pv))) (non_nil (m_ann (pv_meta pv))) pv;
          w0 = kb_touch_pv K pv0 w
      in case pv_claim_ref pv of
           None \<Rightarrow> (None, w0)
         | Some name \<Rightarrow>
             (case l_pvc E w0 ns name of
                Inl e \<Rightarrow> if \<not> is_not_found e then (Some e, w0) else (None, w0)
              | Inr pvc \<Rightarrow>
                  if pv_synced ns pvc pv0 then (None, w0)
                  else
                    let pv1 = pv_sync ns pvc pv0
                    in (case update_with_retry default_backoff_steps (kb_pv_update K)
                               (\<lambda>w. l_pv E w pvName)
                               (pv_with (m_labels (pv_meta pv1)) (m_ann (pv_meta pv1))) pv1
                               (kb_touch_pv K pv1 w0) of
                          (err, _, w1) \<Rightarrow> recordPVEvent K ''update'' cc pvName err w1)))"

section \<open>stateful_set_control.go\<close>

definition realStatefulSetControl_CreateStatefulSet ::
  "'w kube \<Rightarrow> cellcluster \<Rightarrow> sset \<Rightarrow> 'w \<Rightarrow> goerr option \<times> 'w" where
  "realStatefulSetControl_CreateStatefulSet K cc sts w =
     (case kb_set_create K (cc_ns cc) sts w of
        (err, w1) \<Rightarrow>
          if (case err of Some e \<Rightarrow> is_already_exists e | None \<Rightarrow> False) then (err, w1)
          else recordStatefulSetEvent K ''create'' cc sts err w1)"

definition realStatefulSetControl_UpdateStatefulSet ::
  "'w env \<Rightarrow> 'w kube \<Rightarrow> cellcluster \<Rightarrow> sset \<Rightarrow> 'w \<Rightarrow> goerr option \<times> 'w" where
  "realStatefulSetControl_UpdateStatefulSet E K cc sts w =
     (let ns = cc_ns cc; setName = s_name sts; setSpec = s_spec sts
      in case update_with_retry default_backoff_steps (kb_set_update K ns)
                (\<lambda>w. l_set E w ns setName) (\<lambda>cur. cur\<lparr>s_spec := setSpec\<rparr>) sts w of
           (err, sts', w1) \<Rightarrow> recordStatefulSetEvent K ''update'' cc sts' err w1)"

definition realStatefulSetControl_DeleteStatefulSet ::
  "'w kube \<Rightarrow> cellcluster \<Rightarrow> sset \<Rightarrow> 'w \<Rightarrow> goerr option \<times> 'w" where
  "realStatefulSetControl_DeleteStatefulSet K cc sts w =
     (case kb_set_delete K (cc_ns cc) (s_name sts) w of
        (err, w1) \<Rightarrow> recordStatefulSetEvent K ''delete'' cc sts err w1)"

section \<open>service_control.go\<close>

definition realServiceControl_CreateService ::
  "'w kube \<Rightarrow> cellcluster \<Rightarrow> service \<Rightarrow> 'w \<Rightarrow> goerr option \<times> 'w" where
  "realServiceControl_CreateService K cc svc w =
     (case kb_svc_create K (cc_ns cc) svc w of
        (err, w1) \<Rightarrow>
          if (case err of Some e \<Rightarrow> is_already_exists e | None \<Rightarrow> False) then (err, w1)
          else recordServiceEvent K ''create'' cc svc err w1)"

text \<open>
  One attempt at a service: the copy is taken when the lister failed, where its result is
  nil, and not when the lister has one.
\<close>

definition service_attempt ::
  "(service \<Rightarrow> 'w \<Rightarrow> (goerr + service) \<times> 'w) \<Rightarrow> ('w \<Rightarrow> goerr + service) \<Rightarrow> service \<times> 'w \<Rightarrow>
    goerr option \<times> service \<times> 'w" where
  "service_attempt send get s =
     (case s of (svc, w) \<Rightarrow>
        (case send svc w of
           (Inr _, w1) \<Rightarrow> (None, svc, w1)
         | (Inl e, w1) \<Rightarrow>
             (case get w1 of
                Inl _ \<Rightarrow> (Some (PanicError ''nil Service''), svc, w1)
              | Inr _ \<Rightarrow> (Some e, svc, w1))))"

definition realServiceControl_UpdateService ::
  "'w env \<Rightarrow> 'w kube \<Rightarrow> cellcluster \<Rightarrow> service \<Rightarrow> 'w \<Rightarrow> goerr option \<times> 'w" where
  "realServiceControl_UpdateService E K cc svc w =
     (let ns = cc_ns cc; svcName = m_name (svc_meta svc)
      in case retry_on_conflict default_backoff_steps
                (service_attempt (kb_svc_update K ns) (\<lambda>w. l_svc E w ns svcName)) None (svc, w) of
           (err, svc', w1) \<Rightarrow>
             if (case err of Some e \<Rightarrow> is_panic e | None \<Rightarrow> False) then (err, w1)
             else recordServiceEvent K ''update'' cc svc' err w1)"

definition realServiceControl_DeleteService ::
  "'w kube \<Rightarrow> cellcluster \<Rightarrow> service \<Rightarrow> 'w \<Rightarrow> goerr option \<times> 'w" where
  "realServiceControl_DeleteService K cc svc w =
     (case kb_svc_delete K (cc_ns cc) (m_name (svc_meta svc)) w of
        (err, w1) \<Rightarrow> recordServiceEvent K ''delete'' cc svc err w1)"

section \<open>Lemmas\<close>

lemma record_event_err [simp]:
  "fst (recordPodEvent K verb cc name err w) = err" "fst (recordPVCEvent K verb cc name err w) = err"
  "fst (recordPVEvent K verb cc name err w) = err" "fst (recordStatefulSetEvent K verb cc sts err w) = err"
  "fst (recordServiceEvent K verb cc svc err w) = err"
  by (simp_all add: record_events)

text \<open>
  The attempts of a retry loop as a chain: each but the last one ends in a conflict.
\<close>

inductive attempts :: "('s \<Rightarrow> goerr option \<times> 's) \<Rightarrow> nat \<Rightarrow> 's \<Rightarrow> 's \<Rightarrow> bool" for fn where
  attempts_0: "attempts fn 0 s s"
| attempts_Suc: "fn s = (Some e, s') \<Longrightarrow> is_conflict e \<Longrightarrow> attempts fn k s' t \<Longrightarrow>
    attempts fn (Suc k) s t"

inductive_cases attempts_SucE: "attempts fn (Suc k) s t"

lemma retry_outcome:
  assumes "retry_on_conflict n fn last_err s = (err, t)"
  shows "(\<exists>k < n. \<exists>u. attempts fn k s u \<and> fn u = (err, t) \<and> (\<forall>e. err = Some e \<longrightarrow> \<not> is_conflict e)) \<or>
    (attempts fn n s t \<and> (if n = 0 then err = last_err else \<exists>e. err = Some e \<and> is_conflict e))"
  using assms
proof (induction n arbitrary: last_err s)
  case (Suc n)
  obtain e1 s1 where f: "fn s = (e1, s1)" by fastforce
  consider (stop) "e1 = None \<or> (\<exists>e. e1 = Some e \<and> \<not> is_conflict e)"
    | (again) e where "e1 = Some e" "is_conflict e"
    by (cases e1) auto
  then show ?case
  proof cases
    case stop
    then have "err = e1" "t = s1" using Suc.prems f by (auto split: if_splits)
    then have "attempts fn 0 s s \<and> fn s = (err, t) \<and> (\<forall>e. err = Some e \<longrightarrow> \<not> is_conflict e)"
      using stop f attempts_0 by auto
    then show ?thesis by blast
  next
    case again
    then have r: "retry_on_conflict n fn (Some e) s1 = (err, t)" using Suc.prems f by simp
    note step = attempts_Suc [of fn s e s1, OF _ again(2)]
    from Suc.IH [OF r] show ?thesis
    proof (elim disjE exE conjE)
      fix k u assume "k < n" "attempts fn k s1 u" "fn u = (err, t)"
        "\<forall>e. err = Some e \<longrightarrow> \<not> is_conflict e"
      then have "Suc k < Suc n \<and> attempts fn (Suc k) s u \<and> fn u = (err, t) \<and>
          (\<forall>e. err = Some e \<longrightarrow> \<not> is_conflict e)"
        using step f again(1) by simp
      then show ?thesis by blast
    next
      assume "attempts fn n s1 t" "if n = 0 then err = Some e else \<exists>e. err = Some e \<and> is_conflict e"
      then show ?thesis using step f again by (auto split: if_splits)
    qed
  qed
qed (auto intro: attempts_0)

lemma attempts_inv:
  assumes "attempts fn k s t" and "\<And>x e y. fn x = (Some e, y) \<Longrightarrow> P x \<Longrightarrow> P y" and "P s"
  shows "P t"
  using assms by (induction rule: attempts.induct) auto

text \<open>Every object a retry loop sends satisfies what the change established.\<close>

lemma update_with_retry_sent:
  assumes r: "update_with_retry n send get reapply x w = (None, y, w')"
    and n: "0 < n" and x: "P x" and re: "\<And>cur. P (reapply cur)"
  shows "P y \<and> (\<exists>v z. send y v = (Inr z, w'))"
proof -
  let ?fn = "update_attempt send get reapply"
  have inv: "P (fst t)" if "attempts ?fn k (x, w) t" for k t
  proof (rule attempts_inv [OF that])
    fix u e v assume "?fn u = (Some e, v)" and "P (fst u)"
    then show "P (fst v)"
      by (auto simp: update_attempt_def re split: prod.splits sum.splits)
  qed (simp add: x)
  from r obtain k u where k: "attempts ?fn k (x, w) u" and u: "?fn u = (None, y, w')"
    using retry_outcome [of n ?fn None "(x, w)" None "(y, w')"]
    using n by (auto simp: update_with_retry_def split: if_splits)
  from u obtain v z where "u = (y, v)" "send y v = (Inr z, w')"
    by (cases u) (auto simp: update_attempt_def split: prod.splits sum.splits)
  with inv [OF k] show ?thesis by auto
qed

lemma service_attempts_same:
  "attempts (service_attempt send get) k s t \<Longrightarrow> fst t = fst s"
proof (induction rule: attempts.induct)
  case (attempts_Suc s e s' k t)
  then show ?case
    by (cases s) (auto simp: service_attempt_def split: prod.splits sum.splits)
qed simp

lemma find_store_id_fqdn:
  assumes "\<forall>s \<in> set ss. \<exists>x rest. s = Some x \<and>
      hd (split_on CHR '':'' (si_address x)) = podName' x @ CHR ''.'' # rest"
    and "CHR ''.'' \<notin> set podName"
  shows "find_store_id podName ss i = Inr i"
  using assms
proof (induction ss)
  case (Cons s ss)
  then obtain x rest where "s = Some x" "hd (split_on CHR '':'' (si_address x)) = podName' x @ CHR ''.'' # rest"
    by auto
  moreover have "podName' x @ CHR ''.'' # rest \<noteq> podName" using Cons.prems(2) by auto
  ultimately show ?case using Cons by simp
qed simp

end
