(* ===== verification/Meta_Manager.thy ===== *)
theory Meta_Manager
  imports Member_Utils
begin

text \<open>
  \<^verbatim>\<open>pkg/manager/meta/meta_manager.go\<close>, \<^verbatim>\<open>reclaim_policy_manager.go\<close> and
  \<^verbatim>\<open>pkg/manager/member/orphan_pods_cleaner.go\<close>: the managers that run over all pods or claims
  of a cluster instance.
\<close>

definition instance_selector :: "cellcluster \<Rightarrow> label" where
  "instance_selector cc = label_Instance (mval (m_labels (cc_meta cc)) InstanceLabelKey) label_New"

section \<open>meta_manager.go\<close>

text \<open>
  The \<open>break\<close> in \<open>resolvePVCFromPod\<close> leaves the \<open>switch\<close>, not the loop: the last claim volume
  with one of the two names is the one that counts.
\<close>

fun resolve_pvc_name :: "volume list \<Rightarrow> string \<Rightarrow> string" where
  "resolve_pvc_name [] pvcName = pvcName"
| "resolve_pvc_name (vol # vols) pvcName =
     (if v_name vol = PDMemberType \<or> v_name vol = StoreMemberType then
        (case v_source vol of
           PVCVolume claim \<Rightarrow> resolve_pvc_name vols claim
         | _ \<Rightarrow> resolve_pvc_name vols pvcName)
      else resolve_pvc_name vols pvcName)"

definition errPVCNotFound :: goerr where
  "errPVCNotFound = OtherError ''PVC is not found''"

definition resolvePVCFromPod :: "'w env \<Rightarrow> pod \<Rightarrow> 'w \<Rightarrow> goerr + pvc" where
  "resolvePVCFromPod E pod w =
     (let pvcName = resolve_pvc_name (ps_volumes (p_spec pod)) []
      in if pvcName = [] then Inl errPVCNotFound else l_pvc E w (p_ns pod) pvcName)"

text \<open>The body of the loop for one pod.\<close>

definition meta_sync_pod :: "'w env \<Rightarrow> cellcluster \<Rightarrow> pod \<Rightarrow> 'w \<Rightarrow> goerr option \<times> 'w" where
  "meta_sync_pod E cc pod w =
     (case k_pod_meta E cc pod w of
        (Some e, _, w1) \<Rightarrow> (Some e, w1)
      | (None, pod', w1) \<Rightarrow>
          let component = mval (p_labels pod') ComponentLabelKey
          in if component \<noteq> PDLabelVal \<and> component \<noteq> StoreLabelVal then (None, w1)
             else (case resolvePVCFromPod E pod' w1 of
                     Inl e \<Rightarrow> (Some e, w1)
                   | Inr pvc \<Rightarrow>
                       (case k_pvc_meta E cc pvc pod' w1 of
                          (Some e, _, w2) \<Rightarrow> (Some e, w2)
                        | (None, pvc', w2) \<Rightarrow>
                            if pvc_volume_name pvc' = [] then (None, w2)
                            else (case l_pv E w2 (pvc_volume_name pvc') of
                                    Inl e \<Rightarrow> (Some e, w2)
                                  | Inr pv \<Rightarrow> k_pv_meta E cc pv w2))))"

text \<open>\<open>for _, x := range xs { if err := body(x); err != nil { return err } }\<close>.\<close>

fun for_each :: "('a \<Rightarrow> 'w \<Rightarrow> goerr option \<times> 'w) \<Rightarrow> 'a list \<Rightarrow> 'w \<Rightarrow> goerr option \<times> 'w" where
  "for_each body [] w = (None, w)"
| "for_each body (x # xs) w =
     (case body x w of (Some e, w1) \<Rightarrow> (Some e, w1) | (None, w1) \<Rightarrow> for_each body xs w1)"

definition metaManager_Sync :: "'w env \<Rightarrow> cellcluster \<Rightarrow> 'w \<Rightarrow> goerr option \<times> 'w" where
  "metaManager_Sync E cc w =
     (case l_pods E w (cc_ns cc) (instance_selector cc) of
        Inl e \<Rightarrow> (Some e, w)
      | Inr pods \<Rightarrow> for_each (meta_sync_pod E cc) pods w)"

section \<open>reclaim_policy_manager.go\<close>

definition reclaim_sync_pvc :: "'w env \<Rightarrow> cellcluster \<Rightarrow> pvc \<Rightarrow> 'w \<Rightarrow> goerr option \<times> 'w" where
  "reclaim_sync_pvc E cc pvc w =
     (if pvc_volume_name pvc = [] then (None, w)
      else (case l_pv E w (pvc_volume_name pvc) of
              Inl e \<Rightarrow> (Some e, w)
            | Inr pv \<Rightarrow>
                if pv_reclaim pv = spec_reclaim (cc_spec cc) then (None, w)
                else k_patch_reclaim E cc pv (spec_reclaim (cc_spec cc)) w))"

definition reclaimPolicyManager_Sync :: "'w env \<Rightarrow> cellcluster \<Rightarrow> 'w \<Rightarrow> goerr option \<times> 'w" where
  "reclaimPolicyManager_Sync E cc w =
     (case l_pvcs E w (cc_ns cc) (instance_selector cc) of
        Inl e \<Rightarrow> (Some e, w)
      | Inr pvcs \<Rightarrow> for_each (reclaim_sync_pvc E cc) pvcs w)"

section \<open>orphan_pods_cleaner.go\<close>

definition skipReasonOrphanPodsCleanerIsNotPDOrStore :: string where
  "skipReasonOrphanPodsCleanerIsNotPDOrStore = ''orphan pods cleaner: member type is not pd or store''"
definition skipReasonOrphanPodsCleanerPVCNameIsEmpty :: string where
  "skipReasonOrphanPodsCleanerPVCNameIsEmpty = ''orphan pods cleaner: pvcName is empty''"
definition skipReasonOrphanPodsCleanerPVCIsFound :: string where
  "skipReasonOrphanPodsCleanerPVCIsFound = ''orphan pods cleaner: pvc is found''"

fun first_claim :: "volume list \<Rightarrow> string" where
  "first_claim [] = []"
| "first_claim (vol # vols) =
     (case v_source vol of PVCVolume claim \<Rightarrow> claim | _ \<Rightarrow> first_claim vols)"

fun clean_loop ::
  "'w env \<Rightarrow> cellcluster \<Rightarrow> pod list \<Rightarrow> (string, string) gomap \<Rightarrow> 'w \<Rightarrow>
    (string, string) gomap \<times> goerr option \<times> 'w" where
  "clean_loop E cc [] skipReason w = (skipReason, None, w)"
| "clean_loop E cc (pod # pods) skipReason w =
     (if \<not> (IsPD (p_labels pod) \<or> IsStore (p_labels pod)) then
        clean_loop E cc pods
          (gput (p_name pod) skipReasonOrphanPodsCleanerIsNotPDOrStore skipReason) w
      else
        let pvcName = first_claim (ps_volumes (p_spec pod))
        in if pvcName = [] then
             clean_loop E cc pods
               (gput (p_name pod) skipReasonOrphanPodsCleanerPVCNameIsEmpty skipReason) w
           else (case l_pvc E w (cc_ns cc) pvcName of
                   Inr _ \<Rightarrow>
                     clean_loop E cc pods
                       (gput (p_name pod) skipReasonOrphanPodsCleanerPVCIsFound skipReason) w
                 | Inl e \<Rightarrow>
                     if \<not> is_not_found e then (skipReason, Some e, w)
                     else (case k_delete_pod E cc pod w of
                             (Some e', w1) \<Rightarrow> (skipReason, Some e', w1)
                           | (None, w1) \<Rightarrow> clean_loop E cc pods skipReason w1)))"

definition orphanPodsCleaner_Clean ::
  "'w env \<Rightarrow> cellcluster \<Rightarrow> 'w \<Rightarrow> (string, string) gomap \<times> goerr option \<times> 'w" where
  "orphanPodsCleaner_Clean E cc w =
     (case l_pods E w (cc_ns cc) (instance_selector cc) of
        Inl e \<Rightarrow> ([], Some e, w)
      | Inr pods \<Rightarrow> clean_loop E cc pods [] w)"

definition fakeOrphanPodsCleaner_Clean ::
  "cellcluster \<Rightarrow> 'w \<Rightarrow> (string, string) gomap \<times> goerr option \<times> 'w" where
  "fakeOrphanPodsCleaner_Clean cc w = ([], None, w)"

section \<open>Lemmas\<close>

lemma resolve_pvc_name_append:
  "resolve_pvc_name (us @ vs) n = resolve_pvc_name vs (resolve_pvc_name us n)"
  by (induction us arbitrary: n) (auto split: volume_source.splits)

lemma for_each_all:
  "for_each body xs w = (None, w') \<Longrightarrow>
     \<forall>x \<in> set xs. \<exists>u u'. body x u = (None, u')"
  by (induction body xs w rule: for_each.induct) (auto split: prod.splits option.splits)

lemma for_each_inv:
  assumes "for_each body xs w = (e, w')"
    and "\<And>x u e' u'. x \<in> set xs \<Longrightarrow> body x u = (e', u') \<Longrightarrow> P u \<Longrightarrow> P u'" and "P w"
  shows "P w'"
  using assms
proof (induction xs arbitrary: w)
  case (Cons x xs)
  obtain e1 w1 where b: "body x w = (e1, w1)" by fastforce
  have P1: "P w1" using Cons.prems(2) [OF _ b Cons.prems(3)] by simp
  show ?case
  proof (cases e1)
    case None
    then have "for_each body xs w1 = (e, w')" using Cons.prems(1) b by simp
    then show ?thesis by (rule Cons.IH [OF _ _ P1]) (rule Cons.prems(2), auto)
  next
    case (Some y)
    then show ?thesis using Cons.prems(1) b P1 by simp
  qed
qed simp

end
