(* ===== verification/Cluster_Control.thy ===== *)
theory Cluster_Control
  imports Controls PD_Member Store_Member Proxy_Member Meta_Manager
begin

text \<open>
  \<^verbatim>\<open>pkg/controller/cellcluster/cell_cluster_control.go\<close>, \<^verbatim>\<open>cell_cluster_controller.go\<close> and
  \<^verbatim>\<open>pkg/controller/cellcluster_control.go\<close>: one round of the managers over a cluster, the
  status update, and the work queue that decides which cluster is synced when.
\<close>

section \<open>cellcluster_control.go\<close>

text \<open>\<^verbatim>\<open>apiequality.Semantic.DeepEqual\<close> on two statuses: maps are equal whatever their order.\<close>

definition pd_status_equal :: "pd_status \<Rightarrow> pd_status \<Rightarrow> bool" where
  "pd_status_equal a b \<longleftrightarrow>
     gequal (pd_members a) (pd_members b) \<and> gequal (pd_failures a) (pd_failures b) \<and>
     a = b\<lparr>pd_members := pd_members a, pd_failures := pd_failures a\<rparr>"

definition store_status_equal :: "store_status \<Rightarrow> store_status \<Rightarrow> bool" where
  "store_status_equal a b \<longleftrightarrow>
     gequal (sto_stores a) (sto_stores b) \<and> gequal (sto_tombstones a) (sto_tombstones b) \<and>
     gequal (sto_failures a) (sto_failures b) \<and>
     a = b\<lparr>sto_stores := sto_stores a, sto_tombstones := sto_tombstones a,
           sto_failures := sto_failures a\<rparr>"

definition proxy_status_equal :: "proxy_status \<Rightarrow> proxy_status \<Rightarrow> bool" where
  "proxy_status_equal a b \<longleftrightarrow>
     gequal (px_members a) (px_members b) \<and> gequal (px_failures a) (px_failures b) \<and>
     a = b\<lparr>px_members := px_members a, px_failures := px_failures a\<rparr>"

definition status_equal :: "cell_status \<Rightarrow> cell_status \<Rightarrow> bool" where
  "status_equal a b \<longleftrightarrow>
     stat_cluster_id a = stat_cluster_id b \<and> pd_status_equal (stat_pd a) (stat_pd b) \<and>
     store_status_equal (stat_store a) (stat_store b) \<and>
     proxy_status_equal (stat_proxy a) (stat_proxy b)"

definition sweepHeartbeatTime :: "(string, kv_store) gomap \<Rightarrow> (string, kv_store) gomap" where
  "sweepHeartbeatTime stores = map (\<lambda>(i, store). (i, store\<lparr>kv_heartbeat := None\<rparr>)) stores"

definition sweep_status :: "cell_status \<Rightarrow> cell_status" where
  "sweep_status s =
     s\<lparr>stat_store := (stat_store s)
         \<lparr>sto_stores := sweepHeartbeatTime (sto_stores (stat_store s)),
          sto_tombstones := sweepHeartbeatTime (sto_tombstones (stat_store s))\<rparr>\<rparr>"

definition deepEqualExceptHeartbeatTime :: "cell_status \<Rightarrow> cell_status \<Rightarrow> bool" where
  "deepEqualExceptHeartbeatTime newStatus oldStatus \<longleftrightarrow>
     status_equal (sweep_status newStatus) (sweep_status oldStatus)"

text \<open>The API server and the lister of clusters.\<close>

record 'w cc_env =
  x_cc_update :: "string \<Rightarrow> cellcluster \<Rightarrow> 'w \<Rightarrow> (goerr + cellcluster) \<times> 'w"
  x_cc_get :: "string \<Rightarrow> string \<Rightarrow> 'w \<Rightarrow> goerr + cellcluster"
  x_event :: "cellcluster \<Rightarrow> event \<Rightarrow> 'w \<Rightarrow> 'w"

definition cluster_event :: "string \<Rightarrow> cellcluster \<Rightarrow> goerr option \<Rightarrow> event" where
  "cluster_event verb cc err =
     (case err of
        None \<Rightarrow>
          \<lparr>ev_type = ''Normal'', ev_reason = ''Successful'' @ title_verb verb,
           ev_message = verb @ '' CellCluster '' @ cc_name cc @ '' successful''\<rparr>
      | Some e \<Rightarrow>
          \<lparr>ev_type = ''Warning'', ev_reason = ''Failed'' @ title_verb verb,
           ev_message = verb @ '' CellCluster '' @ cc_name cc @ '' failed error: '' @ err_text e\<rparr>)"

definition realCellClusterControl_UpdateCellCluster ::
  "'w cc_env \<Rightarrow> cellcluster \<Rightarrow> cell_status \<Rightarrow> cell_status \<Rightarrow> 'w \<Rightarrow> goerr option \<times> 'w" where
  "realCellClusterControl_UpdateCellCluster X cc newStatus oldStatus w =
     (let ns = cc_ns cc; ccName = cc_name cc; status = cc_status cc
      in case update_with_retry default_retry_steps (x_cc_update X ns) (x_cc_get X ns ccName)
                (\<lambda>cur. cur\<lparr>cc_status := status\<rparr>) cc w of
           (err, cc', w1) \<Rightarrow>
             (err, if \<not> deepEqualExceptHeartbeatTime newStatus oldStatus
                   then x_event X cc' (cluster_event ''update'' cc' err) w1 else w1))"

section \<open>cell_cluster_control.go\<close>

text \<open>The managers the control was built with; each may write the status of its cluster.\<close>

type_synonym 'w manager = "cellcluster \<Rightarrow> 'w \<Rightarrow> goerr option \<times> cellcluster \<times> 'w"

record 'w managers =
  mg_reclaim :: "'w manager"
  mg_clean :: "'w manager"
  mg_pd :: "'w manager"
  mg_store :: "'w manager"
  mg_proxy :: "'w manager"
  mg_meta :: "'w manager"
  mg_update :: "cellcluster \<Rightarrow> cell_status \<Rightarrow> cell_status \<Rightarrow> 'w \<Rightarrow> goerr option \<times> 'w"

text \<open>\<^verbatim>\<open>if err := m.Sync(cc); err != nil { return err }\<close>, one manager after the other.\<close>

fun run_managers :: "'w manager list \<Rightarrow> 'w manager" where
  "run_managers [] cc w = (None, cc, w)"
| "run_managers (m # ms) cc w =
     (case m cc w of
        (Some e, cc1, w1) \<Rightarrow> (Some e, cc1, w1)
      | (None, cc1, w1) \<Rightarrow> run_managers ms cc1 w1)"

definition updateCellCluster :: "'w managers \<Rightarrow> 'w manager" where
  "updateCellCluster M =
     run_managers [mg_reclaim M, mg_clean M, mg_pd M, mg_store M, mg_proxy M, mg_meta M]"

definition NewAggregate :: "goerr list \<Rightarrow> goerr option" where
  "NewAggregate errs = (if errs = [] then None else Some (AggregateError errs))"

text \<open>A panic in a manager unwinds past the status update.\<close>

definition UpdateCellCluster :: "'w managers \<Rightarrow> 'w manager" where
  "UpdateCellCluster M cc w =
     (let oldStatus = cc_status cc
      in case updateCellCluster M cc w of
           (err, cc1, w1) \<Rightarrow>
             let errs = (case err of None \<Rightarrow> [] | Some e \<Rightarrow> [e])
             in if (case err of Some e \<Rightarrow> is_panic e | None \<Rightarrow> False) then (err, cc1, w1)
                else if status_equal (cc_status cc1) oldStatus then (NewAggregate errs, cc1, w1)
                else (case mg_update M cc1 (cc_status cc1) oldStatus w1 of
                        (None, w2) \<Rightarrow> (NewAggregate errs, cc1, w2)
                      | (Some e, w2) \<Rightarrow> (NewAggregate (errs @ [e]), cc1, w2)))"

text \<open>The managers as \<open>NewController\<close> builds them.\<close>

definition lift_manager :: "(cellcluster \<Rightarrow> 'w \<Rightarrow> goerr option \<times> 'w) \<Rightarrow> 'w manager" where
  "lift_manager f cc w = (case f cc w of (e, w1) \<Rightarrow> (e, cc, w1))"

definition clean_manager :: "'w env \<Rightarrow> cellcluster \<Rightarrow> 'w \<Rightarrow> goerr option \<times> 'w" where
  "clean_manager E cc w = (case orphanPodsCleaner_Clean E cc w of (_, e, w1) \<Rightarrow> (e, w1))"

definition default_managers ::
  "'w env \<Rightarrow> (cellcluster \<Rightarrow> cell_status \<Rightarrow> cell_status \<Rightarrow> 'w \<Rightarrow> goerr option \<times> 'w) \<Rightarrow> 'w managers" where
  "default_managers E upd =
     \<lparr>mg_reclaim = lift_manager (reclaimPolicyManager_Sync E),
      mg_clean = lift_manager (clean_manager E),
      mg_pd = pdMemberManager_Sync E (pdUpgrader_Upgrade E),
      mg_store = storeMemberManager_Sync E (storeUpgrader_Upgrade E) (storeScaler_ScaleOut E),
      mg_proxy = proxyMemberManager_Sync E (proxyUpgrader_Upgrade E),
      mg_meta = lift_manager (metaManager_Sync E),
      mg_update = upd\<rparr>"

section \<open>cell_cluster_controller.go\<close>

text \<open>
  The rate-limited work queue of client-go as the code relies on it: keys waiting, the keys
  being processed, the keys that wait for their backoff, and the failures counted per key.
  A key added while it is processed waits until \<open>Done\<close>.
\<close>

record queue =
  wq_waiting :: "string list"
  wq_processing :: "string list"
  wq_dirty :: "string list"
  wq_delayed :: "string list"
  wq_failures :: "string \<Rightarrow> nat"

definition q_Add :: "string \<Rightarrow> queue \<Rightarrow> queue" where
  "q_Add k q =
     (if k \<in> set (wq_dirty q) then q
      else if k \<in> set (wq_processing q) then q\<lparr>wq_dirty := wq_dirty q @ [k]\<rparr>
      else q\<lparr>wq_dirty := wq_dirty q @ [k], wq_waiting := wq_waiting q @ [k]\<rparr>)"

definition q_Get :: "queue \<Rightarrow> (string \<times> queue) option" where
  "q_Get q =
     (case wq_waiting q of
        [] \<Rightarrow> None
      | k # ks \<Rightarrow> Some (k, q\<lparr>wq_waiting := ks, wq_processing := wq_processing q @ [k],
                            wq_dirty := remove1 k (wq_dirty q)\<rparr>))"

definition q_Done :: "string \<Rightarrow> queue \<Rightarrow> queue" where
  "q_Done k q =
     (let q1 = q\<lparr>wq_processing := remove1 k (wq_processing q)\<rparr>
      in if k \<in> set (wq_dirty q) then q1\<lparr>wq_waiting := wq_waiting q1 @ [k]\<rparr> else q1)"

definition q_AddRateLimited :: "string \<Rightarrow> queue \<Rightarrow> queue" where
  "q_AddRateLimited k q =
     q\<lparr>wq_delayed := wq_delayed q @ [k], wq_failures := (wq_failures q)(k := wq_failures q k + 1)\<rparr>"

definition q_Forget :: "string \<Rightarrow> queue \<Rightarrow> queue" where
  "q_Forget k q = q\<lparr>wq_failures := (wq_failures q)(k := 0)\<rparr>"

text \<open>\<^verbatim>\<open>cache.SplitMetaNamespaceKey\<close> and the key functions of an object.\<close>

definition meta_key :: "objmeta \<Rightarrow> string" where
  "meta_key m = (if m_ns m \<noteq> [] then m_ns m @ ''/'' @ m_name m else m_name m)"

definition split_meta_key :: "string \<Rightarrow> goerr + (string \<times> string)" where
  "split_meta_key key =
     (case split_on CHR ''/'' key of
        [name] \<Rightarrow> Inr ([], name)
      | [ns, name] \<Rightarrow> Inr (ns, name)
      | _ \<Rightarrow> Inl (OtherError (''unexpected key format: '' @ key)))"

definition controller_sync :: "'w cc_env \<Rightarrow> 'w managers \<Rightarrow> string \<Rightarrow> 'w \<Rightarrow> goerr option \<times> 'w" where
  "controller_sync X M key w =
     (case split_meta_key key of
        Inl e \<Rightarrow> (Some e, w)
      | Inr (ns, name) \<Rightarrow>
          (case x_cc_get X ns name w of
             Inl e \<Rightarrow> if is_not_found e then (None, w) else (Some e, w)
           | Inr cc \<Rightarrow> (case UpdateCellCluster M cc w of (err, _, w1) \<Rightarrow> (err, w1))))"

text \<open>One item; a panic is not recovered here and ends the process.\<close>

definition processNextWorkItem ::
  "'w cc_env \<Rightarrow> 'w managers \<Rightarrow> queue \<times> 'w \<Rightarrow> (goerr + queue \<times> 'w) option" where
  "processNextWorkItem X M s =
     (case q_Get (fst s) of
        None \<Rightarrow> None
      | Some (key, q) \<Rightarrow>
          (case controller_sync X M key (snd s) of
             (None, w1) \<Rightarrow> Some (Inr (q_Done key (q_Forget key q), w1))
           | (Some e, w1) \<Rightarrow>
               if is_panic e then Some (Inl e)
               else Some (Inr (q_Done key (q_AddRateLimited key q), w1))))"

definition enqueueCellCluster :: "objmeta \<Rightarrow> queue \<Rightarrow> queue" where
  "enqueueCellCluster m q = q_Add (meta_key m) q"

definition GetControllerOf :: "objmeta \<Rightarrow> owner_ref option" where
  "GetControllerOf m = find (\<lambda>r. or_controller r = Some True) (m_owners m)"

definition resolveCellClusterFromSet ::
  "'w cc_env \<Rightarrow> string \<Rightarrow> sset \<Rightarrow> 'w \<Rightarrow> cellcluster option" where
  "resolveCellClusterFromSet X namespace sts w =
     (case GetControllerOf (s_meta sts) of
        None \<Rightarrow> None
      | Some controllerRef \<Rightarrow>
          if or_kind controllerRef \<noteq> controllerKind_Kind then None
          else (case x_cc_get X namespace (or_name controllerRef) w of
                  Inl _ \<Rightarrow> None
                | Inr cc \<Rightarrow> if m_uid (cc_meta cc) \<noteq> or_uid controllerRef then None else Some cc))"

definition enqueue_owner :: "'w cc_env \<Rightarrow> sset \<Rightarrow> 'w \<Rightarrow> queue \<Rightarrow> queue" where
  "enqueue_owner X sts w q =
     (case resolveCellClusterFromSet X (m_ns (s_meta sts)) sts w of
        None \<Rightarrow> q | Some cc \<Rightarrow> enqueueCellCluster (cc_meta cc) q)"

text \<open>
  What a delete event carries: the set, a tombstone of one, or something else.  The type
  assertion of a tombstone yields a nil set, whose namespace is read before \<open>ok\<close> is checked.
\<close>

datatype deleted = DeletedSet sset | DeletedTombstone "sset option" | DeletedOther

definition deleteStatefulSet :: "'w cc_env \<Rightarrow> deleted \<Rightarrow> 'w \<Rightarrow> queue \<Rightarrow> goerr + queue" where
  "deleteStatefulSet X obj w q =
     (case obj of
        DeletedSet sts \<Rightarrow> Inr (enqueue_owner X sts w q)
      | _ \<Rightarrow> Inl (PanicError ''nil StatefulSet''))"

definition addStatefulSet :: "'w cc_env \<Rightarrow> sset \<Rightarrow> 'w \<Rightarrow> queue \<Rightarrow> goerr + queue" where
  "addStatefulSet X sts w q =
     (if m_deleting (s_meta sts) then deleteStatefulSet X (DeletedSet sts) w q
      else Inr (enqueue_owner X sts w q))"

definition updateStatefuSet :: "'w cc_env \<Rightarrow> sset \<Rightarrow> sset \<Rightarrow> 'w \<Rightarrow> queue \<Rightarrow> queue" where
  "updateStatefuSet X oldSet curSet w q =
     (if m_rv (s_meta curSet) = m_rv (s_meta oldSet) then q else enqueue_owner X curSet w q)"

end
