(* ===== verification/Meta_Properties.thy ===== *)
theory Meta_Properties
  imports Meta_Manager Samples
begin

text \<open>
  What the managers that run over all volumes and pods of a cluster request: patches of the
  reclaim policy, and deletions of pods whose claim is gone.
\<close>

section \<open>Reclaim policy\<close>

lemma for_each_trace:
  assumes "for_each body xs t = (e, t')" and "\<And>x u e' u'. x \<in> set xs \<Longrightarrow> body x u = (e', u') \<Longrightarrow> adds P u u'"
  shows "adds P t t'"
  using for_each_inv [OF assms(1), of "adds P t"] assms(2) adds_trans by blast

lemma for_each_all_trace:
  assumes "for_each body xs t = (None, t')" and "x \<in> set xs"
    and "\<And>y u e' u'. body y u = (e', u') \<Longrightarrow> adds P u u'"
  shows "\<exists>u u'. body x u = (None, u') \<and> adds P u' t'"
  using assms(1,2)
proof (induction xs arbitrary: t)
  case (Cons y ys)
  obtain t1 where b: "body y t = (None, t1)" and r: "for_each body ys t1 = (None, t')"
    using Cons.prems(1) by (auto split: prod.splits option.splits)
  show ?case
  proof (cases "x \<in> set ys")
    case True
    then show ?thesis using Cons.IH [OF r] by blast
  next
    case False
    then have "x = y" using Cons.prems(2) by simp
    moreover have "adds P t1 t'" using for_each_trace [OF r] assms(3) by blast
    ultimately show ?thesis using b by blast
  qed
qed simp

lemma reclaim_sync_trace:
  assumes "reclaim_sync_pvc (traced E) cc pvc t = (e, t')"
  shows "adds (\<lambda>a. \<exists>pv u. a = PatchReclaim pv (spec_reclaim (cc_spec cc)) \<and>
    l_pv E u (pvc_volume_name pvc) = Inr pv \<and> pv_reclaim pv \<noteq> spec_reclaim (cc_spec cc)) t t'"
  using assms
  by (auto simp: reclaim_sync_pvc_def traced_calls split: if_splits sum.splits intro: adds_act)

text \<open>What a sync of the reclaim policy asks for, and what it has asked for when it succeeds.\<close>

lemma reclaim_patches_only:
  assumes "reclaimPolicyManager_Sync (traced E) cc (w, []) = (e, (w', acts))"
    and "l_pvcs E w (cc_ns cc) (instance_selector cc) = Inr pvcs" and "a \<in> set acts"
  shows "\<exists>pvc \<in> set pvcs. \<exists>pv u. a = PatchReclaim pv (spec_reclaim (cc_spec cc)) \<and>
    l_pv E u (pvc_volume_name pvc) = Inr pv \<and> pv_reclaim pv \<noteq> spec_reclaim (cc_spec cc)"
proof -
  have "for_each (reclaim_sync_pvc (traced E) cc) pvcs (w, []) = (e, (w', acts))"
    using assms(1,2) by (simp add: reclaimPolicyManager_Sync_def)
  then have "adds (\<lambda>a. \<exists>pvc \<in> set pvcs. \<exists>pv u. a = PatchReclaim pv (spec_reclaim (cc_spec cc)) \<and>
      l_pv E u (pvc_volume_name pvc) = Inr pv \<and> pv_reclaim pv \<noteq> spec_reclaim (cc_spec cc)) (w, []) (w', acts)"
  proof (rule for_each_trace)
    fix pvc u e' u' assume "pvc \<in> set pvcs" and "reclaim_sync_pvc (traced E) cc pvc u = (e', u')"
    then show "adds (\<lambda>a. \<exists>pvc \<in> set pvcs. \<exists>pv u. a = PatchReclaim pv (spec_reclaim (cc_spec cc)) \<and>
      l_pv E u (pvc_volume_name pvc) = Inr pv \<and> pv_reclaim pv \<noteq> spec_reclaim (cc_spec cc)) u u'"
      using reclaim_sync_trace by (blast intro: adds_mono)
  qed
  from adds_all [OF this assms(3)] show ?thesis .
qed

definition smp_pv :: pv where
  "smp_pv = \<lparr>pv_meta = meta0\<lparr>m_name := ''v''\<rparr>, pv_claim_ref = Some ''p'', pv_reclaim = ''Delete''\<rparr>"

definition smp_pv_env :: "unit env" where
  "smp_pv_env = (null_env undefined)\<lparr>l_pvcs := \<lambda>w ns sel. Inr [smp_pvc ''p'' None],
     l_pv := \<lambda>w n. Inr smp_pv\<rparr>"

lemma reclaim_patches_all:
  assumes "reclaimPolicyManager_Sync (traced E) cc (w, []) = (None, (w', acts))"
    and "l_pvcs E w (cc_ns cc) (instance_selector cc) = Inr pvcs"
    and "pvc \<in> set pvcs" and "pvc_volume_name pvc \<noteq> []"
  shows "\<exists>u pv. l_pv E u (pvc_volume_name pvc) = Inr pv \<and>
    (pv_reclaim pv = spec_reclaim (cc_spec cc) \<or> PatchReclaim pv (spec_reclaim (cc_spec cc)) \<in> set acts)"
proof -
  let ?P = "\<lambda>_::action. True"
  have f: "for_each (reclaim_sync_pvc (traced E) cc) pvcs (w, []) = (None, (w', acts))"
    using assms(1,2) by (simp add: reclaimPolicyManager_Sync_def)
  have mono: "adds ?P u u'" if "reclaim_sync_pvc (traced E) cc x u = (e', u')" for x u e' u'
    using reclaim_sync_trace [OF that] by (rule adds_mono) simp
  have "\<exists>u u'. reclaim_sync_pvc (traced E) cc pvc u = (None, u') \<and> adds ?P u' (w', acts)"
    by (rule for_each_all_trace [OF f assms(3)]) (rule mono)
  then obtain u u' where
    b: "reclaim_sync_pvc (traced E) cc pvc u = (None, u')" and g: "adds ?P u' (w', acts)"
    by blast
  from g have "set (snd u') \<subseteq> set acts" by (auto simp: adds_def)
  moreover have "\<exists>pv. l_pv E (fst u) (pvc_volume_name pvc) = Inr pv \<and>
      (pv_reclaim pv = spec_reclaim (cc_spec cc) \<or> PatchReclaim pv (spec_reclaim (cc_spec cc)) \<in> set (snd u'))"
    using b assms(4) by (auto simp: reclaim_sync_pvc_def traced_calls split: sum.splits if_splits
        dest!: lift_act_snd)
  ultimately show ?thesis by blast
qed



section \<open>Orphan pods\<close>

lemma clean_loop_trace:
  "clean_loop (traced E) cc pods m t = (m', e, t') \<Longrightarrow>
     adds (\<lambda>a. \<exists>pod \<in> set pods. \<exists>u x. a = DeletePod pod \<and> (IsPD (p_labels pod) \<or> IsStore (p_labels pod)) \<and>
       first_claim (ps_volumes (p_spec pod)) \<noteq> [] \<and>
       l_pvc E u (cc_ns cc) (first_claim (ps_volumes (p_spec pod))) = Inl x \<and> is_not_found x) t t'"
proof (induction pods arbitrary: m t)
  case (Cons pod pods)
  let ?P = "\<lambda>pods a. \<exists>pod \<in> set pods. \<exists>u x. a = DeletePod pod \<and>
       (IsPD (p_labels pod) \<or> IsStore (p_labels pod)) \<and> first_claim (ps_volumes (p_spec pod)) \<noteq> [] \<and>
       l_pvc E u (cc_ns cc) (first_claim (ps_volumes (p_spec pod))) = Inl x \<and> is_not_found x"
  have weaken: "adds (?P pods) u v \<Longrightarrow> adds (?P (pod # pods)) u v" for u v
    by (erule adds_mono) auto
  show ?case
  proof (cases "\<exists>m1. clean_loop (traced E) cc pods m1 t = (m', e, t')")
    case True
    then show ?thesis using Cons.IH weaken by blast
  next
    case False
    then obtain x where x: "IsPD (p_labels pod) \<or> IsStore (p_labels pod)"
      "first_claim (ps_volumes (p_spec pod)) \<noteq> []"
      "l_pvc E (fst t) (cc_ns cc) (first_claim (ps_volumes (p_spec pod))) = Inl x"
      using Cons.prems by (auto simp: Let_def split: if_splits sum.splits)
    show ?thesis
    proof (cases "is_not_found x")
      case True
      obtain e1 t1 where d: "lift_act (DeletePod pod) (k_delete_pod E cc pod) t = (e1, t1)"
        by (metis prod.exhaust)
      have "?P (pod # pods) (DeletePod pod)" using x True by auto
      with d have s: "adds (?P (pod # pods)) t t1" by (rule adds_act)
      show ?thesis
      proof (cases e1)
        case None
        then have "clean_loop (traced E) cc pods m t1 = (m', e, t')"
          using Cons.prems x True d by (simp add: Let_def traced_calls)
        then show ?thesis using Cons.IH weaken s adds_trans by blast
      next
        case (Some y)
        then have "t' = t1" using Cons.prems x True d by (simp add: Let_def traced_calls)
        then show ?thesis using s by simp
      qed
    next
      case False
      then show ?thesis using Cons.prems x by (simp add: Let_def)
    qed
  qed
qed simp

text \<open>
  Only orphans are deleted.  Every request of the cleaner deletes a pod of the cluster's
  instance that belongs to PD or the stores and has a claim the lister says does not exist.
\<close>

lemma orphan_cleaner_deletes_only:
  assumes "orphanPodsCleaner_Clean (traced E) cc (w, []) = (m, e, (w', acts))"
    and "l_pods E w (cc_ns cc) (instance_selector cc) = Inr pods" and "a \<in> set acts"
  shows "\<exists>pod \<in> set pods. \<exists>u x. a = DeletePod pod \<and> (IsPD (p_labels pod) \<or> IsStore (p_labels pod)) \<and>
    first_claim (ps_volumes (p_spec pod)) \<noteq> [] \<and>
    l_pvc E u (cc_ns cc) (first_claim (ps_volumes (p_spec pod))) = Inl x \<and> is_not_found x"
proof -
  have "clean_loop (traced E) cc pods [] (w, []) = (m, e, (w', acts))"
    using assms(1,2) by (simp add: orphanPodsCleaner_Clean_def)
  from adds_all [OF clean_loop_trace [OF this] assms(3)] show ?thesis .
qed

end
