(* ===== verification/Cluster_Order.thy ===== *)
theory Cluster_Order
  imports Cluster_Control PD_Properties Store_Properties Proxy_Properties Meta_Properties Samples
begin

text \<open>
  The order in which one round of the managers creates the StatefulSets of a cluster: PD, then
  the stores once PD is available, then the proxies once a store is.
\<close>

section \<open>The order of creation\<close>

text \<open>The StatefulSets that are created between two traced worlds have the name \<open>nm\<close>.\<close>

abbreviation creates_only :: "string \<Rightarrow> 'w traced \<Rightarrow> 'w traced \<Rightarrow> bool" where
  "creates_only nm \<equiv> adds (\<lambda>a. \<forall>s. a = CreateSet s \<longrightarrow> s_name s = nm)"

lemma quiet_creates_only: "quiet t t' \<Longrightarrow> creates_only nm t t'"
  by (erule adds_mono) auto

lemma update_set_creates_only:
  "update_set_if_changed (traced E) cc new old t = (e, t') \<Longrightarrow> creates_only nm t t'"
  by (drule update_set_trace) (auto simp: adds_def)

lemma traced_create_svc:
  "create_annotated_svc (traced E) cc svc t = (e, t') \<Longrightarrow> quiet t t'"
  by (auto simp: create_annotated_svc_def traced_calls split: prod.splits option.splits intro: adds_act)

lemma traced_headless:
  "sync_headless_service (traced E) cc nm svc t = (e, t') \<Longrightarrow> quiet t t'"
  by (auto simp: sync_headless_service_def traced_calls split: prod.splits option.splits sum.splits if_splits
      intro: adds_act traced_create_svc)

lemma traced_pd_service: "syncPDServiceForCellCluster (traced E) cc t = (e, t') \<Longrightarrow> quiet t t'"
  by (auto simp: syncPDServiceForCellCluster_def traced_calls touch_svc_ann_def Let_def
      split: prod.splits option.splits sum.splits if_splits dest!: lift_act_snd traced_create_svc)
    (auto simp: adds_def)

lemma SetLastApplied_name: "SetLastAppliedConfigAnnotation J s = (None, s') \<Longrightarrow> s_name s' = s_name s"
  by (rule SetLastApplied_frame)

lemma create_set_only:
  "lift_act (CreateSet s) f t = (e, t') \<Longrightarrow> s_name s = nm \<Longrightarrow> creates_only nm t t'"
  by (erule adds_act) simp

lemma new_set_names:
  "getNewPDSetForCellCluster E cc = Inr s \<Longrightarrow> s_name s = PDMemberName (cc_name cc)"
  "getNewSetForCellCluster E cc = Inr s' \<Longrightarrow> s_name s' = StoreMemberName (cc_name cc)"
  "s_name (getNewProxySetForCellCluster E cc) = ProxyMemberName (cc_name cc)"
  by (auto simp: getNewPDSetForCellCluster_def getNewSetForCellCluster_def
      getNewProxySetForCellCluster_def Let_def split: sum.splits)

text \<open>A set sync either creates the set it is for, or goes through steps that create none.\<close>

lemma pd_set_sync_creates:
  assumes run: "syncPDStatefulSetForCellCluster (traced E) (pdUpgrader_Upgrade (traced E)) cc t = (e, cc', t')"
  shows "creates_only (PDMemberName (cc_name cc)) t t'"
proof (cases "getNewPDSetForCellCluster E cc")
  case (Inl x)
  then show ?thesis using run by (simp add: syncPDStatefulSetForCellCluster_def)
next
  case (Inr new)
  note new = new_set_names(1) [OF Inr]
  show ?thesis
  proof (cases "l_set E (fst t) (cc_ns cc) (PDMemberName (cc_name cc))")
    case (Inl x)
    then show ?thesis using run Inr new
      by (auto simp: syncPDStatefulSetForCellCluster_def traced_calls split: if_splits prod.splits option.splits
          dest!: SetLastApplied_name intro: create_set_only)
  next
    case old: (Inr old)
    obtain es cc1 t1 where st: "pd_syncCellClusterStatus (traced E) cc old t = (es, cc1, t1)"
      by (metis prod_cases3)
    have q1: "quiet t t1" using traced_pd_status [OF st] by (simp add: adds_def)
    let ?c = "\<not> templateEqual (e_codec E) (s_template new) (s_template old) \<or>
      pd_phase (cc_pd cc1) = UpgradePhase"
    obtain eu cc2 new' t2 where up: "(if ?c then pdUpgrader_Upgrade (traced E) cc1 old new t1
        else (None, cc1, new, t1)) = (eu, cc2, new', t2)"
      by (metis prod_cases4)
    have q2: "quiet t t2" using pd_upgrade_step [OF up] q1 by simp
    have "t' = t1 \<or> t' = t2 \<or> (\<exists>x. update_set_if_changed (traced E) cc2 new' old t2 = (x, t'))"
      using run Inr old st up
      by (auto simp: syncPDStatefulSetForCellCluster_def split: if_splits option.splits prod.splits)
    then show ?thesis
    proof (elim disjE exE)
      fix x assume "update_set_if_changed (traced E) cc2 new' old t2 = (x, t')"
      then show ?thesis by (rule adds_trans [OF quiet_creates_only [OF q2] update_set_creates_only])
    qed (simp_all add: quiet_creates_only q1 q2)
  qed
qed

lemma store_set_sync_creates:
  assumes run: "syncStatefulSetForCellCluster (traced E) (storeUpgrader_Upgrade (traced E))
      (storeScaler_ScaleOut (traced E)) cc t = (e, cc', t')"
  shows "creates_only (StoreMemberName (cc_name cc)) t t'"
proof (cases "getNewSetForCellCluster E cc")
  case (Inl x)
  then show ?thesis using run by (simp add: syncStatefulSetForCellCluster_def)
next
  case (Inr new)
  note new = new_set_names(2) [OF Inr]
  show ?thesis
  proof (cases "l_set E (fst t) (cc_ns cc) (StoreMemberName (cc_name cc))")
    case (Inl x)
    then show ?thesis using run Inr new
      by (auto simp: syncStatefulSetForCellCluster_def traced_calls split: if_splits prod.splits option.splits
          dest!: SetLastApplied_name intro: create_set_only)
  next
    case old: (Inr old)
    obtain es cc1 t1 where st: "store_syncCellClusterStatus (traced E) cc old t = (es, cc1, t1)"
      by (metis prod_cases3)
    have q1: "quiet t t1" using traced_store_status [OF st] by (simp add: adds_def)
    let ?c = "\<not> templateEqual (e_codec E) (s_template new) (s_template old) \<or>
      sto_phase (cc_store cc1) = UpgradePhase"
    obtain eu cc2 new1 t2 where up: "(if ?c then storeUpgrader_Upgrade (traced E) cc1 old new t1
        else (None, cc1, new, t1)) = (eu, cc2, new1, t2)"
      by (metis prod_cases4)
    have q2: "quiet t t2" using quiet_store_up.step_frame [OF up] q1 adds_trans by blast
    obtain ec new2 t3 where sc: "store_scale_step (storeScaler_ScaleOut (traced E)) cc2 old new1 t2 = (ec, new2, t3)"
      by (metis prod_cases3)
    have "t3 = t2 \<or> (\<exists>x n. storeScaler_ScaleOut (traced E) cc2 old new1 t2 = (x, n, t3))"
      using sc by (auto simp: store_scale_step_def split: option.splits prod.splits if_splits)
    then have "quiet t2 t3" using quiet_scale_out.scale_quiet by blast
    then have q3: "quiet t t3" using q2 adds_trans by blast
    have "t' = t1 \<or> t' = t2 \<or> t' = t3 \<or> (\<exists>x. update_set_if_changed (traced E) cc2 new2 old t3 = (x, t'))"
      using run Inr old st up sc
      by (auto simp: syncStatefulSetForCellCluster_def split: if_splits option.splits prod.splits)
    then show ?thesis
    proof (elim disjE exE)
      fix x assume "update_set_if_changed (traced E) cc2 new2 old t3 = (x, t')"
      then show ?thesis by (rule adds_trans [OF quiet_creates_only [OF q3] update_set_creates_only])
    qed (simp_all add: quiet_creates_only q1 q2 q3)
  qed
qed

lemma proxy_set_sync_creates:
  assumes run: "syncProxyStatefulSetForCellCluster (traced E) (proxyUpgrader_Upgrade (traced E)) cc t = (e, cc', t')"
  shows "creates_only (ProxyMemberName (cc_name cc)) t t'"
proof -
  have new: "getNewProxySetForCellCluster (traced E) cc = getNewProxySetForCellCluster E cc"
    by (simp add: getNewProxySetForCellCluster_def proxy_template_def proxy_container_def)
  let ?new = "getNewProxySetForCellCluster E cc"
  show ?thesis
  proof (cases "l_set E (fst t) (cc_ns cc) (ProxyMemberName (cc_name cc))")
    case (Inl x)
    then show ?thesis using run new new_set_names(3) [of E cc]
      by (auto simp: syncProxyStatefulSetForCellCluster_def traced_calls Let_def
          split: if_splits prod.splits option.splits dest!: SetLastApplied_name intro: create_set_only)
  next
    case (Inr old)
    obtain es cc1 where st: "proxy_syncCellClusterStatus (traced E) cc old t = (es, cc1)" by fastforce
    obtain eu cc2 new' t2 where up: "(if \<not> templateEqual (e_codec E) (s_template ?new) (s_template old) \<or>
        px_phase (cc_proxy cc1) = UpgradePhase then proxyUpgrader_Upgrade (traced E) cc1 old ?new t
        else (None, cc1, ?new, t)) = (eu, cc2, new', t2)"
      by (metis prod_cases4)
    have t2: "t2 = t" using up by (auto dest: proxyUpgrader_frame split: if_splits)
    have "t' = t \<or> (\<exists>x. update_set_if_changed (traced E) cc2 new' old t2 = (x, t'))"
      using run Inr st up t2 new
      by (auto simp: syncProxyStatefulSetForCellCluster_def Let_def split: if_splits option.splits prod.splits)
    then show ?thesis
    proof (elim disjE exE)
      fix x assume "update_set_if_changed (traced E) cc2 new' old t2 = (x, t')"
      from update_set_creates_only [OF this] t2 show ?thesis by simp
    qed simp
  qed
qed

lemma pd_manager_creates:
  assumes "pdMemberManager_Sync (traced E) (pdUpgrader_Upgrade (traced E)) cc t = (e, cc', t')"
  shows "creates_only (PDMemberName (cc_name cc)) t t'"
proof -
  obtain e1 t1 where s1: "syncPDServiceForCellCluster (traced E) cc t = (e1, t1)" by (metis prod.exhaust)
  obtain e2 t2 where s2: "syncPDHeadlessServiceForCellCluster (traced E) cc t1 = (e2, t2)" by (metis prod.exhaust)
  have q1: "creates_only (PDMemberName (cc_name cc)) t t1"
    by (rule quiet_creates_only [OF traced_pd_service [OF s1]])
  have q2: "creates_only (PDMemberName (cc_name cc)) t1 t2"
    by (rule quiet_creates_only [OF traced_headless [OF s2 [unfolded syncPDHeadlessServiceForCellCluster_def]]])
  have "t' = t1 \<or> t' = t2 \<or> (\<exists>x c. syncPDStatefulSetForCellCluster (traced E)
      (pdUpgrader_Upgrade (traced E)) cc t2 = (x, c, t'))"
    using assms s1 s2 by (auto simp: pdMemberManager_Sync_def split: option.splits)
  then show ?thesis
  proof (elim disjE exE)
    fix x c assume "syncPDStatefulSetForCellCluster (traced E) (pdUpgrader_Upgrade (traced E)) cc t2 = (x, c, t')"
    from adds_trans [OF adds_trans [OF q1 q2] pd_set_sync_creates [OF this]] show ?thesis .
  qed (simp_all add: q1 adds_trans [OF q1 q2])
qed

lemma store_manager_creates:
  assumes "storeMemberManager_Sync (traced E) (storeUpgrader_Upgrade (traced E))
      (storeScaler_ScaleOut (traced E)) cc t = (e, cc', t')"
  shows "creates_only (StoreMemberName (cc_name cc)) t t' \<and> (PDIsAvailable cc \<or> t' = t)"
proof (cases "PDIsAvailable cc")
  case True
  obtain e1 t1 where s1: "syncStoreHeadlessServiceForCellCluster (traced E) cc t = (e1, t1)" by (metis prod.exhaust)
  have q1: "creates_only (StoreMemberName (cc_name cc)) t t1"
    by (rule quiet_creates_only [OF traced_headless [OF s1 [unfolded syncStoreHeadlessServiceForCellCluster_def]]])
  have "t' = t1 \<or> (\<exists>x c. syncStatefulSetForCellCluster (traced E) (storeUpgrader_Upgrade (traced E))
      (storeScaler_ScaleOut (traced E)) cc t1 = (x, c, t'))"
    using assms s1 True by (auto simp: storeMemberManager_Sync_def split: option.splits)
  then have "creates_only (StoreMemberName (cc_name cc)) t t'"
  proof (elim disjE exE)
    fix x c assume "syncStatefulSetForCellCluster (traced E) (storeUpgrader_Upgrade (traced E))
      (storeScaler_ScaleOut (traced E)) cc t1 = (x, c, t')"
    from adds_trans [OF q1 store_set_sync_creates [OF this]] show ?thesis .
  qed (simp add: q1)
  then show ?thesis using True by simp
qed (use assms in \<open>simp add: storeMemberManager_Sync_def\<close>)

lemma proxy_manager_creates:
  assumes "proxyMemberManager_Sync (traced E) (proxyUpgrader_Upgrade (traced E)) cc t = (e, cc', t')"
  shows "creates_only (ProxyMemberName (cc_name cc)) t t' \<and> (StoreIsAvailable cc \<or> t' = t)"
proof (cases "StoreIsAvailable cc")
  case True
  then have "syncProxyStatefulSetForCellCluster (traced E) (proxyUpgrader_Upgrade (traced E)) cc t = (e, cc', t')"
    using assms by (simp add: proxyMemberManager_Sync_def)
  from proxy_set_sync_creates [OF this] True show ?thesis by simp
qed (use assms in \<open>simp add: proxyMemberManager_Sync_def\<close>)

lemma meta_manager_quiet: "metaManager_Sync (traced E) cc t = (e, t') \<Longrightarrow> quiet t t'"
proof -
  have pod: "quiet u u'" if "meta_sync_pod (traced E) cc pod u = (x, u')" for pod u x u'
    using that
    by (auto simp: meta_sync_pod_def traced_def lift_act_def Let_def adds_def
        split: prod.splits option.splits sum.splits if_splits)
  assume "metaManager_Sync (traced E) cc t = (e, t')"
  then have "t' = t \<or> (\<exists>pods. for_each (meta_sync_pod (traced E) cc) pods t = (e, t'))"
    by (auto simp: metaManager_Sync_def split: sum.splits)
  then show ?thesis
  proof (elim disjE exE)
    fix pods assume "for_each (meta_sync_pod (traced E) cc) pods t = (e, t')"
    then show ?thesis by (rule for_each_trace) (rule pod)
  qed simp
qed

lemma reclaim_manager_quiet: "reclaimPolicyManager_Sync (traced E) cc t = (e, t') \<Longrightarrow> quiet t t'"
proof -
  have pvc: "quiet u u'" if "reclaim_sync_pvc (traced E) cc pvc u = (x, u')" for pvc u x u'
    using reclaim_sync_trace [OF that] by (rule adds_mono) auto
  assume "reclaimPolicyManager_Sync (traced E) cc t = (e, t')"
  then have "t' = t \<or> (\<exists>pvcs. for_each (reclaim_sync_pvc (traced E) cc) pvcs t = (e, t'))"
    by (auto simp: reclaimPolicyManager_Sync_def split: sum.splits)
  then show ?thesis
  proof (elim disjE exE)
    fix pvcs assume "for_each (reclaim_sync_pvc (traced E) cc) pvcs t = (e, t')"
    then show ?thesis by (rule for_each_trace) (rule pvc)
  qed simp
qed

lemma clean_manager_quiet: "clean_manager (traced E) cc t = (e, t') \<Longrightarrow> quiet t t'"
proof -
  assume "clean_manager (traced E) cc t = (e, t')"
  then obtain m where c: "orphanPodsCleaner_Clean (traced E) cc t = (m, e, t')"
    by (auto simp: clean_manager_def split: prod.splits)
  show ?thesis
  proof (cases "l_pods E (fst t) (cc_ns cc) (instance_selector cc)")
    case (Inr pods)
    with c have "clean_loop (traced E) cc pods [] t = (m, e, t')" by (simp add: orphanPodsCleaner_Clean_def)
    from clean_loop_trace [OF this] show ?thesis by (rule adds_mono) auto
  qed (use c in \<open>simp add: orphanPodsCleaner_Clean_def\<close>)
qed

lemma pd_manager_meta:
  assumes "pdMemberManager_Sync E (pdUpgrader_Upgrade E) cc w = (e, cc', w')"
  shows "cc_meta cc' = cc_meta cc"
proof -
  have st: "cc_meta cc1 = cc_meta cc" if "pd_syncCellClusterStatus E cc s w = (x, cc1, w1)" for s w x cc1 w1
    using that
    by (auto simp: pd_syncCellClusterStatus_def pd_pull_status_def Let_def split: sum.splits prod.splits)
  have set: "cc_meta cc' = cc_meta cc"
    if "syncPDStatefulSetForCellCluster E (pdUpgrader_Upgrade E) cc w = (e, cc', w')" for e cc' w w'
    using that
    by (auto simp: syncPDStatefulSetForCellCluster_def split: sum.splits prod.splits option.splits if_splits
        dest!: st dest: pd_up.upgrade_name)
  show ?thesis using assms
    by (auto simp: pdMemberManager_Sync_def split: prod.splits option.splits dest: set)
qed

lemma store_manager_meta:
  assumes "storeMemberManager_Sync E (storeUpgrader_Upgrade E) scale cc w = (e, cc', w')"
  shows "cc_meta cc' = cc_meta cc"
proof -
  have st: "cc_meta cc1 = cc_meta cc" if "store_syncCellClusterStatus E cc s w = (x, cc1, w1)" for s w x cc1 w1
    using that
    by (auto simp: store_syncCellClusterStatus_def store_pull_status_def Let_def split: sum.splits prod.splits)
  have set: "cc_meta cc' = cc_meta cc"
    if "syncStatefulSetForCellCluster E (storeUpgrader_Upgrade E) scale cc w = (e, cc', w')" for e cc' w w'
    using that
    by (auto simp: syncStatefulSetForCellCluster_def split: sum.splits prod.splits option.splits if_splits
        dest!: st dest: store_up.upgrade_name)
  show ?thesis using assms
    by (auto simp: storeMemberManager_Sync_def split: prod.splits option.splits if_splits dest: set)
qed

lemma run_managers_Cons:
  assumes "run_managers (m # ms) cc t = (e, cc', t')"
  obtains (failed) "m cc t = (e, cc', t')"
  | (passed) cc1 t1 where "m cc t = (None, cc1, t1)" "run_managers ms cc1 t1 = (e, cc', t')"
  using assms by (cases "m cc t") (auto split: option.splits)

text \<open>
  What a StatefulSet that is created may be: that of PD; that of the stores, after a sync of PD
  that succeeded and left PD available; that of the proxies, after a sync of the stores that
  succeeded and left a store available.
\<close>

definition created_in_order :: "'w env \<Rightarrow> cellcluster \<Rightarrow> action \<Rightarrow> bool" where
  "created_in_order E cc a \<longleftrightarrow> (\<forall>s. a = CreateSet s \<longrightarrow>
     s_name s = PDMemberName (cc_name cc) \<or>
     (s_name s = StoreMemberName (cc_name cc) \<and> (\<exists>t cc1 t1. PDIsAvailable cc1 \<and>
        pdMemberManager_Sync (traced E) (pdUpgrader_Upgrade (traced E)) cc t = (None, cc1, t1))) \<or>
     (s_name s = ProxyMemberName (cc_name cc) \<and> (\<exists>cc1 t cc2 t1. StoreIsAvailable cc2 \<and>
        storeMemberManager_Sync (traced E) (storeUpgrader_Upgrade (traced E))
          (storeScaler_ScaleOut (traced E)) cc1 t = (None, cc2, t1))))"

lemma quiet_in_order: "quiet t t' \<Longrightarrow> adds (created_in_order E cc) t t'"
  by (erule adds_mono) (auto simp: created_in_order_def)

lemma lifted_in_order:
  assumes "lift_manager f cc t = (e, cc', t')" and "\<And>e' u. f cc t = (e', u) \<Longrightarrow> quiet t u"
  shows "cc' = cc \<and> adds (created_in_order E c) t t'"
proof -
  have "cc' = cc \<and> quiet t t'" using assms by (auto simp: lift_manager_def split: prod.splits)
  then show ?thesis using quiet_in_order by blast
qed

lemma quiet_managers_in_order:
  "lift_manager (reclaimPolicyManager_Sync (traced F)) cc t = (e, cc', t') \<Longrightarrow>
     cc' = cc \<and> adds (created_in_order E c) t t'"
  "lift_manager (clean_manager (traced F)) cc t = (e, cc', t') \<Longrightarrow>
     cc' = cc \<and> adds (created_in_order E c) t t'"
  "lift_manager (metaManager_Sync (traced F)) cc t = (e, cc', t') \<Longrightarrow>
     cc' = cc \<and> adds (created_in_order E c) t t'"
  by (erule lifted_in_order, erule reclaim_manager_quiet clean_manager_quiet meta_manager_quiet)+

text \<open>The managers after the stores', after the PD's, and all of them.\<close>

lemma proxy_tail_in_order:
  assumes run: "run_managers [proxyMemberManager_Sync (traced E) (proxyUpgrader_Upgrade (traced E)),
      lift_manager (metaManager_Sync (traced E))] c3 t3 = (e, cc', t')"
    and store: "storeMemberManager_Sync (traced E) (storeUpgrader_Upgrade (traced E))
      (storeScaler_ScaleOut (traced E)) c2 t2 = (None, c3, t3)"
    and n: "cc_name c3 = cc_name cc"
  shows "adds (created_in_order E cc) t3 t'"
proof -
  have proxy: "adds (created_in_order E cc) t3 u'"
    if p: "proxyMemberManager_Sync (traced E) (proxyUpgrader_Upgrade (traced E)) c3 t3 = (x, c, u')" for x c u'
    using conjunct2 [OF proxy_manager_creates [OF p]]
  proof
    assume av: "StoreIsAvailable c3"
    from conjunct1 [OF proxy_manager_creates [OF p]] show ?thesis
    proof (rule adds_mono)
      fix a assume "\<forall>s. a = CreateSet s \<longrightarrow> s_name s = ProxyMemberName (cc_name c3)"
      then show "created_in_order E cc a"
        unfolding created_in_order_def n using av store by blast
    qed
  qed simp
  from run show ?thesis
  proof (cases rule: run_managers_Cons)
    case failed
    then show ?thesis by (rule proxy)
  next
    case (passed c4 t4)
    from passed(2) have "adds (created_in_order E cc) t4 t'"
      by (cases rule: run_managers_Cons) (auto dest: quiet_managers_in_order(3))
    then show ?thesis by (rule adds_trans [OF proxy [OF passed(1)]])
  qed
qed

lemma store_tail_in_order:
  assumes run: "run_managers [storeMemberManager_Sync (traced E) (storeUpgrader_Upgrade (traced E))
        (storeScaler_ScaleOut (traced E)),
      proxyMemberManager_Sync (traced E) (proxyUpgrader_Upgrade (traced E)),
      lift_manager (metaManager_Sync (traced E))] c2 t2 = (e, cc', t')"
    and pd: "pdMemberManager_Sync (traced E) (pdUpgrader_Upgrade (traced E)) cc t1 = (None, c2, t2)"
  shows "adds (created_in_order E cc) t2 t'"
proof -
  have n: "cc_name c2 = cc_name cc" using pd_manager_meta [OF pd] by simp
  have store: "adds (created_in_order E cc) t2 u'"
    if s: "storeMemberManager_Sync (traced E) (storeUpgrader_Upgrade (traced E))
      (storeScaler_ScaleOut (traced E)) c2 t2 = (x, c, u')" for x c u'
    using conjunct2 [OF store_manager_creates [OF s]]
  proof
    assume av: "PDIsAvailable c2"
    from conjunct1 [OF store_manager_creates [OF s]] show ?thesis
    proof (rule adds_mono)
      fix a assume "\<forall>s. a = CreateSet s \<longrightarrow> s_name s = StoreMemberName (cc_name c2)"
      then show "created_in_order E cc a"
        unfolding created_in_order_def n using av pd by blast
    qed
  qed simp
  from run show ?thesis
  proof (cases rule: run_managers_Cons)
    case failed
    then show ?thesis by (rule store)
  next
    case (passed c3 t3)
    have "cc_name c3 = cc_name cc" using store_manager_meta [OF passed(1)] n by simp
    from adds_trans [OF store [OF passed(1)] proxy_tail_in_order [OF passed(2,1) this]] show ?thesis .
  qed
qed

lemma pd_tail_in_order:
  assumes "run_managers [pdMemberManager_Sync (traced E) (pdUpgrader_Upgrade (traced E)),
      storeMemberManager_Sync (traced E) (storeUpgrader_Upgrade (traced E)) (storeScaler_ScaleOut (traced E)),
      proxyMemberManager_Sync (traced E) (proxyUpgrader_Upgrade (traced E)),
      lift_manager (metaManager_Sync (traced E))] cc t1 = (e, cc', t')"
  shows "adds (created_in_order E cc) t1 t'"
proof -
  have pd: "adds (created_in_order E cc) t1 u'"
    if "pdMemberManager_Sync (traced E) (pdUpgrader_Upgrade (traced E)) cc t1 = (x, c, u')" for x c u'
    using pd_manager_creates [OF that] by (rule adds_mono) (simp add: created_in_order_def)
  from assms show ?thesis
  proof (cases rule: run_managers_Cons)
    case failed
    then show ?thesis by (rule pd)
  next
    case p: (passed c2 t2)
    from adds_trans [OF pd [OF p(1)] store_tail_in_order [OF p(2,1)]] show ?thesis .
  qed
qed

lemma managers_in_order:
  assumes "updateCellCluster (default_managers (traced E) upd) cc t = (e, cc', t')"
  shows "adds (created_in_order E cc) t t'"
  using assms unfolding updateCellCluster_def default_managers_def managers.simps
proof (cases rule: run_managers_Cons)
  case failed
  then show ?thesis by (auto dest: quiet_managers_in_order(1))
next
  case (passed c0 t0)
  have c0: "c0 = cc" and a0: "adds (created_in_order E cc) t t0"
    using quiet_managers_in_order(1) [OF passed(1)] by blast+
  from passed(2) show ?thesis unfolding c0
  proof (cases rule: run_managers_Cons)
    case failed
    then show ?thesis using adds_trans [OF a0] by (blast dest: quiet_managers_in_order(2))
  next
    case (passed c1 t1)
    have c1: "c1 = cc" and a1: "adds (created_in_order E cc) t t1"
      using quiet_managers_in_order(2) [OF passed(1)] adds_trans [OF a0] by blast+
    from adds_trans [OF a1 pd_tail_in_order [OF passed(2) [unfolded c1]]] show ?thesis .
  qed
qed



end
