(* ===== verification/Cell_Client.thy ===== *)
theory Cell_Client
  imports Cluster_Control
begin

text \<open>
  The generated client of CellClusters (\<^verbatim>\<open>pkg/client\<close>): the typed client, which builds a request
  for the API server, the lister over the informer's cache, and the fake client.  The request
  builder of client-go is written out as far as it checks its arguments and forms the path; the
  API server, the codecs of options and the reactions of the fake are parameters.
\<close>

section \<open>Requests (client-go)\<close>

record list_options =
  lo_label :: string
  lo_watch :: bool

record delete_options =
  do_grace :: "int option"

datatype params = NoParams | GetParams string | ListParams list_options

datatype body = NoBody | ClusterBody cellcluster | DeleteBody delete_options | DataBody string

record request =
  rq_verb :: string
  rq_ns_set :: bool
  rq_ns :: string
  rq_resource :: string
  rq_name :: string
  rq_sub :: string
  rq_params :: params
  rq_body :: body
  rq_err :: "goerr option"

definition new_request :: "string \<Rightarrow> request" where
  "new_request verb = \<lparr>rq_verb = verb, rq_ns_set = False, rq_ns = [], rq_resource = [], rq_name = [],
     rq_sub = [], rq_params = NoParams, rq_body = NoBody, rq_err = None\<rparr>"

definition IsValidPathSegmentName :: "string \<Rightarrow> bool" where
  "IsValidPathSegmentName name \<longleftrightarrow>
     (if name = ''.'' \<or> name = ''..'' then False
      else CHR ''/'' \<notin> set name \<and> CHR ''%'' \<notin> set name)"

definition rq_fail :: "string \<Rightarrow> request \<Rightarrow> request" where
  "rq_fail msg r = r\<lparr>rq_err := Some (OtherError msg)\<rparr>"

definition rq_Namespace :: "string \<Rightarrow> request \<Rightarrow> request" where
  "rq_Namespace namespace r =
     (if rq_err r \<noteq> None then r
      else if rq_ns_set r then rq_fail ''namespace already set'' r
      else if \<not> IsValidPathSegmentName namespace then rq_fail ''invalid namespace'' r
      else r\<lparr>rq_ns_set := True, rq_ns := namespace\<rparr>)"

definition rq_Resource :: "string \<Rightarrow> request \<Rightarrow> request" where
  "rq_Resource resource r =
     (if rq_err r \<noteq> None then r
      else if rq_resource r \<noteq> [] then rq_fail ''resource already set'' r
      else if \<not> IsValidPathSegmentName resource then rq_fail ''invalid resource'' r
      else r\<lparr>rq_resource := resource\<rparr>)"

definition rq_Name :: "string \<Rightarrow> request \<Rightarrow> request" where
  "rq_Name resourceName r =
     (if rq_err r \<noteq> None then r
      else if resourceName = [] then rq_fail ''resource name may not be empty'' r
      else if rq_name r \<noteq> [] then rq_fail ''resource name already set'' r
      else if \<not> IsValidPathSegmentName resourceName then rq_fail ''invalid resource name'' r
      else r\<lparr>rq_name := resourceName\<rparr>)"

text \<open>\<^verbatim>\<open>path.Join\<close> of segments that are valid names: empty ones are left out.\<close>

fun join_path :: "string list \<Rightarrow> string" where
  "join_path [] = []"
| "join_path (s # ss) =
     (if s = [] then join_path ss
      else if join_path ss = [] then s else s @ ''/'' @ join_path ss)"

definition rq_SubResource :: "string list \<Rightarrow> request \<Rightarrow> request" where
  "rq_SubResource subresources r =
     (if rq_err r \<noteq> None then r
      else if rq_sub r \<noteq> [] then rq_fail ''subresource already set'' r
      else if \<not> list_all IsValidPathSegmentName subresources then rq_fail ''invalid subresource'' r
      else r\<lparr>rq_sub := join_path subresources\<rparr>)"

definition rq_VersionedParams :: "params \<Rightarrow> request \<Rightarrow> request" where
  "rq_VersionedParams p r = (if rq_err r \<noteq> None then r else r\<lparr>rq_params := p\<rparr>)"

definition rq_Body :: "body \<Rightarrow> request \<Rightarrow> request" where
  "rq_Body b r = (if rq_err r \<noteq> None then r else r\<lparr>rq_body := b\<rparr>)"

text \<open>The path of \<^verbatim>\<open>URL()\<close>, under the prefix that \<^verbatim>\<open>setConfigDefaults\<close> configures.\<close>

definition api_prefix :: string where
  "api_prefix = ''/apis/deepfabric.com/v1alpha1''"

definition request_path :: "request \<Rightarrow> string" where
  "request_path r =
     (let p = api_prefix;
          p = (if rq_ns_set r \<and> rq_ns r \<noteq> [] then join_path [p, ''namespaces'', rq_ns r] else p);
          p = (if rq_resource r \<noteq> [] then join_path [p, rq_resource r] else p)
      in if rq_name r \<noteq> [] \<or> rq_sub r \<noteq> [] then join_path [p, rq_name r, rq_sub r] else p)"

text \<open>What the server sends back, decoded; \<^verbatim>\<open>Into\<close> accepts any object, and reports a failure status.\<close>

datatype answer = ClusterAnswer cellcluster | ListAnswer "cellcluster list" | StatusAnswer "goerr option" | NoAnswer

type_synonym 'w server = "request \<Rightarrow> 'w \<Rightarrow> (goerr + answer) \<times> 'w"

definition send :: "'w server \<Rightarrow> request \<Rightarrow> 'w \<Rightarrow> (goerr + answer) \<times> 'w" where
  "send S r w = (case rq_err r of Some e \<Rightarrow> (Inl e, w) | None \<Rightarrow> S r w)"

definition into :: "'a \<Rightarrow> (answer \<Rightarrow> 'a option) \<Rightarrow> goerr + answer \<Rightarrow> 'a \<times> goerr option" where
  "into zero un a =
     (case a of
        Inl e \<Rightarrow> (zero, Some e)
      | Inr NoAnswer \<Rightarrow> (zero, Some (OtherError ''0-length response''))
      | Inr (StatusAnswer e) \<Rightarrow> (zero, e)
      | Inr x \<Rightarrow> (case un x of Some c \<Rightarrow> (c, None) | None \<Rightarrow> (zero, None)))"

definition zero_cluster :: cellcluster where
  "zero_cluster =
     (let member = \<lparr>ms_container = \<lparr>k_image = [], k_pull_policy = [], k_requests = None, k_limits = None\<rparr>,
            ms_replicas = 0, ms_node_selector = None, ms_node_selector_required = False,
            ms_storage_class = [], ms_tolerations = []\<rparr>
      in \<lparr>cc_meta = meta0,
          cc_spec = \<lparr>spec_scheduler = [], spec_pd = member, spec_proxy = member, spec_store = member,
            spec_services = [], spec_reclaim = [], spec_timezone = [], spec_peer_url = [], spec_peer_rpc = []\<rparr>,
          cc_status = \<lparr>stat_cluster_id = [],
            stat_pd = \<lparr>pd_synced = False, pd_phase = [], pd_set = None, pd_members = [],
              pd_leader = \<lparr>pm_name = [], pm_id = [], pm_client_url = [], pm_health = False, pm_transition = None\<rparr>,
              pd_failures = []\<rparr>,
            stat_store = \<lparr>sto_synced = False, sto_phase = [], sto_set = None, sto_stores = [],
              sto_tombstones = [], sto_failures = []\<rparr>,
            stat_proxy = \<lparr>px_phase = [], px_set = None, px_members = [], px_failures = []\<rparr>\<rparr>\<rparr>)"

definition into_cluster :: "goerr + answer \<Rightarrow> cellcluster \<times> goerr option" where
  "into_cluster = into zero_cluster (\<lambda>a. case a of ClusterAnswer c \<Rightarrow> Some c | _ \<Rightarrow> None)"

definition into_list :: "goerr + answer \<Rightarrow> cellcluster list \<times> goerr option" where
  "into_list = into [] (\<lambda>a. case a of ListAnswer l \<Rightarrow> Some l | _ \<Rightarrow> None)"

definition answer_error :: "goerr + answer \<Rightarrow> goerr option" where
  "answer_error a = (case a of Inl e \<Rightarrow> Some e | Inr _ \<Rightarrow> None)"

section \<open>The typed client\<close>

definition cellclusters :: string where "cellclusters = ''cellclusters''"

definition get_request :: "string \<Rightarrow> string \<Rightarrow> string \<Rightarrow> request" where
  "get_request ns name options =
     rq_VersionedParams (GetParams options) (rq_Name name (rq_Resource cellclusters
       (rq_Namespace ns (new_request ''GET''))))"

definition cellClusters_Get :: "'w server \<Rightarrow> string \<Rightarrow> string \<Rightarrow> string \<Rightarrow> 'w \<Rightarrow> (cellcluster \<times> goerr option) \<times> 'w" where
  "cellClusters_Get S ns name options w =
     (case send S (get_request ns name options) w of (a, w1) \<Rightarrow> (into_cluster a, w1))"

definition list_request :: "string \<Rightarrow> list_options \<Rightarrow> request" where
  "list_request ns opts =
     rq_VersionedParams (ListParams opts) (rq_Resource cellclusters (rq_Namespace ns (new_request ''GET'')))"

definition cellClusters_List :: "'w server \<Rightarrow> string \<Rightarrow> list_options \<Rightarrow> 'w \<Rightarrow> (cellcluster list \<times> goerr option) \<times> 'w" where
  "cellClusters_List S ns opts w =
     (case send S (list_request ns opts) w of (a, w1) \<Rightarrow> (into_list a, w1))"

text \<open>A watch is opened with the request below; its events are outside the model.\<close>

definition cellClusters_Watch :: "'w server \<Rightarrow> string \<Rightarrow> list_options \<Rightarrow> 'w \<Rightarrow> goerr option \<times> 'w" where
  "cellClusters_Watch S ns opts w =
     (case send S (list_request ns (opts\<lparr>lo_watch := True\<rparr>)) w of (a, w1) \<Rightarrow> (answer_error a, w1))"

definition create_request :: "string \<Rightarrow> cellcluster \<Rightarrow> request" where
  "create_request ns cellCluster =
     rq_Body (ClusterBody cellCluster) (rq_Resource cellclusters (rq_Namespace ns (new_request ''POST'')))"

definition cellClusters_Create :: "'w server \<Rightarrow> string \<Rightarrow> cellcluster \<Rightarrow> 'w \<Rightarrow> (cellcluster \<times> goerr option) \<times> 'w" where
  "cellClusters_Create S ns cellCluster w =
     (case send S (create_request ns cellCluster) w of (a, w1) \<Rightarrow> (into_cluster a, w1))"

definition update_request :: "string \<Rightarrow> cellcluster \<Rightarrow> request" where
  "update_request ns cellCluster =
     rq_Body (ClusterBody cellCluster) (rq_Name (cc_name cellCluster) (rq_Resource cellclusters
       (rq_Namespace ns (new_request ''PUT''))))"

definition cellClusters_Update :: "'w server \<Rightarrow> string \<Rightarrow> cellcluster \<Rightarrow> 'w \<Rightarrow> (cellcluster \<times> goerr option) \<times> 'w" where
  "cellClusters_Update S ns cellCluster w =
     (case send S (update_request ns cellCluster) w of (a, w1) \<Rightarrow> (into_cluster a, w1))"

definition update_status_request :: "string \<Rightarrow> cellcluster \<Rightarrow> request" where
  "update_status_request ns cellCluster =
     rq_Body (ClusterBody cellCluster) (rq_SubResource [''status''] (rq_Name (cc_name cellCluster)
       (rq_Resource cellclusters (rq_Namespace ns (new_request ''PUT'')))))"

definition cellClusters_UpdateStatus :: "'w server \<Rightarrow> string \<Rightarrow> cellcluster \<Rightarrow> 'w \<Rightarrow> (cellcluster \<times> goerr option) \<times> 'w" where
  "cellClusters_UpdateStatus S ns cellCluster w =
     (case send S (update_status_request ns cellCluster) w of (a, w1) \<Rightarrow> (into_cluster a, w1))"

definition delete_body :: "delete_options option \<Rightarrow> body" where
  "delete_body options = (case options of None \<Rightarrow> NoBody | Some d \<Rightarrow> DeleteBody d)"

definition delete_request :: "string \<Rightarrow> string \<Rightarrow> delete_options option \<Rightarrow> request" where
  "delete_request ns name options =
     rq_Body (delete_body options) (rq_Name name (rq_Resource cellclusters
       (rq_Namespace ns (new_request ''DELETE''))))"

definition cellClusters_Delete :: "'w server \<Rightarrow> string \<Rightarrow> string \<Rightarrow> delete_options option \<Rightarrow> 'w \<Rightarrow> goerr option \<times> 'w" where
  "cellClusters_Delete S ns name options w =
     (case send S (delete_request ns name options) w of (a, w1) \<Rightarrow> (answer_error a, w1))"

definition cellClusters_DeleteCollection ::
  "'w server \<Rightarrow> string \<Rightarrow> delete_options option \<Rightarrow> list_options \<Rightarrow> 'w \<Rightarrow> goerr option \<times> 'w" where
  "cellClusters_DeleteCollection S ns options listOptions w =
     (case send S (rq_Body (delete_body options) (rq_VersionedParams (ListParams listOptions)
        (rq_Resource cellclusters (rq_Namespace ns (new_request ''DELETE''))))) w of
        (a, w1) \<Rightarrow> (answer_error a, w1))"

definition cellClusters_Patch ::
  "'w server \<Rightarrow> string \<Rightarrow> string \<Rightarrow> string \<Rightarrow> string \<Rightarrow> string list \<Rightarrow> 'w \<Rightarrow> (cellcluster \<times> goerr option) \<times> 'w" where
  "cellClusters_Patch S ns name pt data subresources w =
     (case send S (rq_Body (DataBody data) (rq_Name name (rq_SubResource subresources
        (rq_Resource cellclusters (rq_Namespace ns (new_request (''PATCH '' @ pt))))))) w of
        (a, w1) \<Rightarrow> (into_cluster a, w1))"

section \<open>The lister\<close>

text \<open>The informer's cache: clusters under their keys.  A selector decides on the labels.\<close>

type_synonym cluster_cache = "(string, cellcluster) gomap"
type_synonym selector = "strmap \<Rightarrow> bool"

definition ListAll :: "cluster_cache \<Rightarrow> selector \<Rightarrow> cellcluster list" where
  "ListAll store sel = filter (\<lambda>m. sel (m_labels (cc_meta m))) (map snd store)"

definition ListAllByNamespace :: "cluster_cache \<Rightarrow> string \<Rightarrow> selector \<Rightarrow> cellcluster list" where
  "ListAllByNamespace indexer namespace sel =
     (if namespace = [] then filter (\<lambda>m. sel (m_labels (cc_meta m))) (map snd indexer)
      else filter (\<lambda>m. sel (m_labels (cc_meta m)))
             (filter (\<lambda>m. m_ns (cc_meta m) = namespace) (map snd indexer)))"

definition cellClusterLister_List :: "cluster_cache \<Rightarrow> selector \<Rightarrow> cellcluster list" where
  "cellClusterLister_List indexer sel = ListAll indexer sel"

definition cellClusterNamespaceLister_List :: "cluster_cache \<Rightarrow> string \<Rightarrow> selector \<Rightarrow> cellcluster list" where
  "cellClusterNamespaceLister_List indexer namespace sel = ListAllByNamespace indexer namespace sel"

definition cellClusterNamespaceLister_Get :: "cluster_cache \<Rightarrow> string \<Rightarrow> string \<Rightarrow> goerr + cellcluster" where
  "cellClusterNamespaceLister_Get indexer namespace name =
     (case map_of indexer (namespace @ ''/'' @ name) of
        None \<Rightarrow> Inl (NotFoundError name)
      | Some obj \<Rightarrow> Inr obj)"

section \<open>The fake client\<close>

datatype fake_action =
    FakeGet string string
  | FakeList string list_options
  | FakeWatch string list_options
  | FakeCreate string cellcluster
  | FakeUpdate string string cellcluster             \<comment> \<open>namespace, subresource, object\<close>
  | FakeDelete string string
  | FakeDeleteCollection string list_options
  | FakePatch string string string "string list"

datatype fake_object = FakeCluster cellcluster | FakeClusterList "cellcluster list"

text \<open>The chain of reactors; the second component parses a label selector, nil when it cannot.\<close>

record 'w fake_client =
  fk_invokes :: "fake_action \<Rightarrow> 'w \<Rightarrow> (fake_object option \<times> goerr option) \<times> 'w"
  fk_label :: "string \<Rightarrow> selector option"

text \<open>\<^verbatim>\<open>obj.( *v1alpha1.CellCluster)\<close>, which panics on another type.\<close>

definition as_cluster :: "fake_object option \<times> goerr option \<Rightarrow> cellcluster option \<times> goerr option" where
  "as_cluster p =
     (case p of
        (None, err) \<Rightarrow> (None, err)
      | (Some (FakeCluster c), err) \<Rightarrow> (Some c, err)
      | (Some _, _) \<Rightarrow> (None, Some (PanicError ''interface conversion'')))"

definition FakeCellClusters_Get ::
  "'w fake_client \<Rightarrow> string \<Rightarrow> string \<Rightarrow> 'w \<Rightarrow> (cellcluster option \<times> goerr option) \<times> 'w" where
  "FakeCellClusters_Get F ns name w = map_prod as_cluster id (fk_invokes F (FakeGet ns name) w)"

fun fake_matching :: "selector \<Rightarrow> cellcluster list \<Rightarrow> cellcluster list \<Rightarrow> cellcluster list" where
  "fake_matching label [] items = items"
| "fake_matching label (item # rest) items =
     fake_matching label rest (if label (m_labels (cc_meta item)) then items @ [item] else items)"

definition FakeCellClusters_List ::
  "'w fake_client \<Rightarrow> string \<Rightarrow> list_options \<Rightarrow> 'w \<Rightarrow> (cellcluster list option \<times> goerr option) \<times> 'w" where
  "FakeCellClusters_List F ns opts w =
     (case fk_invokes F (FakeList ns opts) w of
        ((None, err), w1) \<Rightarrow> ((None, err), w1)
      | ((Some (FakeClusterList l), err), w1) \<Rightarrow>
          let label = (case fk_label F (lo_label opts) of None \<Rightarrow> (\<lambda>_. True) | Some s \<Rightarrow> s)
          in ((Some (fake_matching label l []), err), w1)
      | ((Some _, _), w1) \<Rightarrow> ((None, Some (PanicError ''interface conversion'')), w1))"

definition FakeCellClusters_Watch ::
  "'w fake_client \<Rightarrow> string \<Rightarrow> list_options \<Rightarrow> 'w \<Rightarrow> goerr option \<times> 'w" where
  "FakeCellClusters_Watch F ns opts w = (case fk_invokes F (FakeWatch ns opts) w of ((_, err), w1) \<Rightarrow> (err, w1))"

definition FakeCellClusters_Create ::
  "'w fake_client \<Rightarrow> string \<Rightarrow> cellcluster \<Rightarrow> 'w \<Rightarrow> (cellcluster option \<times> goerr option) \<times> 'w" where
  "FakeCellClusters_Create F ns cellCluster w = map_prod as_cluster id (fk_invokes F (FakeCreate ns cellCluster) w)"

definition FakeCellClusters_Update ::
  "'w fake_client \<Rightarrow> string \<Rightarrow> cellcluster \<Rightarrow> 'w \<Rightarrow> (cellcluster option \<times> goerr option) \<times> 'w" where
  "FakeCellClusters_Update F ns cellCluster w = map_prod as_cluster id (fk_invokes F (FakeUpdate ns [] cellCluster) w)"

definition FakeCellClusters_UpdateStatus ::
  "'w fake_client \<Rightarrow> string \<Rightarrow> cellcluster \<Rightarrow> 'w \<Rightarrow> (cellcluster option \<times> goerr option) \<times> 'w" where
  "FakeCellClusters_UpdateStatus F ns cellCluster w =
     map_prod as_cluster id (fk_invokes F (FakeUpdate ns ''status'' cellCluster) w)"

definition FakeCellClusters_Delete :: "'w fake_client \<Rightarrow> string \<Rightarrow> string \<Rightarrow> 'w \<Rightarrow> goerr option \<times> 'w" where
  "FakeCellClusters_Delete F ns name w = (case fk_invokes F (FakeDelete ns name) w of ((_, err), w1) \<Rightarrow> (err, w1))"

definition FakeCellClusters_DeleteCollection ::
  "'w fake_client \<Rightarrow> string \<Rightarrow> list_options \<Rightarrow> 'w \<Rightarrow> goerr option \<times> 'w" where
  "FakeCellClusters_DeleteCollection F ns listOptions w =
     (case fk_invokes F (FakeDeleteCollection ns listOptions) w of ((_, err), w1) \<Rightarrow> (err, w1))"

definition FakeCellClusters_Patch ::
  "'w fake_client \<Rightarrow> string \<Rightarrow> string \<Rightarrow> string \<Rightarrow> string list \<Rightarrow> 'w \<Rightarrow> (cellcluster option \<times> goerr option) \<times> 'w" where
  "FakeCellClusters_Patch F ns name data subresources w =
     map_prod as_cluster id (fk_invokes F (FakePatch ns name data subresources) w)"

end
