(* ===== verification/Informer_Factory.thy ===== *)
theory Informer_Factory
  imports Cell_Client
begin

text \<open>
  The generated informer factory (\<^verbatim>\<open>pkg/client/informers/externalversions\<close>), which hands out one
  shared informer per type and starts those it has handed out.  Informers themselves belong to
  client-go: one is a number here, with what it was built from.
\<close>

section \<open>Informers\<close>

text \<open>What \<^verbatim>\<open>NewSharedIndexInformer\<close> is given: a list and a watch of the clusters of a namespace,
  whose options are tweaked first, the resync period, and the names of the indexers.\<close>

type_synonym tweak = "(list_options \<Rightarrow> list_options) option"

record informer =
  inf_ns :: string
  inf_tweak :: tweak
  inf_resync :: time
  inf_indexers :: "string list"

definition tweaked :: "tweak \<Rightarrow> list_options \<Rightarrow> list_options" where
  "tweaked t options = (case t of None \<Rightarrow> options | Some f \<Rightarrow> f options)"

definition informer_ListFunc ::
  "'w server \<Rightarrow> informer \<Rightarrow> list_options \<Rightarrow> 'w \<Rightarrow> (cellcluster list \<times> goerr option) \<times> 'w" where
  "informer_ListFunc S i options = cellClusters_List S (inf_ns i) (tweaked (inf_tweak i) options)"

definition informer_WatchFunc :: "'w server \<Rightarrow> informer \<Rightarrow> list_options \<Rightarrow> 'w \<Rightarrow> goerr option \<times> 'w" where
  "informer_WatchFunc S i options = cellClusters_Watch S (inf_ns i) (tweaked (inf_tweak i) options)"

definition NewFilteredCellClusterInformer :: "string \<Rightarrow> time \<Rightarrow> string list \<Rightarrow> tweak \<Rightarrow> informer" where
  "NewFilteredCellClusterInformer namespace resyncPeriod indexers tweakListOptions =
     \<lparr>inf_ns = namespace, inf_tweak = tweakListOptions, inf_resync = resyncPeriod, inf_indexers = indexers\<rparr>"

definition NewCellClusterInformer :: "string \<Rightarrow> time \<Rightarrow> string list \<Rightarrow> informer" where
  "NewCellClusterInformer namespace resyncPeriod indexers =
     NewFilteredCellClusterInformer namespace resyncPeriod indexers None"

section \<open>The factory\<close>

text \<open>The type of an object is its name.  \<open>fa_running\<close> lists the informers whose \<open>Run\<close> was called;
  an informer is known by its place in \<open>fa_made\<close>.\<close>

record factory =
  fa_ns :: string
  fa_tweak :: tweak
  fa_resync :: time
  fa_informers :: "(string, nat) gomap"
  fa_started :: "(string, bool) gomap"
  fa_made :: "informer list"
  fa_running :: "nat list"

definition NewFilteredSharedInformerFactory :: "time \<Rightarrow> string \<Rightarrow> tweak \<Rightarrow> factory" where
  "NewFilteredSharedInformerFactory defaultResync namespace tweakListOptions =
     \<lparr>fa_ns = namespace, fa_tweak = tweakListOptions, fa_resync = defaultResync, fa_informers = [],
      fa_started = [], fa_made = [], fa_running = []\<rparr>"

definition NewSharedInformerFactory :: "time \<Rightarrow> factory" where
  "NewSharedInformerFactory defaultResync = NewFilteredSharedInformerFactory defaultResync [] None"

definition is_started :: "factory \<Rightarrow> string \<Rightarrow> bool" where
  "is_started f t = (map_of (fa_started f) t = Some True)"

fun start_informers :: "(string, nat) gomap \<Rightarrow> factory \<Rightarrow> factory" where
  "start_informers [] f = f"
| "start_informers ((informerType, informer) # rest) f =
     start_informers rest
       (if \<not> is_started f informerType
        then f\<lparr>fa_running := fa_running f @ [informer], fa_started := gput informerType True (fa_started f)\<rparr>
        else f)"

definition Start :: "factory \<Rightarrow> factory" where
  "Start f = start_informers (fa_informers f) f"

text \<open>The started informers, and for each whether its cache has been filled (client-go's wait is
  a parameter).\<close>

fun started_informers :: "factory \<Rightarrow> (string, nat) gomap \<Rightarrow> (string, nat) gomap \<Rightarrow> (string, nat) gomap" where
  "started_informers f [] informers = informers"
| "started_informers f ((informerType, informer) # rest) informers =
     started_informers f rest (if is_started f informerType then gput informerType informer informers else informers)"

fun wait_all :: "(nat \<Rightarrow> bool) \<Rightarrow> (string, nat) gomap \<Rightarrow> (string, bool) gomap \<Rightarrow> (string, bool) gomap" where
  "wait_all has_synced [] res = res"
| "wait_all has_synced ((informType, informer) # rest) res =
     wait_all has_synced rest (gput informType (has_synced informer) res)"

definition WaitForCacheSync :: "(nat \<Rightarrow> bool) \<Rightarrow> factory \<Rightarrow> (string, bool) gomap" where
  "WaitForCacheSync has_synced f = wait_all has_synced (started_informers f (fa_informers f) []) []"

definition InformerFor :: "string \<Rightarrow> (time \<Rightarrow> informer) \<Rightarrow> factory \<Rightarrow> nat \<times> factory" where
  "InformerFor informerType newFunc f =
     (case map_of (fa_informers f) informerType of
        Some informer \<Rightarrow> (informer, f)
      | None \<Rightarrow>
          let informer = length (fa_made f)
          in (informer, f\<lparr>fa_made := fa_made f @ [newFunc (fa_resync f)],
                fa_informers := gput informerType informer (fa_informers f)\<rparr>))"

section \<open>The informer of CellClusters\<close>

definition NamespaceIndex :: string where "NamespaceIndex = ''namespace''"

definition CellClusterType :: string where "CellClusterType = ''v1alpha1.CellCluster''"

definition defaultInformer :: "string \<Rightarrow> tweak \<Rightarrow> time \<Rightarrow> informer" where
  "defaultInformer ns tweakListOptions resyncPeriod =
     NewFilteredCellClusterInformer ns resyncPeriod [NamespaceIndex] tweakListOptions"

text \<open>\<^verbatim>\<open>Deepfabric().V1alpha1().CellClusters()\<close> hands the factory's namespace and tweak on.\<close>

definition cellClusterInformer_Informer :: "factory \<Rightarrow> nat \<times> factory" where
  "cellClusterInformer_Informer f = InformerFor CellClusterType (defaultInformer (fa_ns f) (fa_tweak f)) f"

text \<open>The lister reads the cache of the informer.\<close>

definition cellClusterInformer_Lister :: "(nat \<Rightarrow> cluster_cache) \<Rightarrow> factory \<Rightarrow> cluster_cache \<times> factory" where
  "cellClusterInformer_Lister indexer_of f =
     (case cellClusterInformer_Informer f of (i, f1) \<Rightarrow> (indexer_of i, f1))"

text \<open>A resource by group, version and name.\<close>

definition ForResource :: "string \<times> string \<times> string \<Rightarrow> factory \<Rightarrow> (goerr + nat) \<times> factory" where
  "ForResource resource f =
     (if resource = (''deepfabric.com'', ''v1alpha1'', ''cellclusters'') then
        (case cellClusterInformer_Informer f of (i, f1) \<Rightarrow> (Inr i, f1))
      else (Inl (OtherError ''no informer found for''), f))"

section \<open>A program that uses the factory\<close>

text \<open>The calls may come in any order: informers are asked for and the factory is started, again
  and again.\<close>

datatype factory_call = Asks string "time \<Rightarrow> informer" | AsksClusters | Starts

primrec call :: "factory_call \<Rightarrow> factory \<Rightarrow> factory" where
  "call (Asks t newFunc) f = snd (InformerFor t newFunc f)"
| "call AsksClusters f = snd (cellClusterInformer_Informer f)"
| "call Starts f = Start f"

text \<open>Each type has one informer, each informer one type; those running are the started types',
  each once.\<close>

definition factory_inv :: "factory \<Rightarrow> bool" where
  "factory_inv f \<longleftrightarrow>
     distinct (map fst (fa_informers f)) \<and> distinct (map snd (fa_informers f)) \<and>
     snd ` set (fa_informers f) \<subseteq> {..<length (fa_made f)} \<and> distinct (fa_running f) \<and>
     (\<forall>t. is_started f t \<longrightarrow> t \<in> fst ` set (fa_informers f)) \<and>
     set (fa_running f) = {i. \<exists>t. (t, i) \<in> set (fa_informers f) \<and> is_started f t}"

lemma start_informers_frame:
  "fa_informers (start_informers es f) = fa_informers f" "fa_made (start_informers es f) = fa_made f"
  by (induction es f rule: start_informers.induct) simp_all

lemma start_informers_spec:
  "distinct (map fst es) \<Longrightarrow>
     (is_started (start_informers es f) t \<longleftrightarrow> is_started f t \<or> t \<in> fst ` set es) \<and>
     fa_running (start_informers es f) = fa_running f @ map snd (filter (\<lambda>e. \<not> is_started f (fst e)) es)"
proof (induction es f rule: start_informers.induct)
  case (2 ty i es f)
  show ?case
  proof (cases "is_started f ty")
    case True
    with 2 show ?thesis by auto
  next
    case False
    let ?g = "f\<lparr>fa_running := fa_running f @ [i], fa_started := gput ty True (fa_started f)\<rparr>"
    have g: "is_started ?g u \<longleftrightarrow> u = ty \<or> is_started f u" for u by (simp add: is_started_def)
    have "filter (\<lambda>e. \<not> is_started ?g (fst e)) es = filter (\<lambda>e. \<not> is_started f (fst e)) es"
      using 2(2) by (intro filter_cong) (auto simp: g)
    with 2 False g show ?thesis by auto
  qed
qed simp

lemma fa_started_kept: "fa_informers (Start f) = fa_informers f" "fa_made (Start f) = fa_made f"
  by (simp_all add: Start_def start_informers_frame)

lemma Start_inv:
  assumes "factory_inv f"
  shows "factory_inv (Start f)"
proof -
  let ?I = "fa_informers f"
  have d: "distinct (map fst ?I)" "distinct (map snd ?I)" and r: "distinct (fa_running f)"
    "set (fa_running f) = {i. \<exists>t. (t, i) \<in> set ?I \<and> is_started f t}"
    using assms by (simp_all add: factory_inv_def)
  have new: "i \<notin> set (fa_running f)" if "(t, i) \<in> set ?I" "\<not> is_started f t" for t i
  proof
    assume "i \<in> set (fa_running f)"
    then obtain u where u: "(u, i) \<in> set ?I" "is_started f u" using r(2) by auto
    with that(1) d(2) have "u = t" by (metis distinct_map inj_onD prod.inject snd_conv)
    with u that(2) show False by simp
  qed
  have "distinct (map snd (filter (\<lambda>e. \<not> is_started f (fst e)) ?I))"
    using d(2) by (simp add: distinct_map_filter)
  then have "distinct (fa_running (Start f))"
    using r(1) new start_informers_spec [OF d(1)] by (auto simp: Start_def)
  moreover have "set (fa_running (Start f)) = snd ` set ?I"
    using r(2) start_informers_spec [OF d(1)] by (force simp: Start_def)
  moreover have started: "is_started (Start f) t \<longleftrightarrow> t \<in> fst ` set ?I" for t
    using assms start_informers_spec [OF d(1)] by (auto simp: factory_inv_def Start_def)
  moreover have "{i. \<exists>t. (t, i) \<in> set ?I \<and> t \<in> fst ` set ?I} = snd ` set ?I" by force
  ultimately show ?thesis
    using assms d by (simp add: factory_inv_def started fa_started_kept)
qed

lemma InformerFor_new:
  assumes "map_of (fa_informers f) t = None"
  shows "InformerFor t newFunc f = (length (fa_made f),
    f\<lparr>fa_made := fa_made f @ [newFunc (fa_resync f)], fa_informers := fa_informers f @ [(t, length (fa_made f))]\<rparr>)"
proof -
  have "t \<notin> fst ` set (fa_informers f)" using assms by (simp add: map_of_eq_None_iff)
  then show ?thesis by (simp add: InformerFor_def Let_def assms gput_new)
qed

lemma InformerFor_inv:
  assumes "factory_inv f"
  shows "factory_inv (snd (InformerFor t newFunc f))"
proof (cases "map_of (fa_informers f) t")
  case None
  then have t: "t \<notin> fst ` set (fa_informers f)" by (simp add: map_of_eq_None_iff)
  have inv: "distinct (map fst (fa_informers f))" "distinct (map snd (fa_informers f))"
    "snd ` set (fa_informers f) \<subseteq> {..<length (fa_made f)}" "distinct (fa_running f)"
    "\<forall>t. is_started f t \<longrightarrow> t \<in> fst ` set (fa_informers f)"
    "set (fa_running f) = {i. \<exists>t. (t, i) \<in> set (fa_informers f) \<and> is_started f t}"
    using assms by (simp_all add: factory_inv_def)
  let ?g = "snd (InformerFor t newFunc f)"
  have g: "fa_informers ?g = fa_informers f @ [(t, length (fa_made f))]" "length (fa_made ?g) = Suc (length (fa_made f))"
    "fa_running ?g = fa_running f" "is_started ?g = is_started f"
    using InformerFor_new [OF None] by (simp_all add: fun_eq_iff is_started_def)
  have "length (fa_made f) \<notin> snd ` set (fa_informers f)" using inv(3) by auto
  moreover have "\<not> is_started f t" using inv(5) t by blast
  moreover have "snd ` set (fa_informers f) \<subseteq> {..<Suc (length (fa_made f))}" using inv(3) by auto
  ultimately show ?thesis
    unfolding factory_inv_def g using inv t by (intro conjI) auto
qed (use assms in \<open>simp add: InformerFor_def\<close>)

lemma call_inv: "factory_inv f \<Longrightarrow> factory_inv (call c f)"
  by (cases c) (simp_all add: Start_inv InformerFor_inv cellClusterInformer_Informer_def)

lemma calls_inv: "factory_inv f \<Longrightarrow> factory_inv (fold call cs f)"
  by (induction cs arbitrary: f) (simp_all add: call_inv)

lemma InformerFor_keeps:
  "(t, i) \<in> set (fa_informers f) \<Longrightarrow> (t, i) \<in> set (fa_informers (snd (InformerFor u newFunc f)))"
  by (cases "map_of (fa_informers f) u") (simp_all add: InformerFor_new, simp add: InformerFor_def)

lemma calls_keep:
  "(t, i) \<in> set (fa_informers f) \<Longrightarrow> (t, i) \<in> set (fa_informers (fold call cs f))"
proof (induction cs arbitrary: f)
  case (Cons c cs)
  then have "(t, i) \<in> set (fa_informers (call c f))"
    by (cases c) (simp_all add: InformerFor_keeps cellClusterInformer_Informer_def fa_started_kept)
  with Cons.IH show ?case by simp
qed simp

lemma InformerFor_known:
  "factory_inv f \<Longrightarrow> (t, i) \<in> set (fa_informers f) \<Longrightarrow> InformerFor t newFunc f = (i, f)"
  by (simp add: InformerFor_def factory_inv_def)

lemma InformerFor_has:
  "InformerFor t newFunc f = (i, g) \<Longrightarrow> (t, i) \<in> set (fa_informers g)"
  by (cases "map_of (fa_informers f) t") (auto simp: InformerFor_new, auto simp: InformerFor_def map_of_SomeD)

lemma Start_runs: "factory_inv f \<Longrightarrow> (t, i) \<in> set (fa_informers f) \<Longrightarrow> is_started (Start f) t \<and> i \<in> set (fa_running (Start f))"
proof -
  assume f: "factory_inv f" "(t, i) \<in> set (fa_informers f)"
  then have d: "distinct (map fst (fa_informers f))" by (simp add: factory_inv_def)
  have s: "is_started (Start f) t" using f(2) start_informers_spec [OF d] by (force simp: Start_def)
  with Start_inv [OF f(1)] f(2) show ?thesis by (auto simp: factory_inv_def fa_started_kept)
qed

lemma started_informers_spec:
  "distinct (map fst (acc @ es)) \<Longrightarrow>
     started_informers f es acc = acc @ filter (\<lambda>e. is_started f (fst e)) es"
proof (induction f es acc rule: started_informers.induct)
  case (2 f t i es acc)
  then show ?case by (auto simp: gput_new)
qed simp

lemma wait_all_spec:
  "distinct (map fst acc @ map fst es) \<Longrightarrow>
     wait_all synced es acc = acc @ map (\<lambda>(t, i). (t, synced i)) es"
proof (induction synced es acc rule: wait_all.induct)
  case (2 synced t i es acc)
  then show ?case by (auto simp: gput_new)
qed simp

lemma WaitForCacheSync_spec:
  assumes "distinct (map fst (fa_informers f))" and "(t, i) \<in> set (fa_informers f)" and "is_started f t"
  shows "map_of (WaitForCacheSync synced f) t = Some (synced i)"
proof -
  let ?es = "filter (\<lambda>e. is_started f (fst e)) (fa_informers f)"
  have d: "distinct (map fst ?es)" using assms(1) by (simp add: distinct_map_filter)
  then have "WaitForCacheSync synced f = map (\<lambda>(t, i). (t, synced i)) ?es"
    using assms(1) by (simp add: WaitForCacheSync_def started_informers_spec wait_all_spec)
  moreover have "distinct (map fst (map (\<lambda>(t, i). (t, synced i)) ?es))"
    using d by (simp add: comp_def case_prod_unfold)
  moreover have "(t, synced i) \<in> set (map (\<lambda>(t, i). (t, synced i)) ?es)"
    using assms(2,3) by force
  ultimately show ?thesis by simp
qed

lemma no_start_frame:
  "Starts \<notin> set cs \<Longrightarrow> fa_running (fold call cs f) = fa_running f"
proof (induction cs arbitrary: f)
  case (Cons c cs)
  have "fa_running (snd (InformerFor t newFunc f)) = fa_running f" for t newFunc
    by (simp add: InformerFor_def Let_def split: option.splits)
  then have "fa_running (call c f) = fa_running f"
    using Cons.prems by (cases c) (simp_all add: cellClusterInformer_Informer_def)
  with Cons show ?case by simp
qed simp

lemma new_factory_inv: "factory_inv (NewFilteredSharedInformerFactory r ns tw)"
  by (simp add: factory_inv_def NewFilteredSharedInformerFactory_def is_started_def)

text \<open>
  C19: informers are shared and run once.  Whatever a program asks of the factory before and after,
  asking again for a type gives the same informer; once the factory is started the informer runs,
  no informer is ever run twice, and the wait for the caches covers it.  An informer first asked
  for does not run before the next start, so one that is asked for after the last start never
  fills its cache.
\<close>

theorem informers_run_once:
  assumes "InformerFor t newFunc (fold call cs (NewFilteredSharedInformerFactory r ns tw)) = (i, g)"
  shows "fst (InformerFor t newFunc' (fold call cs' g)) = i \<and>
    distinct (fa_running (fold call cs' g)) \<and>
    i \<in> set (fa_running (Start (fold call cs' g))) \<and>
    map_of (WaitForCacheSync synced (Start (fold call cs' g))) t = Some (synced i) \<and>
    (t \<notin> fst ` set (fa_informers (fold call cs (NewFilteredSharedInformerFactory r ns tw))) \<longrightarrow>
      Starts \<notin> set cs' \<longrightarrow> i \<notin> set (fa_running (fold call cs' g)))"
proof -
  let ?f = "fold call cs (NewFilteredSharedInformerFactory r ns tw)" and ?h = "fold call cs' g"
  have f: "factory_inv ?f" by (rule calls_inv [OF new_factory_inv])
  have g: "factory_inv g" using InformerFor_inv [OF f, of t newFunc] assms by simp
  have h: "factory_inv ?h" by (rule calls_inv [OF g])
  have ti: "(t, i) \<in> set (fa_informers ?h)" by (rule calls_keep [OF InformerFor_has [OF assms]])
  have d: "distinct (map fst (fa_informers (Start ?h)))"
    using h by (simp add: factory_inv_def fa_started_kept)
  have "i \<notin> set (fa_running ?h)"
    if new: "t \<notin> fst ` set (fa_informers ?f)" and "Starts \<notin> set cs'"
  proof -
    have "i = length (fa_made ?f)" "fa_running g = fa_running ?f"
      using new InformerFor_new [of ?f t newFunc] assms by (auto simp: map_of_eq_None_iff)
    then have "i \<notin> set (fa_running g)" using f by (force simp: factory_inv_def)
    with no_start_frame [OF that(2)] show ?thesis by simp
  qed
  then show ?thesis
    using InformerFor_known [OF h ti] h Start_runs [OF h ti] ti
      WaitForCacheSync_spec [OF d, of t i synced]
    by (simp add: factory_inv_def fa_started_kept)
qed

theorem informers_run_once_witness:
  "\<exists>i g. InformerFor CellClusterType (defaultInformer [] None) (fold call [] (NewSharedInformerFactory 30)) = (i, g) \<and>
     i \<in> set (fa_running (Start (fold call [AsksClusters, Starts] g))) \<and> i \<notin> set (fa_running (fold call [] g))"
proof -
  obtain i g where r: "InformerFor CellClusterType (defaultInformer [] None)
      (fold call [] (NewFilteredSharedInformerFactory 30 [] None)) = (i, g)" by fastforce
  have "i \<in> set (fa_running (Start (fold call [AsksClusters, Starts] g)))"
    using informers_run_once [OF r, of "defaultInformer [] None" "[AsksClusters, Starts]"] by blast
  moreover have "i \<notin> set (fa_running (fold call [] g))"
    using informers_run_once [OF r, of "defaultInformer [] None" "[]"]
    by (simp add: NewFilteredSharedInformerFactory_def)
  ultimately show ?thesis using r by (auto simp: NewSharedInformerFactory_def)
qed

end
