(* ===== verification/Scheduler_HA.thy ===== *)
theory Scheduler_HA
  imports Member_Utils "HOL-Library.Multiset"
begin

text \<open>
  The scheduler extender: \<^verbatim>\<open>pkg/scheduler/predicates/ha.go\<close>, \<^verbatim>\<open>predicate.go\<close> and
  \<^verbatim>\<open>pkg/scheduler/scheduler.go\<close>.  The predicate talks to the API server directly, so what a
  list call returns is a copy.  The mutex of \<open>Filter\<close> makes one call an atomic step.
\<close>

section \<open>ha.go\<close>

text \<open>The calls on the API server, and the clock.\<close>

record 'w ha_env =
  h_pod_list :: "string \<Rightarrow> label \<Rightarrow> 'w \<Rightarrow> goerr + pod list"
  h_pvc_list :: "string \<Rightarrow> label \<Rightarrow> 'w \<Rightarrow> goerr + pvc list"
  h_pvc_get :: "string \<Rightarrow> string \<Rightarrow> 'w \<Rightarrow> goerr + pvc"
  h_pvc_update :: "pvc \<Rightarrow> 'w \<Rightarrow> goerr option \<times> 'w"
  h_now_text :: "'w \<Rightarrow> string"    \<comment> \<open>\<open>time.Now().Format(time.RFC3339)\<close>\<close>
  h_max_pods :: int                \<comment> \<open>the variable \<open>MaxPodCountPerNode\<close>, which a flag of the scheduler sets\<close>

text \<open>Its value before the flags are read.\<close>

definition MaxPodCountPerNode :: int where "MaxPodCountPerNode = 1"

definition pvcName :: "string \<Rightarrow> string \<Rightarrow> string" where
  "pvcName component podName = component @ ''-'' @ podName"

definition getTCNameFromPod :: "pod \<Rightarrow> string \<Rightarrow> string" where
  "getTCNameFromPod pod component =
     trim_suffix (m_generate_name (p_meta pod)) (''-'' @ component @ ''-'')"

definition getReplicasFrom :: "cellcluster \<Rightarrow> string \<Rightarrow> int" where
  "getReplicasFrom cc component =
     (if component = PDMemberType then ms_replicas (spec_pd (cc_spec cc))
      else ms_replicas (spec_store (cc_spec cc)))"

definition component_selector :: "string \<Rightarrow> string \<Rightarrow> label" where
  "component_selector instanceName component =
     label_Component component (label_Instance instanceName label_New)"

definition realPodListFn :: "'w ha_env \<Rightarrow> string \<Rightarrow> string \<Rightarrow> string \<Rightarrow> 'w \<Rightarrow> goerr + pod list" where
  "realPodListFn H ns instanceName component w =
     h_pod_list H ns (component_selector instanceName component) w"

definition realPVCListFn :: "'w ha_env \<Rightarrow> string \<Rightarrow> string \<Rightarrow> string \<Rightarrow> 'w \<Rightarrow> goerr + pvc list" where
  "realPVCListFn H ns instanceName component w =
     h_pvc_list H ns (component_selector instanceName component) w"

definition realUpdatePVCFn :: "'w ha_env \<Rightarrow> pvc \<Rightarrow> 'w \<Rightarrow> goerr option \<times> 'w" where
  "realUpdatePVCFn H pvc w = h_pvc_update H pvc w"

definition set_pvc_ann :: "strmap \<Rightarrow> pvc \<Rightarrow> pvc" where
  "set_pvc_ann a pvc = pvc\<lparr>pvc_meta := (pvc_meta pvc)\<lparr>m_ann := a\<rparr>\<rparr>"

abbreviation pvc_ann :: "pvc \<Rightarrow> strmap" where "pvc_ann pvc \<equiv> m_ann (pvc_meta pvc)"
abbreviation pvc_name :: "pvc \<Rightarrow> string" where "pvc_name pvc \<equiv> m_name (pvc_meta pvc)"

definition setCurrentPodScheduling :: "'w ha_env \<Rightarrow> pvc \<Rightarrow> 'w \<Rightarrow> goerr option \<times> 'w" where
  "setCurrentPodScheduling H pvc w =
     realUpdatePVCFn H
       (set_pvc_ann (mput AnnPVCPodScheduling (h_now_text H w) (pvc_ann pvc)) pvc) w"

text \<open>
  The loop over the claims.  The result are positions, since \<open>schedulingPVC == currentPVC\<close>
  compares pointers into the list: the last claim with the pod's name, and the first one
  that is marked.
\<close>

definition is_scheduling :: "pvc \<Rightarrow> bool" where
  "is_scheduling pvc \<longleftrightarrow> mval (pvc_ann pvc) AnnPVCPodScheduling \<noteq> []"

fun scan_pvcs ::
  "string \<Rightarrow> nat \<Rightarrow> pvc list \<Rightarrow> nat option \<times> nat option \<Rightarrow> nat option \<times> nat option" where
  "scan_pvcs name i [] acc = acc"
| "scan_pvcs name i (x # xs) (current, scheduling) =
     scan_pvcs name (Suc i) xs
       (if pvc_name x = name then Some i else current,
        if is_scheduling x \<and> scheduling = None then Some i else scheduling)"

definition realAcquireLock :: "'w ha_env \<Rightarrow> pod \<Rightarrow> 'w \<Rightarrow> goerr option \<times> 'w" where
  "realAcquireLock H pod w =
     (let ns = p_ns pod;
          component = mval (p_labels pod) ComponentLabelKey;
          instanceName = mval (p_labels pod) InstanceLabelKey
      in case realPVCListFn H ns instanceName component w of
           Inl e \<Rightarrow> (Some e, w)
         | Inr items \<Rightarrow>
             (case scan_pvcs (pvcName component (p_name pod)) 0 items (None, None) of
                (None, _) \<Rightarrow> (Some (OtherError ''can't find current Pod's PVC''), w)
              | (Some c, None) \<Rightarrow> setCurrentPodScheduling H (items ! c) w
              | (Some c, Some s) \<Rightarrow>
                  if s = c then (None, w)
                  else if pvc_phase (items ! s) \<noteq> ''Bound'' then
                    (Some (OtherError (''waiting for Pod '' @ trim_prefix (pvc_name (items ! s)) component
                       @ '' scheduling'')), w)
                  else (case realUpdatePVCFn H
                               (set_pvc_ann (mdel AnnPVCPodScheduling (pvc_ann (items ! s))) (items ! s)) w of
                          (Some e, w1) \<Rightarrow> (Some e, w1)
                        | (None, w1) \<Rightarrow> setCurrentPodScheduling H (items ! c) w1)))"

section \<open>predicate.go\<close>

definition getNodeFromNames :: "node list \<Rightarrow> string list \<Rightarrow> node list" where
  "getNodeFromNames nodes nodeNames =
     filter (\<lambda>node. list_ex (\<lambda>nodeName. n_name node = nodeName) nodeNames) nodes"

section \<open>Filter\<close>

definition init_node_map :: "node list \<Rightarrow> (string, string list) gomap" where
  "init_node_map nodes = fold (\<lambda>node m. gput (n_name node) [] m) nodes []"

fun count_pods :: "pod list \<Rightarrow> (string, string list) gomap \<Rightarrow> (string, string list) gomap" where
  "count_pods [] nodeMap = nodeMap"
| "count_pods (pod # pods) nodeMap =
     (let nodeName = ps_node_name (p_spec pod)
      in if nodeName = [] then count_pods pods nodeMap
         else (case map_of nodeMap nodeName of
                 None \<Rightarrow> count_pods pods nodeMap
               | Some names \<Rightarrow> count_pods pods (gput nodeName (names @ [p_name pod]) nodeMap)))"

text \<open>The search for the nodes with the fewest pods, over the map's entries in some order.\<close>

fun min_nodes :: "int \<Rightarrow> (string \<times> string list) list \<Rightarrow> int \<Rightarrow> string list \<Rightarrow> string list" where
  "min_nodes mx [] mn minNodeNames = minNodeNames"
| "min_nodes mx ((nodeName, podNames) # rest) mn minNodeNames =
     (let podsCount = int (length podNames)
      in if podsCount \<ge> mx then min_nodes mx rest mn minNodeNames
         else let mn1 = (if mn = -1 then podsCount else mn)
              in if podsCount > mn1 then min_nodes mx rest mn1 minNodeNames
                 else if podsCount < mn1 then min_nodes mx rest podsCount [nodeName]
                 else min_nodes mx rest mn1 (minNodeNames @ [nodeName]))"

text \<open>\<open>order\<close> is the order in which Go iterates over \<open>nodeMap\<close>.\<close>

definition ha_Filter ::
  "((string, string list) gomap \<Rightarrow> (string, string list) gomap) \<Rightarrow> 'w ha_env \<Rightarrow>
    string \<Rightarrow> pod \<Rightarrow> node list \<Rightarrow> 'w \<Rightarrow> (goerr + node list) \<times> 'w" where
  "ha_Filter order H instanceName pod nodes w =
     (let ns = p_ns pod; podName = p_name pod;
          component = mval (p_labels pod) ComponentLabelKey
      in if nodes = [] then (Inl (OtherError ''kube nodes is empty''), w)
         else (case realAcquireLock H pod w of
           (Some e, w1) \<Rightarrow> (Inl e, w1)
         | (None, w1) \<Rightarrow>
             (case (if length nodes = 1 then
                      (case h_pvc_get H ns (pvcName component podName) w1 of
                         Inl e \<Rightarrow> Inl e | Inr pvc \<Rightarrow> Inr (pvc_phase pvc = ''Bound''))
                    else Inr False) of
                Inl e \<Rightarrow> (Inl e, w1)
              | Inr True \<Rightarrow> (Inr nodes, w1)
              | Inr False \<Rightarrow>
                  (case realPodListFn H ns instanceName component w1 of
                     Inl e \<Rightarrow> (Inl e, w1)
                   | Inr podList \<Rightarrow>
                       let nodeMap = count_pods podList (init_node_map nodes);
                           minNodeNames = min_nodes (h_max_pods H) (order nodeMap) (-1) []
                       in if minNodeNames = [] then (Inl (OtherError ''can't find a node''), w1)
                          else (Inr (getNodeFromNames nodes minNodeNames), w1)))))"

section \<open>scheduler.go\<close>

type_synonym 'w predicate =
  "string \<Rightarrow> pod \<Rightarrow> node list \<Rightarrow> 'w \<Rightarrow> (goerr + node list) \<times> 'w"

fun run_predicates :: "'w predicate list \<Rightarrow> 'w predicate" where
  "run_predicates [] inst pod nodes w = (Inr nodes, w)"
| "run_predicates (p # ps) inst pod nodes w =
     (case p inst pod nodes w of
        (Inl e, w1) \<Rightarrow> (Inl e, w1)
      | (Inr nodes1, w1) \<Rightarrow> run_predicates ps inst pod nodes1 w1)"

text \<open>\<open>args.Nodes\<close> is a pointer; its items are read before anything else.\<close>

definition scheduler_Filter ::
  "'w predicate list \<Rightarrow> pod \<Rightarrow> node list option \<Rightarrow> 'w \<Rightarrow> (goerr + node list) \<times> 'w" where
  "scheduler_Filter predicates pod args_nodes w =
     (case args_nodes of
        None \<Rightarrow> (Inl (PanicError ''nil Nodes''), w)
      | Some kubeNodes \<Rightarrow>
          (case mget (p_labels pod) InstanceLabelKey of
             None \<Rightarrow> (Inr kubeNodes, w)
           | Some instanceName \<Rightarrow>
               let component = mval (p_labels pod) ComponentLabelKey
               in if component \<noteq> PDLabelVal \<and> component \<noteq> StoreLabelVal then (Inr kubeNodes, w)
                  else run_predicates predicates instanceName pod kubeNodes w))"

definition scheduler_Priority :: "node list option \<Rightarrow> (string \<times> int) list" where
  "scheduler_Priority args_nodes =
     (case args_nodes of None \<Rightarrow> [] | Some nodes \<Rightarrow> map (\<lambda>node. (n_name node, 0)) nodes)"

definition getNodeNames :: "node list \<Rightarrow> string list" where
  "getNodeNames nodes = map n_name nodes"

definition NewScheduler ::
  "((string, string list) gomap \<Rightarrow> (string, string list) gomap) \<Rightarrow> 'w ha_env \<Rightarrow> 'w predicate list" where
  "NewScheduler order H = [ha_Filter order H]"

section \<open>Lemmas on the node map\<close>

lemma init_node_map_fold:
  "map_of (fold (\<lambda>node m. gput (n_name node) [] m) nodes m) x =
     (if x \<in> n_name ` set nodes then Some [] else map_of m x)"
  by (induction nodes arbitrary: m) auto

lemma map_of_init_node_map:
  "map_of (init_node_map nodes) x = (if x \<in> n_name ` set nodes then Some [] else None)"
  by (simp add: init_node_map_def init_node_map_fold)

lemma distinct_init_node_map: "distinct (map fst (init_node_map nodes))"
proof -
  have "distinct (map fst m) \<Longrightarrow>
      distinct (map fst (fold (\<lambda>node m. gput (n_name node) [] m) nodes m))"
    for m :: "(string, string list) gomap"
    by (induction nodes arbitrary: m) simp_all
  then show ?thesis by (simp add: init_node_map_def)
qed

definition pods_on :: "pod list \<Rightarrow> string \<Rightarrow> pod list" where
  "pods_on pods nodeName = filter (\<lambda>p. ps_node_name (p_spec p) = nodeName) pods"

lemma map_of_count_pods:
  "map_of (count_pods pods m) x =
     (case map_of m x of None \<Rightarrow> None
      | Some names \<Rightarrow> Some (names @ (if x = [] then [] else map (\<lambda>p. p_name p) (pods_on pods x))))"
  by (induction pods m rule: count_pods.induct)
    (auto simp: Let_def pods_on_def split: option.splits)

lemma distinct_count_pods: "distinct (map fst m) \<Longrightarrow> distinct (map fst (count_pods pods m))"
  by (induction pods m rule: count_pods.induct) (auto simp: Let_def split: option.splits)

text \<open>The search finds the entries with the fewest pods among those below the bound.\<close>

definition fewest :: "int \<Rightarrow> (string \<times> string list) set \<Rightarrow> string set" where
  "fewest mx es = {n. \<exists>ps. (n, ps) \<in> es \<and> int (length ps) < mx \<and>
     (\<forall>(n', ps') \<in> es. int (length ps') < mx \<longrightarrow> length ps \<le> length ps')}"

text \<open>What the search knows of the entries \<open>D\<close> it has seen.\<close>

definition best_so_far :: "int \<Rightarrow> (string \<times> string list) set \<Rightarrow> int \<Rightarrow> string list \<Rightarrow> bool" where
  "best_so_far mx D mn acc \<longleftrightarrow> (\<forall>n. n \<in> set acc \<longleftrightarrow> (\<exists>ps. (n, ps) \<in> D \<and> int (length ps) = mn \<and> mn < mx)) \<and>
     (\<forall>n ps. (n, ps) \<in> D \<longrightarrow> int (length ps) < mx \<longrightarrow> mn \<le> int (length ps) \<and> mn \<noteq> -1) \<and> (mn = -1 \<or> acc \<noteq> [])"

lemma best_is_fewest: "best_so_far mx D mn acc \<Longrightarrow> set acc = fewest mx D"
proof -
  assume b: "best_so_far mx D mn acc"
  show ?thesis
  proof (cases "mn = -1")
    case True
    with b show ?thesis by (auto simp: best_so_far_def fewest_def)
  next
    case False
    with b obtain k ks where k: "(k, ks) \<in> D" "int (length ks) = mn" "mn < mx"
      unfolding best_so_far_def by (metis list.set_sel(1))
    have "n \<in> set acc \<longleftrightarrow> n \<in> fewest mx D" for n
    proof
      assume "n \<in> set acc"
      with b show "n \<in> fewest mx D" unfolding best_so_far_def fewest_def by fastforce
    next
      assume "n \<in> fewest mx D"
      then obtain ps where ps: "(n, ps) \<in> D" "int (length ps) < mx" "length ps \<le> length ks"
        using k unfolding fewest_def by blast
      with b k have "int (length ps) = mn" unfolding best_so_far_def by fastforce
      with b ps k show "n \<in> set acc" unfolding best_so_far_def by blast
    qed
    then show ?thesis by blast
  qed
qed

lemma min_nodes_best:
  "best_so_far mx D mn acc \<Longrightarrow> set (min_nodes mx es mn acc) = fewest mx (D \<union> set es)"
proof (induction mx es mn acc arbitrary: D rule: min_nodes.induct)
  case (1 mx mn acc)
  then show ?case using best_is_fewest by simp
next
  case (2 mx n ps rest mn acc)
  let ?c = "int (length ps)"
  have U: "D \<union> set ((n, ps) # rest) = insert (n, ps) D \<union> set rest" by simp
  consider (full) "?c \<ge> mx" | (first) "?c < mx" "mn = -1" | (more) "?c < mx" "mn \<noteq> -1" "?c > mn"
    | (less) "?c < mx" "mn \<noteq> -1" "?c < mn" | (same) "?c < mx" "mn \<noteq> -1" "?c = mn" by linarith
  then show ?case
  proof cases
    case full
    with "2.prems" have "best_so_far mx (insert (n, ps) D) mn acc" unfolding best_so_far_def by auto
    from "2.IH"(1) [OF refl full this] full show ?thesis by (simp only: U) simp
  next
    case first
    with "2.prems" have "best_so_far mx (insert (n, ps) D) ?c (acc @ [n])"
      unfolding best_so_far_def by fastforce
    from "2.IH"(4) [OF refl _ refl _ _, of "insert (n, ps) D"] this first show ?thesis by (simp only: U) simp
  next
    case more
    with "2.prems" have "best_so_far mx (insert (n, ps) D) mn acc" unfolding best_so_far_def by auto
    from "2.IH"(2) [OF refl _ refl _, of "insert (n, ps) D"] this more show ?thesis by (simp only: U) simp
  next
    case less
    with "2.prems" have "best_so_far mx (insert (n, ps) D) ?c [n]" unfolding best_so_far_def by fastforce
    from "2.IH"(3) [OF refl _ refl _ _, of "insert (n, ps) D"] this less show ?thesis by (simp only: U) simp
  next
    case same
    with "2.prems" have "best_so_far mx (insert (n, ps) D) mn (acc @ [n])" unfolding best_so_far_def by auto
    from "2.IH"(4) [OF refl _ refl _ _, of "insert (n, ps) D"] this same show ?thesis by (simp only: U) simp
  qed
qed

lemma min_nodes_fewest: "set (min_nodes mx es (-1) []) = fewest mx (set es)"
  using min_nodes_best [of mx "{}" "-1" "[]" es] by (simp add: best_so_far_def)

lemma getNodeFromNames_iff:
  "getNodeFromNames nodes names = filter (\<lambda>n. n_name n \<in> set names) nodes"
  by (auto simp: getNodeFromNames_def list_ex_iff intro: filter_cong)

text \<open>How many of the listed pods run on a node; a pod without a node counts for none.\<close>

definition load_of :: "pod list \<Rightarrow> node \<Rightarrow> nat" where
  "load_of pods n = (if n_name n = [] then 0 else length (pods_on pods (n_name n)))"

definition least_nodes :: "int \<Rightarrow> pod list \<Rightarrow> node list \<Rightarrow> node list" where
  "least_nodes mx pods nodes =
     filter (\<lambda>n. int (load_of pods n) < mx \<and>
       list_all (\<lambda>m. int (load_of pods m) < mx \<longrightarrow> load_of pods n \<le> load_of pods m) nodes) nodes"

lemma least_nodes_empty:
  "least_nodes mx pods nodes = [] \<longleftrightarrow> list_all (\<lambda>n. mx \<le> int (load_of pods n)) nodes"
proof (cases "\<exists>n. n \<in> set nodes \<and> int (load_of pods n) < mx")
  case True
  define m where "m = arg_min (load_of pods) (\<lambda>n. n \<in> set nodes \<and> int (load_of pods n) < mx)"
  from True have "m \<in> set nodes \<and> int (load_of pods m) < mx" unfolding m_def by (metis (mono_tags, lifting) arg_min_natI)
  moreover have "load_of pods m \<le> load_of pods x" if "x \<in> set nodes" "int (load_of pods x) < mx" for x
    unfolding m_def using that by (intro arg_min_nat_le) simp
  ultimately show ?thesis using True by (fastforce simp: least_nodes_def list_all_iff filter_empty_conv)
next
  case False
  then show ?thesis by (auto simp: least_nodes_def list_all_iff filter_empty_conv not_less)
qed

definition node_entry :: "pod list \<Rightarrow> node \<Rightarrow> string \<times> string list" where
  "node_entry pods n = (n_name n, if n_name n = [] then [] else map (\<lambda>p. p_name p) (pods_on pods (n_name n)))"

lemma node_map_set: "set (count_pods pods (init_node_map nodes)) = node_entry pods ` set nodes"
proof -
  let ?m = "count_pods pods (init_node_map nodes)"
  have "(x, ns) \<in> set ?m \<longleftrightarrow> map_of ?m x = Some ns" for x ns
    using distinct_count_pods [OF distinct_init_node_map] by (simp add: map_of_eq_Some_iff)
  also have "map_of ?m x = Some ns \<longleftrightarrow> (\<exists>n \<in> set nodes. (x, ns) = node_entry pods n)" for x ns
    by (auto simp: map_of_count_pods map_of_init_node_map node_entry_def) metis
  finally show ?thesis by auto
qed

lemma fewest_entries:
  "fewest mx (node_entry pods ` set nodes) = n_name ` set (least_nodes mx pods nodes)"
proof -
  have l: "length (snd (node_entry pods n)) = load_of pods n" for n
    by (simp add: node_entry_def load_of_def)
  have mem: "(x, ps) \<in> node_entry pods ` set nodes \<longleftrightarrow>
      (\<exists>n \<in> set nodes. x = n_name n \<and> ps = snd (node_entry pods n))" for x ps
    by (auto simp: image_iff node_entry_def)
  have all: "(\<forall>(n', ps') \<in> node_entry pods ` set nodes. Q (length ps')) \<longleftrightarrow> (\<forall>m \<in> set nodes. Q (load_of pods m))" for Q
    by (simp add: case_prod_unfold l)
  have "x \<in> fewest mx (node_entry pods ` set nodes) \<longleftrightarrow> (\<exists>n \<in> set nodes. x = n_name n \<and> int (load_of pods n) < mx \<and>
      (\<forall>m \<in> set nodes. int (load_of pods m) < mx \<longrightarrow> load_of pods n \<le> load_of pods m))" for x
    unfolding fewest_def mem mem_Collect_eq all [of "\<lambda>k. int k < mx \<longrightarrow> _ \<le> k"] using l by metis
  then show ?thesis unfolding least_nodes_def list_all_iff by (auto simp only: set_filter image_iff set_eq_iff mem_Collect_eq)
qed

lemma min_nodes_least:
  assumes "mset (order (count_pods pods (init_node_map nodes))) =
      mset (count_pods pods (init_node_map nodes))"
  shows "set (min_nodes mx (order (count_pods pods (init_node_map nodes))) (-1) []) =
    n_name ` set (least_nodes mx pods nodes)"
  by (simp only: min_nodes_fewest mset_eq_setD [OF assms] node_map_set fewest_entries)

lemma least_nodes_names:
  "filter (\<lambda>n. n_name n \<in> n_name ` set (least_nodes mx pods nodes)) nodes = least_nodes mx pods nodes"
proof -
  define P where "P n \<longleftrightarrow> int (load_of pods n) < mx \<and>
    list_all (\<lambda>m. int (load_of pods m) < mx \<longrightarrow> load_of pods n \<le> load_of pods m) nodes" for n
  have P: "P m" if "n_name m = n_name n" "P n" for n m
  proof -
    have "load_of pods m = load_of pods n" by (simp only: load_of_def that(1))
    with that(2) show ?thesis by (simp only: P_def)
  qed
  have "n_name n \<in> n_name ` set (filter P nodes) \<longleftrightarrow> P n" if "n \<in> set nodes" for n
    using that by (auto intro: P)
  then have "filter (\<lambda>n. n_name n \<in> n_name ` set (filter P nodes)) nodes = filter P nodes"
    by (rule filter_cong [OF refl])
  moreover have "least_nodes mx pods nodes = filter P nodes"
    unfolding least_nodes_def P_def ..
  ultimately show ?thesis by simp
qed

section \<open>Lemmas on the lock\<close>

lemma scan_current:
  "scan_pvcs name i xs (c, s) = (c', s') \<Longrightarrow>
     (c' = c \<and> (\<forall>x \<in> set xs. pvc_name x \<noteq> name)) \<or>
     (\<exists>j < length xs. c' = Some (i + j) \<and> pvc_name (xs ! j) = name)"
proof (induction xs arbitrary: i c s)
  case (Cons x xs)
  let ?c = "if pvc_name x = name then Some i else c"
  from Cons.prems obtain s1 where "scan_pvcs name (Suc i) xs (?c, s1) = (c', s')" by auto
  from Cons.IH [OF this] show ?case
  proof
    assume *: "c' = ?c \<and> (\<forall>x \<in> set xs. pvc_name x \<noteq> name)"
    show ?thesis
    proof (cases "pvc_name x = name")
      case True
      with * have "0 < length (x # xs) \<and> c' = Some (i + 0) \<and> pvc_name ((x # xs) ! 0) = name" by simp
      then show ?thesis by blast
    qed (use * in simp)
  next
    assume "\<exists>j < length xs. c' = Some (Suc i + j) \<and> pvc_name (xs ! j) = name"
    then obtain j where "j < length xs" "c' = Some (Suc i + j)" "pvc_name (xs ! j) = name" by blast
    then have "Suc j < length (x # xs) \<and> c' = Some (i + Suc j) \<and> pvc_name ((x # xs) ! Suc j) = name"
      by simp
    then show ?thesis by blast
  qed
qed simp

lemma scan_scheduling_keep:
  "scan_pvcs name i xs (c, Some k) = (c', s') \<Longrightarrow> s' = Some k"
  by (induction xs arbitrary: i c) auto

lemma scan_scheduling:
  "scan_pvcs name i xs (c, None) = (c', s') \<Longrightarrow>
     (s' = None \<and> (\<forall>x \<in> set xs. \<not> is_scheduling x)) \<or>
     (\<exists>j < length xs. s' = Some (i + j) \<and> is_scheduling (xs ! j))"
proof (induction xs arbitrary: i c)
  case (Cons x xs)
  show ?case
  proof (cases "is_scheduling x")
    case True
    then have "0 < length (x # xs) \<and> s' = Some (i + 0) \<and> is_scheduling ((x # xs) ! 0)"
      using Cons.prems by (auto dest: scan_scheduling_keep)
    then show ?thesis by blast
  next
    case False
    with Cons.prems obtain c1 where "scan_pvcs name (Suc i) xs (c1, None) = (c', s')" by auto
    from Cons.IH [OF this] show ?thesis
    proof
      assume "\<exists>j < length xs. s' = Some (Suc i + j) \<and> is_scheduling (xs ! j)"
      then obtain j where "j < length xs" "s' = Some (Suc i + j)" "is_scheduling (xs ! j)" by blast
      then have "Suc j < length (x # xs) \<and> s' = Some (i + Suc j) \<and> is_scheduling ((x # xs) ! Suc j)"
        by simp
      then show ?thesis by blast
    qed (use False in simp)
  qed
qed simp

text \<open>At most one claim is marked as being scheduled.\<close>

definition one_scheduling :: "pvc list \<Rightarrow> bool" where
  "one_scheduling xs \<longleftrightarrow>
     (\<forall>i < length xs. \<forall>j < length xs. is_scheduling (xs ! i) \<longrightarrow> is_scheduling (xs ! j) \<longrightarrow> i = j)"

text \<open>
  What the API server promises for the claims of one component: an update of a listed claim
  that changes its annotations replaces it, or fails and changes nothing; names are unique.
\<close>

definition replace_claim :: "pvc \<Rightarrow> pvc list \<Rightarrow> pvc list" where
  "replace_claim y xs = map (\<lambda>x. if pvc_name x = pvc_name y then y else x) xs"

definition claims_api :: "'w ha_env \<Rightarrow> string \<Rightarrow> label \<Rightarrow> bool" where
  "claims_api H ns sel \<longleftrightarrow>
     (\<forall>w xs x a e w'. h_pvc_list H ns sel w = Inr xs \<longrightarrow> x \<in> set xs \<longrightarrow>
        h_pvc_update H (set_pvc_ann a x) w = (e, w') \<longrightarrow>
        h_pvc_list H ns sel w' = Inr (if e = None then replace_claim (set_pvc_ann a x) xs else xs)) \<and>
     (\<forall>w xs. h_pvc_list H ns sel w = Inr xs \<longrightarrow> distinct (map pvc_name xs))"

lemma set_pvc_ann_simps [simp]:
  "pvc_ann (set_pvc_ann a x) = a" "pvc_name (set_pvc_ann a x) = pvc_name x"
  "pvc_phase (set_pvc_ann a x) = pvc_phase x"
  by (simp_all add: set_pvc_ann_def)

lemma replace_claim_at:
  assumes "distinct (map pvc_name xs)" and "k < length xs"
  shows "replace_claim (set_pvc_ann a (xs ! k)) xs = xs[k := set_pvc_ann a (xs ! k)]"
proof (rule nth_equalityI)
  fix i assume "i < length (replace_claim (set_pvc_ann a (xs ! k)) xs)"
  then have i: "i < length xs" by (simp add: replace_claim_def)
  have "pvc_name (xs ! i) = pvc_name (xs ! k) \<longleftrightarrow> i = k"
    using assms i by (metis (no_types, lifting) distinct_conv_nth length_map nth_map)
  then show "replace_claim (set_pvc_ann a (xs ! k)) xs ! i = xs[k := set_pvc_ann a (xs ! k)] ! i"
    using i by (simp add: replace_claim_def nth_list_update)
qed (simp add: replace_claim_def)

lemma one_scheduling_mark:
  assumes "\<forall>x \<in> set xs. \<not> is_scheduling x"
  shows "one_scheduling (xs[c := y])"
proof -
  have "i = c" if "is_scheduling (xs[c := y] ! i)" "i < length xs" for i
    using assms that by (cases "i = c") auto
  then show ?thesis by (auto simp: one_scheduling_def)
qed

lemma one_scheduling_unmark:
  assumes "one_scheduling xs" and "s < length xs" and "is_scheduling (xs ! s)" and "\<not> is_scheduling y"
  shows "\<forall>x \<in> set (xs[s := y]). \<not> is_scheduling x"
proof
  fix x assume "x \<in> set (xs[s := y])"
  then obtain i where i: "i < length xs" "x = xs[s := y] ! i" by (auto simp: in_set_conv_nth)
  show "\<not> is_scheduling x"
  proof (cases "i = s")
    case False
    then show ?thesis using assms(1-3) i unfolding one_scheduling_def by auto
  qed (use i assms in simp)
qed

lemma is_scheduling_mark [simp]:
  "t \<noteq> [] \<Longrightarrow> is_scheduling (set_pvc_ann (mput AnnPVCPodScheduling t a) x)"
  "\<not> is_scheduling (set_pvc_ann (mdel AnnPVCPodScheduling a) x)"
  by (simp_all add: is_scheduling_def)

lemma claims_api_update:
  assumes "claims_api H ns sel" and "h_pvc_list H ns sel w = Inr xs" and "k < length xs"
    and "h_pvc_update H (set_pvc_ann a (xs ! k)) w = (e, w')"
  shows "h_pvc_list H ns sel w' =
    Inr (if e = None then xs[k := set_pvc_ann a (xs ! k)] else xs)"
proof -
  have "distinct (map pvc_name xs)" using assms(1,2) by (auto simp: claims_api_def)
  note at = replace_claim_at [OF this assms(3), of a]
  have "h_pvc_list H ns sel w' =
      Inr (if e = None then replace_claim (set_pvc_ann a (xs ! k)) xs else xs)"
    using assms unfolding claims_api_def by (meson nth_mem)
  then show ?thesis by (simp only: at)
qed

text \<open>One marking step on a list without marks.\<close>

lemma mark_step:
  assumes api: "claims_api H ns sel" and l: "h_pvc_list H ns sel w = Inr xs"
    and c: "c < length xs" and none: "\<forall>x \<in> set xs. \<not> is_scheduling x"
    and now: "h_now_text H w \<noteq> []"
    and r: "setCurrentPodScheduling H (set_pvc_ann (pvc_ann (xs ! c)) (xs ! c)) w = (e, w')"
  shows "\<exists>ys. h_pvc_list H ns sel w' = Inr ys \<and> one_scheduling ys \<and>
    (e = None \<longrightarrow> (\<exists>y. ys = xs[c := y] \<and> pvc_name y = pvc_name (xs ! c) \<and> is_scheduling y))"
proof -
  define y where "y = set_pvc_ann (mput AnnPVCPodScheduling (h_now_text H w) (pvc_ann (xs ! c))) (xs ! c)"
  have "h_pvc_update H y w = (e, w')"
    using r by (simp add: setCurrentPodScheduling_def realUpdatePVCFn_def y_def set_pvc_ann_def)
  then have "h_pvc_list H ns sel w' = Inr (if e = None then xs[c := y] else xs)"
    unfolding y_def by (rule claims_api_update [OF api l c])
  moreover have "one_scheduling xs" using none by (simp add: one_scheduling_def)
  moreover have "is_scheduling y" "pvc_name y = pvc_name (xs ! c)" using now by (simp_all add: y_def)
  ultimately show ?thesis using one_scheduling_mark [OF none, of c y] by (cases e) auto
qed

end
