(* ===== verification/Scheduler_Server.thy ===== *)
theory Scheduler_Server
  imports Scheduler_HA Controls
begin

text \<open>
  \<^verbatim>\<open>pkg/scheduler/server/mux.go\<close>: the HTTP server in front of the extender.  Reading the body of a
  request and writing the answer is \<^verbatim>\<open>go-restful\<close>'s part: \<open>rs_args\<close> decodes a body, and the other
  fields make the answer, which may fail for a result that cannot be encoded.  The mutex of the
  server makes one request to \<^verbatim>\<open>/scheduler/filter\<close> an atomic step.
\<close>

section \<open>Requests and answers\<close>

record extender_args =
  ea_pod :: pod
  ea_nodes :: "node list option"

record ('b, 'r) restful =
  rs_args :: "'b \<Rightarrow> goerr + extender_args"
  rs_nodes :: "node list \<Rightarrow> goerr + 'r"
  rs_priorities :: "(string \<times> int) list \<Rightarrow> goerr + 'r"
  rs_service_error :: "nat \<Rightarrow> string \<Rightarrow> 'r"

definition StatusBadRequest :: nat where "StatusBadRequest = 400"
definition StatusInternalServerError :: nat where "StatusInternalServerError = 500"

text \<open>A service error: a status code and a message.\<close>

definition errFailToRead :: "nat \<times> string" where
  "errFailToRead = (StatusBadRequest, ''unable to read request body'')"

definition errFailToWrite :: "nat \<times> string" where
  "errFailToWrite = (StatusInternalServerError, ''unable to write response'')"

definition errorResponse :: "('b, 'r) restful \<Rightarrow> nat \<times> string \<Rightarrow> 'r" where
  "errorResponse R svcErr = rs_service_error R (fst svcErr) (snd svcErr)"

section \<open>The handlers\<close>

text \<open>A panic of the scheduler leaves the handler, and releases the mutex.\<close>

definition filterNode ::
  "('b, 'r) restful \<Rightarrow> 'w predicate list \<Rightarrow> 'b \<Rightarrow> 'w \<Rightarrow> (goerr + 'r) \<times> 'w" where
  "filterNode R predicates body w =
     (case rs_args R body of
        Inl _ \<Rightarrow> (Inr (errorResponse R errFailToRead), w)
      | Inr args \<Rightarrow>
          (case scheduler_Filter predicates (ea_pod args) (ea_nodes args) w of
             (Inl err, w1) \<Rightarrow>
               (if is_panic err then Inl err
                else Inr (errorResponse R (StatusInternalServerError,
                       ''unable to filter nodes: '' @ err_text err)), w1)
           | (Inr filterResult, w1) \<Rightarrow>
               (case rs_nodes R filterResult of
                  Inl _ \<Rightarrow> (Inr (errorResponse R errFailToWrite), w1)
                | Inr resp \<Rightarrow> (Inr resp, w1))))"

text \<open>\<open>Priority\<close> never fails, so the branch for its error is dead.\<close>

definition prioritizeNode :: "('b, 'r) restful \<Rightarrow> 'b \<Rightarrow> 'r" where
  "prioritizeNode R body =
     (case rs_args R body of
        Inl _ \<Rightarrow> errorResponse R errFailToRead
      | Inr args \<Rightarrow>
          (case rs_priorities R (scheduler_Priority (ea_nodes args)) of
             Inl _ \<Rightarrow> errorResponse R errFailToWrite
           | Inr resp \<Rightarrow> resp))"

text \<open>The routes of \<open>StartServer\<close>; any other path is not found.\<close>

definition StartServer_route ::
  "('b, 'r) restful \<Rightarrow> ((string, string list) gomap \<Rightarrow> (string, string list) gomap) \<Rightarrow> 'w ha_env \<Rightarrow>
    string \<Rightarrow> string \<Rightarrow> 'b \<Rightarrow> 'w \<Rightarrow> ((goerr + 'r) \<times> 'w) option" where
  "StartServer_route R order H meth path body w =
     (if meth = ''POST'' \<and> path = ''/scheduler/filter''
      then Some (filterNode R (NewScheduler order H) body w)
      else if meth = ''POST'' \<and> path = ''/scheduler/prioritize''
      then Some (Inr (prioritizeNode R body), w)
      else None)"

end
