(* ===== verification/Programs.thy ===== *)
theory Programs
  imports Controls Informer_Factory Scheduler_Server
begin

text \<open>
  How the three programs of \<^verbatim>\<open>cmd\<close> start: the flags, the checks before anything runs, and what is
  served.  The controller manager makes the two informer factories, \<^verbatim>\<open>NewController\<close> asks
  them for an informer of every type the managers read, the factories are started, and \<^verbatim>\<open>Run\<close>
  waits for caches before its workers sync clusters; the informers fill their caches in any order.
  Listening on a port is left out; the leader election in front of \<^verbatim>\<open>Run\<close> is \<open>Leader_Election\<close>.
\<close>

section \<open>Build information\<close>

text \<open>\<^verbatim>\<open>version.go\<close>: the variables, which the linker may set, and what the Go runtime says of itself.\<close>

record build_vars =
  bv_elasticell :: string
  bv_git_version :: string
  bv_git_commit :: string
  bv_git_tree_state :: string
  bv_build_date :: string

definition build_defaults :: build_vars where
  "build_defaults = \<lparr>bv_elasticell = ''None'', bv_git_version = ''v0.0.0-master+$Format:%h$'',
     bv_git_commit = ''$Format:%H$'', bv_git_tree_state = [], bv_build_date = ''1970-01-01T00:00:00Z''\<rparr>"

record go_runtime =
  go_version :: string
  go_compiler :: string
  go_os :: string
  go_arch :: string

record version_info =
  vi_elasticell :: string
  vi_git_version :: string
  vi_git_commit :: string
  vi_git_tree_state :: string
  vi_build_date :: string
  vi_go_version :: string
  vi_compiler :: string
  vi_platform :: string

definition version_Get :: "build_vars \<Rightarrow> go_runtime \<Rightarrow> version_info" where
  "version_Get B G =
     \<lparr>vi_elasticell = bv_elasticell B, vi_git_version = bv_git_version B, vi_git_commit = bv_git_commit B,
      vi_git_tree_state = bv_git_tree_state B, vi_build_date = bv_build_date B, vi_go_version = go_version G,
      vi_compiler = go_compiler G, vi_platform = go_os G @ ''/'' @ go_arch G\<rparr>"

definition version_String :: "version_info \<Rightarrow> string" where
  "version_String info = vi_git_version info"

section \<open>Starting a program\<close>

text \<open>What the host answers: how the program was built, the name of the host, the environment, and whether
  the configuration and the clients can be made.\<close>

record host =
  hs_build :: build_vars
  hs_runtime :: go_runtime
  hs_hostname :: "goerr + string"
  hs_env :: "string \<Rightarrow> string"
  hs_config :: "goerr option"
  hs_clientset :: "goerr option"
  hs_kube_clientset :: "goerr option"

datatype 'a program = PrintsVersion version_info | Fatal string | Serves 'a

definition or_fatal :: "string \<Rightarrow> goerr option \<Rightarrow> 'a program \<Rightarrow> 'a program" where
  "or_fatal msg err k = (case err of Some e \<Rightarrow> Fatal (msg @ '': '' @ err_text e) | None \<Rightarrow> k)"

definition prints_version :: "host \<Rightarrow> 'a program" where
  "prints_version H = PrintsVersion (version_Get (hs_build H) (hs_runtime H))"

definition failed_config :: string where "failed_config = ''failed to get config''"
definition failed_clientset :: string where "failed_clientset = ''failed to create Clientset''"
definition failed_kube_clientset :: string where "failed_kube_clientset = ''failed to get kubernetes Clientset''"

record discovery_flags =
  df_version :: bool
  df_port :: int

definition discovery_init :: discovery_flags where
  "discovery_init = \<lparr>df_version = False, df_port = 10261\<rparr>"

text \<open>The discovery program serves a port.\<close>

definition discovery_main :: "discovery_flags \<Rightarrow> host \<Rightarrow> int program" where
  "discovery_main F H =
     (if df_version F then prints_version H
      else or_fatal failed_config (hs_config H)
        (or_fatal failed_clientset (hs_clientset H) (Serves (df_port F))))"

record scheduler_flags =
  sf_version :: bool
  sf_port :: int
  sf_max_pods :: int

definition scheduler_init :: scheduler_flags where
  "scheduler_init = \<lparr>sf_version = False, sf_port = 10262, sf_max_pods = 1\<rparr>"

text \<open>The scheduler serves a port over an environment whose bound is the flag's.\<close>

definition scheduler_main :: "scheduler_flags \<Rightarrow> host \<Rightarrow> 'w ha_env \<Rightarrow> (int \<times> 'w ha_env) program" where
  "scheduler_main F H env =
     (if sf_version F then prints_version H
      else or_fatal failed_config (hs_config H)
        (or_fatal failed_kube_clientset (hs_kube_clientset H)
          (or_fatal failed_clientset (hs_clientset H)
            (Serves (sf_port F, env\<lparr>h_max_pods := sf_max_pods F\<rparr>)))))"

section \<open>Informers of the controller\<close>

text \<open>The factory of the Kubernetes types is client-go's; it is generated from the same template
  as the operator's and is modelled by the same operations.\<close>

definition StatefulSetType :: string where "StatefulSetType = ''v1beta1.StatefulSet''"
definition ServiceType :: string where "ServiceType = ''v1.Service''"
definition PersistentVolumeClaimType :: string where "PersistentVolumeClaimType = ''v1.PersistentVolumeClaim''"
definition PersistentVolumeType :: string where "PersistentVolumeType = ''v1.PersistentVolume''"
definition PodType :: string where "PodType = ''v1.Pod''"
definition NodeType :: string where "NodeType = ''v1.Node''"

lemmas kube_type_defs = StatefulSetType_def ServiceType_def PersistentVolumeClaimType_def
  PersistentVolumeType_def PodType_def NodeType_def CellClusterType_def

record process =
  pr_cells :: factory
  pr_kube :: factory
  pr_filled :: "string list"   \<comment> \<open>the types whose cache has been filled\<close>
  pr_workers :: int            \<comment> \<open>the flag \<open>workers\<close>\<close>
  pr_working :: nat            \<comment> \<open>the workers that have been started\<close>

definition resyncDuration :: time where "resyncDuration = 30"

definition main_factories :: "bool \<Rightarrow> string \<Rightarrow> factory \<times> factory" where
  "main_factories ClusterScoped ns =
     (if ClusterScoped then (NewSharedInformerFactory resyncDuration, NewSharedInformerFactory resyncDuration)
      else (NewFilteredSharedInformerFactory resyncDuration ns None,
            NewFilteredSharedInformerFactory resyncDuration ns None))"

text \<open>The calls of \<open>Lister\<close> and \<open>Informer\<close> in \<open>NewController\<close>, in the order it makes them: those for
  the controls, for the scaler and the upgraders, for the PD, store and proxy managers, for the
  reclaim and meta managers and the cleaner, and for its own event handlers.\<close>

definition kube_asks :: "string list" where
  "kube_asks =
     [StatefulSetType, ServiceType, PersistentVolumeClaimType, PersistentVolumeType,
      PersistentVolumeClaimType, PodType] @
     [PersistentVolumeClaimType, PodType, PodType, PodType, PodType] @
     [StatefulSetType, ServiceType, PodType, PersistentVolumeClaimType,
      StatefulSetType, ServiceType, PodType, NodeType,
      StatefulSetType, ServiceType, PodType] @
     [PersistentVolumeClaimType, PersistentVolumeType,
      PersistentVolumeClaimType, PersistentVolumeType, PodType,
      PodType, PersistentVolumeClaimType] @
     [StatefulSetType, StatefulSetType, StatefulSetType]"

definition NewController_informers :: "factory \<times> factory \<Rightarrow> factory \<times> factory" where
  "NewController_informers fs =
     (fold call [AsksClusters, AsksClusters, AsksClusters, AsksClusters] (fst fs),
      fold call (map (\<lambda>t. Asks t (defaultInformer (fa_ns (snd fs)) (fa_tweak (snd fs)))) kube_asks) (snd fs))"

record controller_flags =
  cf_version :: bool
  cf_workers :: int
  cf_cluster_scoped :: bool
  cf_storage_class :: string

definition controller_init :: controller_flags where
  "controller_init =
     \<lparr>cf_version = False, cf_workers = 5, cf_cluster_scoped = True, cf_storage_class = ''standard''\<rparr>"

definition started_process :: "controller_flags \<Rightarrow> string \<Rightarrow> process" where
  "started_process F ns =
     (let fs = NewController_informers (main_factories (cf_cluster_scoped F) ns)
      in \<lparr>pr_cells = fst fs, pr_kube = snd fs, pr_filled = [], pr_workers = cf_workers F, pr_working = 0\<rparr>)"

definition controller_main :: "controller_flags \<Rightarrow> host \<Rightarrow> process program" where
  "controller_main F H =
     (if cf_version F then prints_version H
      else case hs_hostname H of
        Inl e \<Rightarrow> Fatal (''failed to get hostname: '' @ err_text e)
      | Inr hostName \<Rightarrow>
          let ns = hs_env H ''NAMESPACE''
          in if ns = [] then Fatal ''NAMESPACE environment variable not set''
             else or_fatal failed_config (hs_config H)
               (or_fatal failed_clientset (hs_clientset H)
                 (or_fatal failed_kube_clientset (hs_kube_clientset H)
                   (Serves (started_process F ns)))))"

text \<open>The two factories are started on their own, and an informer that runs fills its cache sooner or
  later.  \<open>Run\<close> starts the workers once \<open>WaitForCacheSync(ccListerSynced, setListerSynced)\<close> returns.\<close>

definition Run_ready :: "process \<Rightarrow> bool" where
  "Run_ready p \<longleftrightarrow> CellClusterType \<in> set (pr_filled p) \<and> StatefulSetType \<in> set (pr_filled p)"

definition runs_informer :: "process \<Rightarrow> string \<Rightarrow> bool" where
  "runs_informer p t \<longleftrightarrow>
     (\<exists>i. map_of (fa_informers (pr_cells p)) t = Some i \<and> i \<in> set (fa_running (pr_cells p))) \<or>
     (\<exists>i. map_of (fa_informers (pr_kube p)) t = Some i \<and> i \<in> set (fa_running (pr_kube p)))"

inductive boot_step :: "process \<Rightarrow> process \<Rightarrow> bool" where
  start_cells: "boot_step p (p\<lparr>pr_cells := Start (pr_cells p)\<rparr>)"
| start_kube: "boot_step p (p\<lparr>pr_kube := Start (pr_kube p)\<rparr>)"
| fill: "runs_informer p t \<Longrightarrow> boot_step p (p\<lparr>pr_filled := pr_filled p @ [t]\<rparr>)"
| work: "Run_ready p \<Longrightarrow> boot_step p (p\<lparr>pr_working := nat (pr_workers p)\<rparr>)"

inductive boot_reach :: "process \<Rightarrow> process \<Rightarrow> bool" for p0 where
  boot_refl: "boot_reach p0 p0"
| boot_more: "boot_reach p0 p \<Longrightarrow> boot_step p q \<Longrightarrow> boot_reach p0 q"

inductive_cases boot_stepE: "boot_step p q"

section \<open>Reachable processes\<close>

lemma NewController_inv:
  "factory_inv (fst (NewController_informers (main_factories b ns)))"
  "factory_inv (snd (NewController_informers (main_factories b ns)))"
  by (cases b, simp_all only: NewController_informers_def main_factories_def NewSharedInformerFactory_def
      if_True if_False fst_conv snd_conv calls_inv new_factory_inv)+

text \<open>Every type the managers read has an informer before the factories are started.\<close>

lemma asks_known:
  assumes "t \<in> set ts"
  shows "\<exists>i. (t, i) \<in> set (fa_informers (fold call (map (\<lambda>t. Asks t (g t)) ts) f))"
  using assms
proof (induction ts arbitrary: f)
  case (Cons u ts)
  show ?case
  proof (cases "t = u")
    case True
    obtain i h where "InformerFor u (g u) f = (i, h)" by fastforce
    with calls_keep [OF InformerFor_has] True show ?thesis by fastforce
  qed (use Cons in auto)
qed simp

abbreviation read_types :: "string list" where
  "read_types \<equiv> CellClusterType # kube_asks"

lemma controller_informers:
  assumes "t \<in> set read_types"
  shows "\<exists>i. (t, i) \<in> set (fa_informers (fst (NewController_informers fs))) \<or>
    (t, i) \<in> set (fa_informers (snd (NewController_informers fs)))"
proof (cases "t = CellClusterType")
  case True
  obtain i h where h: "InformerFor CellClusterType (defaultInformer (fa_ns (fst fs)) (fa_tweak (fst fs))) (fst fs) = (i, h)"
    by fastforce
  have "fst (NewController_informers fs) = fold call [AsksClusters, AsksClusters, AsksClusters] h"
    using h by (simp add: NewController_informers_def cellClusterInformer_Informer_def)
  with calls_keep [OF InformerFor_has [OF h]] True show ?thesis by metis
next
  case False
  with assms have "t \<in> set kube_asks" by simp
  from asks_known [OF this] show ?thesis by (fastforce simp: NewController_informers_def)
qed

lemma started_runs:
  assumes "factory_inv f" and "(t, i) \<in> set (fa_informers f)"
  shows "map_of (fa_informers (Start f)) t = Some i \<and> i \<in> set (fa_running (Start f))"
  using assms Start_runs [OF assms] by (simp add: factory_inv_def fa_started_kept)

text \<open>The process with both factories started, some caches filled and \<open>k\<close> workers.\<close>

definition up :: "process \<Rightarrow> string list \<Rightarrow> nat \<Rightarrow> process" where
  "up p filled k = p\<lparr>pr_cells := Start (pr_cells p), pr_kube := Start (pr_kube p),
     pr_filled := filled, pr_working := k\<rparr>"

lemma up_simps [simp]: "pr_filled (up p fs k) = fs" "pr_working (up p fs k) = k" "pr_workers (up p fs k) = pr_workers p"
  by (simp_all add: up_def)

lemma up_update [simp]:
  "(up p fs k)\<lparr>pr_filled := gs\<rparr> = up p gs k" "(up p fs k)\<lparr>pr_working := j\<rparr> = up p fs j"
  by (simp_all add: up_def)

lemma up_runs:
  assumes "t \<in> set read_types"
  shows "runs_informer (up (started_process F ns) filled k) t"
proof -
  let ?N = "NewController_informers (main_factories (cf_cluster_scoped F) ns)"
  have f: "pr_cells (up (started_process F ns) filled k) = Start (fst ?N)"
    "pr_kube (up (started_process F ns) filled k) = Start (snd ?N)"
    by (simp_all add: up_def started_process_def Let_def)
  from controller_informers [OF assms, of "main_factories (cf_cluster_scoped F) ns"]
  obtain i where "(t, i) \<in> set (fa_informers (fst ?N)) \<or> (t, i) \<in> set (fa_informers (snd ?N))" by blast
  then show ?thesis
    unfolding runs_informer_def f
    using started_runs [OF NewController_inv(1)] started_runs [OF NewController_inv(2)] by blast
qed

lemma up_reach: "boot_reach (started_process F ns) (up (started_process F ns) [] 0)"
proof -
  let ?p = "started_process F ns"
  let ?q = "?p\<lparr>pr_cells := Start (pr_cells ?p)\<rparr>"
  have "boot_step ?p ?q" by (rule start_cells)
  moreover have "boot_step ?q (up ?p [] 0)"
    using start_kube [of ?q] by (simp add: started_process_def up_def Let_def)
  ultimately show ?thesis by (blast intro: boot_refl boot_more)
qed

lemma up_fills:
  assumes "boot_reach p0 (up (started_process F ns) filled 0)" and "t \<in> set read_types"
  shows "boot_reach p0 (up (started_process F ns) (filled @ [t]) 0)"
  using boot_more [OF assms(1) fill [OF up_runs [OF assms(2)]]] by simp

lemma up_works:
  assumes "boot_reach p0 (up p filled 0)" and "CellClusterType \<in> set filled" "StatefulSetType \<in> set filled"
  shows "boot_reach p0 (up p filled (nat (pr_workers p)))"
proof -
  have "Run_ready (up p filled 0)" using assms(2,3) by (simp add: Run_ready_def)
  from boot_more [OF assms(1) work [OF this]] show ?thesis by simp
qed

text \<open>Any order of filling the caches that has those two in it can be the one the workers start in.\<close>

lemma up_filled:
  assumes "set filled \<subseteq> set read_types"
  shows "boot_reach (started_process F ns) (up (started_process F ns) filled 0)"
  using assms by (induction filled rule: rev_induct) (auto intro: up_reach up_fills)

lemma workers_reach:
  assumes "set filled \<subseteq> set read_types" and "CellClusterType \<in> set filled" "StatefulSetType \<in> set filled"
  shows "boot_reach (started_process F ns) (up (started_process F ns) filled (nat (cf_workers F)))"
  using up_works [OF up_filled [OF assms(1)] assms(2,3)] by (simp add: started_process_def Let_def)

text \<open>The workers see the clusters and the StatefulSets.\<close>

lemma working_ready: "boot_reach (started_process F ns) p \<Longrightarrow> 0 < pr_working p \<Longrightarrow> Run_ready p"
proof (induction rule: boot_reach.induct)
  case boot_refl
  then show ?case by (simp add: started_process_def Let_def)
qed (erule boot_stepE, auto simp: Run_ready_def)

text \<open>A controller manager that gets so far has a namespace and starts with the flags given.\<close>

lemma controller_main_serves:
  "controller_main F H = Serves p \<Longrightarrow> hs_env H ''NAMESPACE'' \<noteq> [] \<and> p = started_process F (hs_env H ''NAMESPACE'')"
  by (auto simp: controller_main_def prints_version_def or_fatal_def Let_def split: if_splits sum.splits option.splits)

end
