(* ===== verification/Controller_Start.thy ===== *)
theory Controller_Start
  imports Cluster_Order Programs
begin

text \<open>
  What the workers of a controller manager that has just started see: the listers over caches that
  are still being filled, and what a round of the managers does with them.
\<close>

section \<open>Listers over caches that are being filled\<close>

text \<open>A lister whose cache is empty finds nothing and lists nothing.  A cache is filled at once
  here; the real one is filled object by object.\<close>

definition cached :: "string list \<Rightarrow> 'w env \<Rightarrow> 'w env" where
  "cached filled E = E\<lparr>
     l_set := \<lambda>w ns n. if StatefulSetType \<in> set filled then l_set E w ns n else Inl (NotFoundError n),
     l_svc := \<lambda>w ns n. if ServiceType \<in> set filled then l_svc E w ns n else Inl (NotFoundError n),
     l_pod := \<lambda>w ns n. if PodType \<in> set filled then l_pod E w ns n else Inl (NotFoundError n),
     l_pods := \<lambda>w ns sel. if PodType \<in> set filled then l_pods E w ns sel else Inr [],
     l_pvc := \<lambda>w ns n. if PersistentVolumeClaimType \<in> set filled then l_pvc E w ns n else Inl (NotFoundError n),
     l_pvcs := \<lambda>w ns sel. if PersistentVolumeClaimType \<in> set filled then l_pvcs E w ns sel else Inr [],
     l_pv := \<lambda>w n. if PersistentVolumeType \<in> set filled then l_pv E w n else Inl (NotFoundError n),
     l_node := \<lambda>w n. if NodeType \<in> set filled then l_node E w n else Inl (NotFoundError n)\<rparr>"

lemma cached_simps [simp]:
  "l_pods (cached f E) w ns sel = (if PodType \<in> set f then l_pods E w ns sel else Inr [])"
  "l_pvc (cached f E) w ns n = (if PersistentVolumeClaimType \<in> set f then l_pvc E w ns n else Inl (NotFoundError n))"
  "l_pvcs (cached f E) w ns sel = (if PersistentVolumeClaimType \<in> set f then l_pvcs E w ns sel else Inr [])"
  "k_delete_pod (cached f E) = k_delete_pod E"
  by (simp_all add: cached_def)

text \<open>The pods the cleaner looks for a claim of.\<close>

definition claims_volume :: "pod \<Rightarrow> bool" where
  "claims_volume pod \<longleftrightarrow>
     (IsPD (p_labels pod) \<or> IsStore (p_labels pod)) \<and> first_claim (ps_volumes (p_spec pod)) \<noteq> []"

lemma clean_loop_deletes:
  assumes "\<And>w n. \<exists>x. l_pvc E w (cc_ns cc) n = Inl x \<and> is_not_found x" and "\<And>w p. fst (k_delete_pod E cc p w) = None"
  shows "\<exists>m' w'. clean_loop (traced E) cc pods m t =
    (m', None, (w', snd t @ map DeletePod (filter claims_volume pods)))"
proof (induction pods arbitrary: m t)
  case (Cons pod pods)
  show ?case
  proof (cases "claims_volume pod")
    case True
    obtain x where x: "l_pvc E (fst t) (cc_ns cc) (first_claim (ps_volumes (p_spec pod))) = Inl x" "is_not_found x"
      using assms(1) by blast
    obtain w1 where "k_delete_pod E cc pod (fst t) = (None, w1)"
      using assms(2) [of pod "fst t"] by (metis prod.collapse)
    then have "clean_loop (traced E) cc (pod # pods) m t =
        clean_loop (traced E) cc pods m (w1, snd t @ [DeletePod pod])"
      using True x by (auto simp: claims_volume_def traced_calls lift_act_def Let_def)
    with Cons.IH [of m "(w1, snd t @ [DeletePod pod])"] True show ?thesis by simp
  next
    case False
    have "\<exists>m1. clean_loop (traced E) cc (pod # pods) m t = clean_loop (traced E) cc pods m1 t"
      using False
      by (cases "IsPD (p_labels pod) \<or> IsStore (p_labels pod)") (simp_all add: claims_volume_def, blast+)
    then obtain m1 where "clean_loop (traced E) cc (pod # pods) m t = clean_loop (traced E) cc pods m1 t" ..
    with Cons.IH [of m1 t] False show ?thesis by simp
  qed
qed (auto intro: exI [of _ "fst t"])

lemma clean_loop_keeps:
  assumes "\<forall>pod \<in> set pods. claims_volume pod \<longrightarrow>
    (\<exists>v. l_pvc E w (cc_ns cc) (first_claim (ps_volumes (p_spec pod))) = Inr v)"
  shows "\<exists>m'. clean_loop E cc pods m w = (m', None, w)"
  using assms
proof (induction pods arbitrary: m)
  case (Cons pod pods)
  have "\<exists>m1. clean_loop E cc (pod # pods) m w = clean_loop E cc pods m1 w"
  proof (cases "claims_volume pod")
    case True
    with Cons.prems show ?thesis by (auto simp: claims_volume_def Let_def)
  next
    case False
    then show ?thesis
      by (cases "IsPD (p_labels pod) \<or> IsStore (p_labels pod)") (simp_all add: claims_volume_def, blast+)
  qed
  then obtain m1 where "clean_loop E cc (pod # pods) m w = clean_loop E cc pods m1 w" ..
  with Cons show ?case by simp
qed simp

text \<open>
  A round of the managers over claims that are not there: whatever the pods' claims, those that
  have one are deleted, before any other request of the round.
\<close>

lemma round_without_claims:
  assumes "PodType \<in> set f" "PersistentVolumeClaimType \<notin> set f"
    and "\<forall>w p. fst (k_delete_pod E cc p w) = None" and "l_pods E w (cc_ns cc) (instance_selector cc) = Inr pods"
    and r: "updateCellCluster (default_managers (traced (cached f E)) upd) cc (w, []) = (e, cc', (w', acts))"
  shows "\<exists>rest. acts = map DeletePod (filter claims_volume pods) @ rest"
proof -
  let ?E = "cached f E"
  have reclaim: "lift_manager (reclaimPolicyManager_Sync (traced ?E)) cc (w, []) = (None, cc, (w, []))"
    using assms(2) by (simp add: lift_manager_def reclaimPolicyManager_Sync_def)
  obtain m w1 where "clean_loop (traced ?E) cc pods [] (w, []) = (m, None, (w1, map DeletePod (filter claims_volume pods)))"
    using clean_loop_deletes [of ?E cc pods "[]" "(w, [])"] assms(2,3) by auto
  then have clean: "lift_manager (clean_manager (traced ?E)) cc (w, []) =
      (None, cc, (w1, map DeletePod (filter claims_volume pods)))"
    using assms(1,4) by (simp add: lift_manager_def clean_manager_def orphanPodsCleaner_Clean_def)
  have "adds (created_in_order ?E cc) (w1, map DeletePod (filter claims_volume pods)) (w', acts)"
    using r reclaim clean pd_tail_in_order [of ?E cc "(w1, map DeletePod (filter claims_volume pods))" e cc' "(w', acts)"]
    by (simp add: updateCellCluster_def default_managers_def)
  then show ?thesis by (auto simp: adds_def)
qed

text \<open>A round over the claims, each found: no pod is deleted by the cleaner.\<close>

lemma clean_with_claims:
  assumes "PersistentVolumeClaimType \<in> set f" and "l_pods E w (cc_ns cc) (instance_selector cc) = Inr pods"
    and "\<forall>pod \<in> set pods. claims_volume pod \<longrightarrow>
      (\<exists>v. l_pvc E w (cc_ns cc) (first_claim (ps_volumes (p_spec pod))) = Inr v)"
  shows "clean_manager (cached f E) cc w = (None, w)"
proof (cases "PodType \<in> set f")
  case True
  obtain m where "clean_loop (cached f E) cc pods [] w = (m, None, w)"
    using clean_loop_keeps [of pods "cached f E" w cc "[]"] assms by auto
  with True assms(2) show ?thesis by (simp add: clean_manager_def orphanPodsCleaner_Clean_def)
qed (simp add: clean_manager_def orphanPodsCleaner_Clean_def)

text \<open>
  C11: the workers do not wait for the claims.  However the controller manager was started, when it has
  workers it can come to sync clusters while the cache of pods is filled and that of claims is not;
  the first round over a cluster then deletes every pod of PD and of the stores that has a claim,
  although all the claims exist, and these deletions are its first requests.  Had the workers waited
  for the cache of claims as they wait for those of clusters and StatefulSets, the cleaner would
  delete none of them.
\<close>

theorem workers_before_claims:
  assumes "controller_main F H = Serves p0" and "0 < cf_workers F"
    and "\<forall>w p. fst (k_delete_pod E cc p w) = None" and "l_pods E w (cc_ns cc) (instance_selector cc) = Inr pods"
    and "\<forall>pod \<in> set pods. claims_volume pod \<longrightarrow>
      (\<exists>v. l_pvc E w (cc_ns cc) (first_claim (ps_volumes (p_spec pod))) = Inr v)"
  shows "(\<exists>p. boot_reach p0 p \<and> 0 < pr_working p \<and>
      (\<forall>upd e cc' w' acts. updateCellCluster (default_managers (traced (cached (pr_filled p) E)) upd) cc (w, [])
          = (e, cc', (w', acts)) \<longrightarrow> (\<exists>rest. acts = map DeletePod (filter claims_volume pods) @ rest))) \<and>
    (\<forall>p. boot_reach p0 p \<and> 0 < pr_working p \<longrightarrow> Run_ready p \<and>
      (PersistentVolumeClaimType \<in> set (pr_filled p) \<longrightarrow> clean_manager (cached (pr_filled p) E) cc w = (None, w)))"
proof -
  let ?f = "[CellClusterType, StatefulSetType, PodType]"
  have f: "PodType \<in> set ?f" "PersistentVolumeClaimType \<notin> set ?f" "set ?f \<subseteq> set read_types"
    by (simp_all add: kube_type_defs kube_asks_def)
  obtain ns where p0: "p0 = started_process F ns" using controller_main_serves [OF assms(1)] by blast
  have "boot_reach p0 (up p0 ?f (nat (cf_workers F)))"
    unfolding p0 by (rule workers_reach [OF f(3)]) simp_all
  moreover have "0 < pr_working (up p0 ?f (nat (cf_workers F)))" "pr_filled (up p0 ?f (nat (cf_workers F))) = ?f"
    using assms(2) by simp_all
  ultimately show ?thesis
    using round_without_claims [OF f(1,2) assms(3,4)] working_ready [of F ns] p0 clean_with_claims [OF _ assms(4,5)]
    by metis
qed

definition smp_host :: host where
  "smp_host = \<lparr>hs_build = build_defaults, hs_runtime = \<lparr>go_version = ''go1.9'', go_compiler = ''gc'', go_os = ''linux'', go_arch = ''amd64''\<rparr>,
     hs_hostname = Inr ''h'', hs_env = \<lambda>_. ''ns'', hs_config = None, hs_clientset = None,
     hs_kube_clientset = None\<rparr>"

definition smp_orphan :: pod where
  "smp_orphan = (smp_pod ''c-store-0'' StoreLabelVal ''r1'')\<lparr>p_spec :=
     no_pod_spec\<lparr>ps_volumes := [\<lparr>v_name = ''store'', v_source = PVCVolume ''p''\<rparr>]\<rparr>\<rparr>"

definition smp_claimed_env :: "unit env" where
  "smp_claimed_env = (null_env undefined)\<lparr>l_pods := \<lambda>w ns sel. Inr [smp_orphan],
     l_pvc := \<lambda>w ns n. Inr (smp_pvc ''p'' None)\<rparr>"

theorem workers_before_claims_witness:
  "\<exists>p0 p. controller_main controller_init smp_host = Serves p0 \<and> boot_reach p0 p \<and> 0 < pr_working p \<and>
     (\<forall>upd e cc' w' acts. updateCellCluster (default_managers (traced (cached (pr_filled p) smp_claimed_env)) upd) smp_cc ((), [])
        = (e, cc', (w', acts)) \<longrightarrow> DeletePod smp_orphan \<in> set acts)"
proof -
  have "p_labels smp_orphan = p_labels (smp_pod ''c-store-0'' StoreLabelVal ''r1'')"
    "ps_volumes (p_spec smp_orphan) = [\<lparr>v_name = ''store'', v_source = PVCVolume ''p''\<rparr>]"
    by (simp_all add: smp_orphan_def)
  then have c: "claims_volume smp_orphan" by (simp add: claims_volume_def IsStore_def mval_def)
  have m: "controller_main controller_init smp_host = Serves (started_process controller_init ''ns'')"
    "0 < cf_workers controller_init"
    by (simp_all add: controller_main_def controller_init_def smp_host_def or_fatal_def)
  have "\<forall>w p. fst (k_delete_pod smp_claimed_env smp_cc p w) = None"
    "l_pods smp_claimed_env () (cc_ns smp_cc) (instance_selector smp_cc) = Inr [smp_orphan]"
    "\<forall>pod \<in> set [smp_orphan]. claims_volume pod \<longrightarrow>
      (\<exists>v. l_pvc smp_claimed_env () (cc_ns smp_cc) (first_claim (ps_volumes (p_spec pod))) = Inr v)"
    by (simp_all add: smp_claimed_env_def)
  from conjunct1 [OF workers_before_claims [OF m this]] c m show ?thesis by fastforce
qed

end
