(* ===== verification/Cluster_Wf.thy ===== *)
theory Cluster_Wf
  imports Cluster_Control Samples
begin

text \<open>
  What one round of the managers may do to the cluster object it is given: write its status, and
  keep the maps of the status keyed the way the types say.
\<close>

section \<open>Keyed maps\<close>

definition keyed :: "('k \<Rightarrow> 'v \<Rightarrow> bool) \<Rightarrow> ('k, 'v) gomap \<Rightarrow> bool" where
  "keyed P m \<longleftrightarrow> distinct (map fst m) \<and> (\<forall>(k, v) \<in> set m. P k v)"

lemma keyed_Nil [simp]: "keyed P []"
  by (simp add: keyed_def)

lemma keyed_gput: "keyed P m \<Longrightarrow> P k v \<Longrightarrow> keyed P (gput k v m)"
  using set_gput [of k v m] by (auto simp: keyed_def)

text \<open>
  A status whose maps are keyed: every member of PD by its name, which is not empty, every store
  and every tombstone by its identifier, and no key twice in any map.
\<close>

definition status_wf :: "cell_status \<Rightarrow> bool" where
  "status_wf s \<longleftrightarrow>
     keyed (\<lambda>n m. pm_name m = n \<and> n \<noteq> []) (pd_members (stat_pd s)) \<and>
     keyed (\<lambda>_ _. True) (pd_failures (stat_pd s)) \<and>
     keyed (\<lambda>i t. kv_id t = i) (sto_stores (stat_store s)) \<and>
     keyed (\<lambda>i t. kv_id t = i) (sto_tombstones (stat_store s)) \<and>
     keyed (\<lambda>_ _. True) (sto_failures (stat_store s)) \<and>
     keyed (\<lambda>_ _. True) (px_members (stat_proxy s)) \<and> keyed (\<lambda>_ _. True) (px_failures (stat_proxy s))"

lemma pd_members_loop_keyed:
  "keyed (\<lambda>n m. pm_name m = n \<and> n \<noteq> []) acc \<Longrightarrow>
     keyed (\<lambda>n m. pm_name m = n \<and> n \<noteq> []) (pd_members_loop now old hs acc)"
proof (induction hs arbitrary: acc)
  case (Cons h hs)
  have "pm_name (pd_member_of now old h) = mh_name h"
    by (simp add: pd_member_of_def Let_def split: option.splits)
  with Cons show ?case by (simp add: keyed_gput)
qed simp

lemma kv_stores_loop_keyed:
  "(\<And>t. kv_id (f t) = kv_id t) \<Longrightarrow> keyed (\<lambda>i t. kv_id t = i) acc \<Longrightarrow>
     keyed (\<lambda>i t. kv_id t = i) (kv_stores_loop f infos acc)"
  by (induction infos arbitrary: acc) (auto simp: keyed_gput split: option.splits)

lemma kv_store_of_id: "kv_id (kv_store_of now old t) = kv_id t"
  by (simp add: kv_store_of_def Let_def split: option.splits)

section \<open>Managers that write the status only\<close>

definition only_status :: "cellcluster \<Rightarrow> cellcluster \<Rightarrow> bool" where
  "only_status cc cc' \<longleftrightarrow> cc_meta cc' = cc_meta cc \<and> cc_spec cc' = cc_spec cc \<and>
     (status_wf (cc_status cc) \<longrightarrow> status_wf (cc_status cc'))"

lemma only_status_refl [simp, intro]: "only_status cc cc"
  by (simp add: only_status_def)

lemma only_status_trans: "only_status a b \<Longrightarrow> only_status b c \<Longrightarrow> only_status a c"
  by (simp add: only_status_def)

text \<open>The assignments to a status that the managers make beside the maps.\<close>

lemma only_status_fields [simp]:
  "only_status cc (upd_pd (\<lambda>p. p\<lparr>pd_synced := b\<rparr>) cc)" "only_status cc (upd_pd (\<lambda>p. p\<lparr>pd_phase := x\<rparr>) cc)"
  "only_status cc (upd_pd (\<lambda>p. p\<lparr>pd_set := st\<rparr>) cc)"
  "only_status cc (upd_store (\<lambda>p. p\<lparr>sto_synced := b\<rparr>) cc)"
  "only_status cc (upd_store (\<lambda>p. p\<lparr>sto_phase := x\<rparr>) cc)"
  "only_status cc (upd_store (\<lambda>p. p\<lparr>sto_set := st\<rparr>) cc)"
  "only_status cc (upd_proxy (\<lambda>p. p\<lparr>px_phase := x\<rparr>) cc)" "only_status cc (upd_proxy (\<lambda>p. p\<lparr>px_set := st\<rparr>) cc)"
  "only_status cc (cc\<lparr>cc_status := (cc_status cc)\<lparr>stat_cluster_id := i\<rparr>\<rparr>)"
  by (simp_all add: only_status_def status_wf_def)

locale status_manager =
  fixes manage :: "'w manager"
  assumes only_status: "manage cc w = (e, cc', w') \<Longrightarrow> only_status cc cc'"
begin

lemma run_first:
  assumes "run_managers (manage # ms) cc w = (e, cc', w')"
    and "\<And>c v e c' v'. run_managers ms c v = (e, c', v') \<Longrightarrow> only_status c c'"
  shows "only_status cc cc'"
  using assms(1)
  by (auto split: prod.splits option.splits dest!: only_status dest: assms(2) intro: only_status_trans)

end

interpretation lifted: status_manager "lift_manager f" for f
  by unfold_locales (auto simp: lift_manager_def split: prod.splits)

lemma pd_pull_only_status:
  assumes "pd_pull_status E cc w = (e, cc', w')"
  shows "only_status cc cc'"
proof -
  have "only_status cc (upd_pd (\<lambda>p. p\<lparr>pd_synced := True, pd_members := pd_members_loop now old hs [],
      pd_leader := l\<rparr>) (cc\<lparr>cc_status := (cc_status cc)\<lparr>stat_cluster_id := i\<rparr>\<rparr>))" for now old hs l i
    by (simp add: only_status_def status_wf_def pd_members_loop_keyed)
  moreover have "only_status cc (upd_pd (\<lambda>p. p\<lparr>pd_synced := b\<rparr>)
      (cc\<lparr>cc_status := (cc_status cc)\<lparr>stat_cluster_id := i\<rparr>\<rparr>))" for b i
    by (simp add: only_status_def status_wf_def)
  ultimately show ?thesis
    using assms by (auto simp: pd_pull_status_def Let_def split: prod.splits sum.splits)
qed

lemma pd_status_only:
  assumes "pd_syncCellClusterStatus E cc s w = (e, cc', w')"
  shows "only_status cc cc'"
  using assms
  by (auto simp: pd_syncCellClusterStatus_def Let_def split: sum.splits dest!: pd_pull_only_status
      intro: only_status_trans [OF only_status_trans [OF only_status_fields(3) only_status_fields(2)]])

lemma pd_upgrade_only:
  "pdUpgrader_Upgrade E cc old new w = (e, cc', new', w') \<Longrightarrow> only_status cc cc'"
  by (drule pdUpgrader_frame) auto

lemma pd_set_only:
  assumes "syncPDStatefulSetForCellCluster E (pdUpgrader_Upgrade E) cc w = (e, cc', w')"
  shows "only_status cc cc'"
  using assms
  by (auto simp: syncPDStatefulSetForCellCluster_def split: sum.splits prod.splits option.splits if_splits
      dest!: pd_status_only dest: pd_upgrade_only intro: only_status_trans)

interpretation pd_writes: status_manager "pdMemberManager_Sync E (pdUpgrader_Upgrade E)" for E
  by unfold_locales (auto simp: pdMemberManager_Sync_def split: prod.splits option.splits dest: pd_set_only)

lemma store_pull_only_status:
  assumes "store_pull_status E cc w = (e, cc', w')"
  shows "only_status cc cc'"
proof -
  have "only_status cc (upd_store (\<lambda>s. s\<lparr>sto_synced := True,
      sto_stores := kv_stores_loop (kv_store_of now old) infos [],
      sto_tombstones := kv_stores_loop (\<lambda>x. x) tombs []\<rparr>) cc)" for now old infos tombs
    by (simp add: only_status_def status_wf_def kv_stores_loop_keyed kv_store_of_id)
  then show ?thesis
    using assms by (auto simp: store_pull_status_def Let_def split: prod.splits sum.splits)
qed

lemma store_status_only:
  assumes "store_syncCellClusterStatus E cc s w = (e, cc', w')"
  shows "only_status cc cc'"
  using assms
  by (auto simp: store_syncCellClusterStatus_def Let_def split: sum.splits dest!: store_pull_only_status
      intro: only_status_trans [OF only_status_trans [OF only_status_fields(6) only_status_fields(5)]])

lemma store_upgrade_only:
  "storeUpgrader_Upgrade E cc old new w = (e, cc', new', w') \<Longrightarrow> only_status cc cc'"
  by (drule storeUpgrader_frame) auto

lemma store_set_only:
  assumes "syncStatefulSetForCellCluster E (storeUpgrader_Upgrade E) scale cc w = (e, cc', w')"
  shows "only_status cc cc'"
  using assms
  by (auto simp: syncStatefulSetForCellCluster_def split: sum.splits prod.splits option.splits if_splits
      dest!: store_status_only dest: store_upgrade_only intro: only_status_trans)

interpretation store_writes: status_manager "storeMemberManager_Sync E (storeUpgrader_Upgrade E) scale" for E scale
  by unfold_locales
    (auto simp: storeMemberManager_Sync_def split: prod.splits option.splits if_splits dest: store_set_only)

lemma proxy_status_only:
  "proxy_syncCellClusterStatus E cc s w = (e, cc') \<Longrightarrow> only_status cc cc'"
  by (auto simp: proxy_syncCellClusterStatus_def Let_def split: sum.splits
      intro: only_status_trans [OF only_status_fields(8) only_status_fields(7)])

lemma proxy_upgrade_only:
  "proxyUpgrader_Upgrade E cc old new w = (e, cc', new', w') \<Longrightarrow> only_status cc cc'"
  by (drule proxyUpgrader_frame) auto

lemma proxy_set_only:
  assumes "syncProxyStatefulSetForCellCluster E (proxyUpgrader_Upgrade E) cc w = (e, cc', w')"
  shows "only_status cc cc'"
  using assms
  by (auto simp: syncProxyStatefulSetForCellCluster_def Let_def split: sum.splits prod.splits option.splits if_splits
      dest!: proxy_status_only dest: proxy_upgrade_only intro: only_status_trans)

interpretation proxy_writes: status_manager "proxyMemberManager_Sync E (proxyUpgrader_Upgrade E)" for E
  by unfold_locales (auto simp: proxyMemberManager_Sync_def split: if_splits dest: proxy_set_only)

section \<open>One round\<close>

lemma updateCellCluster_only_status:
  assumes "updateCellCluster (default_managers E upd) cc w = (e, cc', w')"
  shows "only_status cc cc'"
  using assms unfolding updateCellCluster_def default_managers_def managers.simps
  by (elim lifted.run_first pd_writes.run_first store_writes.run_first proxy_writes.run_first) simp

text \<open>
  C15: a round of the managers writes the status of the cluster and nothing else of it, and keeps
  the status well formed: if the members of PD are keyed by their names, the stores and tombstones
  by their identifiers, and no key is twice in a map before the round, the same holds after it,
  whatever the caches, PD and the API server answer.
\<close>

theorem round_keeps_cluster:
  assumes "UpdateCellCluster (default_managers E upd) cc w = (e, cc', w')"
  shows "cc_meta cc' = cc_meta cc \<and> cc_spec cc' = cc_spec cc \<and>
    (status_wf (cc_status cc) \<longrightarrow> status_wf (cc_status cc'))"
proof -
  obtain x c v where u: "updateCellCluster (default_managers E upd) cc w = (x, c, v)" by (metis prod_cases3)
  then have "cc' = c"
    using assms by (auto simp: UpdateCellCluster_def Let_def split: if_splits prod.splits option.splits)
  with updateCellCluster_only_status [OF u] show ?thesis by (simp add: only_status_def)
qed

theorem round_keeps_cluster_witness:
  "\<exists>e cc' w'. UpdateCellCluster (default_managers (null_env undefined) (\<lambda>c n old w. (None, w))) smp_cc ()
     = (e, cc', w') \<and> cc_spec cc' = cc_spec smp_cc \<and> status_wf (cc_status cc')"
proof -
  obtain e cc' w' where r: "UpdateCellCluster (default_managers (null_env undefined)
      (\<lambda>c n old w. (None, w))) smp_cc () = (e, cc', w')" by (metis prod_cases3)
  have "status_wf (cc_status smp_cc)" by (simp add: status_wf_def)
  with round_keeps_cluster [OF r] r show ?thesis by blast
qed

end
