(* ===== verification/Fake_PD_Client.thy ===== *)
theory Fake_PD_Client
  imports PD_Client
begin

text \<open>
  \<open>FakePDClient\<close> and \<open>FakePDControl\<close> of \<^verbatim>\<open>pkg/controller/pd_control.go\<close>: a PD client whose answers
  are functions that a test adds, one per kind of action.  A reaction returns an
  \<^verbatim>\<open>interface{}\<close>, which the methods assert to be of their type; a failed assertion panics.
\<close>

section \<open>Actions and reactions\<close>

datatype action_type =
    GetHealthActionType | GetConfigActionType | GetClusterActionType | GetMembersActionType
  | GetStoresActionType | GetTombStoneStoresActionType | GetStoreActionType | DeleteStoreActionType
  | DeleteMemberByIDActionType | DeleteMemberActionType | SetStoreLabelsActionType
  | BeginEvictLeaderActionType | EndEvictLeaderActionType | GetEvictLeaderSchedulersActionType
  | GetPDLeaderActionType | TransferPDLeaderActionType

fun action_name :: "action_type \<Rightarrow> string" where
  "action_name GetHealthActionType = ''GetHealth''"
| "action_name GetConfigActionType = ''GetConfig''"
| "action_name GetClusterActionType = ''GetCluster''"
| "action_name GetMembersActionType = ''GetMembers''"
| "action_name GetStoresActionType = ''GetStores''"
| "action_name GetTombStoneStoresActionType = ''GetTombStoneStores''"
| "action_name GetStoreActionType = ''GetStore''"
| "action_name DeleteStoreActionType = ''DeleteStore''"
| "action_name DeleteMemberByIDActionType = ''DeleteMemberByID''"
| "action_name DeleteMemberActionType = ''DeleteMember ''"
| "action_name SetStoreLabelsActionType = ''SetStoreLabels''"
| "action_name BeginEvictLeaderActionType = ''BeginEvictLeader''"
| "action_name EndEvictLeaderActionType = ''EndEvictLeader''"
| "action_name GetEvictLeaderSchedulersActionType = ''GetEvictLeaderSchedulers''"
| "action_name GetPDLeaderActionType = ''GetPDLeader''"
| "action_name TransferPDLeaderActionType = ''TransferPDLeader''"

record pd_action =
  pa_id :: nat
  pa_name :: string
  pa_labels :: strmap

definition action0 :: pd_action where
  "action0 = \<lparr>pa_id = 0, pa_name = [], pa_labels = None\<rparr>"

definition action_on :: "nat \<Rightarrow> pd_action" where
  "action_on i = action0\<lparr>pa_id := i\<rparr>"

definition action_named :: "string \<Rightarrow> pd_action" where
  "action_named name = action0\<lparr>pa_name := name\<rparr>"

datatype reaction_result =
    HealthResult "member_health list"
  | MembersResult members_info
  | StoresResult stores_info
  | StoreResult "store_info option"
  | LeaderResult "pd_peer option"
  | StringsResult "string list"
  | BoolResult bool
  | NilResult

type_synonym reaction = "pd_action \<Rightarrow> reaction_result \<times> goerr option"
type_synonym fake_pd = "action_type \<Rightarrow> reaction option"

definition NewFakePDClient :: fake_pd where
  "NewFakePDClient = (\<lambda>_. None)"

definition AddReaction :: "action_type \<Rightarrow> reaction \<Rightarrow> fake_pd \<Rightarrow> fake_pd" where
  "AddReaction actionType reaction pc = pc(actionType \<mapsto> reaction)"

definition NotFoundReaction :: "action_type \<Rightarrow> goerr" where
  "NotFoundReaction actionType =
     OtherError (''not found '' @ action_name actionType @ '' reaction. Please add the reaction'')"

definition bad_assertion :: goerr where
  "bad_assertion = PanicError ''interface conversion''"

section \<open>The client\<close>

definition fakeAPI :: "fake_pd \<Rightarrow> action_type \<Rightarrow> pd_action \<Rightarrow> goerr + reaction_result" where
  "fakeAPI pc actionType action =
     (case pc actionType of
        Some reaction \<Rightarrow> (case reaction action of (_, Some err) \<Rightarrow> Inl err | (result, None) \<Rightarrow> Inr result)
      | None \<Rightarrow> Inl (NotFoundReaction actionType))"

definition fake_GetHealth :: "fake_pd \<Rightarrow> goerr + member_health list" where
  "fake_GetHealth pc =
     (case fakeAPI pc GetHealthActionType action0 of
        Inl err \<Rightarrow> Inl err
      | Inr (HealthResult h) \<Rightarrow> Inr h
      | Inr _ \<Rightarrow> Inl bad_assertion)"

definition fake_GetConfig :: "fake_pd \<Rightarrow> goerr + int" where
  "fake_GetConfig pc =
     (case fakeAPI pc GetConfigActionType action0 of
        Inl err \<Rightarrow> Inl err
      | Inr _ \<Rightarrow> Inr MaxStoreDownTimeDuration)"

definition fake_GetCluster :: "fake_pd \<Rightarrow> goerr + string" where
  "fake_GetCluster pc =
     (case fakeAPI pc GetClusterActionType action0 of
        Inl err \<Rightarrow> Inl err
      | Inr _ \<Rightarrow> Inr ''elasticell-cluster-demo'')"

definition fake_GetMembers :: "fake_pd \<Rightarrow> goerr + members_info" where
  "fake_GetMembers pc =
     (case fakeAPI pc GetMembersActionType action0 of
        Inl err \<Rightarrow> Inl err
      | Inr (MembersResult m) \<Rightarrow> Inr m
      | Inr _ \<Rightarrow> Inl bad_assertion)"

definition fake_GetStores :: "fake_pd \<Rightarrow> goerr + stores_info" where
  "fake_GetStores pc =
     (case fakeAPI pc GetStoresActionType action0 of
        Inl err \<Rightarrow> Inl err
      | Inr (StoresResult s) \<Rightarrow> Inr s
      | Inr _ \<Rightarrow> Inl bad_assertion)"

definition fake_GetTombStoneStores :: "fake_pd \<Rightarrow> goerr + stores_info" where
  "fake_GetTombStoneStores pc =
     (case fakeAPI pc GetTombStoneStoresActionType action0 of
        Inl err \<Rightarrow> Inl err
      | Inr (StoresResult s) \<Rightarrow> Inr s
      | Inr _ \<Rightarrow> Inl bad_assertion)"

definition fake_GetStore :: "fake_pd \<Rightarrow> nat \<Rightarrow> goerr + store_info option" where
  "fake_GetStore pc i =
     (case fakeAPI pc GetStoreActionType (action_on i) of
        Inl err \<Rightarrow> Inl err
      | Inr (StoreResult s) \<Rightarrow> Inr s
      | Inr _ \<Rightarrow> Inl bad_assertion)"

text \<open>The other methods succeed when no reaction was added, and drop what it returned.\<close>

definition react :: "fake_pd \<Rightarrow> action_type \<Rightarrow> pd_action \<Rightarrow> goerr option" where
  "react pc actionType action =
     (case pc actionType of Some reaction \<Rightarrow> snd (reaction action) | None \<Rightarrow> None)"

definition fake_DeleteStore :: "fake_pd \<Rightarrow> nat \<Rightarrow> goerr option" where
  "fake_DeleteStore pc i = react pc DeleteStoreActionType (action_on i)"

definition fake_DeleteMemberByID :: "fake_pd \<Rightarrow> nat \<Rightarrow> goerr option" where
  "fake_DeleteMemberByID pc i = react pc DeleteMemberByIDActionType (action_on i)"

definition fake_DeleteMember :: "fake_pd \<Rightarrow> string \<Rightarrow> goerr option" where
  "fake_DeleteMember pc name = react pc DeleteMemberActionType (action_named name)"

definition fake_BeginEvictLeader :: "fake_pd \<Rightarrow> nat \<Rightarrow> goerr option" where
  "fake_BeginEvictLeader pc i = react pc BeginEvictLeaderActionType (action_on i)"

definition fake_EndEvictLeader :: "fake_pd \<Rightarrow> nat \<Rightarrow> goerr option" where
  "fake_EndEvictLeader pc i = react pc EndEvictLeaderActionType (action_on i)"

definition fake_TransferPDLeader :: "fake_pd \<Rightarrow> string \<Rightarrow> goerr option" where
  "fake_TransferPDLeader pc memberName = react pc TransferPDLeaderActionType (action_named memberName)"

text \<open>A result and an error together: the result is asserted whatever the error is.\<close>

definition with_error :: "goerr option \<Rightarrow> 'a \<Rightarrow> goerr + 'a" where
  "with_error err x = (case err of Some e \<Rightarrow> Inl e | None \<Rightarrow> Inr x)"

definition fake_SetStoreLabels :: "fake_pd \<Rightarrow> nat \<Rightarrow> strmap \<Rightarrow> goerr + bool" where
  "fake_SetStoreLabels pc storeID labels =
     (case pc SetStoreLabelsActionType of
        Some reaction \<Rightarrow>
          (case reaction ((action_on storeID)\<lparr>pa_labels := labels\<rparr>) of
             (BoolResult b, err) \<Rightarrow> with_error err b
           | _ \<Rightarrow> Inl bad_assertion)
      | None \<Rightarrow> Inr True)"

definition fake_GetEvictLeaderSchedulers :: "fake_pd \<Rightarrow> goerr + string list" where
  "fake_GetEvictLeaderSchedulers pc =
     (case pc GetEvictLeaderSchedulersActionType of
        Some reaction \<Rightarrow>
          (case reaction action0 of
             (StringsResult xs, err) \<Rightarrow> with_error err xs
           | _ \<Rightarrow> Inl bad_assertion)
      | None \<Rightarrow> Inr [])"

definition fake_GetPDLeader :: "fake_pd \<Rightarrow> goerr + pd_peer option" where
  "fake_GetPDLeader pc =
     (case pc GetPDLeaderActionType of
        Some reaction \<Rightarrow>
          (case reaction action0 of
             (LeaderResult m, err) \<Rightarrow> with_error err m
           | _ \<Rightarrow> Inl bad_assertion)
      | None \<Rightarrow> Inr None)"

section \<open>Lemmas\<close>

lemma NewFakePDClient_answers [simp]:
  "fake_GetHealth NewFakePDClient = Inl (NotFoundReaction GetHealthActionType)"
  "fake_GetStores NewFakePDClient = Inl (NotFoundReaction GetStoresActionType)"
  "fake_GetCluster NewFakePDClient = Inl (NotFoundReaction GetClusterActionType)"
  "react NewFakePDClient t a = None" "fake_GetPDLeader NewFakePDClient = Inr None"
  by (simp_all add: fake_GetHealth_def fake_GetStores_def fake_GetCluster_def fakeAPI_def react_def
      fake_GetPDLeader_def NewFakePDClient_def)

lemma AddReaction_other [simp]:
  "AddReaction t r pc u = (if u = t then Some r else pc u)"
  by (simp add: AddReaction_def)

end
