(* ===== verification/Fake_Controls.thy ===== *)
theory Fake_Controls
  imports Fake_PD_Client
begin

text \<open>
  The in-memory control interfaces that \<^verbatim>\<open>pkg/controller\<close> ships beside the real
  ones: \<open>FakePodControl\<close>, \<open>FakePVCControl\<close>, \<open>FakePVControl\<close>, \<open>FakeStatefulSetControl\<close>,
  \<open>FakeServiceControl\<close> and \<open>requestTracker\<close>.  Together with \<open>FakePDClient\<close> they are one concrete
  environment \<open>fake_env\<close>, on which the interfaces of the managers are interpreted and the
  properties are evaluated.
\<close>

section \<open>requestTracker\<close>

record tracker =
  tk_requests :: int
  tk_err :: "goerr option"
  tk_after :: int

definition tracker0 :: tracker where
  "tracker0 = \<lparr>tk_requests = 0, tk_err = None, tk_after = 0\<rparr>"

definition errorReady :: "tracker \<Rightarrow> bool" where
  "errorReady t \<longleftrightarrow> tk_err t \<noteq> None \<and> tk_requests t \<ge> tk_after t"

definition tracker_inc :: "tracker \<Rightarrow> tracker" where
  "tracker_inc t = t\<lparr>tk_requests := tk_requests t + 1\<rparr>"

definition tracker_reset :: "tracker \<Rightarrow> tracker" where
  "tracker_reset t = t\<lparr>tk_err := None, tk_after := 0\<rparr>"

definition tracker_set :: "goerr option \<Rightarrow> int \<Rightarrow> tracker \<Rightarrow> tracker" where
  "tracker_set err after t = t\<lparr>tk_err := err, tk_after := after\<rparr>"

text \<open>The head of every fake operation: \<open>inc\<close> and, on an error, \<open>reset\<close> run when it returns.\<close>

definition track :: "tracker \<Rightarrow> goerr option \<times> tracker" where
  "track t = (if errorReady t then (tk_err t, tracker_inc (tracker_reset t)) else (None, tracker_inc t))"

lemma track_error_once: "track t = (Some e, t') \<Longrightarrow> fst (track t') = None"
  by (auto simp: track_def errorReady_def tracker_inc_def tracker_reset_def split: if_splits)

lemma track_tracker0 [simp]: "fst (track tracker0) = None"
  by (simp add: track_def errorReady_def tracker0_def)

section \<open>The world of the fakes\<close>

text \<open>The indexers, keyed by namespace and name; the trackers, one per kind of request; and
  the reactions of the fake PD client.\<close>

type_synonym 'o indexer = "(string \<times> string, 'o) gomap"

record fake_trackers =
  tr_create_set :: tracker
  tr_update_set :: tracker
  tr_create_svc :: tracker
  tr_update_svc :: tracker
  tr_update_pod :: tracker
  tr_delete_pod :: tracker
  tr_get_cluster :: tracker
  tr_get_member :: tracker
  tr_get_store :: tracker
  tr_update_pvc :: tracker
  tr_delete_pvc :: tracker
  tr_update_pv :: tracker

record fake_world =
  fw_sets :: "sset indexer"
  fw_svcs :: "service indexer"
  fw_pods :: "pod indexer"
  fw_pvcs :: "pvc indexer"
  fw_pvs :: "(string, pv) gomap"
  fw_nodes :: "(string, node) gomap"
  fw_trackers :: fake_trackers
  fw_status_change :: "(sset \<Rightarrow> sset) option"
  fw_pd :: fake_pd
  fw_now :: time

section \<open>Indexers\<close>

definition idx_get :: "'o indexer \<Rightarrow> string \<Rightarrow> string \<Rightarrow> goerr + 'o" where
  "idx_get idx ns n =
     (case map_of idx (ns, n) of None \<Rightarrow> Inl (NotFoundError n) | Some x \<Rightarrow> Inr x)"

definition idx_list :: "('o \<Rightarrow> objmeta) \<Rightarrow> 'o indexer \<Rightarrow> string \<Rightarrow> label \<Rightarrow> 'o list" where
  "idx_list meta idx ns sel =
     filter (\<lambda>x. m_ns (meta x) = ns \<and> selects sel (m_labels (meta x))) (map snd idx)"

definition idx_put :: "('o \<Rightarrow> objmeta) \<Rightarrow> 'o \<Rightarrow> 'o indexer \<Rightarrow> 'o indexer" where
  "idx_put meta x idx = gput (meta_pair (meta x)) x idx"

definition idx_del :: "('o \<Rightarrow> objmeta) \<Rightarrow> 'o \<Rightarrow> 'o indexer \<Rightarrow> 'o indexer" where
  "idx_del meta x idx = AList.delete (meta_pair (meta x)) idx"

lemma idx_get_put:
  "idx_get (idx_put meta x idx) ns n =
     (if meta_pair (meta x) = (ns, n) then Inr x else idx_get idx ns n)"
  by (auto simp: idx_get_def idx_put_def)

lemma idx_get_del:
  "idx_get (idx_del meta x idx) ns n =
     (if meta_pair (meta x) = (ns, n) then Inl (NotFoundError n) else idx_get idx ns n)"
  by (auto simp: idx_get_def idx_del_def delete_conv')

section \<open>Stateful sets and services\<close>

abbreviation on_trackers :: "(fake_trackers \<Rightarrow> fake_trackers) \<Rightarrow> fake_world \<Rightarrow> fake_world" where
  "on_trackers f w \<equiv> w\<lparr>fw_trackers := f (fw_trackers w)\<rparr>"

text \<open>An operation guarded by a tracker: its error, or the effect on the indexer.\<close>

definition guarded ::
  "(fake_trackers \<Rightarrow> tracker) \<Rightarrow> (tracker \<Rightarrow> fake_trackers \<Rightarrow> fake_trackers) \<Rightarrow>
    (fake_world \<Rightarrow> fake_world) \<Rightarrow> fake_world \<Rightarrow> goerr option \<times> fake_world" where
  "guarded sel upd effect w =
     (case track (sel (fw_trackers w)) of
        (Some e, t) \<Rightarrow> (Some e, on_trackers (upd t) w)
      | (None, t) \<Rightarrow> (None, on_trackers (upd t) (effect w)))"

text \<open>\<open>statusChange\<close> runs once on the set that is written, and is dropped even after an error.\<close>

definition SetStatusChange :: "(sset \<Rightarrow> sset) \<Rightarrow> fake_world \<Rightarrow> fake_world" where
  "SetStatusChange fn w = w\<lparr>fw_status_change := Some fn\<rparr>"

definition write_set :: "sset \<Rightarrow> fake_world \<Rightarrow> fake_world" where
  "write_set sts w =
     w\<lparr>fw_sets := idx_put s_meta (case fw_status_change w of Some fn \<Rightarrow> fn sts | None \<Rightarrow> sts) (fw_sets w)\<rparr>"

definition drop_status_change :: "goerr option \<times> fake_world \<Rightarrow> goerr option \<times> fake_world" where
  "drop_status_change r = (fst r, (snd r)\<lparr>fw_status_change := None\<rparr>)"

definition fake_CreateStatefulSet :: "cellcluster \<Rightarrow> sset \<Rightarrow> fake_world \<Rightarrow> goerr option \<times> fake_world" where
  "fake_CreateStatefulSet cc sts w =
     drop_status_change
       (guarded tr_create_set (\<lambda>t f. f\<lparr>tr_create_set := t\<rparr>) (write_set sts) w)"

definition fake_UpdateStatefulSet :: "cellcluster \<Rightarrow> sset \<Rightarrow> fake_world \<Rightarrow> goerr option \<times> fake_world" where
  "fake_UpdateStatefulSet cc sts w =
     drop_status_change
       (guarded tr_update_set (\<lambda>t f. f\<lparr>tr_update_set := t\<rparr>) (write_set sts) w)"

definition fake_DeleteStatefulSet :: "cellcluster \<Rightarrow> sset \<Rightarrow> fake_world \<Rightarrow> goerr option \<times> fake_world" where
  "fake_DeleteStatefulSet cc sts w = (None, w)"

definition fake_CreateService :: "cellcluster \<Rightarrow> service \<Rightarrow> fake_world \<Rightarrow> goerr option \<times> fake_world" where
  "fake_CreateService cc svc =
     guarded tr_create_svc (\<lambda>t f. f\<lparr>tr_create_svc := t\<rparr>)
       (\<lambda>w. w\<lparr>fw_svcs := idx_put svc_meta svc (fw_svcs w)\<rparr>)"

definition fake_UpdateService :: "cellcluster \<Rightarrow> service \<Rightarrow> fake_world \<Rightarrow> goerr option \<times> fake_world" where
  "fake_UpdateService cc svc =
     guarded tr_update_svc (\<lambda>t f. f\<lparr>tr_update_svc := t\<rparr>)
       (\<lambda>w. w\<lparr>fw_svcs := idx_put svc_meta svc (fw_svcs w)\<rparr>)"

definition fake_DeleteService :: "cellcluster \<Rightarrow> service \<Rightarrow> fake_world \<Rightarrow> goerr option \<times> fake_world" where
  "fake_DeleteService cc svc w = (None, w)"

section \<open>Pods\<close>

definition fake_UpdatePod :: "cellcluster \<Rightarrow> pod \<Rightarrow> fake_world \<Rightarrow> goerr option \<times> fake_world" where
  "fake_UpdatePod cc pod =
     guarded tr_update_pod (\<lambda>t f. f\<lparr>tr_update_pod := t\<rparr>)
       (\<lambda>w. w\<lparr>fw_pods := idx_put p_meta pod (fw_pods w)\<rparr>)"

definition fake_DeletePod :: "cellcluster \<Rightarrow> pod \<Rightarrow> fake_world \<Rightarrow> goerr option \<times> fake_world" where
  "fake_DeletePod cc pod =
     guarded tr_delete_pod (\<lambda>t f. f\<lparr>tr_delete_pod := t\<rparr>)
       (\<lambda>w. w\<lparr>fw_pods := idx_del p_meta pod (fw_pods w)\<rparr>)"

definition fake_pod_labels :: "strmap \<Rightarrow> strmap" where
  "fake_pod_labels l =
     setIfNotEmpty StoreIDLabelKey ''000'' (setIfNotEmpty MemberIDLabelKey ''111''
       (setIfNotEmpty ClusterIDLabelKey ''222'' (setIfNotEmpty InstanceLabelKey ''test''
         (setIfNotEmpty ManagedByLabelKey ''cell-operator'' (setIfNotEmpty ComponentLabelKey ''store''
           (setIfNotEmpty NameLabelKey ''cell-cluster'' l))))))"

text \<open>Four trackers are asked one after the other; storing into nil labels panics.\<close>

definition fake_pod_UpdateMetaInfo ::
  "cellcluster \<Rightarrow> pod \<Rightarrow> fake_world \<Rightarrow> goerr option \<times> pod \<times> fake_world" where
  "fake_pod_UpdateMetaInfo cc pod w =
     (case guarded tr_update_pod (\<lambda>t f. f\<lparr>tr_update_pod := t\<rparr>) (\<lambda>w. w) w of
        (Some e, w1) \<Rightarrow> (Some e, pod, w1)
      | (None, w1) \<Rightarrow>
          (case guarded tr_get_cluster (\<lambda>t f. f\<lparr>tr_get_cluster := t\<rparr>) (\<lambda>w. w) w1 of
             (Some e, w2) \<Rightarrow> (Some e, pod, w2)
           | (None, w2) \<Rightarrow>
               (case guarded tr_get_member (\<lambda>t f. f\<lparr>tr_get_member := t\<rparr>) (\<lambda>w. w) w2 of
                  (Some e, w3) \<Rightarrow> (Some e, pod, w3)
                | (None, w3) \<Rightarrow>
                    (case guarded tr_get_store (\<lambda>t f. f\<lparr>tr_get_store := t\<rparr>) (\<lambda>w. w) w3 of
                       (Some e, w4) \<Rightarrow> (Some e, pod, w4)
                     | (None, w4) \<Rightarrow>
                         if p_labels pod = None then (Some (PanicError ''assignment to nil map''), pod, w4)
                         else let pod' = set_p_labels (fake_pod_labels (p_labels pod)) pod
                              in (None, pod', w4\<lparr>fw_pods := idx_put p_meta pod' (fw_pods w4)\<rparr>)))))"

section \<open>Claims and volumes\<close>

definition fake_UpdatePVC :: "cellcluster \<Rightarrow> pvc \<Rightarrow> fake_world \<Rightarrow> goerr option \<times> fake_world" where
  "fake_UpdatePVC cc pvc =
     guarded tr_update_pvc (\<lambda>t f. f\<lparr>tr_update_pvc := t\<rparr>)
       (\<lambda>w. w\<lparr>fw_pvcs := idx_put pvc_meta pvc (fw_pvcs w)\<rparr>)"

definition fake_DeletePVC :: "cellcluster \<Rightarrow> pvc \<Rightarrow> fake_world \<Rightarrow> goerr option \<times> fake_world" where
  "fake_DeletePVC cc pvc =
     guarded tr_delete_pvc (\<lambda>t f. f\<lparr>tr_delete_pvc := t\<rparr>)
       (\<lambda>w. w\<lparr>fw_pvcs := idx_del pvc_meta pvc (fw_pvcs w)\<rparr>)"

definition nil_to_empty :: "strmap \<Rightarrow> strmap" where
  "nil_to_empty m = (case m of None \<Rightarrow> Some Map.empty | Some f \<Rightarrow> Some f)"

definition fake_ids :: "strmap \<Rightarrow> strmap \<Rightarrow> strmap" where
  "fake_ids from l =
     setIfNotEmpty StoreIDLabelKey (mval from StoreIDLabelKey)
       (setIfNotEmpty MemberIDLabelKey (mval from MemberIDLabelKey)
         (setIfNotEmpty ClusterIDLabelKey (mval from ClusterIDLabelKey) l))"

definition fake_pvc_UpdateMetaInfo ::
  "cellcluster \<Rightarrow> pvc \<Rightarrow> pod \<Rightarrow> fake_world \<Rightarrow> goerr option \<times> pvc \<times> fake_world" where
  "fake_pvc_UpdateMetaInfo cc pvc pod w =
     (let pvc' = pvc\<lparr>pvc_meta := (pvc_meta pvc)
            \<lparr>m_labels := fake_ids (p_labels pod) (nil_to_empty (m_labels (pvc_meta pvc))),
             m_ann := setIfNotEmpty AnnPodNameKey (p_name pod)
                        (nil_to_empty (m_ann (pvc_meta pvc)))\<rparr>\<rparr>
      in case guarded tr_update_pvc (\<lambda>t f. f\<lparr>tr_update_pvc := t\<rparr>)
                (\<lambda>w. w\<lparr>fw_pvcs := idx_put pvc_meta pvc' (fw_pvcs w)\<rparr>) w of
           (Some e, w1) \<Rightarrow> (Some e, pvc, w1)
         | (None, w1) \<Rightarrow> (None, pvc', w1))"

definition fake_PatchPVReclaimPolicy ::
  "cellcluster \<Rightarrow> pv \<Rightarrow> string \<Rightarrow> fake_world \<Rightarrow> goerr option \<times> fake_world" where
  "fake_PatchPVReclaimPolicy cc pv policy =
     guarded tr_update_pv (\<lambda>t f. f\<lparr>tr_update_pv := t\<rparr>)
       (\<lambda>w. w\<lparr>fw_pvs := gput (m_name (pv_meta pv)) (pv\<lparr>pv_reclaim := policy\<rparr>) (fw_pvs w)\<rparr>)"

definition fake_pv_sync :: "string \<Rightarrow> pvc \<Rightarrow> pv \<Rightarrow> pv" where
  "fake_pv_sync ns pvc pv =
     (let from = m_labels (pvc_meta pvc);
          l1 = mput NamespaceLabelKey ns (m_labels (pv_meta pv));
          l2 = mput NameLabelKey (mval from NameLabelKey) l1;
          l3 = mput ManagedByLabelKey (mval from ManagedByLabelKey) l2;
          l4 = mput InstanceLabelKey (mval from InstanceLabelKey) l3;
          l5 = mput ComponentLabelKey (mval from ComponentLabelKey) l4
      in pv\<lparr>pv_meta := (pv_meta pv)
           \<lparr>m_labels := fake_ids from l5,
            m_ann := setIfNotEmpty AnnPodNameKey (mval (m_ann (pvc_meta pvc)) AnnPodNameKey)
                       (nil_to_empty (m_ann (pv_meta pv)))\<rparr>\<rparr>)"

definition fake_pv_UpdateMetaInfo :: "cellcluster \<Rightarrow> pv \<Rightarrow> fake_world \<Rightarrow> goerr option \<times> fake_world" where
  "fake_pv_UpdateMetaInfo cc pv w =
     (case guarded tr_update_pv (\<lambda>t f. f\<lparr>tr_update_pv := t\<rparr>) (\<lambda>w. w) w of
        (Some e, w1) \<Rightarrow> (Some e, w1)
      | (None, w1) \<Rightarrow>
          (case pv_claim_ref pv of
             None \<Rightarrow> (Some (PanicError ''nil ClaimRef''), w1)
           | Some name \<Rightarrow>
               (case idx_get (fw_pvcs w1) (cc_ns cc) name of
                  Inl e \<Rightarrow> (Some e, w1)
                | Inr pvc \<Rightarrow>
                    let pv' = fake_pv_sync (cc_ns cc) pvc pv
                    in (None, w1\<lparr>fw_pvs := gput (m_name (pv_meta pv)) pv' (fw_pvs w1)\<rparr>))))"

section \<open>The environment\<close>

definition fake_env ::
  "codec \<Rightarrow> qlib \<Rightarrow> (time \<Rightarrow> string) \<Rightarrow> (string \<Rightarrow> time option) \<Rightarrow> string \<Rightarrow> fake_world env" where
  "fake_env J Q fmt parse class =
     \<lparr>l_set = \<lambda>w. idx_get (fw_sets w), l_svc = \<lambda>w. idx_get (fw_svcs w),
      l_pod = \<lambda>w. idx_get (fw_pods w),
      l_pods = \<lambda>w ns sel. Inr (idx_list p_meta (fw_pods w) ns sel),
      l_pvc = \<lambda>w. idx_get (fw_pvcs w),
      l_pvcs = \<lambda>w ns sel. Inr (idx_list pvc_meta (fw_pvcs w) ns sel),
      l_pv = \<lambda>w n. (case map_of (fw_pvs w) n of None \<Rightarrow> Inl (NotFoundError n) | Some x \<Rightarrow> Inr x),
      l_node = \<lambda>w n. (case map_of (fw_nodes w) n of None \<Rightarrow> Inl (NotFoundError n) | Some x \<Rightarrow> Inr x),
      t_set = \<lambda>s w. w\<lparr>fw_sets := idx_put s_meta s (fw_sets w)\<rparr>,
      t_svc = \<lambda>s w. w\<lparr>fw_svcs := idx_put svc_meta s (fw_svcs w)\<rparr>,
      t_pod = \<lambda>p w. w\<lparr>fw_pods := idx_put p_meta p (fw_pods w)\<rparr>,
      t_pvc = \<lambda>p w. w\<lparr>fw_pvcs := idx_put pvc_meta p (fw_pvcs w)\<rparr>,
      k_create_set = fake_CreateStatefulSet, k_update_set = fake_UpdateStatefulSet,
      k_create_svc = fake_CreateService, k_update_svc = fake_UpdateService,
      k_update_pod = fake_UpdatePod, k_delete_pod = fake_DeletePod,
      k_pod_meta = fake_pod_UpdateMetaInfo,
      k_update_pvc = fake_UpdatePVC, k_delete_pvc = fake_DeletePVC,
      k_pvc_meta = fake_pvc_UpdateMetaInfo, k_pv_meta = fake_pv_UpdateMetaInfo,
      k_patch_reclaim = fake_PatchPVReclaimPolicy,
      c_cluster = \<lambda>cc w. (fake_GetCluster (fw_pd w), w),
      c_health = \<lambda>cc w. (fake_GetHealth (fw_pd w), w),
      c_leader = \<lambda>cc w. (fake_GetPDLeader (fw_pd w), w),
      c_stores = \<lambda>cc w. (fake_GetStores (fw_pd w), w),
      c_tombstones = \<lambda>cc w. (fake_GetTombStoneStores (fw_pd w), w),
      c_config = \<lambda>cc w. (fake_GetConfig (fw_pd w), w),
      c_begin_evict = \<lambda>cc i w. (fake_BeginEvictLeader (fw_pd w) i, w),
      c_end_evict = \<lambda>cc i w. (fake_EndEvictLeader (fw_pd w) i, w),
      c_delete_store = \<lambda>cc i w. (fake_DeleteStore (fw_pd w) i, w),
      c_set_labels = \<lambda>cc i l w. (fake_SetStoreLabels (fw_pd w) i (Some l), w),
      e_now = fw_now, e_fmt = fmt, e_parse = parse, e_codec = J, e_q = Q, e_default_class = class\<rparr>"

lemmas fake_ops =
  fake_CreateStatefulSet_def fake_UpdateStatefulSet_def fake_CreateService_def
  fake_UpdateService_def fake_UpdatePod_def fake_DeletePod_def fake_UpdatePVC_def
  fake_DeletePVC_def guarded_def write_set_def drop_status_change_def

section \<open>The caches of the fakes are object caches\<close>

interpretation fake_sets:
  object_cache "l_set (fake_env J Q fmt parse class)" "t_set (fake_env J Q fmt parse class)"
    "\<lambda>s. meta_pair (s_meta s)"
  for J Q fmt parse "class"
  by unfold_locales (simp_all add: fake_env_def idx_get_put)

interpretation fake_svcs:
  object_cache "l_svc (fake_env J Q fmt parse class)" "t_svc (fake_env J Q fmt parse class)"
    "\<lambda>s. meta_pair (svc_meta s)"
  for J Q fmt parse "class"
  by unfold_locales (simp_all add: fake_env_def idx_get_put)

interpretation fake_pods:
  object_cache "l_pod (fake_env J Q fmt parse class)" "t_pod (fake_env J Q fmt parse class)"
    "\<lambda>p. meta_pair (p_meta p)"
  for J Q fmt parse "class"
  by unfold_locales (simp_all add: fake_env_def idx_get_put)

interpretation fake_pvcs:
  object_cache "l_pvc (fake_env J Q fmt parse class)" "t_pvc (fake_env J Q fmt parse class)"
    "\<lambda>p. meta_pair (pvc_meta p)"
  for J Q fmt parse "class"
  by unfold_locales (simp_all add: fake_env_def idx_get_put)

end
