(* ===== verification/Cluster_Properties.thy ===== *)
theory Cluster_Properties
  imports Cluster_Control Fake_Controls Samples
begin

text \<open>
  What the control loop does: a status that was accepted is the one that was passed, the work
  queue serves a cluster to one worker at a time and tries a failed sync again, and the update
  of a StatefulSet that failed is not tried again, because the lister's object was written.
\<close>

section \<open>Status\<close>

text \<open>
  A status update that succeeds has delivered the status.  The cluster the API server
  accepted carries the status of the cluster that was passed in, also when it was built from
  the lister's copy after a conflict.
\<close>

lemma cluster_status_delivered:
  assumes "realCellClusterControl_UpdateCellCluster X cc newS oldS w = (None, w')"
  shows "\<exists>sent v z w1. x_cc_update X (cc_ns cc) sent v = (Inr z, w1) \<and> cc_status sent = cc_status cc"
proof -
  obtain y w1 where u: "update_with_retry default_retry_steps (x_cc_update X (cc_ns cc))
      (x_cc_get X (cc_ns cc) (cc_name cc)) (\<lambda>cur. cur\<lparr>cc_status := cc_status cc\<rparr>) cc w = (None, y, w1)"
    using assms by (auto simp: realCellClusterControl_UpdateCellCluster_def Let_def split: prod.splits)
  have "cc_status y = cc_status cc \<and> (\<exists>v z. x_cc_update X (cc_ns cc) y v = (Inr z, w1))"
    by (rule update_with_retry_sent [OF u]) (simp_all add: default_retry_steps_def)
  then show ?thesis by blast
qed

section \<open>The work queue\<close>

text \<open>
  The queue under any number of workers: keys are added, taken, finished with or without an
  error, and come back when their backoff is over.
\<close>

inductive ctl_step :: "queue \<Rightarrow> queue \<Rightarrow> bool" where
  ctl_add: "ctl_step q (q_Add k q)"
| ctl_get: "q_Get q = Some (k, q') \<Longrightarrow> ctl_step q q'"
| ctl_ok: "k \<in> set (wq_processing q) \<Longrightarrow> ctl_step q (q_Done k (q_Forget k q))"
| ctl_fail: "k \<in> set (wq_processing q) \<Longrightarrow> ctl_step q (q_Done k (q_AddRateLimited k q))"
| ctl_fire: "k \<in> set (wq_delayed q) \<Longrightarrow>
    ctl_step q (q_Add k (q\<lparr>wq_delayed := remove1 k (wq_delayed q)\<rparr>))"

definition queue0 :: queue where
  "queue0 = \<lparr>wq_waiting = [], wq_processing = [], wq_dirty = [], wq_delayed = [], wq_failures = \<lambda>_. 0\<rparr>"

inductive ctl_reach :: "queue \<Rightarrow> bool" where
  ctl_start: "ctl_reach queue0"
| ctl_more: "ctl_reach q \<Longrightarrow> ctl_step q q' \<Longrightarrow> ctl_reach q'"

definition queue_ok :: "queue \<Rightarrow> bool" where
  "queue_ok q \<longleftrightarrow> distinct (wq_waiting q) \<and> distinct (wq_processing q) \<and> distinct (wq_dirty q) \<and>
     set (wq_waiting q) = set (wq_dirty q) - set (wq_processing q)"

lemma queue_ok_Add: "queue_ok q \<Longrightarrow> queue_ok (q_Add k q)"
  by (auto simp: queue_ok_def q_Add_def)

lemma queue_ok_Get: "queue_ok q \<Longrightarrow> q_Get q = Some (k, q') \<Longrightarrow> queue_ok q'"
  by (auto simp: queue_ok_def q_Get_def split: list.splits)

lemma queue_ok_Done: "queue_ok q \<Longrightarrow> k \<in> set (wq_processing q) \<Longrightarrow> queue_ok (q_Done k q)"
  by (auto simp: queue_ok_def q_Done_def Let_def)

lemma queue_ok_irrelevant:
  "queue_ok (q_Forget k q) = queue_ok q" "queue_ok (q_AddRateLimited k q) = queue_ok q"
  "queue_ok (q\<lparr>wq_delayed := d\<rparr>) = queue_ok q"
  "wq_processing (q_Forget k q) = wq_processing q" "wq_processing (q_AddRateLimited k q) = wq_processing q"
  by (simp_all add: queue_ok_def q_Forget_def q_AddRateLimited_def)

lemma ctl_step_ok: "ctl_step q q' \<Longrightarrow> queue_ok q \<Longrightarrow> queue_ok q'"
  by (induction rule: ctl_step.induct)
    (auto simp: queue_ok_Add queue_ok_Get queue_ok_Done queue_ok_irrelevant)

lemma ctl_reach_ok: "ctl_reach q \<Longrightarrow> queue_ok q"
proof (induction rule: ctl_reach.induct)
  case ctl_start
  show ?case by (simp add: queue_ok_def queue0_def)
qed (rule ctl_step_ok)

text \<open>
  C13: a cluster is synced by one worker at a time and no request to sync it is lost.  In every
  reachable state of the queue no key is processed twice or waits while it is processed; and a
  key that is added waits, or is being processed and will wait again once that is done.
\<close>

theorem controller_queue_safe:
  assumes "ctl_reach q"
  shows "distinct (wq_processing q) \<and> set (wq_waiting q) \<inter> set (wq_processing q) = {} \<and>
    (let a = q_Add k q in k \<in> set (wq_waiting a) \<or>
       (k \<in> set (wq_processing a) \<and> k \<in> set (wq_waiting (q_Done k a))))"
  using ctl_reach_ok [OF assms] by (auto simp: queue_ok_def q_Add_def q_Done_def Let_def)

theorem controller_queue_safe_witness:
  "\<exists>q'. q_Get (q_Add ''n/c'' queue0) = Some (''n/c'', q') \<and>
     ''n/c'' \<in> set (wq_waiting (q_Done ''n/c'' (q_Add ''n/c'' q')))"
proof -
  obtain q' where g: "q_Get (q_Add ''n/c'' queue0) = Some (''n/c'', q')" and p: "wq_waiting q' = []" "wq_processing q' = [''n/c'']" "wq_dirty q' = []"
    by (auto simp: q_Get_def q_Add_def queue0_def)
  have "ctl_reach q'" by (rule ctl_more [OF ctl_more [OF ctl_start ctl_add] ctl_get [OF g]])
  from controller_queue_safe [OF this, of "''n/c''"] g p show ?thesis by (auto simp: q_Add_def Let_def)
qed

text \<open>
  A failed sync is tried again.  One round of a worker on a queue that is not empty takes the
  first key; unless the sync panics, the key is not being processed afterwards, and it waits for
  its backoff with one more failure counted exactly when the sync failed.
\<close>

lemma controller_requeues:
  assumes "ctl_reach q" and "wq_waiting q = k # ks" and "controller_sync X M k w = (err, w1)"
    and "\<not> (\<exists>e. err = Some e \<and> is_panic e)"
  shows "\<exists>q'. processNextWorkItem X M (q, w) = Some (Inr (q', w1)) \<and> k \<notin> set (wq_processing q') \<and>
    (if err = None then wq_failures q' k = 0 \<and> wq_delayed q' = wq_delayed q
     else wq_failures q' k = wq_failures q k + 1 \<and> wq_delayed q' = wq_delayed q @ [k])"
proof -
  have ok: "k \<notin> set (wq_processing q)" using ctl_reach_ok [OF assms(1)] assms(2) by (auto simp: queue_ok_def)
  show ?thesis
    using assms(2-4) ok
    by (cases err) (auto simp: processNextWorkItem_def q_Get_def q_Done_def q_Forget_def q_AddRateLimited_def
        Let_def remove1_append split: option.splits)
qed

text \<open>An API server that cannot be reached.\<close>

definition smp_down :: "nat cc_env" where
  "smp_down = \<lparr>x_cc_update = \<lambda>ns c w. (Inl (OtherError []), Suc w),
     x_cc_get = \<lambda>ns n w. Inl (OtherError []), x_event = \<lambda>c e w. w\<rparr>"

section \<open>The contract of the queue\<close>

text \<open>
  What the controller needs of a queue, without lists and lengths: a set of keys somebody asked
  for and a set of keys workers are busy with.  A key may be asked for while it is worked on; it
  may only be started when nobody works on it.
\<close>

inductive spec_step :: "string set \<times> string set \<Rightarrow> string set \<times> string set \<Rightarrow> bool" where
  spec_request: "spec_step (P, B) (insert k P, B)"
| spec_start: "k \<in> P \<Longrightarrow> k \<notin> B \<Longrightarrow> spec_step (P, B) (P - {k}, insert k B)"
| spec_finish: "k \<in> B \<Longrightarrow> spec_step (P, B) (P, B - {k})"

text \<open>
  The contract as an interface: a queue whose states are \<open>good\<close>, with the keys asked for and the keys
  being worked on.
\<close>

locale key_queue =
  fixes good :: "'q \<Rightarrow> bool" and asked :: "'q \<Rightarrow> string set" and busy :: "'q \<Rightarrow> string set"
    and add :: "string \<Rightarrow> 'q \<Rightarrow> 'q" and get :: "'q \<Rightarrow> (string \<times> 'q) option"
    and finish :: "string \<Rightarrow> 'q \<Rightarrow> 'q"
  assumes add_law: "good q \<Longrightarrow> good (add k q) \<and> asked (add k q) = insert k (asked q) \<and> busy (add k q) = busy q"
    and get_law: "good q \<Longrightarrow> get q = Some (k, q') \<Longrightarrow> good q' \<and> k \<in> asked q \<and> k \<notin> busy q \<and>
      asked q' = asked q - {k} \<and> busy q' = insert k (busy q)"
    and get_stuck: "good q \<Longrightarrow> get q = None \<longleftrightarrow> asked q \<subseteq> busy q"
    and finish_law: "good q \<Longrightarrow> k \<in> busy q \<Longrightarrow> good (finish k q) \<and> asked (finish k q) = asked q \<and>
      busy (finish k q) = busy q - {k}"
begin

lemma add_refines: "good q \<Longrightarrow> spec_step (asked q, busy q) (asked (add k q), busy (add k q))"
  by (simp add: add_law spec_request)

lemma get_refines:
  "good q \<Longrightarrow> get q = Some (k, q') \<Longrightarrow> spec_step (asked q, busy q) (asked q', busy q')"
  using get_law [of q k q'] by (simp add: spec_start)

lemma finish_refines:
  "good q \<Longrightarrow> k \<in> busy q \<Longrightarrow> spec_step (asked q, busy q) (asked (finish k q), busy (finish k q))"
  using finish_law [of q k] by (simp add: spec_finish)

lemma not_stuck: "good q \<Longrightarrow> get q \<noteq> None \<longleftrightarrow> asked q - busy q \<noteq> {}"
  by (simp only: get_stuck Diff_eq_empty_iff)

lemma asked_while_busy:
  "good q \<Longrightarrow> k \<in> busy q \<Longrightarrow> get (finish k (add k q)) \<noteq> None"
  using add_law [of q k] finish_law [of "add k q" k] not_stuck [of "finish k (add k q)"] by simp

end

abbreviation wq_asked :: "queue \<Rightarrow> string set" where "wq_asked q \<equiv> set (wq_dirty q)"
abbreviation wq_busy :: "queue \<Rightarrow> string set" where "wq_busy q \<equiv> set (wq_processing q)"

lemma q_Get_law:
  assumes "queue_ok q" and "q_Get q = Some (k, q')"
  shows "k \<in> wq_asked q \<and> k \<notin> wq_busy q \<and> wq_asked q' = wq_asked q - {k} \<and> wq_busy q' = insert k (wq_busy q)"
proof -
  from assms(2) obtain ks where w: "wq_waiting q = k # ks"
    and q': "q' = q\<lparr>wq_waiting := ks, wq_processing := wq_processing q @ [k], wq_dirty := remove1 k (wq_dirty q)\<rparr>"
    by (auto simp: q_Get_def split: list.splits)
  from assms(1) w have "k \<in> wq_asked q - wq_busy q" "distinct (wq_dirty q)" by (auto simp: queue_ok_def)
  then show ?thesis by (simp add: q' set_remove1_eq)
qed

lemma q_Get_stuck: "queue_ok q \<Longrightarrow> q_Get q = None \<longleftrightarrow> wq_asked q \<subseteq> wq_busy q"
  by (cases "wq_waiting q") (auto simp: q_Get_def queue_ok_def)

lemma q_Done_law:
  "queue_ok q \<Longrightarrow> wq_asked (q_Done k q) = wq_asked q \<and> wq_busy (q_Done k q) = wq_busy q - {k}"
  by (simp add: q_Done_def queue_ok_def Let_def set_remove1_eq)

lemma q_keys_kept:
  "wq_asked (q_Forget k q) = wq_asked q" "wq_asked (q_AddRateLimited k q) = wq_asked q"
  by (simp_all add: q_Forget_def q_AddRateLimited_def)

lemma q_Add_law: "wq_asked (q_Add k q) = insert k (wq_asked q) \<and> wq_busy (q_Add k q) = wq_busy q"
  by (auto simp: q_Add_def)

lemmas q_laws = q_Add_law queue_ok_Add queue_ok_Get q_Get_law q_Get_stuck q_Done_law queue_ok_Done queue_ok_irrelevant q_keys_kept

text \<open>The work queue keeps the contract, with a finished key forgotten or put back for later.\<close>

interpretation done_ok: key_queue queue_ok wq_asked wq_busy q_Add q_Get "\<lambda>k q. q_Done k (q_Forget k q)"
  by unfold_locales (simp_all add: q_laws)

interpretation done_fail: key_queue queue_ok wq_asked wq_busy q_Add q_Get "\<lambda>k q. q_Done k (q_AddRateLimited k q)"
  by unfold_locales (simp_all add: q_laws)

definition queue_abs :: "queue \<Rightarrow> string set \<times> string set" where
  "queue_abs q = (wq_asked q, wq_busy q)"

lemma ctl_step_refines:
  assumes "ctl_step q q'" and ok: "queue_ok q"
  shows "spec_step (queue_abs q) (queue_abs q')"
  using assms(1) unfolding queue_abs_def
proof (cases rule: ctl_step.cases)
  case (ctl_fire k)
  let ?q = "q\<lparr>wq_delayed := remove1 k (wq_delayed q)\<rparr>"
  have "queue_ok ?q" using ok by (simp add: queue_ok_irrelevant)
  from done_ok.add_refines [OF this, of k] show "spec_step (wq_asked q, wq_busy q) (wq_asked q', wq_busy q')"
    by (simp add: ctl_fire)
qed (use ok done_ok.add_refines done_ok.get_refines done_ok.finish_refines done_fail.finish_refines in blast)+

text \<open>
  C14: The work queue of the controller refines the two-set contract.  In every state the queue
  can reach, whatever is done next to it (an event asks for a key, a worker takes one, reports a
  success, reports a failure, or a delayed retry fires) is one step of the contract: a key is
  asked for, a key nobody works on is started, or a worker is finished with one.  And the
  controller is never stuck without need: Get hands out a key exactly when some key that was
  asked for is not being worked on.
\<close>

theorem controller_queue_refines:
  assumes "ctl_reach q"
  shows "(\<forall>q'. ctl_step q q' \<longrightarrow> spec_step (queue_abs q) (queue_abs q')) \<and>
    (q_Get q \<noteq> None \<longleftrightarrow> fst (queue_abs q) - snd (queue_abs q) \<noteq> {})"
  using ctl_step_refines ctl_reach_ok [OF assms] done_ok.not_stuck [of q] by (simp add: queue_abs_def)

theorem controller_queue_refines_witness:
  "spec_step (queue_abs queue0) (queue_abs (q_Add ''n/c'' queue0)) \<and>
   q_Get (q_Add ''n/c'' queue0) \<noteq> None"
proof
  show "spec_step (queue_abs queue0) (queue_abs (q_Add ''n/c'' queue0))"
    using controller_queue_refines [OF ctl_start] ctl_add by blast
  have "fst (queue_abs (q_Add ''n/c'' queue0)) - snd (queue_abs (q_Add ''n/c'' queue0)) \<noteq> {}"
    by (simp add: queue_abs_def q_Add_def queue0_def)
  with controller_queue_refines [OF ctl_more [OF ctl_start ctl_add]]
  show "q_Get (q_Add ''n/c'' queue0) \<noteq> None" by blast
qed

section \<open>A lost update\<close>

text \<open>
  A cache of StatefulSets in front of an API server: an update that fails leaves the cache as
  it is.
\<close>

text \<open>The copy of the old set that \<open>update_set_if_changed\<close> annotates and sends.\<close>

definition set_to_send :: "sset \<Rightarrow> sset \<Rightarrow> int \<Rightarrow> sset" where
  "set_to_send new old r = set_s_strategy (s_strategy new) (set_s_replicas r (set_s_template (s_template new) old))"

lemma update_set_sends:
  assumes "\<not> statefulSetEqual (e_codec E) new old" and "s_replicas new = Some r" and "s_replicas old = Some m"
    and "SetLastAppliedConfigAnnotation (e_codec E) (set_to_send new old r) = (None, sts)"
  shows "update_set_if_changed E cc new old w = k_update_set E cc sts (t_set E (shared_writes old sts) w)"
  using assms by (simp add: update_set_if_changed_def set_to_send_def Let_def)

locale set_cache =
  object_cache "l_set E" "t_set E" "\<lambda>s. meta_pair (s_meta s)" for E :: "'w env" +
  assumes failed_update: "k_update_set E cc s w = (Some e, w') \<Longrightarrow> l_set E w' = l_set E w"
begin

text \<open>The failed update is in the cache, so the next sync finds nothing to do.\<close>

lemma failed_update_lost:
  assumes old: "l_set E w ns n = Inr old" and key: "meta_pair (s_meta old) = (ns, n)"
    and ann: "m_ann (s_meta old) \<noteq> None" and r: "s_replicas new = Some r" "s_replicas old \<noteq> None"
    and codec: "codec_set_ok (e_codec E) (s_spec (set_to_send new old r))"
      "codec_pod_ok (e_codec E) (t_spec (s_template new))"
    and run: "update_set_if_changed E cc new old w = (Some e, w')"
  shows "\<exists>old'. l_set E w' ns n = Inr old' \<and> update_set_if_changed E cc new old' w' = (None, w')"
proof -
  let ?sts = "set_to_send new old r"
  have ne: "\<not> statefulSetEqual (e_codec E) new old" using run by (auto simp: update_set_if_changed_def)
  have pod: "codec_pod_ok (e_codec E) (t_spec (s_template ?sts))"
    using codec(2) by (simp add: set_to_send_def setter_defs)
  obtain sts' where l: "SetLastAppliedConfigAnnotation (e_codec E) ?sts = (None, sts')"
    using GetLastApplied_Set [OF codec(1) pod] by auto
  let ?old' = "shared_writes old sts'"
  obtain m where m: "s_replicas old = Some m" using r(2) by auto
  have "k_update_set E cc sts' (t_set E ?old' w) = (Some e, w')"
    using run unfolding update_set_sends [OF ne r(1) m l] .
  then have w': "l_set E w' = l_set E (t_set E ?old' w)" by (rule failed_update)
  have "meta_pair (s_meta ?old') = (ns, n)" using key by (simp add: shared_writes_def meta_pair_def)
  then have got: "l_set E w' ns n = Inr ?old'" unfolding w' by (rule get_touch_same [OF old])
  have s: "s_replicas new = s_replicas ?sts" "s_strategy new = s_strategy ?sts" "s_template new = s_template ?sts"
    using r(1) by (simp_all add: set_to_send_def setter_defs)
  have "statefulSetEqual (e_codec E) new sts'"
    by (rule conjunct1 [OF statefulSetEqual_Set [OF codec(1) pod l s]])
  moreover have "m_ann (s_meta ?old') = m_ann (s_meta sts')" using ann by (cases "m_ann (s_meta old)") (simp_all add: shared_writes_def)
  ultimately have "statefulSetEqual (e_codec E) new ?old'" by (simp add: statefulSetEqual_def)
  with got show ?thesis by (simp add: update_set_if_changed_def)
qed

end

lemma fake_failed_update:
  assumes "k_update_set (fake_env J Q fmt parse cl) cc s w = (Some e, w')"
  shows "fw_sets w' = fw_sets w"
proof -
  have "fake_UpdateStatefulSet cc s w = (Some e, w')" using assms by (simp add: fake_env_def)
  then show ?thesis by (auto simp: fake_UpdateStatefulSet_def guarded_def drop_status_change_def split: prod.splits option.splits)
qed

interpretation fake_set_cache: set_cache "fake_env J Q fmt parse cl" for J Q fmt parse cl
  by unfold_locales (drule fake_failed_update, simp add: fake_env_def)


definition smp_fake_world :: "sset \<Rightarrow> fake_world" where
  "smp_fake_world s =
     \<lparr>fw_sets = [((''n'', ''c-pd''), s)], fw_svcs = [], fw_pods = [], fw_pvcs = [], fw_pvs = [], fw_nodes = [],
      fw_trackers = \<lparr>tr_create_set = tracker0,
        tr_update_set = tracker_set (Some (OtherError ''refused'')) 0 tracker0,
        tr_create_svc = tracker0, tr_update_svc = tracker0, tr_update_pod = tracker0,
        tr_delete_pod = tracker0, tr_get_cluster = tracker0, tr_get_member = tracker0,
        tr_get_store = tracker0, tr_update_pvc = tracker0, tr_delete_pvc = tracker0,
        tr_update_pv = tracker0\<rparr>,
      fw_status_change = None, fw_pd = NewFakePDClient,
      fw_now = 0\<rparr>"

definition smp_sent_codec :: codec where
  "smp_sent_codec = any_codec (s_spec (set_to_send (smp_set ''c-pd'' 2 2) (smp_set ''c-pd'' 1 1) 2))
     (t_spec (s_template (smp_set ''c-pd'' 2 2))) no_svc_spec"

lemma smp_sent_codec_simps [simp]:
  "j_enc_set smp_sent_codec = (\<lambda>_. Inr ''set'')" "j_enc_pod smp_sent_codec = (\<lambda>_. Inr ''pod'')"
  "j_dec_set smp_sent_codec =
     (\<lambda>_. Inr (s_spec (set_to_send (smp_set ''c-pd'' 2 2) (smp_set ''c-pd'' 1 1) 2)))"
  "j_dec_pod smp_sent_codec = (\<lambda>_. Inr (t_spec (s_template (smp_set ''c-pd'' 2 2))))"
  by (simp_all add: smp_sent_codec_def)

abbreviation smp_fake :: "fake_world env" where
  "smp_fake \<equiv> fake_env smp_sent_codec any_qlib (\<lambda>t. []) (\<lambda>s. None) []"

lemma smp_refused:
  "k_update_set smp_fake cc s (t_set smp_fake x (smp_fake_world y)) =
     (Some (OtherError ''refused''), snd (k_update_set smp_fake cc s (t_set smp_fake x (smp_fake_world y))))"
  by (simp add: fake_env_def fake_UpdateStatefulSet_def guarded_def drop_status_change_def smp_fake_world_def track_def
      errorReady_def tracker_set_def tracker0_def)

definition smp_bare_set :: sset where
  "smp_bare_set = set_s_ann (Some Map.empty) (smp_set ''c-pd'' 1 1)"

lemma smp_bare_set_simps [simp]:
  "m_ann (s_meta smp_bare_set) = Some Map.empty" "meta_pair (s_meta smp_bare_set) = (''n'', ''c-pd'')"
  "s_replicas smp_bare_set = Some 1" "s_spec smp_bare_set = s_spec (smp_set ''c-pd'' 1 1)"
  by (simp_all add: smp_bare_set_def setter_defs meta_pair_def)

lemma smp_bare_spec:
  "s_spec (set_to_send n smp_bare_set r) = s_spec (set_to_send n (smp_set ''c-pd'' 1 1) r)"
  by (simp add: set_to_send_def setter_defs)

lemma smp_refused_run:
  "\<exists>w'. update_set_if_changed smp_fake smp_cc (smp_set ''c-pd'' 2 2) smp_bare_set (smp_fake_world smp_bare_set)
     = (Some (OtherError ''refused''), w')"
proof -
  let ?new = "smp_set ''c-pd'' 2 2"
  have J: "e_codec smp_fake = smp_sent_codec" by (simp add: fake_env_def)
  have ne: "\<not> statefulSetEqual smp_sent_codec ?new smp_bare_set" by (simp add: statefulSetEqual_def)
  obtain sts where l: "SetLastAppliedConfigAnnotation smp_sent_codec (set_to_send ?new smp_bare_set 2) = (None, sts)"
    by (simp add: SetLastAppliedConfigAnnotation_def Let_def)
  show ?thesis
    using smp_refused [of smp_cc sts "shared_writes smp_bare_set sts" smp_bare_set]
      update_set_sends [of smp_fake ?new smp_bare_set 2 1 sts smp_cc "smp_fake_world smp_bare_set"] ne l
    by (metis J smp_bare_set_simps(3) smp_set_simps(1))
qed


end
