(* ===== verification/Cluster_Events.thy ===== *)
theory Cluster_Events
  imports Cluster_Properties
begin

text \<open>
  \<^verbatim>\<open>pkg/controller/cellcluster/cell_cluster_controller.go\<close>: what \<open>NewController\<close> registers with the
  informers, and the loop of a worker.
\<close>

section \<open>Events\<close>

text \<open>What an informer delivers.  A deleted cluster may come as a tombstone, which carries its key.\<close>

datatype informer_event =
    ClusterAdded objmeta
  | ClusterUpdated objmeta objmeta
  | ClusterDeleted objmeta
  | ClusterTombstone string
  | SetAdded sset
  | SetUpdated sset sset
  | SetDeleted deleted

text \<open>\<^verbatim>\<open>cache.DeletionHandlingMetaNamespaceKeyFunc\<close> takes the key of a tombstone as it is.\<close>

fun handle_event :: "'w cc_env \<Rightarrow> informer_event \<Rightarrow> 'w \<Rightarrow> queue \<Rightarrow> goerr + queue" where
  "handle_event X (ClusterAdded m) w q = Inr (enqueueCellCluster m q)"
| "handle_event X (ClusterUpdated old cur) w q = Inr (enqueueCellCluster cur q)"
| "handle_event X (ClusterDeleted m) w q = Inr (enqueueCellCluster m q)"
| "handle_event X (ClusterTombstone key) w q = Inr (q_Add key q)"
| "handle_event X (SetAdded sts) w q = addStatefulSet X sts w q"
| "handle_event X (SetUpdated old cur) w q = Inr (updateStatefuSet X old cur w q)"
| "handle_event X (SetDeleted obj) w q = deleteStatefulSet X obj w q"

section \<open>A worker\<close>

text \<open>
  \<open>worker\<close> processes items as long as there are any.  The loop of the code has no bound and waits on
  an empty queue; here it makes at most \<open>n\<close> rounds and stops where the code would wait.
\<close>

fun worker :: "nat \<Rightarrow> 'w cc_env \<Rightarrow> 'w managers \<Rightarrow> queue \<times> 'w \<Rightarrow> goerr + queue \<times> 'w" where
  "worker 0 X M s = Inr s"
| "worker (Suc n) X M s =
     (case processNextWorkItem X M s of
        None \<Rightarrow> Inr s
      | Some (Inl e) \<Rightarrow> Inl e
      | Some (Inr s1) \<Rightarrow> worker n X M s1)"

section \<open>What an event asks for\<close>

text \<open>The keys of the clusters an event is about: the cluster itself, or the one that controls the set.\<close>

definition set_owner_keys :: "'w cc_env \<Rightarrow> 'w \<Rightarrow> sset \<Rightarrow> string set" where
  "set_owner_keys X w sts =
     {meta_key (cc_meta cc) | cc r. GetControllerOf (s_meta sts) = Some r \<and> or_kind r = ''CellCluster'' \<and>
        x_cc_get X (m_ns (s_meta sts)) (or_name r) w = Inr cc \<and> m_uid (cc_meta cc) = or_uid r}"

fun event_keys :: "'w cc_env \<Rightarrow> 'w \<Rightarrow> informer_event \<Rightarrow> string set" where
  "event_keys X w (ClusterAdded m) = {meta_key m}"
| "event_keys X w (ClusterUpdated old cur) = {meta_key cur}"
| "event_keys X w (ClusterDeleted m) = {meta_key m}"
| "event_keys X w (ClusterTombstone key) = {key}"
| "event_keys X w (SetAdded sts) = set_owner_keys X w sts"
| "event_keys X w (SetUpdated old cur) =
     (if m_rv (s_meta cur) = m_rv (s_meta old) then {} else set_owner_keys X w cur)"
| "event_keys X w (SetDeleted (DeletedSet sts)) = set_owner_keys X w sts"
| "event_keys X w (SetDeleted _) = {}"

lemma enqueue_owner_keys:
  "(set_owner_keys X w sts = {} \<and> enqueue_owner X sts w q = q) \<or>
   (\<exists>k. set_owner_keys X w sts = {k} \<and> enqueue_owner X sts w q = q_Add k q)"
  by (auto simp: set_owner_keys_def enqueue_owner_def resolveCellClusterFromSet_def enqueueCellCluster_def
      controllerKind_Kind_def split: option.splits sum.splits)

lemma handle_event_keys:
  "handle_event X ev w q = Inr q1 \<Longrightarrow>
     (event_keys X w ev = {} \<and> q1 = q) \<or> (\<exists>k. event_keys X w ev = {k} \<and> q1 = q_Add k q)"
  using enqueue_owner_keys [of X w _ q]
  by (cases "(X, w, ev)" rule: event_keys.cases)
    (force simp: enqueueCellCluster_def addStatefulSet_def deleteStatefulSet_def updateStatefuSet_def
      split: if_splits)+

section \<open>A worker empties the queue\<close>

text \<open>The syncs a worker runs for a list of keys: those that fail, and the world after them.\<close>

fun sync_all :: "'w cc_env \<Rightarrow> 'w managers \<Rightarrow> string list \<Rightarrow> 'w \<Rightarrow> string list \<times> 'w" where
  "sync_all X M [] w = ([], w)"
| "sync_all X M (k # ks) w =
     (case controller_sync X M k w of
        (err, w1) \<Rightarrow> (case sync_all X M ks w1 of
          (failed, w2) \<Rightarrow> (if err = None then failed else k # failed, w2)))"

definition never_panics :: "'w cc_env \<Rightarrow> 'w managers \<Rightarrow> bool" where
  "never_panics X M \<longleftrightarrow> (\<forall>k w e w'. controller_sync X M k w = (Some e, w') \<longrightarrow> \<not> is_panic e)"

lemma process_first:
  assumes "queue_ok q" and "wq_waiting q = k # ks" and "controller_sync X M k w = (err, w1)"
    and "never_panics X M"
  shows "\<exists>q1. processNextWorkItem X M (q, w) = Some (Inr (q1, w1)) \<and> queue_ok q1 \<and> wq_waiting q1 = ks \<and>
    wq_processing q1 = wq_processing q \<and> wq_delayed q1 = wq_delayed q @ (if err = None then [] else [k])"
proof -
  obtain q0 where g: "q_Get q = Some (k, q0)" using assms(2) by (simp add: q_Get_def)
  then have q0: "wq_waiting q0 = ks" "wq_processing q0 = wq_processing q @ [k]" "wq_delayed q0 = wq_delayed q"
    "wq_dirty q0 = remove1 k (wq_dirty q)"
    using assms(2) by (auto simp: q_Get_def)
  let ?q = "if err = None then q_Forget k q0 else q_AddRateLimited k q0"
  have k: "k \<notin> set (wq_processing q)" "k \<notin> set (wq_dirty q0)"
    using assms(1,2) q0(4) by (auto simp: queue_ok_def)
  have ok: "queue_ok ?q" using queue_ok_Get [OF assms(1) g] by (simp add: queue_ok_irrelevant)
  have "queue_ok (q_Done k ?q)"
    by (rule queue_ok_Done [OF ok]) (simp add: queue_ok_irrelevant q0)
  moreover have "wq_waiting (q_Done k ?q) = ks" "wq_processing (q_Done k ?q) = wq_processing q"
    "wq_delayed (q_Done k ?q) = wq_delayed q @ (if err = None then [] else [k])"
    using k q0 by (simp_all add: q_Done_def q_Forget_def q_AddRateLimited_def Let_def remove1_append)
  moreover have "processNextWorkItem X M (q, w) = Some (Inr (q_Done k ?q, w1))"
    using g assms(3,4) by (cases err) (auto simp: processNextWorkItem_def never_panics_def)
  ultimately show ?thesis by blast
qed

lemma worker_drains:
  assumes "never_panics X M" and "queue_ok q" and "length (wq_waiting q) \<le> n"
    and "sync_all X M (wq_waiting q) w = (failed, w')"
  shows "\<exists>q'. worker n X M (q, w) = Inr (q', w') \<and> wq_waiting q' = [] \<and>
    wq_processing q' = wq_processing q \<and> wq_delayed q' = wq_delayed q @ failed"
  using assms(2-4)
proof (induction "wq_waiting q" arbitrary: q w n failed)
  case Nil
  then have "worker n X M (q, w) = Inr (q, w)"
    by (cases n) (simp_all add: processNextWorkItem_def q_Get_def)
  then show ?case using Nil by (cases "wq_waiting q") simp_all
next
  case (Cons k ks)
  obtain err w1 where s: "controller_sync X M k w = (err, w1)" by fastforce
  obtain rest w2 where r: "sync_all X M ks w1 = (rest, w2)" by fastforce
  obtain q1 where q1: "processNextWorkItem X M (q, w) = Some (Inr (q1, w1))" "queue_ok q1"
    "wq_waiting q1 = ks" "wq_processing q1 = wq_processing q"
    "wq_delayed q1 = wq_delayed q @ (if err = None then [] else [k])"
    using process_first [OF Cons.prems(1) Cons.hyps(2) [symmetric] s assms(1)] by blast
  have f: "failed = (if err = None then rest else k # rest)" "w' = w2"
    using Cons.prems(3) s r by (simp_all add: Cons.hyps(2) [symmetric])
  from Cons.prems(2) Cons.hyps(2) obtain m where m: "n = Suc m" "length ks \<le> m"
    by (metis Suc_le_D Suc_le_mono length_Cons)
  then obtain q' where "worker m X M (q1, w1) = Inr (q', w2)" "wq_waiting q' = []"
    "wq_processing q' = wq_processing q1" "wq_delayed q' = wq_delayed q1 @ rest"
    using Cons.hyps(1) [of q1 m w1 rest] q1(2,3) r f(2) by auto
  with q1 f m(1) show ?case by auto
qed


lemma smp_down_sync: "\<exists>x. controller_sync smp_down M k w = (Some (OtherError x), w)"
  by (auto simp: controller_sync_def smp_down_def split_meta_key_def split: list.splits)

lemma smp_down_never_panics: "never_panics smp_down M"
  unfolding never_panics_def
proof (intro allI impI)
  fix k w e w' assume "controller_sync smp_down M k w = (Some e, w')"
  then show "\<not> is_panic e" using smp_down_sync [of M k w] by auto
qed

lemma smp_down_sync_all: "sync_all smp_down M ks w = (ks, w)"
proof (induction ks)
  case (Cons k ks)
  then show ?case using smp_down_sync [of M k w] by auto
qed simp


end
