(* ===== verification/Go_Memory.thy ===== *)
theory Go_Memory
  imports Go_Prelude "HOL-Library.State_Monad"
begin

text \<open>
  Memory as Go sees it: a list of cells, whose indices are the addresses.  Allocation appends a
  cell, an assignment through a pointer replaces one.  What a deep copy promises is the interface
  \<open>deep_copier\<close>; the rules after it build the copier of a type from those of its parts, as
  deepcopy-gen does.
\<close>

section \<open>Cells and pointers\<close>

type_synonym addr = nat
type_synonym ('c, 'a) mem = "('c list, 'a) state"

definition alloc :: "'c \<Rightarrow> ('c, addr) mem" where
  "alloc c = State (\<lambda>h. (length h, h @ [c]))"

definition deref :: "addr \<Rightarrow> ('c, 'c) mem" where
  "deref a = State (\<lambda>h. (h ! a, h))"

definition store_at :: "addr \<Rightarrow> 'c \<Rightarrow> ('c, unit) mem" where
  "store_at a c = State (\<lambda>h. ((), h[a := c]))"

text \<open>What a program does to the memory: it allocates cells, and it assigns to those it can reach.\<close>

datatype 'c mem_action = Allocates 'c | Assigns addr 'c

primrec act :: "'c mem_action \<Rightarrow> 'c list \<Rightarrow> 'c list" where
  "act (Allocates c) h = h @ [c]"
| "act (Assigns a c) h = h[a := c]"

definition acts_on :: "(addr \<Rightarrow> bool) \<Rightarrow> 'c mem_action list \<Rightarrow> bool" where
  "acts_on P ws = list_all (\<lambda>w. case w of Allocates _ \<Rightarrow> True | Assigns a _ \<Rightarrow> P a) ws"

lemma run_alloc [simp]: "run_state (alloc c) h = (length h, h @ [c])"
  by (simp add: alloc_def)

lemma run_deref [simp]: "run_state (deref a) h = (h ! a, h)"
  by (simp add: deref_def)

lemma run_store_at [simp]: "run_state (store_at a c) h = ((), h[a := c])"
  by (simp add: store_at_def)

lemma length_act [simp]: "length h \<le> length (fold act ws h)"
proof (induction ws arbitrary: h)
  case (Cons w ws)
  have "length h \<le> length (act w h)" by (cases w) simp_all
  with Cons [of "act w h"] show ?case by simp
qed simp

lemma act_other: "acts_on P ws \<Longrightarrow> \<not> P a \<Longrightarrow> a < length h \<Longrightarrow> fold act ws h ! a = h ! a"
proof (induction ws arbitrary: h)
  case (Cons w ws)
  then show ?case by (cases w) (auto simp: acts_on_def nth_append intro!: nth_list_update_neq)
qed (simp add: acts_on_def)

section \<open>What a deep copy promises\<close>

text \<open>
  A value \<open>x\<close> in memory \<open>h\<close> means \<open>load h x\<close>, which depends on the cells at \<open>refs h x\<close> only;
  \<open>sound\<close> says that the maps it is made of have each key once.
\<close>

locale deep_copier =
  fixes load :: "'c list \<Rightarrow> 'm \<Rightarrow> 'v"
    and refs :: "'c list \<Rightarrow> 'm \<Rightarrow> addr set"
    and sound :: "'c list \<Rightarrow> 'm \<Rightarrow> bool"
    and copy :: "'m \<Rightarrow> ('c, 'm) mem"
  assumes frame: "\<forall>a \<in> refs h x. h' ! a = h ! a \<Longrightarrow>
      load h' x = load h x \<and> refs h' x = refs h x \<and> sound h' x = sound h x"
    and copies: "sound h x \<Longrightarrow> refs h x \<subseteq> {..<length h} \<Longrightarrow>
      \<exists>y t. run_state (copy x) h = (y, h @ t) \<and> load (h @ t) y = load h x \<and> sound (h @ t) y \<and>
        refs (h @ t) y \<subseteq> {length h..<length h + length t}"
begin

lemma grown:
  assumes "refs h x \<subseteq> {..<length h}"
  shows "load (h @ t) x = load h x" "refs (h @ t) x = refs h x" "sound (h @ t) x = sound h x"
proof -
  have "\<forall>a\<in>refs h x. (h @ t) ! a = h ! a" using assms by (auto simp: nth_append)
  from frame [OF this] show "load (h @ t) x = load h x" "refs (h @ t) x = refs h x"
    "sound (h @ t) x = sound h x" by simp_all
qed

lemma obtains_copy:
  assumes "sound h x" and "refs h x \<subseteq> {..<length h}"
  obtains y t where "run_state (copy x) h = (y, h @ t)" "load (h @ t) y = load h x" "sound (h @ t) y"
    "refs (h @ t) y \<subseteq> {length h..<length h + length t}"
  using copies [OF assms] by blast

text \<open>
  Who holds the copy reaches no cell of the original, and what it does is not seen there.  Who
  does not hold the copy reaches none of its cells, and the copy stays as it was.
\<close>

lemma copy_isolated:
  assumes "sound h x" and "refs h x \<subseteq> {..<length h}" and "run_state (copy x) h = (y, h')"
  shows "load h' y = load h x" and "refs h' y \<subseteq> {length h..<length h'}"
    and "acts_on (\<lambda>a. length h \<le> a) ws \<Longrightarrow> load (fold act ws h') x = load h x"
    and "acts_on (\<lambda>a. a \<notin> refs h' y) ws \<Longrightarrow> load (fold act ws h') y = load h x"
proof -
  obtain t where h': "h' = h @ t" and y: "load h' y = load h x"
    "refs h' y \<subseteq> {length h..<length h + length t}"
    using obtains_copy [OF assms(1,2)] assms(3) by (metis prod.inject)
  show "load h' y = load h x" "refs h' y \<subseteq> {length h..<length h'}" using h' y by simp_all
  have g: "load h' x = load h x" "refs h' x = refs h x" using grown [OF assms(2)] h' by simp_all
  show "load (fold act ws h') x = load h x" if w: "acts_on (\<lambda>a. length h \<le> a) ws"
  proof -
    have "\<forall>a \<in> refs h' x. fold act ws h' ! a = h' ! a"
      using g(2) assms(2) h' by (intro ballI act_other [OF w]) (auto simp: subset_iff not_le)
    from frame [OF this] g(1) show ?thesis by simp
  qed
  show "load (fold act ws h') y = load h x" if w: "acts_on (\<lambda>a. a \<notin> refs h' y) ws"
  proof -
    have "\<forall>a \<in> refs h' y. fold act ws h' ! a = h' ! a"
      using y(2) h' by (intro ballI act_other [OF w]) (auto simp: subset_iff)
    from frame [OF this] y(1) show ?thesis by simp
  qed
qed

end

section \<open>Copiers from copiers\<close>

text \<open>A type without pointers is copied by assignment.\<close>

lemma flat_copier: "deep_copier (\<lambda>h x. x) (\<lambda>h x. {}) (\<lambda>h x. True) State_Monad.return"
  by unfold_locales auto

text \<open>Two fields, one after the other.\<close>

definition copy_both :: "('a \<Rightarrow> ('c, 'a) mem) \<Rightarrow> ('b \<Rightarrow> ('c, 'b) mem) \<Rightarrow> 'a \<times> 'b \<Rightarrow> ('c, 'a \<times> 'b) mem" where
  "copy_both f g p = do { a \<leftarrow> f (fst p); b \<leftarrow> g (snd p); State_Monad.return (a, b) }"

lemma both_copier:
  assumes "deep_copier l1 r1 s1 c1" and "deep_copier l2 r2 s2 c2"
  shows "deep_copier (\<lambda>h p. (l1 h (fst p), l2 h (snd p))) (\<lambda>h p. r1 h (fst p) \<union> r2 h (snd p))
    (\<lambda>h p. s1 h (fst p) \<and> s2 h (snd p)) (copy_both c1 c2)"
proof (unfold_locales, goal_cases)
  case (1 h p h')
  then have "\<forall>a\<in>r1 h (fst p). h' ! a = h ! a" "\<forall>a\<in>r2 h (snd p). h' ! a = h ! a" by auto
  from deep_copier.frame [OF assms(1) this(1)] deep_copier.frame [OF assms(2) this(2)]
  show ?case by simp
next
  case (2 h p)
  then have p: "s1 h (fst p)" "s2 h (snd p)" "r1 h (fst p) \<subseteq> {..<length h}" "r2 h (snd p) \<subseteq> {..<length h}"
    by simp_all
  obtain y1 t1 where 1: "run_state (c1 (fst p)) h = (y1, h @ t1)" "l1 (h @ t1) y1 = l1 h (fst p)"
    "s1 (h @ t1) y1" "r1 (h @ t1) y1 \<subseteq> {length h..<length h + length t1}"
    by (rule deep_copier.obtains_copy [OF assms(1) p(1,3)])
  note p2 = deep_copier.grown [OF assms(2) p(4), of t1]
  have b2: "r2 (h @ t1) (snd p) \<subseteq> {..<length (h @ t1)}"
    using p(4) p2(2) by (auto simp: subset_iff)
  obtain y2 t2 where 2: "run_state (c2 (snd p)) (h @ t1) = (y2, (h @ t1) @ t2)"
    "l2 ((h @ t1) @ t2) y2 = l2 (h @ t1) (snd p)" "s2 ((h @ t1) @ t2) y2"
    "r2 ((h @ t1) @ t2) y2 \<subseteq> {length (h @ t1)..<length (h @ t1) + length t2}"
    using deep_copier.obtains_copy [OF assms(2) _ b2] p2(3) p(2) by metis
  have "r1 (h @ t1) y1 \<subseteq> {..<length (h @ t1)}" using 1(4) by (auto simp: subset_iff)
  note g = deep_copier.grown [OF assms(1) this, of t2]
  show ?case
  proof (intro exI conjI)
    show "run_state (copy_both c1 c2 p) h = ((y1, y2), h @ t1 @ t2)"
      using 1(1) 2(1) by (simp add: copy_both_def)
    show "r1 (h @ t1 @ t2) (fst (y1, y2)) \<union> r2 (h @ t1 @ t2) (snd (y1, y2)) \<subseteq>
        {length h..<length h + length (t1 @ t2)}"
      using 1(4) 2(4) g(2) by (auto simp: subset_iff)
  qed (use 1 2 g p2 in simp_all)
qed

text \<open>A struct: \<^verbatim>\<open>*out = *in\<close>, and then \<open>upd\<close> replaces the fields \<open>f\<close> that hold pointers.\<close>

lemma struct_copier:
  assumes "deep_copier l r s c"
    and f: "\<And>x y. f (upd y x) = y" "\<And>x. upd (f x) x = x"
    and load: "\<And>h h' x y. l h' y = l h (f x) \<Longrightarrow> load h' (upd y x) = load h x"
    and parts: "\<And>h x. refs h x = r h (f x)" "\<And>h x. sound h x = s h (f x)"
      "\<And>h x. run_state (cp x) h = (case run_state (c (f x)) h of (y, h') \<Rightarrow> (upd y x, h'))"
  shows "deep_copier load refs sound cp"
proof (unfold_locales, goal_cases)
  case (1 h x h')
  then have "\<forall>a\<in>r h (f x). h' ! a = h ! a" by (simp add: parts)
  from deep_copier.frame [OF assms(1) this] load [of h' "f x" h x] show ?case
    by (simp add: parts f)
next
  case (2 h x)
  then have "s h (f x)" "r h (f x) \<subseteq> {..<length h}" by (simp_all add: parts)
  from deep_copier.obtains_copy [OF assms(1) this] obtain z t where
    z: "run_state (c (f x)) h = (z, h @ t)" "l (h @ t) z = l h (f x)" "s (h @ t) z"
    "r (h @ t) z \<subseteq> {length h..<length h + length t}" .
  then show ?case
    by (intro exI [of _ "upd z x"] exI [of _ t]) (simp add: parts f load)
qed

text \<open>A pointer, to a cell that \<open>un\<close> reads: \<^verbatim>\<open>*out = new(T); (*in).DeepCopyInto(*out)\<close>.\<close>

definition copy_ptr :: "('c \<Rightarrow> 'm) \<Rightarrow> ('m \<Rightarrow> 'c) \<Rightarrow> ('m \<Rightarrow> ('c, 'm) mem) \<Rightarrow> addr option \<Rightarrow> ('c, addr option) mem" where
  "copy_ptr un wrap c p =
     (case p of
        None \<Rightarrow> State_Monad.return None
      | Some a \<Rightarrow> do { x \<leftarrow> deref a; y \<leftarrow> c (un x); b \<leftarrow> alloc (wrap y); State_Monad.return (Some b) })"

definition load_ptr :: "('c \<Rightarrow> 'm) \<Rightarrow> ('c list \<Rightarrow> 'm \<Rightarrow> 'v) \<Rightarrow> 'c list \<Rightarrow> addr option \<Rightarrow> 'v option" where
  "load_ptr un l h p = (case p of None \<Rightarrow> None | Some a \<Rightarrow> Some (l h (un (h ! a))))"

definition refs_ptr :: "('c \<Rightarrow> 'm) \<Rightarrow> ('c list \<Rightarrow> 'm \<Rightarrow> addr set) \<Rightarrow> 'c list \<Rightarrow> addr option \<Rightarrow> addr set" where
  "refs_ptr un r h p = (case p of None \<Rightarrow> {} | Some a \<Rightarrow> insert a (r h (un (h ! a))))"

text \<open>The cell holds a value of the pointer's type.\<close>

definition sound_ptr :: "('c \<Rightarrow> 'm) \<Rightarrow> ('m \<Rightarrow> 'c) \<Rightarrow> ('c list \<Rightarrow> 'm \<Rightarrow> bool) \<Rightarrow> 'c list \<Rightarrow> addr option \<Rightarrow> bool" where
  "sound_ptr un wrap s h p =
     (case p of None \<Rightarrow> True | Some a \<Rightarrow> h ! a = wrap (un (h ! a)) \<and> s h (un (h ! a)))"

lemmas ptr_defs = copy_ptr_def load_ptr_def refs_ptr_def sound_ptr_def

lemma ptr_copier:
  assumes "deep_copier l r s c" and "\<And>y. un (wrap y) = y"
  shows "deep_copier (load_ptr un l) (refs_ptr un r) (sound_ptr un wrap s) (copy_ptr un wrap c)"
proof (unfold_locales, goal_cases)
  case (1 h p h')
  show ?case
  proof (cases p)
    case (Some a)
    with 1 have "\<forall>a\<in>r h (un (h ! a)). h' ! a = h ! a" "h' ! a = h ! a" by (auto simp: ptr_defs)
    with deep_copier.frame [OF assms(1) this(1)] Some show ?thesis by (simp add: ptr_defs)
  qed (simp add: ptr_defs)
next
  case (2 h p)
  show ?case
  proof (cases p)
    case None
    then show ?thesis by (simp add: ptr_defs)
  next
    case (Some a)
    let ?x = "un (h ! a)"
    have x: "s h ?x" "r h ?x \<subseteq> {..<length h}" using 2 Some by (simp_all add: ptr_defs)
    obtain z t where z: "run_state (c ?x) h = (z, h @ t)" "l (h @ t) z = l h ?x"
      "s (h @ t) z" "r (h @ t) z \<subseteq> {length h..<length h + length t}"
      by (rule deep_copier.obtains_copy [OF assms(1) x])
    have "r (h @ t) z \<subseteq> {..<length (h @ t)}" using z(4) by (auto simp: subset_iff)
    note g = deep_copier.grown [OF assms(1) this, of "[wrap z]"]
    have n: "(h @ t @ [wrap z]) ! (length h + length t) = wrap z" by (simp add: nth_append)
    show ?thesis
    proof (intro exI conjI)
      show "run_state (copy_ptr un wrap c p) h = (Some (length h + length t), h @ t @ [wrap z])"
        using z(1) Some by (simp add: copy_ptr_def)
      show "refs_ptr un r (h @ t @ [wrap z]) (Some (length h + length t)) \<subseteq>
          {length h..<length h + length (t @ [wrap z])}"
        using z(4) g(2) by (auto simp: refs_ptr_def n assms(2) subset_iff)
    qed (use z g n Some assms(2) in \<open>simp_all add: load_ptr_def sound_ptr_def\<close>)
  qed
qed

text \<open>The elements of a slice, in order.\<close>

fun copy_elems :: "('m \<Rightarrow> ('c, 'm) mem) \<Rightarrow> 'm list \<Rightarrow> ('c, 'm list) mem" where
  "copy_elems c [] = State_Monad.return []"
| "copy_elems c (x # xs) = do { y \<leftarrow> c x; ys \<leftarrow> copy_elems c xs; State_Monad.return (y # ys) }"

definition refs_elems :: "('c list \<Rightarrow> 'm \<Rightarrow> addr set) \<Rightarrow> 'c list \<Rightarrow> 'm list \<Rightarrow> addr set" where
  "refs_elems r h xs = \<Union> (r h ` set xs)"

lemma elems_copier:
  assumes "deep_copier l r s c"
  shows "deep_copier (\<lambda>h. map (l h)) (refs_elems r) (\<lambda>h. list_all (s h)) (copy_elems c)"
proof (unfold_locales, goal_cases)
  case (1 h xs h')
  then have "\<forall>x \<in> set xs. l h' x = l h x \<and> r h' x = r h x \<and> s h' x = s h x"
    by (intro ballI deep_copier.frame [OF assms]) (simp add: refs_elems_def)
  then show ?case by (simp add: refs_elems_def list_all_iff)
next
  case (2 h xs)
  then show ?case
  proof (induction xs arbitrary: h)
    case Nil
    then show ?case by (simp add: refs_elems_def)
  next
    case (Cons x xs)
    then have x: "s h x" "r h x \<subseteq> {..<length h}" "list_all (s h) xs" "\<forall>z \<in> set xs. r h z \<subseteq> {..<length h}"
      by (simp_all add: refs_elems_def UN_subset_iff)
    obtain y t where y: "run_state (c x) h = (y, h @ t)" "l (h @ t) y = l h x" "s (h @ t) y"
      "r (h @ t) y \<subseteq> {length h..<length h + length t}"
      by (rule deep_copier.obtains_copy [OF assms x(1,2)])
    have g: "\<forall>z \<in> set xs. l (h @ t) z = l h z \<and> r (h @ t) z = r h z \<and> s (h @ t) z = s h z"
      using x(4) deep_copier.grown [OF assms] by blast
    have "list_all (s (h @ t)) xs" using x(3) g by (simp add: list_all_iff)
    moreover have "refs_elems r (h @ t) xs \<subseteq> {..<length (h @ t)}"
      using x(4) g by (fastforce simp: refs_elems_def)
    ultimately obtain ys u where u: "run_state (copy_elems c xs) (h @ t) = (ys, (h @ t) @ u)"
      "map (l ((h @ t) @ u)) ys = map (l (h @ t)) xs" "list_all (s ((h @ t) @ u)) ys"
      "refs_elems r ((h @ t) @ u) ys \<subseteq> {length (h @ t)..<length (h @ t) + length u}"
      using Cons.IH by blast
    have "r (h @ t) y \<subseteq> {..<length (h @ t)}" using y(4) by (auto simp: subset_iff)
    note gy = deep_copier.grown [OF assms this, of u]
    show ?case
    proof (intro exI conjI)
      show "run_state (copy_elems c (x # xs)) h = (y # ys, h @ t @ u)" using y(1) u(1) by simp
      show "refs_elems r (h @ t @ u) (y # ys) \<subseteq> {length h..<length h + length (t @ u)}"
        using y(4) u(4) gy(2) by (fastforce simp: refs_elems_def)
      show "map (l (h @ t @ u)) (y # ys) = map (l h) (x # xs)" using y(2) u(2) gy(1) g by simp
      show "list_all (s (h @ t @ u)) (y # ys)" using y(3) u(3) gy(3) by simp
    qed
  qed
qed

text \<open>A map is filled entry by entry, in the order of the iteration.\<close>

fun copy_entries :: "('m \<Rightarrow> ('c, 'm) mem) \<Rightarrow> (string, 'm) gomap \<Rightarrow> (string, 'm) gomap \<Rightarrow>
    ('c, (string, 'm) gomap) mem" where
  "copy_entries c out [] = State_Monad.return out"
| "copy_entries c out ((k, x) # es) = do { y \<leftarrow> c x; copy_entries c (gput k y out) es }"

definition distinct_keys :: "('k, 'v) gomap \<Rightarrow> bool" where
  "distinct_keys m = distinct (map fst m)"

text \<open>The values of the maps that are copied are structs without pointers.\<close>

lemma copy_entries_flat:
  assumes "\<And>x h. \<exists>t. run_state (c x) h = (x, h @ t)" and "distinct (map fst (out @ es))"
  shows "\<exists>t. run_state (copy_entries c out es) h = (out @ es, h @ t)"
  using assms(2)
proof (induction es arbitrary: out h)
  case (Cons e es)
  obtain k x where e: "e = (k, x)" by (cases e)
  obtain t where "run_state (c x) h = (x, h @ t)" using assms(1) by blast
  moreover have "gput k x out = out @ [(k, x)]" using Cons.prems e by (intro gput_new) auto
  moreover have "\<exists>u. run_state (copy_entries c (out @ [(k, x)]) es) (h @ t) = ((out @ [(k, x)]) @ es, (h @ t) @ u)"
    using Cons.prems e by (intro Cons.IH) auto
  ultimately show ?case using e by auto
qed auto

lemma entries_copier:
  assumes "\<And>x h. \<exists>t. run_state (c x) h = (x, h @ t)"
  shows "deep_copier (\<lambda>h m. m) (\<lambda>h m. {}) (\<lambda>h. distinct_keys) (copy_entries c [])"
proof (unfold_locales, goal_cases)
  case (2 h m)
  then show ?case
    using copy_entries_flat [OF assms, of "[]" m h] by (simp add: distinct_keys_def)
qed auto

end
