(* ===== verification/Deep_Copy.thy ===== *)
theory Deep_Copy
  imports Go_Memory Cluster_Control
begin

text \<open>
  \<^verbatim>\<open>zz_generated.deepcopy.go\<close> of \<^verbatim>\<open>v1alpha1\<close>, with the deep copies of Kubernetes' own types that it
  calls.  A struct in memory (\<open>mem_\<close>) has the address of what it points to where the struct of
  \<open>Cell_Types\<close> has the value; slices and maps are pointers too.  \<open>load\<close> reads the value of
  \<open>Cell_Types\<close> that a struct in memory stands for, \<open>refs\<close> the cells it can reach.  Addresses are
  not observable in Go, so the order of two allocations does not matter.
\<close>

section \<open>The types in memory\<close>

record mem_owner =
  mo_api_version :: string
  mo_kind :: string
  mo_name :: string
  mo_uid :: string
  mo_controller :: "addr option"
  mo_block_deletion :: "addr option"

record mem_meta =
  mm_name :: string
  mm_ns :: string
  mm_labels :: "addr option"
  mm_ann :: "addr option"
  mm_owners :: "addr option"
  mm_uid :: string
  mm_rv :: string
  mm_generation :: int
  mm_deletion :: "addr option"        \<comment> \<open>\<open>DeletionTimestamp\<close>\<close>
  mm_generate_name :: string

record mem_toleration =
  mt_key :: string
  mt_operator :: string
  mt_value :: string
  mt_effect :: string
  mt_seconds :: "addr option"

record mem_set_status =
  mss_observed :: "addr option"
  mss_replicas :: int
  mss_ready :: int
  mss_current :: string
  mss_update :: string

record mem_container =
  mk_image :: string
  mk_pull_policy :: string
  mk_requests :: "addr option"
  mk_limits :: "addr option"

record mem_member_spec =
  mms_container :: mem_container
  mms_replicas :: int
  mms_node_selector :: "addr option"
  mms_node_selector_required :: bool
  mms_storage_class :: string
  mms_tolerations :: "addr option"

record mem_spec =
  mspec_scheduler :: string
  mspec_pd :: mem_member_spec
  mspec_proxy :: mem_member_spec
  mspec_store :: mem_member_spec
  mspec_services :: "addr option"
  mspec_reclaim :: string
  mspec_timezone :: string
  mspec_peer_url :: string
  mspec_peer_rpc :: string

record mem_pd_status =
  mpd_synced :: bool
  mpd_phase :: string
  mpd_set :: "addr option"
  mpd_members :: "addr option"
  mpd_leader :: pd_member
  mpd_failures :: "addr option"

record mem_proxy_status =
  mpx_phase :: string
  mpx_set :: "addr option"
  mpx_members :: "addr option"
  mpx_failures :: "addr option"

record mem_store_status =
  msto_synced :: bool
  msto_phase :: string
  msto_set :: "addr option"
  msto_stores :: "addr option"
  msto_tombstones :: "addr option"
  msto_failures :: "addr option"

record mem_status =
  mstat_cluster_id :: string
  mstat_pd :: mem_pd_status
  mstat_store :: mem_store_status
  mstat_proxy :: mem_proxy_status

record mem_cluster =
  mc_meta :: mem_meta
  mc_spec :: mem_spec
  mc_status :: mem_status

record mem_cluster_list =
  ml_items :: "addr option"

text \<open>What a pointer, a map or a slice of these types can refer to.\<close>

datatype cell =
    IntCell (the_int: int)
  | BoolCell (the_bool: bool)
  | TimeCell (the_time: time)
  | StringMapCell (the_string_map: "(string, string) gomap")
  | OwnersCell (the_owners: "mem_owner list")
  | TolerationsCell (the_tolerations: "mem_toleration list")
  | ServicesCell (the_services: "service_req list")
  | ServiceCell (the_service: service_req)
  | RequirementCell (the_requirement: resource_requirement)
  | SetStatusCell (the_set_status: mem_set_status)
  | PDMembersCell (the_pd_members: "(string, pd_member) gomap")
  | PDMemberCell (the_pd_member: pd_member)
  | PDFailuresCell (the_pd_failures: "(string, pd_failure_member) gomap")
  | PDFailureCell (the_pd_failure: pd_failure_member)
  | ProxyMembersCell (the_proxy_members: "(string, proxy_member) gomap")
  | ProxyMemberCell (the_proxy_member: proxy_member)
  | ProxyFailuresCell (the_proxy_failures: "(string, string) gomap")
  | ProxyFailureCell (the_proxy_failure: string)
  | StoresCell (the_stores: "(string, kv_store) gomap")
  | StoreCell (the_store: kv_store)
  | KVFailuresCell (the_kv_failures: "(string, kv_failure_store) gomap")
  | KVFailureCell (the_kv_failure: kv_failure_store)
  | ContainerCell (the_container: mem_container)
  | MemberSpecCell (the_member_spec: mem_member_spec)
  | SpecCell (the_spec: mem_spec)
  | PDStatusCell (the_pd_status: mem_pd_status)
  | ProxyStatusCell (the_proxy_status: mem_proxy_status)
  | StoreStatusCell (the_store_status: mem_store_status)
  | StatusCell (the_status: mem_status)
  | ClusterCell (the_cluster: mem_cluster)
  | ClustersCell (the_clusters: "mem_cluster list")
  | ClusterListCell (the_cluster_list: mem_cluster_list)

type_synonym 'a cells = "(cell, 'a) mem"
type_synonym memory = "cell list"

section \<open>Structs without pointers\<close>

definition KVFailureStore_DeepCopyInto :: "kv_failure_store \<Rightarrow> kv_failure_store cells" where
  "KVFailureStore_DeepCopyInto i = State_Monad.return i"

definition KVStore_DeepCopyInto :: "kv_store \<Rightarrow> kv_store cells" where
  "KVStore_DeepCopyInto i =
     State_Monad.return (i\<lparr>kv_heartbeat := kv_heartbeat i, kv_transition := kv_transition i\<rparr>)"

definition PDFailureMember_DeepCopyInto :: "pd_failure_member \<Rightarrow> pd_failure_member cells" where
  "PDFailureMember_DeepCopyInto i = State_Monad.return i"

definition PDMember_DeepCopyInto :: "pd_member \<Rightarrow> pd_member cells" where
  "PDMember_DeepCopyInto i = State_Monad.return (i\<lparr>pm_transition := pm_transition i\<rparr>)"

definition ProxyFailureMember_DeepCopyInto :: "string \<Rightarrow> string cells" where
  "ProxyFailureMember_DeepCopyInto i = State_Monad.return i"

definition ProxyMember_DeepCopyInto :: "proxy_member \<Rightarrow> proxy_member cells" where
  "ProxyMember_DeepCopyInto i = State_Monad.return (i\<lparr>xm_transition := xm_transition i\<rparr>)"

definition ResourceRequirement_DeepCopyInto :: "resource_requirement \<Rightarrow> resource_requirement cells" where
  "ResourceRequirement_DeepCopyInto i = State_Monad.return i"

definition Service_DeepCopyInto :: "service_req \<Rightarrow> service_req cells" where
  "Service_DeepCopyInto i = State_Monad.return i"

text \<open>\<^verbatim>\<open>if in == nil { return nil }; out := new(T); in.DeepCopyInto(out); return out\<close>\<close>

definition KVFailureStore_DeepCopy :: "addr option \<Rightarrow> addr option cells" where
  "KVFailureStore_DeepCopy = copy_ptr the_kv_failure KVFailureCell KVFailureStore_DeepCopyInto"

definition KVStore_DeepCopy :: "addr option \<Rightarrow> addr option cells" where
  "KVStore_DeepCopy = copy_ptr the_store StoreCell KVStore_DeepCopyInto"

definition PDFailureMember_DeepCopy :: "addr option \<Rightarrow> addr option cells" where
  "PDFailureMember_DeepCopy = copy_ptr the_pd_failure PDFailureCell PDFailureMember_DeepCopyInto"

definition PDMember_DeepCopy :: "addr option \<Rightarrow> addr option cells" where
  "PDMember_DeepCopy = copy_ptr the_pd_member PDMemberCell PDMember_DeepCopyInto"

definition ProxyFailureMember_DeepCopy :: "addr option \<Rightarrow> addr option cells" where
  "ProxyFailureMember_DeepCopy = copy_ptr the_proxy_failure ProxyFailureCell ProxyFailureMember_DeepCopyInto"

definition ProxyMember_DeepCopy :: "addr option \<Rightarrow> addr option cells" where
  "ProxyMember_DeepCopy = copy_ptr the_proxy_member ProxyMemberCell ProxyMember_DeepCopyInto"

definition ResourceRequirement_DeepCopy :: "addr option \<Rightarrow> addr option cells" where
  "ResourceRequirement_DeepCopy =
     copy_ptr the_requirement RequirementCell ResourceRequirement_DeepCopyInto"

definition Service_DeepCopy :: "addr option \<Rightarrow> addr option cells" where
  "Service_DeepCopy = copy_ptr the_service ServiceCell Service_DeepCopyInto"

text \<open>\<^verbatim>\<open>*val.DeepCopy()\<close> of a local variable: it has an address, and the copy is read back.\<close>

definition copy_val :: "('m \<Rightarrow> cell) \<Rightarrow> (cell \<Rightarrow> 'm) \<Rightarrow> (addr option \<Rightarrow> addr option cells) \<Rightarrow> 'm \<Rightarrow> 'm cells" where
  "copy_val wrap un cp x = do {
     a \<leftarrow> alloc (wrap x);
     p \<leftarrow> cp (Some a);
     c \<leftarrow> deref (the p);
     State_Monad.return (un c) }"

section \<open>Kubernetes' types\<close>

definition OwnerReference_DeepCopyInto :: "mem_owner \<Rightarrow> mem_owner cells" where
  "OwnerReference_DeepCopyInto i = do {
     c \<leftarrow> copy_ptr the_bool BoolCell State_Monad.return (mo_controller i);
     b \<leftarrow> copy_ptr the_bool BoolCell State_Monad.return (mo_block_deletion i);
     State_Monad.return (i\<lparr>mo_controller := c, mo_block_deletion := b\<rparr>) }"

definition ObjectMeta_DeepCopyInto :: "mem_meta \<Rightarrow> mem_meta cells" where
  "ObjectMeta_DeepCopyInto i = do {
     d \<leftarrow> copy_ptr the_time TimeCell State_Monad.return (mm_deletion i);
     l \<leftarrow> copy_ptr the_string_map StringMapCell (copy_entries State_Monad.return []) (mm_labels i);
     a \<leftarrow> copy_ptr the_string_map StringMapCell (copy_entries State_Monad.return []) (mm_ann i);
     r \<leftarrow> copy_ptr the_owners OwnersCell (copy_elems OwnerReference_DeepCopyInto) (mm_owners i);
     State_Monad.return (i\<lparr>mm_deletion := d, mm_labels := l, mm_ann := a, mm_owners := r\<rparr>) }"

definition Toleration_DeepCopyInto :: "mem_toleration \<Rightarrow> mem_toleration cells" where
  "Toleration_DeepCopyInto i = do {
     s \<leftarrow> copy_ptr the_int IntCell State_Monad.return (mt_seconds i);
     State_Monad.return (i\<lparr>mt_seconds := s\<rparr>) }"

definition StatefulSetStatus_DeepCopyInto :: "mem_set_status \<Rightarrow> mem_set_status cells" where
  "StatefulSetStatus_DeepCopyInto i = do {
     g \<leftarrow> copy_ptr the_int IntCell State_Monad.return (mss_observed i);
     State_Monad.return (i\<lparr>mss_observed := g\<rparr>) }"

section \<open>The spec\<close>

definition ContainerSpec_DeepCopyInto :: "mem_container \<Rightarrow> mem_container cells" where
  "ContainerSpec_DeepCopyInto i = do {
     r \<leftarrow> copy_ptr the_requirement RequirementCell State_Monad.return (mk_requests i);
     l \<leftarrow> copy_ptr the_requirement RequirementCell State_Monad.return (mk_limits i);
     State_Monad.return (i\<lparr>mk_requests := r, mk_limits := l\<rparr>) }"

definition ContainerSpec_DeepCopy :: "addr option \<Rightarrow> addr option cells" where
  "ContainerSpec_DeepCopy = copy_ptr the_container ContainerCell ContainerSpec_DeepCopyInto"

definition PDSpec_DeepCopyInto :: "mem_member_spec \<Rightarrow> mem_member_spec cells" where
  "PDSpec_DeepCopyInto i = do {
     c \<leftarrow> ContainerSpec_DeepCopyInto (mms_container i);
     n \<leftarrow> copy_ptr the_string_map StringMapCell (copy_entries State_Monad.return []) (mms_node_selector i);
     t \<leftarrow> copy_ptr the_tolerations TolerationsCell (copy_elems Toleration_DeepCopyInto) (mms_tolerations i);
     State_Monad.return (i\<lparr>mms_container := c, mms_node_selector := n, mms_tolerations := t\<rparr>) }"

definition PDSpec_DeepCopy :: "addr option \<Rightarrow> addr option cells" where
  "PDSpec_DeepCopy = copy_ptr the_member_spec MemberSpecCell PDSpec_DeepCopyInto"

definition ProxySpec_DeepCopyInto :: "mem_member_spec \<Rightarrow> mem_member_spec cells" where
  "ProxySpec_DeepCopyInto i = do {
     c \<leftarrow> ContainerSpec_DeepCopyInto (mms_container i);
     n \<leftarrow> copy_ptr the_string_map StringMapCell (copy_entries State_Monad.return []) (mms_node_selector i);
     t \<leftarrow> copy_ptr the_tolerations TolerationsCell (copy_elems Toleration_DeepCopyInto) (mms_tolerations i);
     State_Monad.return (i\<lparr>mms_container := c, mms_node_selector := n, mms_tolerations := t\<rparr>) }"

definition ProxySpec_DeepCopy :: "addr option \<Rightarrow> addr option cells" where
  "ProxySpec_DeepCopy = copy_ptr the_member_spec MemberSpecCell ProxySpec_DeepCopyInto"

definition StoreSpec_DeepCopyInto :: "mem_member_spec \<Rightarrow> mem_member_spec cells" where
  "StoreSpec_DeepCopyInto i = do {
     c \<leftarrow> ContainerSpec_DeepCopyInto (mms_container i);
     n \<leftarrow> copy_ptr the_string_map StringMapCell (copy_entries State_Monad.return []) (mms_node_selector i);
     t \<leftarrow> copy_ptr the_tolerations TolerationsCell (copy_elems Toleration_DeepCopyInto) (mms_tolerations i);
     State_Monad.return (i\<lparr>mms_container := c, mms_node_selector := n, mms_tolerations := t\<rparr>) }"

definition StoreSpec_DeepCopy :: "addr option \<Rightarrow> addr option cells" where
  "StoreSpec_DeepCopy = copy_ptr the_member_spec MemberSpecCell StoreSpec_DeepCopyInto"

definition CellClusterSpec_DeepCopyInto :: "mem_spec \<Rightarrow> mem_spec cells" where
  "CellClusterSpec_DeepCopyInto i = do {
     p \<leftarrow> PDSpec_DeepCopyInto (mspec_pd i);
     x \<leftarrow> ProxySpec_DeepCopyInto (mspec_proxy i);
     s \<leftarrow> StoreSpec_DeepCopyInto (mspec_store i);
     v \<leftarrow> copy_ptr the_services ServicesCell State_Monad.return (mspec_services i);
     State_Monad.return (i\<lparr>mspec_pd := p, mspec_proxy := x, mspec_store := s, mspec_services := v\<rparr>) }"

definition CellClusterSpec_DeepCopy :: "addr option \<Rightarrow> addr option cells" where
  "CellClusterSpec_DeepCopy = copy_ptr the_spec SpecCell CellClusterSpec_DeepCopyInto"

section \<open>The status\<close>

definition PDStatus_DeepCopyInto :: "mem_pd_status \<Rightarrow> mem_pd_status cells" where
  "PDStatus_DeepCopyInto i = do {
     s \<leftarrow> copy_ptr the_set_status SetStatusCell StatefulSetStatus_DeepCopyInto (mpd_set i);
     m \<leftarrow> copy_ptr the_pd_members PDMembersCell
           (copy_entries (copy_val PDMemberCell the_pd_member PDMember_DeepCopy) []) (mpd_members i);
     l \<leftarrow> PDMember_DeepCopyInto (mpd_leader i);
     f \<leftarrow> copy_ptr the_pd_failures PDFailuresCell (copy_entries State_Monad.return []) (mpd_failures i);
     State_Monad.return (i\<lparr>mpd_set := s, mpd_members := m, mpd_leader := l, mpd_failures := f\<rparr>) }"

definition PDStatus_DeepCopy :: "addr option \<Rightarrow> addr option cells" where
  "PDStatus_DeepCopy = copy_ptr the_pd_status PDStatusCell PDStatus_DeepCopyInto"

definition ProxyStatus_DeepCopyInto :: "mem_proxy_status \<Rightarrow> mem_proxy_status cells" where
  "ProxyStatus_DeepCopyInto i = do {
     s \<leftarrow> copy_ptr the_set_status SetStatusCell StatefulSetStatus_DeepCopyInto (mpx_set i);
     m \<leftarrow> copy_ptr the_proxy_members ProxyMembersCell
           (copy_entries (copy_val ProxyMemberCell the_proxy_member ProxyMember_DeepCopy) []) (mpx_members i);
     f \<leftarrow> copy_ptr the_proxy_failures ProxyFailuresCell (copy_entries State_Monad.return []) (mpx_failures i);
     State_Monad.return (i\<lparr>mpx_set := s, mpx_members := m, mpx_failures := f\<rparr>) }"

definition ProxyStatus_DeepCopy :: "addr option \<Rightarrow> addr option cells" where
  "ProxyStatus_DeepCopy = copy_ptr the_proxy_status ProxyStatusCell ProxyStatus_DeepCopyInto"

definition StoreStatus_DeepCopyInto :: "mem_store_status \<Rightarrow> mem_store_status cells" where
  "StoreStatus_DeepCopyInto i = do {
     s \<leftarrow> copy_ptr the_set_status SetStatusCell StatefulSetStatus_DeepCopyInto (msto_set i);
     m \<leftarrow> copy_ptr the_stores StoresCell
           (copy_entries (copy_val StoreCell the_store KVStore_DeepCopy) []) (msto_stores i);
     t \<leftarrow> copy_ptr the_stores StoresCell
           (copy_entries (copy_val StoreCell the_store KVStore_DeepCopy) []) (msto_tombstones i);
     f \<leftarrow> copy_ptr the_kv_failures KVFailuresCell (copy_entries State_Monad.return []) (msto_failures i);
     State_Monad.return (i\<lparr>msto_set := s, msto_stores := m, msto_tombstones := t, msto_failures := f\<rparr>) }"

definition StoreStatus_DeepCopy :: "addr option \<Rightarrow> addr option cells" where
  "StoreStatus_DeepCopy = copy_ptr the_store_status StoreStatusCell StoreStatus_DeepCopyInto"

definition CellClusterStatus_DeepCopyInto :: "mem_status \<Rightarrow> mem_status cells" where
  "CellClusterStatus_DeepCopyInto i = do {
     p \<leftarrow> PDStatus_DeepCopyInto (mstat_pd i);
     s \<leftarrow> StoreStatus_DeepCopyInto (mstat_store i);
     x \<leftarrow> ProxyStatus_DeepCopyInto (mstat_proxy i);
     State_Monad.return (i\<lparr>mstat_pd := p, mstat_store := s, mstat_proxy := x\<rparr>) }"

definition CellClusterStatus_DeepCopy :: "addr option \<Rightarrow> addr option cells" where
  "CellClusterStatus_DeepCopy = copy_ptr the_status StatusCell CellClusterStatus_DeepCopyInto"

section \<open>The cluster\<close>

definition CellCluster_DeepCopyInto :: "mem_cluster \<Rightarrow> mem_cluster cells" where
  "CellCluster_DeepCopyInto i = do {
     m \<leftarrow> ObjectMeta_DeepCopyInto (mc_meta i);
     s \<leftarrow> CellClusterSpec_DeepCopyInto (mc_spec i);
     t \<leftarrow> CellClusterStatus_DeepCopyInto (mc_status i);
     State_Monad.return (i\<lparr>mc_meta := m, mc_spec := s, mc_status := t\<rparr>) }"

definition CellCluster_DeepCopy :: "addr option \<Rightarrow> addr option cells" where
  "CellCluster_DeepCopy = copy_ptr the_cluster ClusterCell CellCluster_DeepCopyInto"

text \<open>The result as a \<^verbatim>\<open>runtime.Object\<close>, nil when the copy is.\<close>

definition CellCluster_DeepCopyObject :: "addr option \<Rightarrow> addr option cells" where
  "CellCluster_DeepCopyObject i = do {
     c \<leftarrow> CellCluster_DeepCopy i;
     if c \<noteq> None then State_Monad.return c else State_Monad.return None }"

definition CellClusterList_DeepCopyInto :: "mem_cluster_list \<Rightarrow> mem_cluster_list cells" where
  "CellClusterList_DeepCopyInto i = do {
     v \<leftarrow> copy_ptr the_clusters ClustersCell (copy_elems CellCluster_DeepCopyInto) (ml_items i);
     State_Monad.return (i\<lparr>ml_items := v\<rparr>) }"

definition CellClusterList_DeepCopy :: "addr option \<Rightarrow> addr option cells" where
  "CellClusterList_DeepCopy = copy_ptr the_cluster_list ClusterListCell CellClusterList_DeepCopyInto"

definition CellClusterList_DeepCopyObject :: "addr option \<Rightarrow> addr option cells" where
  "CellClusterList_DeepCopyObject i = do {
     c \<leftarrow> CellClusterList_DeepCopy i;
     if c \<noteq> None then State_Monad.return c else State_Monad.return None }"

end
