(* ===== verification/Deep_Copy_Properties.thy ===== *)
theory Deep_Copy_Properties
  imports Deep_Copy Samples
begin

text \<open>
  What the deep copies promise: the copy means the same and shares no cell with the original.  So
  the informers' cache is safe from a round of managers, and the status before the round stays
  what it was.
\<close>

section \<open>What a struct in memory means\<close>

abbreviation load_val :: "(cell \<Rightarrow> 'a) \<Rightarrow> memory \<Rightarrow> addr option \<Rightarrow> 'a option" where
  "load_val un \<equiv> load_ptr un (\<lambda>h x. x)"

abbreviation refs_val :: "(cell \<Rightarrow> 'a) \<Rightarrow> memory \<Rightarrow> addr option \<Rightarrow> addr set" where
  "refs_val un \<equiv> refs_ptr un (\<lambda>h x. {})"

abbreviation sound_val :: "(cell \<Rightarrow> 'a) \<Rightarrow> ('a \<Rightarrow> cell) \<Rightarrow> memory \<Rightarrow> addr option \<Rightarrow> bool" where
  "sound_val un wrap \<equiv> sound_ptr un wrap (\<lambda>h x. True)"

abbreviation sound_map :: "(cell \<Rightarrow> ('k, 'a) gomap) \<Rightarrow> (('k, 'a) gomap \<Rightarrow> cell) \<Rightarrow> memory \<Rightarrow> addr option \<Rightarrow> bool" where
  "sound_map un wrap \<equiv> sound_ptr un wrap (\<lambda>h. distinct_keys)"

text \<open>A nil slice, or a nil map that is iterated over, has no elements.\<close>

definition elems :: "'a list option \<Rightarrow> 'a list" where
  "elems p = (case p of None \<Rightarrow> [] | Some xs \<Rightarrow> xs)"

definition load_owner :: "memory \<Rightarrow> mem_owner \<Rightarrow> owner_ref" where
  "load_owner h x = \<lparr>or_api_version = mo_api_version x, or_kind = mo_kind x, or_name = mo_name x,
     or_uid = mo_uid x, or_controller = load_val the_bool h (mo_controller x),
     or_block_deletion = load_val the_bool h (mo_block_deletion x)\<rparr>"

definition load_meta :: "memory \<Rightarrow> mem_meta \<Rightarrow> objmeta" where
  "load_meta h x = \<lparr>m_name = mm_name x, m_ns = mm_ns x,
     m_labels = map_option map_of (load_val the_string_map h (mm_labels x)),
     m_ann = map_option map_of (load_val the_string_map h (mm_ann x)),
     m_owners = elems (load_ptr the_owners (\<lambda>h. map (load_owner h)) h (mm_owners x)),
     m_uid = mm_uid x, m_rv = mm_rv x, m_generation = mm_generation x,
     m_deleting = (\<not> Option.is_none (load_val the_time h (mm_deletion x))), m_generate_name = mm_generate_name x\<rparr>"

definition load_toleration :: "memory \<Rightarrow> mem_toleration \<Rightarrow> toleration" where
  "load_toleration h x = \<lparr>tol_key = mt_key x, tol_operator = mt_operator x, tol_value = mt_value x,
     tol_effect = mt_effect x, tol_seconds = load_val the_int h (mt_seconds x)\<rparr>"

definition load_set_status :: "memory \<Rightarrow> mem_set_status \<Rightarrow> sset_status" where
  "load_set_status h x = \<lparr>st_observed_generation = load_val the_int h (mss_observed x),
     st_replicas = mss_replicas x, st_ready_replicas = mss_ready x,
     st_current_revision = mss_current x, st_update_revision = mss_update x\<rparr>"

definition load_container :: "memory \<Rightarrow> mem_container \<Rightarrow> container_spec" where
  "load_container h x = \<lparr>k_image = mk_image x, k_pull_policy = mk_pull_policy x,
     k_requests = load_val the_requirement h (mk_requests x),
     k_limits = load_val the_requirement h (mk_limits x)\<rparr>"

definition load_member_spec :: "memory \<Rightarrow> mem_member_spec \<Rightarrow> member_spec" where
  "load_member_spec h x = \<lparr>ms_container = load_container h (mms_container x),
     ms_replicas = mms_replicas x, ms_node_selector = load_val the_string_map h (mms_node_selector x),
     ms_node_selector_required = mms_node_selector_required x, ms_storage_class = mms_storage_class x,
     ms_tolerations =
       elems (load_ptr the_tolerations (\<lambda>h. map (load_toleration h)) h (mms_tolerations x))\<rparr>"

definition load_spec :: "memory \<Rightarrow> mem_spec \<Rightarrow> cell_spec" where
  "load_spec h x = \<lparr>spec_scheduler = mspec_scheduler x, spec_pd = load_member_spec h (mspec_pd x),
     spec_proxy = load_member_spec h (mspec_proxy x), spec_store = load_member_spec h (mspec_store x),
     spec_services = elems (load_val the_services h (mspec_services x)),
     spec_reclaim = mspec_reclaim x, spec_timezone = mspec_timezone x,
     spec_peer_url = mspec_peer_url x, spec_peer_rpc = mspec_peer_rpc x\<rparr>"

definition load_pd_status :: "memory \<Rightarrow> mem_pd_status \<Rightarrow> pd_status" where
  "load_pd_status h x = \<lparr>pd_synced = mpd_synced x, pd_phase = mpd_phase x,
     pd_set = load_ptr the_set_status load_set_status h (mpd_set x),
     pd_members = elems (load_val the_pd_members h (mpd_members x)), pd_leader = mpd_leader x,
     pd_failures = elems (load_val the_pd_failures h (mpd_failures x))\<rparr>"

definition load_proxy_status :: "memory \<Rightarrow> mem_proxy_status \<Rightarrow> proxy_status" where
  "load_proxy_status h x = \<lparr>px_phase = mpx_phase x,
     px_set = load_ptr the_set_status load_set_status h (mpx_set x),
     px_members = elems (load_val the_proxy_members h (mpx_members x)),
     px_failures = elems (load_val the_proxy_failures h (mpx_failures x))\<rparr>"

definition load_store_status :: "memory \<Rightarrow> mem_store_status \<Rightarrow> store_status" where
  "load_store_status h x = \<lparr>sto_synced = msto_synced x, sto_phase = msto_phase x,
     sto_set = load_ptr the_set_status load_set_status h (msto_set x),
     sto_stores = elems (load_val the_stores h (msto_stores x)),
     sto_tombstones = elems (load_val the_stores h (msto_tombstones x)),
     sto_failures = elems (load_val the_kv_failures h (msto_failures x))\<rparr>"

definition load_status :: "memory \<Rightarrow> mem_status \<Rightarrow> cell_status" where
  "load_status h x = \<lparr>stat_cluster_id = mstat_cluster_id x, stat_pd = load_pd_status h (mstat_pd x),
     stat_store = load_store_status h (mstat_store x), stat_proxy = load_proxy_status h (mstat_proxy x)\<rparr>"

definition load_cluster :: "memory \<Rightarrow> mem_cluster \<Rightarrow> cellcluster" where
  "load_cluster h x = \<lparr>cc_meta = load_meta h (mc_meta x), cc_spec = load_spec h (mc_spec x),
     cc_status = load_status h (mc_status x)\<rparr>"

definition load_cluster_list :: "memory \<Rightarrow> mem_cluster_list \<Rightarrow> cellcluster list" where
  "load_cluster_list h x = elems (load_ptr the_clusters (\<lambda>h. map (load_cluster h)) h (ml_items x))"

section \<open>The cells a struct can reach\<close>

definition refs_owner :: "memory \<Rightarrow> mem_owner \<Rightarrow> addr set" where
  "refs_owner h x = refs_val the_bool h (mo_controller x) \<union> refs_val the_bool h (mo_block_deletion x)"

definition refs_meta :: "memory \<Rightarrow> mem_meta \<Rightarrow> addr set" where
  "refs_meta h x = refs_val the_time h (mm_deletion x) \<union> (refs_val the_string_map h (mm_labels x) \<union>
     (refs_val the_string_map h (mm_ann x) \<union> refs_ptr the_owners (refs_elems refs_owner) h (mm_owners x)))"

definition refs_toleration :: "memory \<Rightarrow> mem_toleration \<Rightarrow> addr set" where
  "refs_toleration h x = refs_val the_int h (mt_seconds x)"

definition refs_set_status :: "memory \<Rightarrow> mem_set_status \<Rightarrow> addr set" where
  "refs_set_status h x = refs_val the_int h (mss_observed x)"

definition refs_container :: "memory \<Rightarrow> mem_container \<Rightarrow> addr set" where
  "refs_container h x = refs_val the_requirement h (mk_requests x) \<union> refs_val the_requirement h (mk_limits x)"

definition refs_member_spec :: "memory \<Rightarrow> mem_member_spec \<Rightarrow> addr set" where
  "refs_member_spec h x = refs_container h (mms_container x) \<union>
     (refs_val the_string_map h (mms_node_selector x) \<union>
      refs_ptr the_tolerations (refs_elems refs_toleration) h (mms_tolerations x))"

definition refs_spec :: "memory \<Rightarrow> mem_spec \<Rightarrow> addr set" where
  "refs_spec h x = refs_member_spec h (mspec_pd x) \<union> (refs_member_spec h (mspec_proxy x) \<union>
     (refs_member_spec h (mspec_store x) \<union> refs_val the_services h (mspec_services x)))"

definition refs_pd_status :: "memory \<Rightarrow> mem_pd_status \<Rightarrow> addr set" where
  "refs_pd_status h x = refs_ptr the_set_status refs_set_status h (mpd_set x) \<union>
     (refs_val the_pd_members h (mpd_members x) \<union> refs_val the_pd_failures h (mpd_failures x))"

definition refs_proxy_status :: "memory \<Rightarrow> mem_proxy_status \<Rightarrow> addr set" where
  "refs_proxy_status h x = refs_ptr the_set_status refs_set_status h (mpx_set x) \<union>
     (refs_val the_proxy_members h (mpx_members x) \<union> refs_val the_proxy_failures h (mpx_failures x))"

definition refs_store_status :: "memory \<Rightarrow> mem_store_status \<Rightarrow> addr set" where
  "refs_store_status h x = refs_ptr the_set_status refs_set_status h (msto_set x) \<union>
     (refs_val the_stores h (msto_stores x) \<union> (refs_val the_stores h (msto_tombstones x) \<union>
      refs_val the_kv_failures h (msto_failures x)))"

definition refs_status :: "memory \<Rightarrow> mem_status \<Rightarrow> addr set" where
  "refs_status h x = refs_pd_status h (mstat_pd x) \<union> (refs_store_status h (mstat_store x) \<union>
     refs_proxy_status h (mstat_proxy x))"

definition refs_cluster :: "memory \<Rightarrow> mem_cluster \<Rightarrow> addr set" where
  "refs_cluster h x = refs_meta h (mc_meta x) \<union> (refs_spec h (mc_spec x) \<union> refs_status h (mc_status x))"

definition refs_cluster_list :: "memory \<Rightarrow> mem_cluster_list \<Rightarrow> addr set" where
  "refs_cluster_list h x = refs_ptr the_clusters (refs_elems refs_cluster) h (ml_items x)"

section \<open>Pointers point to what their types say\<close>

definition sound_owner :: "memory \<Rightarrow> mem_owner \<Rightarrow> bool" where
  "sound_owner h x \<longleftrightarrow> sound_val the_bool BoolCell h (mo_controller x) \<and>
     sound_val the_bool BoolCell h (mo_block_deletion x)"

definition sound_meta :: "memory \<Rightarrow> mem_meta \<Rightarrow> bool" where
  "sound_meta h x \<longleftrightarrow> sound_val the_time TimeCell h (mm_deletion x) \<and>
     sound_map the_string_map StringMapCell h (mm_labels x) \<and>
     sound_map the_string_map StringMapCell h (mm_ann x) \<and>
     sound_ptr the_owners OwnersCell (\<lambda>h. list_all (sound_owner h)) h (mm_owners x)"

definition sound_toleration :: "memory \<Rightarrow> mem_toleration \<Rightarrow> bool" where
  "sound_toleration h x \<longleftrightarrow> sound_val the_int IntCell h (mt_seconds x)"

definition sound_set_status :: "memory \<Rightarrow> mem_set_status \<Rightarrow> bool" where
  "sound_set_status h x \<longleftrightarrow> sound_val the_int IntCell h (mss_observed x)"

definition sound_container :: "memory \<Rightarrow> mem_container \<Rightarrow> bool" where
  "sound_container h x \<longleftrightarrow> sound_val the_requirement RequirementCell h (mk_requests x) \<and>
     sound_val the_requirement RequirementCell h (mk_limits x)"

definition sound_member_spec :: "memory \<Rightarrow> mem_member_spec \<Rightarrow> bool" where
  "sound_member_spec h x \<longleftrightarrow> sound_container h (mms_container x) \<and>
     sound_map the_string_map StringMapCell h (mms_node_selector x) \<and>
     sound_ptr the_tolerations TolerationsCell (\<lambda>h. list_all (sound_toleration h)) h (mms_tolerations x)"

definition sound_spec :: "memory \<Rightarrow> mem_spec \<Rightarrow> bool" where
  "sound_spec h x \<longleftrightarrow> sound_member_spec h (mspec_pd x) \<and> sound_member_spec h (mspec_proxy x) \<and>
     sound_member_spec h (mspec_store x) \<and> sound_val the_services ServicesCell h (mspec_services x)"

definition sound_pd_status :: "memory \<Rightarrow> mem_pd_status \<Rightarrow> bool" where
  "sound_pd_status h x \<longleftrightarrow> sound_ptr the_set_status SetStatusCell sound_set_status h (mpd_set x) \<and>
     sound_map the_pd_members PDMembersCell h (mpd_members x) \<and>
     sound_map the_pd_failures PDFailuresCell h (mpd_failures x)"

definition sound_proxy_status :: "memory \<Rightarrow> mem_proxy_status \<Rightarrow> bool" where
  "sound_proxy_status h x \<longleftrightarrow> sound_ptr the_set_status SetStatusCell sound_set_status h (mpx_set x) \<and>
     sound_map the_proxy_members ProxyMembersCell h (mpx_members x) \<and>
     sound_map the_proxy_failures ProxyFailuresCell h (mpx_failures x)"

definition sound_store_status :: "memory \<Rightarrow> mem_store_status \<Rightarrow> bool" where
  "sound_store_status h x \<longleftrightarrow> sound_ptr the_set_status SetStatusCell sound_set_status h (msto_set x) \<and>
     sound_map the_stores StoresCell h (msto_stores x) \<and>
     sound_map the_stores StoresCell h (msto_tombstones x) \<and>
     sound_map the_kv_failures KVFailuresCell h (msto_failures x)"

definition sound_status :: "memory \<Rightarrow> mem_status \<Rightarrow> bool" where
  "sound_status h x \<longleftrightarrow> sound_pd_status h (mstat_pd x) \<and> sound_store_status h (mstat_store x) \<and>
     sound_proxy_status h (mstat_proxy x)"

definition sound_cluster :: "memory \<Rightarrow> mem_cluster \<Rightarrow> bool" where
  "sound_cluster h x \<longleftrightarrow> sound_meta h (mc_meta x) \<and> sound_spec h (mc_spec x) \<and> sound_status h (mc_status x)"

definition sound_cluster_list :: "memory \<Rightarrow> mem_cluster_list \<Rightarrow> bool" where
  "sound_cluster_list h x \<longleftrightarrow>
     sound_ptr the_clusters ClustersCell (\<lambda>h. list_all (sound_cluster h)) h (ml_items x)"

section \<open>Every generated method is a deep copy\<close>

lemma flat_run: "\<exists>t. run_state (State_Monad.return x) h = (x, h @ t)"
  by simp

lemma copy_val_run:
  assumes "\<And>y. un (wrap y) = y" and "cp = copy_ptr un wrap State_Monad.return"
  shows "\<exists>t. run_state (copy_val wrap un cp x) h = (x, h @ t)"
  by (simp add: copy_val_def copy_ptr_def assms nth_append)

lemma plain_copies:
  "KVStore_DeepCopyInto = State_Monad.return" "PDMember_DeepCopyInto = State_Monad.return"
  "ProxyMember_DeepCopyInto = State_Monad.return"
  by (simp_all add: fun_eq_iff KVStore_DeepCopyInto_def PDMember_DeepCopyInto_def ProxyMember_DeepCopyInto_def)

lemmas val_copier = ptr_copier [OF flat_copier]
lemmas map_copier = ptr_copier [OF entries_copier [OF flat_run]]
lemmas copied_map_copier = ptr_copier [OF entries_copier [OF copy_val_run]]

lemma owner_copier: "deep_copier load_owner refs_owner sound_owner OwnerReference_DeepCopyInto"
  by (rule struct_copier [OF both_copier [OF val_copier [of the_bool BoolCell] val_copier [of the_bool BoolCell]],
        where f = "\<lambda>x. (mo_controller x, mo_block_deletion x)"
          and upd = "\<lambda>(c, b) x. x\<lparr>mo_controller := c, mo_block_deletion := b\<rparr>"])
    (auto simp: load_owner_def refs_owner_def sound_owner_def OwnerReference_DeepCopyInto_def
      copy_both_def split: prod.splits)

text \<open>Each of these follows the fields of its type.\<close>

lemma meta_copier: "deep_copier load_meta refs_meta sound_meta ObjectMeta_DeepCopyInto"
  by (rule struct_copier [OF both_copier [OF val_copier [of the_time TimeCell] both_copier [OF map_copier [of the_string_map StringMapCell] both_copier [OF map_copier [of the_string_map StringMapCell] ptr_copier [OF elems_copier [OF owner_copier], of the_owners OwnersCell]]]],
        where f = "\<lambda>x. (mm_deletion x, mm_labels x, mm_ann x, mm_owners x)"
          and upd = "\<lambda>(a, b, c, d) x. x\<lparr>mm_deletion := a, mm_labels := b, mm_ann := c, mm_owners := d\<rparr>"])
    (auto simp: load_meta_def refs_meta_def sound_meta_def ObjectMeta_DeepCopyInto_def copy_both_def
      split: prod.splits)

lemma toleration_copier: "deep_copier load_toleration refs_toleration sound_toleration Toleration_DeepCopyInto"
  by (rule struct_copier [OF val_copier [of the_int IntCell],
        where f = "\<lambda>x. mt_seconds x"
          and upd = "\<lambda>a x. x\<lparr>mt_seconds := a\<rparr>"])
    (auto simp: load_toleration_def refs_toleration_def sound_toleration_def Toleration_DeepCopyInto_def copy_both_def
      split: prod.splits)

lemma set_status_copier: "deep_copier load_set_status refs_set_status sound_set_status StatefulSetStatus_DeepCopyInto"
  by (rule struct_copier [OF val_copier [of the_int IntCell],
        where f = "\<lambda>x. mss_observed x"
          and upd = "\<lambda>a x. x\<lparr>mss_observed := a\<rparr>"])
    (auto simp: load_set_status_def refs_set_status_def sound_set_status_def StatefulSetStatus_DeepCopyInto_def copy_both_def
      split: prod.splits)

lemma container_copier: "deep_copier load_container refs_container sound_container ContainerSpec_DeepCopyInto"
  by (rule struct_copier [OF both_copier [OF val_copier [of the_requirement RequirementCell] val_copier [of the_requirement RequirementCell]],
        where f = "\<lambda>x. (mk_requests x, mk_limits x)"
          and upd = "\<lambda>(a, b) x. x\<lparr>mk_requests := a, mk_limits := b\<rparr>"])
    (auto simp: load_container_def refs_container_def sound_container_def ContainerSpec_DeepCopyInto_def copy_both_def
      split: prod.splits)

lemma member_spec_copier: "deep_copier load_member_spec refs_member_spec sound_member_spec PDSpec_DeepCopyInto"
  by (rule struct_copier [OF both_copier [OF container_copier both_copier [OF map_copier [of the_string_map StringMapCell] ptr_copier [OF elems_copier [OF toleration_copier], of the_tolerations TolerationsCell]]],
        where f = "\<lambda>x. (mms_container x, mms_node_selector x, mms_tolerations x)"
          and upd = "\<lambda>(a, b, c) x. x\<lparr>mms_container := a, mms_node_selector := b, mms_tolerations := c\<rparr>"])
    (auto simp: load_member_spec_def refs_member_spec_def sound_member_spec_def PDSpec_DeepCopyInto_def copy_both_def
      split: prod.splits)

lemma member_spec_copies:
  "ProxySpec_DeepCopyInto = PDSpec_DeepCopyInto" "StoreSpec_DeepCopyInto = PDSpec_DeepCopyInto"
  by (simp_all add: fun_eq_iff PDSpec_DeepCopyInto_def ProxySpec_DeepCopyInto_def StoreSpec_DeepCopyInto_def)

lemma spec_copier: "deep_copier load_spec refs_spec sound_spec CellClusterSpec_DeepCopyInto"
  by (rule struct_copier [OF both_copier [OF member_spec_copier both_copier [OF member_spec_copier both_copier [OF member_spec_copier val_copier [of the_services ServicesCell]]]],
        where f = "\<lambda>x. (mspec_pd x, mspec_proxy x, mspec_store x, mspec_services x)"
          and upd = "\<lambda>(a, b, c, d) x. x\<lparr>mspec_pd := a, mspec_proxy := b, mspec_store := c, mspec_services := d\<rparr>"])
    (auto simp: load_spec_def refs_spec_def sound_spec_def CellClusterSpec_DeepCopyInto_def member_spec_copies copy_both_def
      split: prod.splits)

text \<open>The maps whose values are copied one by one.\<close>

lemma pd_members_copier: "deep_copier (load_val the_pd_members) (refs_val the_pd_members) (sound_map the_pd_members PDMembersCell)
    (copy_ptr the_pd_members PDMembersCell (copy_entries (copy_val PDMemberCell the_pd_member PDMember_DeepCopy) []))"
  by (rule copied_map_copier) (simp_all add: PDMember_DeepCopy_def plain_copies)

lemma proxy_members_copier: "deep_copier (load_val the_proxy_members) (refs_val the_proxy_members) (sound_map the_proxy_members ProxyMembersCell)
    (copy_ptr the_proxy_members ProxyMembersCell (copy_entries (copy_val ProxyMemberCell the_proxy_member ProxyMember_DeepCopy) []))"
  by (rule copied_map_copier) (simp_all add: ProxyMember_DeepCopy_def plain_copies)

lemma stores_copier: "deep_copier (load_val the_stores) (refs_val the_stores) (sound_map the_stores StoresCell)
    (copy_ptr the_stores StoresCell (copy_entries (copy_val StoreCell the_store KVStore_DeepCopy) []))"
  by (rule copied_map_copier) (simp_all add: KVStore_DeepCopy_def plain_copies)

lemma pd_status_copier: "deep_copier load_pd_status refs_pd_status sound_pd_status PDStatus_DeepCopyInto"
  by (rule struct_copier [OF both_copier [OF ptr_copier [OF set_status_copier, of the_set_status SetStatusCell] both_copier [OF pd_members_copier map_copier [of the_pd_failures PDFailuresCell]]],
        where f = "\<lambda>x. (mpd_set x, mpd_members x, mpd_failures x)"
          and upd = "\<lambda>(a, b, c) x. x\<lparr>mpd_set := a, mpd_members := b, mpd_failures := c\<rparr>"])
    (auto simp: load_pd_status_def refs_pd_status_def sound_pd_status_def PDStatus_DeepCopyInto_def plain_copies copy_both_def
      split: prod.splits)

lemma proxy_status_copier: "deep_copier load_proxy_status refs_proxy_status sound_proxy_status ProxyStatus_DeepCopyInto"
  by (rule struct_copier [OF both_copier [OF ptr_copier [OF set_status_copier, of the_set_status SetStatusCell] both_copier [OF proxy_members_copier map_copier [of the_proxy_failures ProxyFailuresCell]]],
        where f = "\<lambda>x. (mpx_set x, mpx_members x, mpx_failures x)"
          and upd = "\<lambda>(a, b, c) x. x\<lparr>mpx_set := a, mpx_members := b, mpx_failures := c\<rparr>"])
    (auto simp: load_proxy_status_def refs_proxy_status_def sound_proxy_status_def ProxyStatus_DeepCopyInto_def copy_both_def
      split: prod.splits)

lemma store_status_copier: "deep_copier load_store_status refs_store_status sound_store_status StoreStatus_DeepCopyInto"
  by (rule struct_copier [OF both_copier [OF ptr_copier [OF set_status_copier, of the_set_status SetStatusCell] both_copier [OF stores_copier both_copier [OF stores_copier map_copier [of the_kv_failures KVFailuresCell]]]],
        where f = "\<lambda>x. (msto_set x, msto_stores x, msto_tombstones x, msto_failures x)"
          and upd = "\<lambda>(a, b, c, d) x. x\<lparr>msto_set := a, msto_stores := b, msto_tombstones := c, msto_failures := d\<rparr>"])
    (auto simp: load_store_status_def refs_store_status_def sound_store_status_def StoreStatus_DeepCopyInto_def copy_both_def
      split: prod.splits)

lemma status_copier: "deep_copier load_status refs_status sound_status CellClusterStatus_DeepCopyInto"
  by (rule struct_copier [OF both_copier [OF pd_status_copier both_copier [OF store_status_copier proxy_status_copier]],
        where f = "\<lambda>x. (mstat_pd x, mstat_store x, mstat_proxy x)"
          and upd = "\<lambda>(a, b, c) x. x\<lparr>mstat_pd := a, mstat_store := b, mstat_proxy := c\<rparr>"])
    (auto simp: load_status_def refs_status_def sound_status_def CellClusterStatus_DeepCopyInto_def copy_both_def
      split: prod.splits)

lemma cluster_copier: "deep_copier load_cluster refs_cluster sound_cluster CellCluster_DeepCopyInto"
  by (rule struct_copier [OF both_copier [OF meta_copier both_copier [OF spec_copier status_copier]],
        where f = "\<lambda>x. (mc_meta x, mc_spec x, mc_status x)"
          and upd = "\<lambda>(a, b, c) x. x\<lparr>mc_meta := a, mc_spec := b, mc_status := c\<rparr>"])
    (auto simp: load_cluster_def refs_cluster_def sound_cluster_def CellCluster_DeepCopyInto_def copy_both_def
      split: prod.splits)

lemma cluster_list_copier: "deep_copier load_cluster_list refs_cluster_list sound_cluster_list CellClusterList_DeepCopyInto"
  by (rule struct_copier [OF ptr_copier [OF elems_copier [OF cluster_copier], of the_clusters ClustersCell],
        where f = "\<lambda>x. ml_items x"
          and upd = "\<lambda>a x. x\<lparr>ml_items := a\<rparr>"])
    (auto simp: load_cluster_list_def refs_cluster_list_def sound_cluster_list_def CellClusterList_DeepCopyInto_def copy_both_def
      split: prod.splits)

text \<open>The interface on the methods the operator calls.\<close>

interpretation cluster_copy: deep_copier "load_ptr the_cluster load_cluster" "refs_ptr the_cluster refs_cluster"
  "sound_ptr the_cluster ClusterCell sound_cluster" CellCluster_DeepCopy
  unfolding CellCluster_DeepCopy_def by (rule ptr_copier [OF cluster_copier]) simp

interpretation list_copy: deep_copier "load_ptr the_cluster_list load_cluster_list"
  "refs_ptr the_cluster_list refs_cluster_list"
  "sound_ptr the_cluster_list ClusterListCell sound_cluster_list" CellClusterList_DeepCopy
  unfolding CellClusterList_DeepCopy_def by (rule ptr_copier [OF cluster_list_copier]) simp

interpretation status_copy: deep_copier "load_ptr the_status load_status" "refs_ptr the_status refs_status"
  "sound_ptr the_status StatusCell sound_status" CellClusterStatus_DeepCopy
  unfolding CellClusterStatus_DeepCopy_def by (rule ptr_copier [OF status_copier]) simp

text \<open>A pointer whose cells are all allocated.\<close>

definition cluster_at :: "memory \<Rightarrow> addr option \<Rightarrow> bool" where
  "cluster_at h p \<longleftrightarrow> sound_ptr the_cluster ClusterCell sound_cluster h p \<and>
     refs_ptr the_cluster refs_cluster h p \<subseteq> {..<length h}"

text \<open>
  C16: the informers' cache is safe from a round of managers.  The copy that a worker makes of a
  cached cluster means what the original means and shares no cell with it: whatever is assigned
  through the copy, or through anything allocated later, is not seen in the cache, and what the
  rest of the program assigns is not seen in the copy.
\<close>

theorem deep_copy_isolates:
  assumes "cluster_at h p" and "run_state (CellCluster_DeepCopy p) h = (q, h')"
  shows "load_ptr the_cluster load_cluster h' q = load_ptr the_cluster load_cluster h p \<and>
    refs_ptr the_cluster refs_cluster h' q \<subseteq> {length h..<length h'} \<and>
    (acts_on (\<lambda>a. length h \<le> a) ws \<longrightarrow>
      load_ptr the_cluster load_cluster (fold act ws h') p = load_ptr the_cluster load_cluster h p) \<and>
    (acts_on (\<lambda>a. a \<notin> refs_ptr the_cluster refs_cluster h' q) ws \<longrightarrow>
      load_ptr the_cluster load_cluster (fold act ws h') q = load_ptr the_cluster load_cluster h p)"
  using cluster_copy.copy_isolated [OF _ _ assms(2)] assms(1) by (simp add: cluster_at_def)

section \<open>A sample memory\<close>

definition mem_status0 :: mem_status where
  "mem_status0 = \<lparr>mstat_cluster_id = [],
     mstat_pd = \<lparr>mpd_synced = True, mpd_phase = [], mpd_set = None, mpd_members = None,
       mpd_leader = zero_pd_member, mpd_failures = None\<rparr>,
     mstat_store = \<lparr>msto_synced = True, msto_phase = [], msto_set = None, msto_stores = Some 0,
       msto_tombstones = None, msto_failures = None\<rparr>,
     mstat_proxy = \<lparr>mpx_phase = [], mpx_set = None, mpx_members = None, mpx_failures = None\<rparr>\<rparr>"

definition mem_member_spec0 :: mem_member_spec where
  "mem_member_spec0 = \<lparr>mms_container = \<lparr>mk_image = [], mk_pull_policy = [], mk_requests = None, mk_limits = None\<rparr>,
     mms_replicas = 3, mms_node_selector = None, mms_node_selector_required = False,
     mms_storage_class = [], mms_tolerations = None\<rparr>"

definition smp_mem_cluster :: mem_cluster where
  "smp_mem_cluster = \<lparr>
     mc_meta = \<lparr>mm_name = ''c'', mm_ns = ''n'', mm_labels = None, mm_ann = None, mm_owners = None,
       mm_uid = [], mm_rv = [], mm_generation = 0, mm_deletion = None, mm_generate_name = []\<rparr>,
     mc_spec = \<lparr>mspec_scheduler = [], mspec_pd = mem_member_spec0, mspec_proxy = mem_member_spec0,
       mspec_store = mem_member_spec0, mspec_services = None, mspec_reclaim = [], mspec_timezone = [],
       mspec_peer_url = [], mspec_peer_rpc = []\<rparr>,
     mc_status = mem_status0\<rparr>"

text \<open>A cluster, and a later status that differs in the time of the last heartbeat.\<close>

definition smp_memory :: memory where
  "smp_memory = [StoresCell [(''1'', smp_store 1)], ClusterCell smp_mem_cluster, StatusCell mem_status0,
     StoresCell [(''1'', (smp_store 1)\<lparr>kv_heartbeat := Some 9\<rparr>)],
     StatusCell (mem_status0\<lparr>mstat_store := (mstat_store mem_status0)\<lparr>msto_stores := Some 3\<rparr>\<rparr>)]"

lemmas smp_memory_defs = smp_memory_def smp_mem_cluster_def mem_status0_def mem_member_spec0_def

lemmas sound_defs = sound_ptr_def sound_cluster_def sound_meta_def sound_spec_def sound_member_spec_def
  sound_container_def sound_status_def sound_pd_status_def sound_store_status_def sound_proxy_status_def
  distinct_keys_def

lemmas refs_defs = refs_ptr_def refs_cluster_def refs_meta_def refs_spec_def refs_member_spec_def
  refs_container_def refs_status_def refs_pd_status_def refs_store_status_def refs_proxy_status_def

lemma smp_cluster_at: "cluster_at smp_memory (Some 1)"
  by (simp add: cluster_at_def smp_memory_defs sound_defs refs_defs)

theorem deep_copy_isolates_witness:
  "\<exists>q h'. run_state (CellCluster_DeepCopy (Some 1)) smp_memory = (q, h') \<and>
     load_ptr the_cluster load_cluster (fold act [Assigns 5 (StoresCell [])] h') (Some 1) =
       Some (load_cluster smp_memory smp_mem_cluster)"
proof -
  obtain q h' where r: "run_state (CellCluster_DeepCopy (Some 1)) smp_memory = (q, h')" by fastforce
  have "acts_on (\<lambda>a. length smp_memory \<le> a) [Assigns 5 (StoresCell [])]"
    by (simp add: acts_on_def smp_memory_def)
  then have "load_ptr the_cluster load_cluster (fold act [Assigns 5 (StoresCell [])] h') (Some 1) =
      load_ptr the_cluster load_cluster smp_memory (Some 1)"
    using deep_copy_isolates [OF smp_cluster_at r] by blast
  then show ?thesis using r by (auto simp: load_ptr_def smp_memory_def)
qed

end
