(* ===== verification/Status_Compare.thy ===== *)
theory Status_Compare
  imports Deep_Copy_Properties
begin

text \<open>
  The comparison that decides whether a cluster's status is worth an event overwrites the maps it
  compares.  Here it runs on memory, and refines the comparison of values of \<open>Cluster_Control\<close>.
\<close>

definition status_at :: "memory \<Rightarrow> addr option \<Rightarrow> bool" where
  "status_at h p \<longleftrightarrow> sound_ptr the_status StatusCell sound_status h p \<and>
     refs_ptr the_status refs_status h p \<subseteq> {..<length h}"

section \<open>The comparison of statuses\<close>

text \<open>\<^verbatim>\<open>sweepHeartbeatTime\<close> and \<^verbatim>\<open>deepEqualExceptHeartbeatTime\<close> of \<^verbatim>\<open>cellcluster_control.go\<close> as they
  run on memory: the first overwrites the entries of the map it is given.\<close>

fun sweep_entries :: "addr \<Rightarrow> (string, kv_store) gomap \<Rightarrow> unit cells" where
  "sweep_entries a [] = State_Monad.return ()"
| "sweep_entries a ((i, s) # es) = do {
     c \<leftarrow> deref a;
     _ \<leftarrow> store_at a (StoresCell (gput i (s\<lparr>kv_heartbeat := None\<rparr>) (the_stores c)));
     sweep_entries a es }"

definition sweep_memory :: "addr option \<Rightarrow> unit cells" where
  "sweep_memory p =
     (case p of
        None \<Rightarrow> State_Monad.return ()
      | Some a \<Rightarrow> do { c \<leftarrow> deref a; sweep_entries a (the_stores c) })"

definition sweep_both :: "addr \<Rightarrow> unit cells" where
  "sweep_both a = do {
     c \<leftarrow> deref a;
     _ \<leftarrow> sweep_memory (msto_stores (mstat_store (the_status c)));
     sweep_memory (msto_tombstones (mstat_store (the_status c))) }"

definition equal_in_memory :: "addr \<Rightarrow> addr \<Rightarrow> bool cells" where
  "equal_in_memory newStatus oldStatus = do {
     _ \<leftarrow> sweep_both newStatus;
     _ \<leftarrow> sweep_both oldStatus;
     h \<leftarrow> State_Monad.get;
     State_Monad.return (status_equal (load_status h (the_status (h ! newStatus)))
       (load_status h (the_status (h ! oldStatus)))) }"

text \<open>\<^verbatim>\<open>deepEqualExceptHeartbeatTime(newStatus.DeepCopy(), oldStatus.DeepCopy())\<close>\<close>

definition compare_statuses :: "addr \<Rightarrow> addr \<Rightarrow> bool cells" where
  "compare_statuses newStatus oldStatus = do {
     n \<leftarrow> CellClusterStatus_DeepCopy (Some newStatus);
     m \<leftarrow> CellClusterStatus_DeepCopy (Some oldStatus);
     equal_in_memory (the n) (the m) }"

definition swept :: "addr set \<Rightarrow> memory \<Rightarrow> memory \<Rightarrow> bool" where
  "swept S h g \<longleftrightarrow> length g = length h \<and>
     (\<forall>a < length h. g ! a = (if a \<in> S then StoresCell (sweepHeartbeatTime (the_stores (h ! a))) else h ! a))"

lemma sweep_twice [simp]: "sweepHeartbeatTime (sweepHeartbeatTime m) = sweepHeartbeatTime m"
  by (induction m) (auto simp: sweepHeartbeatTime_def)

lemma swept_trans: "swept S h g \<Longrightarrow> swept T g k \<Longrightarrow> swept (S \<union> T) h k"
  by (auto simp: swept_def)

lemma swept_none [simp]: "swept {} h h"
  by (simp add: swept_def)

lemma gput_first: "k \<notin> fst ` set xs \<Longrightarrow> gput k v (xs @ (k, w) # ys) = xs @ (k, v) # ys"
  unfolding gput_def by (induction xs) auto

lemma sweep_entries_run:
  assumes "distinct (map fst (xs @ es))" and "a < length h" and "h ! a = StoresCell (sweepHeartbeatTime xs @ es)"
  shows "run_state (sweep_entries a es) h = ((), h[a := StoresCell (sweepHeartbeatTime (xs @ es))])"
  using assms
proof (induction es arbitrary: xs h)
  case Nil
  then have "h[a := StoresCell (sweepHeartbeatTime xs)] = h" by (metis append_Nil2 list_update_id)
  then show ?case by simp
next
  case (Cons e es)
  obtain k s where e: "e = (k, s)" by (cases e)
  have keys: "fst ` set (sweepHeartbeatTime xs) = fst ` set xs" by (force simp: sweepHeartbeatTime_def)
  let ?c = "StoresCell (gput k (s\<lparr>kv_heartbeat := None\<rparr>) (the_stores (h ! a)))"
  have "gput k (s\<lparr>kv_heartbeat := None\<rparr>) (the_stores (h ! a)) = sweepHeartbeatTime (xs @ [e]) @ es"
    using Cons.prems keys e by (simp add: gput_first) (simp add: sweepHeartbeatTime_def)
  with Cons.IH [of "xs @ [e]" "h[a := ?c]"] Cons.prems e show ?case by simp
qed

lemma sweep_memory_run:
  assumes "sound_map the_stores StoresCell h p" and "refs_val the_stores h p \<subseteq> {..<length h}"
  shows "\<exists>g. run_state (sweep_memory p) h = ((), g) \<and> swept (set_option p) h g"
proof (cases p)
  case (Some a)
  then have a: "a < length h" "h ! a = StoresCell (the_stores (h ! a))" "distinct (map fst (the_stores (h ! a)))"
    using assms by (simp_all add: sound_ptr_def refs_ptr_def distinct_keys_def)
  have "run_state (sweep_entries a (the_stores (h ! a))) h =
      ((), h[a := StoresCell (sweepHeartbeatTime ([] @ the_stores (h ! a)))])"
    using a by (intro sweep_entries_run) (simp_all add: sweepHeartbeatTime_def)
  with Some a show ?thesis by (auto simp: sweep_memory_def swept_def nth_list_update)
qed (simp add: sweep_memory_def)

definition store_maps :: "mem_status \<Rightarrow> addr set" where
  "store_maps x = set_option (msto_stores (mstat_store x)) \<union> set_option (msto_tombstones (mstat_store x))"

text \<open>By their types the swept cells are none of the other cells of a status.\<close>

definition stores_cells :: "addr set \<Rightarrow> memory \<Rightarrow> bool" where
  "stores_cells S h \<longleftrightarrow> (\<forall>a \<in> S. a < length h \<and> (\<exists>m. h ! a = StoresCell m))"

lemma ptr_swept:
  assumes "swept S h g" and "stores_cells S h" and "refs_ptr un r h p \<subseteq> {..<length h}"
    and "sound_ptr un wrap s h p" and "\<And>x m. wrap x \<noteq> StoresCell m"
    and "\<And>a. p = Some a \<Longrightarrow> r h (un (h ! a)) \<inter> S = {}"
  shows "\<forall>a \<in> refs_ptr un r h p. g ! a = h ! a"
proof (cases p)
  case (Some b)
  then have "h ! b = wrap (un (h ! b))" using assms(4) by (simp add: sound_ptr_def)
  then have "b \<notin> S" using assms(2,5) unfolding stores_cells_def by metis
  show ?thesis
  proof
    fix c assume c: "c \<in> refs_ptr un r h p"
    then have "c < length h" using assms(3) by auto
    moreover have "c \<notin> S" using c Some \<open>b \<notin> S\<close> assms(6) by (auto simp: refs_ptr_def)
    ultimately show "g ! c = h ! c" using assms(1) by (simp add: swept_def)
  qed
qed (simp add: refs_ptr_def)

lemma set_cells:
  "stores_cells S h \<Longrightarrow> sound_set_status h x \<Longrightarrow> refs_set_status h x \<inter> S = {}"
  by (auto simp: refs_set_status_def sound_set_status_def refs_ptr_def sound_ptr_def stores_cells_def
      split: option.splits)

lemma set_ptr_swept:
  assumes "swept S h g" and "stores_cells S h"
    and "refs_ptr the_set_status refs_set_status h p \<subseteq> {..<length h}"
    and "sound_ptr the_set_status SetStatusCell sound_set_status h p"
  shows "\<forall>a \<in> refs_ptr the_set_status refs_set_status h p. g ! a = h ! a"
  using assms by (rule ptr_swept) (use assms(2,4) in \<open>auto simp: sound_ptr_def dest: set_cells\<close>)

lemma pd_status_swept:
  assumes "swept S h g" and "stores_cells S h" and "sound_pd_status h x" and "refs_pd_status h x \<subseteq> {..<length h}"
  shows "load_pd_status g x = load_pd_status h x"
proof -
  have "\<forall>a\<in>refs_pd_status h x. g ! a = h ! a"
    using assms(3,4) unfolding refs_pd_status_def sound_pd_status_def ball_Un Un_subset_iff
    by (intro conjI set_ptr_swept [OF assms(1,2)] ptr_swept [OF assms(1,2)]) auto
  from deep_copier.frame [OF pd_status_copier this] show ?thesis by simp
qed

lemma proxy_status_swept:
  assumes "swept S h g" and "stores_cells S h" and "sound_proxy_status h x"
    and "refs_proxy_status h x \<subseteq> {..<length h}"
  shows "load_proxy_status g x = load_proxy_status h x"
proof -
  have "\<forall>a\<in>refs_proxy_status h x. g ! a = h ! a"
    using assms(3,4) unfolding refs_proxy_status_def sound_proxy_status_def ball_Un Un_subset_iff
    by (intro conjI set_ptr_swept [OF assms(1,2)] ptr_swept [OF assms(1,2)]) auto
  from deep_copier.frame [OF proxy_status_copier this] show ?thesis by simp
qed

lemma stores_swept:
  assumes "swept S h g" and "refs_val the_stores h p \<subseteq> {..<length h}" and "set_option p \<subseteq> S"
  shows "elems (load_val the_stores g p) = sweepHeartbeatTime (elems (load_val the_stores h p))"
  using assms
  by (cases p) (auto simp: elems_def load_ptr_def refs_ptr_def swept_def sweepHeartbeatTime_def)

lemma store_status_swept:
  assumes "swept S h g" and "stores_cells S h" and "sound_store_status h x"
    and "refs_store_status h x \<subseteq> {..<length h}"
    and "set_option (msto_stores x) \<subseteq> S" and "set_option (msto_tombstones x) \<subseteq> S"
  shows "load_store_status g x = (load_store_status h x)
    \<lparr>sto_stores := sweepHeartbeatTime (sto_stores (load_store_status h x)),
     sto_tombstones := sweepHeartbeatTime (sto_tombstones (load_store_status h x))\<rparr>"
proof -
  note r = assms(3,4) [unfolded refs_store_status_def sound_store_status_def Un_subset_iff]
  have "\<forall>a \<in> refs_ptr the_set_status refs_set_status h (msto_set x). g ! a = h ! a"
    using r by (intro set_ptr_swept [OF assms(1,2)]) auto
  from deep_copier.frame [OF ptr_copier [OF set_status_copier] this, of SetStatusCell]
  have "load_ptr the_set_status load_set_status g (msto_set x) =
      load_ptr the_set_status load_set_status h (msto_set x)" by simp
  moreover have "\<forall>a \<in> refs_val the_kv_failures h (msto_failures x). g ! a = h ! a"
    using r by (intro ptr_swept [OF assms(1,2)]) auto
  then have "load_val the_kv_failures g (msto_failures x) = load_val the_kv_failures h (msto_failures x)"
    by (auto simp: load_ptr_def refs_ptr_def split: option.splits)
  ultimately show ?thesis
    using r assms(1,5,6) by (simp add: load_store_status_def stores_swept)
qed

lemma status_swept:
  assumes "swept S h g" and "stores_cells S h" and "sound_status h x" and "refs_status h x \<subseteq> {..<length h}"
    and "store_maps x \<subseteq> S"
  shows "load_status g x = sweep_status (load_status h x)"
  using assms(3-5) pd_status_swept [OF assms(1,2)] proxy_status_swept [OF assms(1,2)]
    store_status_swept [OF assms(1,2)]
  by (simp add: load_status_def sweep_status_def sound_status_def refs_status_def store_maps_def)

lemma store_maps_cells:
  assumes "sound_status h x" and "refs_status h x \<subseteq> {..<length h}"
  shows "stores_cells (store_maps x) h"
  using assms
  by (auto simp: stores_cells_def store_maps_def sound_status_def sound_store_status_def sound_ptr_def
      refs_status_def refs_store_status_def refs_ptr_def split: option.splits)

lemma store_maps_refs: "store_maps x \<subseteq> refs_status h x"
  by (auto simp: store_maps_def refs_status_def refs_store_status_def refs_ptr_def)

text \<open>The status a pointer \<open>Some a\<close> refers to.\<close>

lemma status_at_cell:
  assumes "status_at h (Some a)"
  shows "a < length h" "h ! a = StatusCell (the_status (h ! a))" "sound_status h (the_status (h ! a))"
    "refs_status h (the_status (h ! a)) \<subseteq> {..<length h}"
  using assms by (simp_all add: status_at_def sound_ptr_def refs_ptr_def)

text \<open>Sweeping a map keeps its keys, and so the other maps can still be swept.\<close>

definition store_map_at :: "memory \<Rightarrow> addr option \<Rightarrow> bool" where
  "store_map_at h p \<longleftrightarrow> sound_map the_stores StoresCell h p \<and> refs_val the_stores h p \<subseteq> {..<length h}"

lemma sweep_map_run: "store_map_at h p \<Longrightarrow> \<exists>g. run_state (sweep_memory p) h = ((), g) \<and> swept (set_option p) h g"
  by (simp add: store_map_at_def sweep_memory_run)

lemma sweep_keys [simp]: "map fst (sweepHeartbeatTime m) = map fst m"
  by (induction m) (auto simp: sweepHeartbeatTime_def)

lemma store_map_swept: "swept S h g \<Longrightarrow> store_map_at h p \<Longrightarrow> store_map_at g p"
  by (auto simp: store_map_at_def swept_def sound_ptr_def refs_ptr_def distinct_keys_def split: option.splits)

lemma status_store_maps:
  assumes "sound_status h x" and "refs_status h x \<subseteq> {..<length h}"
  shows "store_map_at h (msto_stores (mstat_store x))" "store_map_at h (msto_tombstones (mstat_store x))"
  using assms
  by (simp_all add: store_map_at_def sound_status_def sound_store_status_def refs_status_def refs_store_status_def)

lemma sweep_both_run:
  assumes "store_map_at h (msto_stores (mstat_store x))" and "store_map_at h (msto_tombstones (mstat_store x))"
    and "x = the_status (h ! a)"
  shows "\<exists>g. run_state (sweep_both a) h = ((), g) \<and> swept (store_maps x) h g"
proof -
  obtain g where g: "run_state (sweep_memory (msto_stores (mstat_store x))) h = ((), g)"
    "swept (set_option (msto_stores (mstat_store x))) h g"
    using sweep_map_run [OF assms(1)] by blast
  from store_map_swept [OF this(2) assms(2)] obtain k where
    k: "run_state (sweep_memory (msto_tombstones (mstat_store x))) g = ((), k)"
    "swept (set_option (msto_tombstones (mstat_store x))) g k"
    using sweep_map_run by blast
  from swept_trans [OF g(2) k(2)] g(1) k(1) assms(3) show ?thesis
    by (simp add: sweep_both_def store_maps_def)
qed

lemma status_cell_swept:
  assumes "swept S h g" and "stores_cells S h" and "status_at h (Some a)"
  shows "g ! a = h ! a"
proof -
  have "a \<notin> S" using assms(2) status_at_cell(2) [OF assms(3)] unfolding stores_cells_def by (metis cell.distinct)
  with assms(1) status_at_cell(1) [OF assms(3)] show ?thesis by (simp add: swept_def)
qed

lemma equal_in_memory_run:
  assumes a: "status_at h (Some a)" and b: "status_at h (Some b)"
  shows "\<exists>g. run_state (equal_in_memory a b) h =
      (deepEqualExceptHeartbeatTime (load_status h (the_status (h ! a))) (load_status h (the_status (h ! b))), g) \<and>
    swept (store_maps (the_status (h ! a)) \<union> store_maps (the_status (h ! b))) h g"
proof -
  let ?x = "the_status (h ! a)" and ?y = "the_status (h ! b)"
  let ?S = "store_maps ?x \<union> store_maps ?y"
  note xa = status_at_cell [OF a] and yb = status_at_cell [OF b]
  have cells: "stores_cells (store_maps ?x) h" "stores_cells ?S h"
    using store_maps_cells [OF xa(3,4)] store_maps_cells [OF yb(3,4)] by (auto simp: stores_cells_def)
  obtain g where g: "run_state (sweep_both a) h = ((), g)" "swept (store_maps ?x) h g"
    using sweep_both_run [OF status_store_maps [OF xa(3,4)]] by blast
  have "g ! b = h ! b" by (rule status_cell_swept [OF g(2) cells(1) b])
  then obtain k where k: "run_state (sweep_both b) g = ((), k)" "swept (store_maps ?y) g k"
    using sweep_both_run [OF status_store_maps [OF yb(3,4), THEN store_map_swept [OF g(2)]]] by metis
  have s: "swept ?S h k" by (rule swept_trans [OF g(2) k(2)])
  have "k ! a = h ! a" "k ! b = h ! b"
    using status_cell_swept [OF s cells(2)] a b by blast+
  moreover have "load_status k ?x = sweep_status (load_status h ?x)" "load_status k ?y = sweep_status (load_status h ?y)"
    using status_swept [OF s cells(2)] xa yb by auto
  ultimately show ?thesis using g(1) k(1) s
    by (simp add: equal_in_memory_def deepEqualExceptHeartbeatTime_def)
qed

lemma load_ptr_Some: "load_ptr un l h p = Some v \<Longrightarrow> \<exists>a. p = Some a \<and> l h (un (h ! a)) = v"
  by (cases p) (simp_all add: load_ptr_def)

lemma status_copy_obtains:
  assumes "status_at h (Some a)"
  obtains b t where "run_state (CellClusterStatus_DeepCopy (Some a)) h = (Some b, h @ t)"
    "status_at (h @ t) (Some b)" "refs_ptr the_status refs_status (h @ t) (Some b) \<subseteq> {length h..}"
    "load_status (h @ t) (the_status ((h @ t) ! b)) = load_status h (the_status (h ! a))"
proof -
  have "sound_ptr the_status StatusCell sound_status h (Some a)"
    "refs_ptr the_status refs_status h (Some a) \<subseteq> {..<length h}"
    using assms by (simp_all add: status_at_def)
  from status_copy.obtains_copy [OF this] obtain q t where
    q: "run_state (CellClusterStatus_DeepCopy (Some a)) h = (q, h @ t)"
    "load_ptr the_status load_status (h @ t) q = load_ptr the_status load_status h (Some a)"
    "sound_ptr the_status StatusCell sound_status (h @ t) q"
    "refs_ptr the_status refs_status (h @ t) q \<subseteq> {length h..<length h + length t}" .
  from q(2) obtain b where b: "q = Some b"
    "load_status (h @ t) (the_status ((h @ t) ! b)) = load_status h (the_status (h ! a))"
    by (auto simp: load_ptr_def split: option.splits)
  have "status_at (h @ t) (Some b)" using q(3,4) b(1) by (auto simp: status_at_def subset_iff)
  moreover have "refs_ptr the_status refs_status (h @ t) (Some b) \<subseteq> {length h..}" using q(4) b(1) by auto
  ultimately show thesis using that q(1) b by blast
qed

lemma status_at_grown:
  assumes "status_at h (Some a)"
  shows "status_at (h @ t) (Some a)" "the_status ((h @ t) ! a) = the_status (h ! a)"
    "load_status (h @ t) (the_status (h ! a)) = load_status h (the_status (h ! a))"
    "refs_status (h @ t) (the_status (h ! a)) = refs_status h (the_status (h ! a))"
proof -
  have "refs_ptr the_status refs_status h (Some a) \<subseteq> {..<length h}" using assms by (simp add: status_at_def)
  from status_copy.grown [OF this] assms show "status_at (h @ t) (Some a)"
    by (auto simp: status_at_def)
  show "the_status ((h @ t) ! a) = the_status (h ! a)"
    using status_at_cell(1) [OF assms] by (simp add: nth_append)
  show "load_status (h @ t) (the_status (h ! a)) = load_status h (the_status (h ! a))"
    "refs_status (h @ t) (the_status (h ! a)) = refs_status h (the_status (h ! a))"
    using deep_copier.grown [OF status_copier status_at_cell(4) [OF assms]] by simp_all
qed

lemma status_kept:
  assumes "swept S (h @ t) g" and "status_at h (Some a)" and "S \<subseteq> {length h..}"
  shows "load_ptr the_status load_status g (Some a) = load_ptr the_status load_status h (Some a)"
proof -
  have r: "refs_ptr the_status refs_status h (Some a) \<subseteq> {..<length h}" using assms(2) by (simp add: status_at_def)
  have "\<forall>b \<in> refs_ptr the_status refs_status h (Some a). g ! b = h ! b"
  proof
    fix b assume "b \<in> refs_ptr the_status refs_status h (Some a)"
    then have "b < length h" using r by auto
    then show "g ! b = h ! b" using assms(1,3) by (auto simp: swept_def nth_append)
  qed
  from status_copy.frame [OF this] show ?thesis by simp
qed

text \<open>
  C17: the comparison of statuses on memory implements its specification on values: it is true
  exactly when the statuses are equal but for the heartbeat times, and although it overwrites the
  heartbeat times in the maps it is given, neither status changes, for it works on deep copies.
\<close>

theorem comparison_refines:
  assumes a: "status_at h (Some a)" and b: "status_at h (Some b)"
    and run: "run_state (compare_statuses a b) h = (r, g)"
  shows "r = deepEqualExceptHeartbeatTime (load_status h (the_status (h ! a))) (load_status h (the_status (h ! b))) \<and>
    load_ptr the_status load_status g (Some a) = load_ptr the_status load_status h (Some a) \<and>
    load_ptr the_status load_status g (Some b) = load_ptr the_status load_status h (Some b)"
proof -
  obtain n t where n: "run_state (CellClusterStatus_DeepCopy (Some a)) h = (Some n, h @ t)"
    "status_at (h @ t) (Some n)" "refs_ptr the_status refs_status (h @ t) (Some n) \<subseteq> {length h..}"
    "load_status (h @ t) (the_status ((h @ t) ! n)) = load_status h (the_status (h ! a))"
    by (rule status_copy_obtains [OF a])
  note b1 = status_at_grown [OF b, of t]
  obtain m u where m: "run_state (CellClusterStatus_DeepCopy (Some b)) (h @ t) = (Some m, (h @ t) @ u)"
    "status_at ((h @ t) @ u) (Some m)" "refs_ptr the_status refs_status ((h @ t) @ u) (Some m) \<subseteq> {length (h @ t)..}"
    "load_status ((h @ t) @ u) (the_status (((h @ t) @ u) ! m)) = load_status (h @ t) (the_status ((h @ t) ! b))"
    by (rule status_copy_obtains [OF b1(1)])
  note n1 = status_at_grown [OF n(2), of u]
  let ?k = "(h @ t) @ u" and ?S = "store_maps (the_status (((h @ t) @ u) ! n)) \<union> store_maps (the_status (((h @ t) @ u) ! m))"
  obtain g' where e: "run_state (equal_in_memory n m) ?k =
      (deepEqualExceptHeartbeatTime (load_status ?k (the_status (?k ! n))) (load_status ?k (the_status (?k ! m))), g')"
    "swept ?S ?k g'"
    using equal_in_memory_run [OF n1(1) m(2)] by blast
  then have r: "g = g'" "r = deepEqualExceptHeartbeatTime (load_status ?k (the_status (?k ! n)))
      (load_status ?k (the_status (?k ! m)))"
    using run n(1) m(1) by (simp_all add: compare_statuses_def)
  have "?S \<subseteq> {length h..}"
    using n(3) m(3) store_maps_refs [of "the_status ((h @ t) ! n)" "h @ t"] store_maps_refs [of "the_status (?k ! m)" ?k]
    by (auto simp: refs_ptr_def n1(2) [simplified])
  with e(2) r(1) have "load_ptr the_status load_status g (Some a) = load_ptr the_status load_status h (Some a)"
    "load_ptr the_status load_status g (Some b) = load_ptr the_status load_status h (Some b)"
    using status_kept [of ?S h "t @ u" g] a b by simp_all
  moreover have "load_status ?k (the_status (?k ! n)) = load_status h (the_status (h ! a))"
    using n(4) n1(2,3) by simp
  moreover have "load_status ?k (the_status (?k ! m)) = load_status h (the_status (h ! b))"
    using m(4) b1(2,3) by simp
  ultimately show ?thesis using r(2) by simp
qed

lemma smp_status_at: "status_at smp_memory (Some 2)" "status_at smp_memory (Some 4)"
  by (simp_all add: status_at_def smp_memory_defs sound_defs refs_defs)

theorem comparison_refines_witness:
  "fst (run_state (compare_statuses 4 2) smp_memory) \<and>
     load_ptr the_status load_status (snd (run_state (compare_statuses 4 2) smp_memory)) (Some 4) \<noteq>
     load_ptr the_status load_status (snd (run_state (compare_statuses 4 2) smp_memory)) (Some 2)"
proof -
  obtain r g where run: "run_state (compare_statuses 4 2) smp_memory = (r, g)" by fastforce
  let ?v = "load_status smp_memory"
  let ?new = "the_status (smp_memory ! 4)" and ?old = "the_status (smp_memory ! 2)"
  have "deepEqualExceptHeartbeatTime (?v ?new) (?v ?old)"
    by (simp add: deepEqualExceptHeartbeatTime_def status_equal_def pd_status_equal_def
        store_status_equal_def proxy_status_equal_def sweep_status_def sweepHeartbeatTime_def
        smp_memory_defs load_status_def load_pd_status_def load_store_status_def load_proxy_status_def
        load_ptr_def elems_def smp_store_def)
  moreover have "?v ?new \<noteq> ?v ?old"
    by (simp add: smp_memory_defs load_status_def load_store_status_def load_ptr_def elems_def smp_store_def)
  ultimately show ?thesis
    using comparison_refines [OF smp_status_at(2,1) run] run by (simp add: load_ptr_def)
qed

end
