(* ===== verification/Client_Properties.thy ===== *)
theory Client_Properties
  imports Cell_Client Cluster_Properties
begin

text \<open>
  What the generated client promises the operator: a request reaches the object it names and no
  other, and what a worker looks up under a key is the cluster the key was made from.
\<close>

section \<open>Requests\<close>

text \<open>A name that can stand in a path.\<close>

definition segment_ok :: "string \<Rightarrow> bool" where
  "segment_ok s \<longleftrightarrow> s \<noteq> [] \<and> IsValidPathSegmentName s"

lemma segment_no_slash: "segment_ok s \<Longrightarrow> CHR ''/'' \<notin> set s"
  by (simp add: segment_ok_def IsValidPathSegmentName_def split: if_splits)

lemma cellclusters_ok [simp]: "IsValidPathSegmentName cellclusters" "cellclusters \<noteq> []"
  by (simp_all add: IsValidPathSegmentName_def cellclusters_def)

lemma status_ok [simp]: "IsValidPathSegmentName ''status''"
  by (simp add: IsValidPathSegmentName_def)

lemmas request_defs = new_request_def rq_Namespace_def rq_Resource_def rq_Name_def rq_SubResource_def
  rq_VersionedParams_def rq_Body_def rq_fail_def

lemmas operation_defs = get_request_def update_request_def update_status_request_def delete_request_def

text \<open>The path of a cluster.\<close>

definition cluster_path :: "string \<Rightarrow> string \<Rightarrow> string" where
  "cluster_path ns name = api_prefix @ ''/namespaces/'' @ ns @ ''/cellclusters/'' @ name"

lemma request_paths:
  assumes "segment_ok ns" and "segment_ok name"
  shows "rq_err (get_request ns name v) = None" "request_path (get_request ns name v) = cluster_path ns name"
    "rq_err (delete_request ns name d) = None" "request_path (delete_request ns name d) = cluster_path ns name"
  using assms
  by (simp_all add: operation_defs request_defs request_path_def cluster_path_def api_prefix_def
      segment_ok_def Let_def) (simp_all add: cellclusters_def)

lemma update_paths:
  assumes "segment_ok ns" and "segment_ok (cc_name cc)"
  shows "rq_err (update_request ns cc) = None" "request_path (update_request ns cc) = cluster_path ns (cc_name cc)"
    "rq_err (update_status_request ns cc) = None"
    "request_path (update_status_request ns cc) = cluster_path ns (cc_name cc) @ ''/status''"
    "rq_verb (update_request ns cc) = ''PUT''" "rq_body (update_request ns cc) = ClusterBody cc"
  using assms
  by (simp_all add: operation_defs request_defs request_path_def cluster_path_def api_prefix_def
      segment_ok_def Let_def) (simp_all add: cellclusters_def)

lemma append_at_slash:
  assumes "a @ CHR ''/'' # x = b @ CHR ''/'' # y" and "CHR ''/'' \<notin> set a" and "CHR ''/'' \<notin> set b"
  shows "a = b \<and> x = y"
proof -
  have "takeWhile (\<lambda>c. c \<noteq> CHR ''/'') (a @ CHR ''/'' # x) = a"
    "takeWhile (\<lambda>c. c \<noteq> CHR ''/'') (b @ CHR ''/'' # y) = b"
    using assms(2,3) by (auto intro: takeWhile_tail takeWhile_append2[where xs = a] simp: takeWhile_append)
  with assms(1) show ?thesis by simp
qed

lemma cluster_path_inject:
  assumes "segment_ok ns" and "segment_ok ns'"
  shows "cluster_path ns name = cluster_path ns' name' \<longleftrightarrow> ns = ns' \<and> name = name'"
  using append_at_slash [of ns "''cellclusters/'' @ name" ns' "''cellclusters/'' @ name'"] assms
  by (auto simp: cluster_path_def dest: segment_no_slash)

text \<open>
  A request reaches the cluster it names.  With a namespace and a name that can stand in a path,
  the update of a cluster is the PUT of that cluster to its own path, no get, delete or update of
  another cluster goes there, and the status has a path of its own; with any other name nothing is
  sent and the caller gets an error.
\<close>

lemma client_addresses_cluster:
  assumes "segment_ok ns"
  shows "(segment_ok (cc_name cc) \<longrightarrow>
      cellClusters_Update S ns cc w = (case S (update_request ns cc) w of (a, w1) \<Rightarrow> (into_cluster a, w1)) \<and>
      rq_verb (update_request ns cc) = ''PUT'' \<and> rq_body (update_request ns cc) = ClusterBody cc \<and>
      (\<forall>ns' name v d. segment_ok ns' \<longrightarrow> segment_ok name \<longrightarrow>
        (request_path (get_request ns' name v) = request_path (update_request ns cc) \<longleftrightarrow>
           ns' = ns \<and> name = cc_name cc) \<and>
        (request_path (delete_request ns' name d) = request_path (update_request ns cc) \<longleftrightarrow>
           ns' = ns \<and> name = cc_name cc)) \<and>
      request_path (update_status_request ns cc) = request_path (update_request ns cc) @ ''/status'') \<and>
    (\<not> segment_ok (cc_name cc) \<longrightarrow> (\<exists>e. cellClusters_Update S ns cc w = ((zero_cluster, Some e), w)))"
proof (intro conjI impI)
  show "\<exists>e. cellClusters_Update S ns cc w = ((zero_cluster, Some e), w)" if "\<not> segment_ok (cc_name cc)"
    using that assms
    by (auto simp: cellClusters_Update_def send_def operation_defs request_defs segment_ok_def
        into_cluster_def into_def)
qed (use assms in \<open>auto simp: cellClusters_Update_def send_def update_paths request_paths cluster_path_inject\<close>)

text \<open>An entry of a map with distinct keys is the only one under its key.\<close>

lemma distinct_map_filter_single:
  "distinct (map fst xs) \<Longrightarrow> (k, v) \<in> set xs \<Longrightarrow> filter (\<lambda>e. fst e = k) xs = [(k, v)]"
proof (induction xs)
  case (Cons x xs)
  then show ?case by (cases "x = (k, v)") (auto simp: filter_empty_conv image_iff)
qed simp

section \<open>The cache of clusters\<close>

text \<open>The informer keeps each cluster under its key; names have no slash.\<close>

definition cache_ok :: "cluster_cache \<Rightarrow> bool" where
  "cache_ok idx \<longleftrightarrow> distinct (map fst idx) \<and>
     (\<forall>(k, c) \<in> set idx. k = meta_key (cc_meta c) \<and> CHR ''/'' \<notin> set (cc_ns c) \<and> CHR ''/'' \<notin> set (cc_name c))"

lemma meta_key_eq:
  assumes "CHR ''/'' \<notin> set (cc_ns c)" and "CHR ''/'' \<notin> set (cc_name c)" and "CHR ''/'' \<notin> set ns" and "ns \<noteq> []"
  shows "meta_key (cc_meta c) = ns @ ''/'' @ name \<longleftrightarrow> cc_ns c = ns \<and> cc_name c = name"
proof (cases "cc_ns c = []")
  case True
  have "CHR ''/'' \<in> set (ns @ ''/'' @ name)" by simp
  with True assms(2,4) show ?thesis by (auto simp: meta_key_def)
next
  case False
  then show ?thesis
    using append_at_slash [of "cc_ns c" "cc_name c" ns name] assms by (auto simp: meta_key_def)
qed

text \<open>Looking a cluster up and listing its namespace agree.\<close>

lemma lister_Get_iff:
  assumes "cache_ok idx" and "CHR ''/'' \<notin> set ns" and "ns \<noteq> []"
  shows "cellClusterNamespaceLister_Get idx ns name = Inr c \<longleftrightarrow>
    c \<in> set (cellClusterNamespaceLister_List idx ns (\<lambda>_. True)) \<and> cc_name c = name"
proof -
  have "cellClusterNamespaceLister_Get idx ns name = Inr c \<longleftrightarrow> map_of idx (ns @ ''/'' @ name) = Some c"
    by (simp add: cellClusterNamespaceLister_Get_def split: option.splits)
  also have "\<dots> \<longleftrightarrow> (ns @ ''/'' @ name, c) \<in> set idx"
    using assms(1) by (simp add: cache_ok_def)
  also have "\<dots> \<longleftrightarrow> (\<exists>k. (k, c) \<in> set idx) \<and> cc_ns c = ns \<and> cc_name c = name"
    using assms meta_key_eq [of c ns name] by (fastforce simp: cache_ok_def)
  finally show ?thesis
    using assms(3) by (force simp: cellClusterNamespaceLister_List_def ListAllByNamespace_def)
qed

text \<open>The controller's environment with the generated client and lister.\<close>

definition client_env :: "'w server \<Rightarrow> ('w \<Rightarrow> cluster_cache) \<Rightarrow> (cellcluster \<Rightarrow> event \<Rightarrow> 'w \<Rightarrow> 'w) \<Rightarrow> 'w cc_env" where
  "client_env S cache ev =
     \<lparr>x_cc_update = \<lambda>ns cc w. (case cellClusters_Update S ns cc w of
         ((c, None), w1) \<Rightarrow> (Inr c, w1) | ((_, Some e), w1) \<Rightarrow> (Inl e, w1)),
      x_cc_get = \<lambda>ns n w. cellClusterNamespaceLister_Get (cache w) ns n,
      x_event = ev\<rparr>"

lemma split_own_key:
  assumes "CHR ''/'' \<notin> set (m_ns m)" and "CHR ''/'' \<notin> set (m_name m)" and "m_ns m \<noteq> []"
  shows "split_meta_key (meta_key m) = Inr (m_ns m, m_name m)"
  using assms by (simp add: split_meta_key_def meta_key_def split_on_append_sep split_on_no_sep)

text \<open>
  C18: a worker syncs the cluster whose key it took.  For every cluster of a namespace that is in the
  informer's cache, the key that the event handlers put into the queue leads the worker back to
  that cluster and no other, one round of the managers is run on it, and the lister's list of the
  namespace has it once looked up by name; for a key whose cluster has left the cache the sync
  ends without doing anything.
\<close>

theorem sync_reads_its_cluster:
  assumes "cache_ok (cache w)" and "m_ns m \<noteq> []" and "CHR ''/'' \<notin> set (m_ns m)" and "CHR ''/'' \<notin> set (m_name m)"
  shows "(\<forall>c \<in> snd ` set (cache w). meta_key (cc_meta c) = meta_key m \<longrightarrow>
      controller_sync (client_env S cache ev) M (meta_key m) w =
        (case UpdateCellCluster M c w of (err, _, w1) \<Rightarrow> (err, w1)) \<and>
      filter (\<lambda>d. cc_name d = m_name m) (cellClusterNamespaceLister_List (cache w) (m_ns m) (\<lambda>_. True)) = [c]) \<and>
    (meta_key m \<notin> fst ` set (cache w) \<longrightarrow>
      controller_sync (client_env S cache ev) M (meta_key m) w = (None, w))"
proof (intro conjI ballI impI)
  let ?idx = "cache w"
  have key: "meta_key m = m_ns m @ ''/'' @ m_name m" using assms(2) by (simp add: meta_key_def)
  note split = split_own_key [OF assms(3,4,2)]
  {
    fix c assume c: "c \<in> snd ` set ?idx" "meta_key (cc_meta c) = meta_key m"
    then obtain k where k: "(k, c) \<in> set ?idx" by force
    with assms(1) c(2) have kk: "k = meta_key m" by (auto simp: cache_ok_def)
    then have "cellClusterNamespaceLister_Get ?idx (m_ns m) (m_name m) = Inr c"
      using k assms(1) key by (auto simp: cellClusterNamespaceLister_Get_def cache_ok_def split: option.splits)
    then show "controller_sync (client_env S cache ev) M (meta_key m) w =
        (case UpdateCellCluster M c w of (err, _, w1) \<Rightarrow> (err, w1))"
      using split by (simp add: controller_sync_def client_env_def)
    have "cc_name d = m_name m \<and> cc_ns d = m_ns m \<longleftrightarrow> j = meta_key m" if "(j, d) \<in> set ?idx" for j d
      using assms(1) that meta_key_eq [OF _ _ assms(3,2), of d "m_name m"] key by (auto simp: cache_ok_def)
    then have "filter (\<lambda>e. cc_name (snd e) = m_name m \<and> cc_ns (snd e) = m_ns m) ?idx =
        filter (\<lambda>e. fst e = meta_key m) ?idx"
      by (intro filter_cong) auto
    also have "\<dots> = [(meta_key m, c)]"
      using assms(1) k kk by (intro distinct_map_filter_single) (simp_all add: cache_ok_def)
    finally show "filter (\<lambda>d. cc_name d = m_name m)
        (cellClusterNamespaceLister_List ?idx (m_ns m) (\<lambda>_. True)) = [c]"
      using assms(2)
      by (simp add: cellClusterNamespaceLister_List_def ListAllByNamespace_def filter_map comp_def conj_commute)
  }
  show "controller_sync (client_env S cache ev) M (meta_key m) w = (None, w)"
    if "meta_key m \<notin> fst ` set ?idx"
  proof -
    have "cellClusterNamespaceLister_Get ?idx (m_ns m) (m_name m) = Inl (NotFoundError (m_name m))"
      using that key by (auto simp: cellClusterNamespaceLister_Get_def map_of_eq_None_iff split: option.splits)
    then show ?thesis using split by (simp add: controller_sync_def client_env_def)
  qed
qed

theorem sync_reads_its_cluster_witness:
  "\<forall>M. controller_sync (client_env (\<lambda>r w. (Inr NoAnswer, w)) (\<lambda>w. [(''n/c'', smp_cc)]) (\<lambda>c e w. w)) M ''n/c'' () =
     (case UpdateCellCluster M smp_cc () of (err, _, w1) \<Rightarrow> (err, w1))"
proof
  fix M :: "unit managers"
  have key: "meta_key (cc_meta smp_cc) = ''n/c''" by (simp add: meta_key_def smp_cc_def meta0_def)
  then have "cache_ok [(''n/c'', smp_cc)]" by (simp add: cache_ok_def smp_cc_def meta0_def)
  then show "controller_sync (client_env (\<lambda>r w. (Inr NoAnswer, w)) (\<lambda>w. [(''n/c'', smp_cc)]) (\<lambda>c e w. w)) M ''n/c'' () =
     (case UpdateCellCluster M smp_cc () of (err, _, w1) \<Rightarrow> (err, w1))"
    using sync_reads_its_cluster [of "\<lambda>w. [(''n/c'', smp_cc)]" "()" "cc_meta smp_cc"] key
    by (simp add: smp_cc_def meta0_def)
qed

section \<open>The fake client\<close>

lemma fake_matching_filter: "fake_matching p xs ys = ys @ filter (\<lambda>c. p (m_labels (cc_meta c))) xs"
  by (induction p xs ys rule: fake_matching.induct) simp_all

lemma FakeCellClusters_List_filters:
  assumes "fk_invokes F (FakeList ns opts) w = ((Some (FakeClusterList l), err), w1)"
    and "fk_label F (lo_label opts) = Some s"
  shows "FakeCellClusters_List F ns opts w = ((Some (filter (\<lambda>c. s (m_labels (cc_meta c))) l), err), w1)"
  by (simp add: FakeCellClusters_List_def assms fake_matching_filter)

end
