(* ===== verification/Fake_Managers.thy ===== *)
theory Fake_Managers
  imports Cluster_Control Fake_Controls
begin

text \<open>
  The managers, the cluster control and the setters that the repository ships for tests: a fake
  manager returns the error it was told to return; a fake control fails once, after as many
  requests as it was told.
\<close>

section \<open>Fake managers\<close>

record fake_manager =
  fm_err :: "goerr option"

definition NewFakeManager :: fake_manager where
  "NewFakeManager = \<lparr>fm_err = None\<rparr>"

definition SetSyncError :: "goerr option \<Rightarrow> fake_manager \<Rightarrow> fake_manager" where
  "SetSyncError err fm = fm\<lparr>fm_err := err\<rparr>"

definition FakePDMemberManager_Sync :: "fake_manager \<Rightarrow> 'w manager" where
  "FakePDMemberManager_Sync fm cc w = (fm_err fm, cc, w)"

definition FakeStoreMemberManager_Sync :: "fake_manager \<Rightarrow> 'w manager" where
  "FakeStoreMemberManager_Sync fm cc w = (fm_err fm, cc, w)"

definition FakeProxyMemberManager_Sync :: "fake_manager \<Rightarrow> 'w manager" where
  "FakeProxyMemberManager_Sync fm cc w = (fm_err fm, cc, w)"

definition FakeMetaManager_Sync :: "fake_manager \<Rightarrow> 'w manager" where
  "FakeMetaManager_Sync fm cc w = (fm_err fm, cc, w)"

definition FakeReclaimPolicyManager_Sync :: "fake_manager \<Rightarrow> 'w manager" where
  "FakeReclaimPolicyManager_Sync fm cc w = (fm_err fm, cc, w)"

section \<open>FakeCellClusterControl\<close>

text \<open>The control keeps the clusters in an indexer and has one tracker.\<close>

record fake_cc_control =
  fcc_clusters :: "cellcluster indexer"
  fcc_update :: tracker

definition NewFakeCellClusterControl :: fake_cc_control where
  "NewFakeCellClusterControl = \<lparr>fcc_clusters = [], fcc_update = tracker0\<rparr>"

definition SetUpdateCellClusterError :: "goerr option \<Rightarrow> int \<Rightarrow> fake_cc_control \<Rightarrow> fake_cc_control" where
  "SetUpdateCellClusterError err after c = c\<lparr>fcc_update := tracker_set err after (fcc_update c)\<rparr>"

definition FakeCellClusterControl_UpdateCellCluster ::
  "cellcluster \<Rightarrow> cell_status \<Rightarrow> cell_status \<Rightarrow> fake_cc_control \<Rightarrow> goerr option \<times> fake_cc_control" where
  "FakeCellClusterControl_UpdateCellCluster cc newStatus oldStatus c =
     (case track (fcc_update c) of
        (Some e, t) \<Rightarrow> (Some e, c\<lparr>fcc_update := t\<rparr>)
      | (None, t) \<Rightarrow>
          (None, c\<lparr>fcc_update := t, fcc_clusters := idx_put cc_meta cc (fcc_clusters c)\<rparr>))"

section \<open>What the fakes are told\<close>

definition SetCreateStatefulSetError :: "goerr option \<Rightarrow> int \<Rightarrow> fake_world \<Rightarrow> fake_world" where
  "SetCreateStatefulSetError err after =
     on_trackers (\<lambda>f. f\<lparr>tr_create_set := tracker_set err after (tr_create_set f)\<rparr>)"

definition SetUpdateStatefulSetError :: "goerr option \<Rightarrow> int \<Rightarrow> fake_world \<Rightarrow> fake_world" where
  "SetUpdateStatefulSetError err after =
     on_trackers (\<lambda>f. f\<lparr>tr_update_set := tracker_set err after (tr_update_set f)\<rparr>)"

definition SetCreateServiceError :: "goerr option \<Rightarrow> int \<Rightarrow> fake_world \<Rightarrow> fake_world" where
  "SetCreateServiceError err after =
     on_trackers (\<lambda>f. f\<lparr>tr_create_svc := tracker_set err after (tr_create_svc f)\<rparr>)"

definition SetUpdateServiceError :: "goerr option \<Rightarrow> int \<Rightarrow> fake_world \<Rightarrow> fake_world" where
  "SetUpdateServiceError err after =
     on_trackers (\<lambda>f. f\<lparr>tr_update_svc := tracker_set err after (tr_update_svc f)\<rparr>)"

definition SetUpdatePodError :: "goerr option \<Rightarrow> int \<Rightarrow> fake_world \<Rightarrow> fake_world" where
  "SetUpdatePodError err after =
     on_trackers (\<lambda>f. f\<lparr>tr_update_pod := tracker_set err after (tr_update_pod f)\<rparr>)"

definition SetDeletePodError :: "goerr option \<Rightarrow> int \<Rightarrow> fake_world \<Rightarrow> fake_world" where
  "SetDeletePodError err after =
     on_trackers (\<lambda>f. f\<lparr>tr_delete_pod := tracker_set err after (tr_delete_pod f)\<rparr>)"

definition SetGetClusterError :: "goerr option \<Rightarrow> int \<Rightarrow> fake_world \<Rightarrow> fake_world" where
  "SetGetClusterError err after =
     on_trackers (\<lambda>f. f\<lparr>tr_get_cluster := tracker_set err after (tr_get_cluster f)\<rparr>)"

definition SetGetMemberError :: "goerr option \<Rightarrow> int \<Rightarrow> fake_world \<Rightarrow> fake_world" where
  "SetGetMemberError err after =
     on_trackers (\<lambda>f. f\<lparr>tr_get_member := tracker_set err after (tr_get_member f)\<rparr>)"

definition SetGetStoreError :: "goerr option \<Rightarrow> int \<Rightarrow> fake_world \<Rightarrow> fake_world" where
  "SetGetStoreError err after =
     on_trackers (\<lambda>f. f\<lparr>tr_get_store := tracker_set err after (tr_get_store f)\<rparr>)"

definition SetUpdatePVCError :: "goerr option \<Rightarrow> int \<Rightarrow> fake_world \<Rightarrow> fake_world" where
  "SetUpdatePVCError err after =
     on_trackers (\<lambda>f. f\<lparr>tr_update_pvc := tracker_set err after (tr_update_pvc f)\<rparr>)"

definition SetDeletePVCError :: "goerr option \<Rightarrow> int \<Rightarrow> fake_world \<Rightarrow> fake_world" where
  "SetDeletePVCError err after =
     on_trackers (\<lambda>f. f\<lparr>tr_delete_pvc := tracker_set err after (tr_delete_pvc f)\<rparr>)"

definition SetUpdatePVError :: "goerr option \<Rightarrow> int \<Rightarrow> fake_world \<Rightarrow> fake_world" where
  "SetUpdatePVError err after =
     on_trackers (\<lambda>f. f\<lparr>tr_update_pv := tracker_set err after (tr_update_pv f)\<rparr>)"

section \<open>The round of the tests\<close>

text \<open>
  The control as \<^verbatim>\<open>cell_cluster_control_test.go\<close> builds it: fake managers around a fake control.  The
  error of the first manager that fails is what the round reports.
\<close>

definition fake_managers ::
  "fake_manager \<Rightarrow> fake_manager \<Rightarrow> fake_manager \<Rightarrow> fake_manager \<Rightarrow> fake_manager \<Rightarrow> fake_cc_control managers" where
  "fake_managers reclaim pd store proxy meta =
     \<lparr>mg_reclaim = FakeReclaimPolicyManager_Sync reclaim,
      mg_clean = lift_manager (\<lambda>cc w. case fakeOrphanPodsCleaner_Clean cc w of (_, e, w1) \<Rightarrow> (e, w1)),
      mg_pd = FakePDMemberManager_Sync pd, mg_store = FakeStoreMemberManager_Sync store,
      mg_proxy = FakeProxyMemberManager_Sync proxy, mg_meta = FakeMetaManager_Sync meta,
      mg_update = FakeCellClusterControl_UpdateCellCluster\<rparr>"

lemmas fake_syncs =
  FakeReclaimPolicyManager_Sync_def FakePDMemberManager_Sync_def FakeStoreMemberManager_Sync_def
  FakeProxyMemberManager_Sync_def FakeMetaManager_Sync_def fakeOrphanPodsCleaner_Clean_def lift_manager_def

fun first_error :: "fake_manager list \<Rightarrow> goerr option" where
  "first_error [] = None"
| "first_error (m # ms) = (case fm_err m of Some e \<Rightarrow> Some e | None \<Rightarrow> first_error ms)"

lemma fake_round_error:
  "updateCellCluster (fake_managers reclaim pd store proxy meta) cc w =
     (first_error [reclaim, pd, store, proxy, meta], cc, w)"
  by (simp add: updateCellCluster_def fake_managers_def fake_syncs split: option.splits)

end
