(* ===== verification/Control_Properties.thy ===== *)
theory Control_Properties
  imports Controls Store_Scaling
begin

text \<open>
  What the PD client and the control interfaces deliver to their callers, and what they do
  not: the client of the right cluster, the tombstone query, retries on a conflict.
\<close>

section \<open>The PD client\<close>

text \<open>The clients that a sequence of calls leaves in the map.\<close>

definition clients_after :: "cellcluster list \<Rightarrow> (string, pd_client) gomap" where
  "clients_after ccs = fold (\<lambda>c m. snd (GetPDClient c m)) ccs []"

lemma clients_ok_after:
  "\<forall>c \<in> set ccs. CHR ''.'' \<notin> set (cc_ns c) \<Longrightarrow> clients_ok (clients_after ccs)"
proof -
  have "clients_ok m \<Longrightarrow> \<forall>c \<in> set ccs. CHR ''.'' \<notin> set (cc_ns c) \<Longrightarrow>
      clients_ok (fold (\<lambda>c m. snd (GetPDClient c m)) ccs m)" for m
  proof (induction ccs arbitrary: m)
    case (Cons c ccs)
    obtain p m' where g: "GetPDClient c m = (p, m')" by fastforce
    then have "clients_ok m'" using clients_ok_GetPDClient [OF Cons.prems(1) _ g] Cons.prems(2) by simp
    then show ?case using Cons.IH Cons.prems(2) g by simp
  qed simp
  moreover have "clients_ok []" by (simp add: clients_ok_def)
  ultimately show "\<forall>c \<in> set ccs. CHR ''.'' \<notin> set (cc_ns c) \<Longrightarrow> clients_ok (clients_after ccs)"
    unfolding clients_after_def by blast
qed

text \<open>
  A cluster gets the client of its own PD.  Whatever clusters asked for a client before,
  the client returned is the one for the URL of this cluster's PD service; the map's key, name
  dot namespace, is unambiguous because a namespace has no dot.
\<close>

theorem pd_client_own_url:
  assumes "\<forall>c \<in> set (cc # ccs). CHR ''.'' \<notin> set (cc_ns c)"
  shows "fst (GetPDClient cc (clients_after ccs)) = NewPDClient (pdClientURL (cc_ns cc) (cc_name cc))"
proof -
  obtain p m where g: "GetPDClient cc (clients_after ccs) = (p, m)" by fastforce
  show ?thesis using clients_ok_GetPDClient [OF clients_ok_after _ g] assms g by simp
qed

theorem pd_client_own_url_witness:
  "fst (GetPDClient smp_cc (clients_after [smp_cc\<lparr>cc_meta := (cc_meta smp_cc)\<lparr>m_ns := ''m''\<rparr>\<rparr>])) =
     NewPDClient ''http://c-pd.n:2379''"
  using pd_client_own_url [of smp_cc "[smp_cc\<lparr>cc_meta := (cc_meta smp_cc)\<lparr>m_ns := ''m''\<rparr>\<rparr>]"]
  by (simp add: pdClientURL_def)

text \<open>
  The tombstone query returns the stores that are down.  Whatever PD answers, the stores it
  keeps are among all the stores of the answer, and none of them is in PD's tombstone state:
  what the managers record for each is \<open>Down\<close>.
\<close>

lemma tombstones_are_down:
  assumes "pdClient_GetTombStoneStores P pc w = (Inr tombs, w1)"
  shows "\<exists>infos. pdClient_GetStores P pc w = (Inr infos, w1) \<and> set tombs \<subseteq> set infos \<and>
    (\<forall>s st. s \<in> set tombs \<longrightarrow> getKVStore s = Some st \<longrightarrow> kv_state st = StoreStateDown)"
proof -
  obtain body ans where b: "getBodyOK P (pc_url pc @ ''/'' @ storesPrefix) w = (Inr body, w1)"
    "dec_stores P body = Inr ans" "sa_code ans = 0" and t: "tombstone_loop (sa_stores ans) [] = Inr tombs"
    using assms by (auto simp: pdClient_GetTombStoneStores_def split: prod.splits sum.splits if_splits)
  then have "pdClient_GetStores P pc w = (Inr (sa_stores ans), w1)"
    by (simp add: pdClient_GetStores_def)
  moreover have "tombs = filter (\<lambda>s. case s of None \<Rightarrow> False | Some x \<Rightarrow> si_state x = TombStoneStoreState) (sa_stores ans)"
    using tombstone_loop_filter [OF t] by simp
  moreover have "kv_state st = StoreStateDown" if "s \<in> set tombs" "getKVStore s = Some st" for s st
    using that calculation(2) by (auto simp: getKVStore_def Let_def TombStoneStoreState_def split: option.splits)
  ultimately show ?thesis by auto
qed

definition smp_net :: "stores_info \<Rightarrow> unit pd_net" where
  "smp_net ss =
     \<lparr>http_get = \<lambda>url w. (Inr (200, Inr ''body''), w), http_delete = \<lambda>url w. (Inr (200, Inr []), w),
      dec_stores = \<lambda>b. Inr \<lparr>sa_code = 0, sa_err = [], sa_stores = ss\<rparr>,
      dec_store = \<lambda>b. Inr \<lparr>so_code = 0, so_err = [], so_store = None\<rparr>,
      etcd_new = \<lambda>e w. None, etcd_members = \<lambda>e w. (Inr [], w), etcd_remove = \<lambda>e i w. (None, w), etcd_add = \<lambda>e us w. (None, w),
      etcd_get = \<lambda>e k w. (None, w)\<rparr>"

definition smp_pd_store :: "nat \<Rightarrow> int \<Rightarrow> store_info" where
  "smp_pd_store i state = \<lparr>si_id = i, si_address = ''c-store-0:1'', si_state = state, si_labels = [],
     si_status = Some \<lparr>ss_heartbeat_ts = 0, ss_leader_count = 2\<rparr>\<rparr>"

lemma kv_stores_loop_mem:
  assumes "(k, t) \<in> set (kv_stores_loop f infos [])"
  shows "\<exists>s \<in> set (reported infos). t = f s"
proof -
  have "(k, t) \<in> set (fold (\<lambda>s. gput (kv_id s) (f s)) xs m) \<Longrightarrow>
      (k, t) \<in> set m \<or> (\<exists>s \<in> set xs. t = f s)" for xs m
    using set_gput by (induction xs arbitrary: m) fastforce+
  with assms show ?thesis by (fastforce simp: kv_stores_loop_fold)
qed

definition smp_dead_env :: "unit env" where
  "smp_dead_env = (null_env smp_store_codec)
     \<lparr>c_stores := \<lambda>cc w. (Inr [Some (smp_info 1)], w), c_tombstones := \<lambda>cc w. (Inr [Some (smp_info 1)], w)\<rparr>"



section \<open>Pods\<close>

text \<open>
  An update of a pod that succeeds has delivered its labels and annotations.  The object the
  API server accepted carries the labels and annotations of the pod that was passed in, also
  when it was built from the lister's copy after a conflict.
\<close>

lemma pod_update_delivers:
  assumes "realPodControl_UpdatePod E K cc pod w = (None, w')"
  shows "\<exists>sent v z w1. kb_pod_update K (cc_ns cc) sent v = (Inr z, w1) \<and>
    p_labels sent = p_labels pod \<and> p_ann sent = p_ann pod \<and>
    w' = kb_event K cc (object_event ''Pod'' ''update'' cc (p_name pod) None) w1"
proof -
  obtain y w1 where u: "update_with_retry default_retry_steps (kb_pod_update K (cc_ns cc))
      (\<lambda>w. l_pod E w (cc_ns cc) (p_name pod))
      (\<lambda>cur. set_p_ann (p_ann pod) (set_p_labels (p_labels pod) cur)) pod w = (None, y, w1)"
    and w': "w' = kb_event K cc (object_event ''Pod'' ''update'' cc (p_name pod) None) w1"
    using assms by (auto simp: realPodControl_UpdatePod_def record_events Let_def split: prod.splits)
  have "(p_labels y = p_labels pod \<and> p_ann y = p_ann pod) \<and>
      (\<exists>v z. kb_pod_update K (cc_ns cc) y v = (Inr z, w1))"
    by (rule update_with_retry_sent [OF u]) (simp_all add: default_retry_steps_def setter_defs)
  with w' show ?thesis by blast
qed

text \<open>An API server that rejects the object it is sent first, and one that takes no service.\<close>

definition smp_kube :: "nat kube" where
  "smp_kube =
     \<lparr>kb_pod_update = \<lambda>ns p w. (if w = 0 then Inl (ConflictError []) else Inr p, Suc w),
      kb_pod_delete = \<lambda>ns n w. (None, w), kb_pvc_update = \<lambda>ns p w. (Inr p, w),
      kb_pvc_delete = \<lambda>ns n w. (None, w), kb_pv_update = \<lambda>p w. (Inr p, w),
      kb_pv_patch = \<lambda>n p w. (None, w), kb_set_create = \<lambda>ns s w. (None, w),
      kb_set_update = \<lambda>ns s w. (Inr s, w), kb_set_delete = \<lambda>ns n w. (None, w),
      kb_svc_create = \<lambda>ns s w. (None, w),
      kb_svc_update = \<lambda>ns s w. (if m_rv (svc_meta s) = ''new'' then Inr s else Inl (ConflictError []), w),
      kb_svc_delete = \<lambda>ns n w. (None, w), kb_event = \<lambda>cc e w. w,
      kb_members = \<lambda>cc w. (missing, w), kb_touch_pv = \<lambda>p w. w\<rparr>"

text \<open>
  A store pod never gets its store label.  \<open>UpdateMetaInfo\<close> looks for a store whose address,
  without the port, is the pod's name; when every store has advertised the full domain name of
  its pod, as the start script does, it finds none, and the pod keeps no store identifier.
\<close>

theorem store_label_never_set:
  assumes "mval (p_labels pod) ComponentLabelKey = StoreLabelVal"
    and "mval (p_labels pod) StoreIDLabelKey = []" and "mval (p_labels pod) ClusterIDLabelKey \<noteq> []"
    and "CHR ''.'' \<notin> set (p_name pod)" and "mget (p_labels pod) InstanceLabelKey \<noteq> None"
    and "c_stores E cc w = (Inr infos, w1)"
    and "\<forall>s \<in> set infos. \<exists>x rest. s = Some x \<and>
      hd (split_on CHR '':'' (si_address x)) = hostname x @ CHR ''.'' # rest"
  shows "\<exists>e pod' w'. realPodControl_UpdateMetaInfo E K cc pod w = (e, pod', w') \<and>
    mval (p_labels pod') StoreIDLabelKey = []"
proof -
  obtain e pod' w' where r: "realPodControl_UpdateMetaInfo E K cc pod w = (e, pod', w')"
    by (metis prod_cases3)
  have l: "p_labels pod \<noteq> None" using assms(5) by (cases "p_labels pod") auto
  have f: "find_store_id (p_name pod) infos [] = Inr []"
    by (rule find_store_id_fqdn [OF assms(7,4)])
  have c: "meta_cluster_id E cc (p_labels pod) w = (Inr (mval (p_labels pod) ClusterIDLabelKey), w)"
    using assms(3) by (simp add: meta_cluster_id_def)
  have m: "meta_member_id K cc (p_labels pod) (p_name pod) w = (Inr (mval (p_labels pod) MemberIDLabelKey), w)"
    using assms(1) by (simp add: meta_member_id_def Let_def)
  have s: "meta_store_id E cc (p_labels pod) (p_name pod) w = (Inr [], w1)"
    using assms(1,2,6) f by (simp add: meta_store_id_def Let_def)
  have "mval (p_labels pod') StoreIDLabelKey = []"
    using r l assms(2,5) c m s
    by (auto simp: realPodControl_UpdateMetaInfo_def Let_def has_ids_def put_ids_def setter_defs
        label_key_defs split: if_splits prod.splits)
  with r show ?thesis by blast
qed

definition smp_fqdn_env :: "nat env" where
  "smp_fqdn_env = (null_env undefined)\<lparr>c_stores := \<lambda>cc w.
     (Inr [Some ((smp_pd_store 1 0)\<lparr>si_address := ''c-store-0.c-store-peer.n.svc:10800''\<rparr>)], w)\<rparr>"

definition smp_bare_pod :: pod where
  "smp_bare_pod = set_p_labels (mput ClusterIDLabelKey ''7'' (p_labels (smp_pod ''c-store-0'' StoreLabelVal ''r'')))
     (smp_pod ''c-store-0'' StoreLabelVal ''r'')"

theorem store_label_never_set_witness:
  "\<exists>e pod' w'. realPodControl_UpdateMetaInfo smp_fqdn_env smp_kube smp_cc smp_bare_pod 0 = (e, pod', w') \<and>
     mval (p_labels pod') StoreIDLabelKey = []"
proof (rule store_label_never_set [where hostname = "\<lambda>_. ''c-store-0''"])
  show "c_stores smp_fqdn_env smp_cc 0 =
      (Inr [Some ((smp_pd_store 1 0)\<lparr>si_address := ''c-store-0.c-store-peer.n.svc:10800''\<rparr>)], 0)"
    by (simp add: smp_fqdn_env_def)
qed (simp_all add: smp_bare_pod_def smp_pod_def setter_defs mval_def label_key_defs meta0_def)

section \<open>Services\<close>

text \<open>
  C39: a service update does not get past a conflict.  If the API server rejects the service as
  stale, then every retry sends the same object and the call ends in the conflict, although the
  lister has a copy each time.
\<close>

theorem service_conflict_never_resolves:
  assumes "\<And>v. \<exists>x v'. kb_svc_update K (cc_ns cc) svc v = (Inl x, v') \<and> is_conflict x"
    and "\<And>v. \<exists>cur. l_svc E v (cc_ns cc) (m_name (svc_meta svc)) = Inr cur"
  shows "\<exists>x w'. realServiceControl_UpdateService E K cc svc w = (Some x, w') \<and> is_conflict x"
proof -
  let ?fn = "service_attempt (kb_svc_update K (cc_ns cc)) (\<lambda>w. l_svc E w (cc_ns cc) (m_name (svc_meta svc)))"
  have fail: "\<exists>x v'. ?fn (svc, v) = (Some x, svc, v') \<and> is_conflict x" for v
  proof -
    obtain x v' cur where "kb_svc_update K (cc_ns cc) svc v = (Inl x, v')" "is_conflict x"
      "l_svc E v' (cc_ns cc) (m_name (svc_meta svc)) = Inr cur"
      using assms by blast
    then show ?thesis by (simp add: service_attempt_def)
  qed
  obtain err t where r: "retry_on_conflict default_backoff_steps ?fn None (svc, w) = (err, t)"
    by (metis prod.exhaust)
  have "\<exists>x. err = Some x \<and> is_conflict x"
    using retry_outcome [OF r]
  proof (elim disjE exE conjE)
    fix k u assume "attempts ?fn k (svc, w) u" and u: "?fn u = (err, t)"
    then have "fst u = svc" using service_attempts_same by fastforce
    then show ?thesis using fail [of "snd u"] u by (cases u) auto
  next
    assume "if default_backoff_steps = 0 then err = None else \<exists>e. err = Some e \<and> is_conflict e"
    then show ?thesis by (auto simp: default_backoff_steps_def)
  qed
  then obtain x where x: "err = Some x" "is_conflict x" by blast
  then have "\<not> is_panic x" by (cases x) auto
  with x r show ?thesis
    by (cases t) (auto simp: realServiceControl_UpdateService_def Let_def record_events)
qed

definition smp_svc_env :: "nat env" where
  "smp_svc_env = (null_env undefined)\<lparr>l_svc := \<lambda>w ns n.
     Inr \<lparr>svc_meta = meta0\<lparr>m_name := ''svc'', m_rv := ''new''\<rparr>, svc_spec = no_svc_spec\<rparr>\<rparr>"

theorem service_conflict_never_resolves_witness:
  "\<exists>x w'. realServiceControl_UpdateService smp_svc_env smp_kube smp_cc
     \<lparr>svc_meta = meta0\<lparr>m_name := ''svc'', m_rv := ''old''\<rparr>, svc_spec = no_svc_spec\<rparr> 0 = (Some x, w') \<and>
     is_conflict x"
  by (rule service_conflict_never_resolves) (simp_all add: smp_kube_def smp_svc_env_def)

end
