(* ===== verification/Base64.thy ===== *)
theory Base64
  imports Go_Prelude
begin

text \<open>
  \<^verbatim>\<open>encoding/base64\<close> as far as the discovery server uses it: \<^verbatim>\<open>StdEncoding.DecodeString\<close>, and the
  encoder that the start scripts run.  A string is a list of bytes.  The error of the decoder names
  the offset of the first bad byte; the model leaves the offset out.
\<close>

section \<open>Decoding\<close>

definition b64_alphabet :: string where
  "b64_alphabet = ''ABCDEFGHIJKLMNOPQRSTUVWXYZabcdefghijklmnopqrstuvwxyz0123456789+/''"

definition b64_digit :: "char \<Rightarrow> nat option" where
  "b64_digit c = map_of (zip b64_alphabet [0..<64]) c"

definition b64_byte0 :: "nat \<Rightarrow> nat \<Rightarrow> char" where
  "b64_byte0 x y = char_of (x * 4 + y div 16)"

definition b64_byte1 :: "nat \<Rightarrow> nat \<Rightarrow> char" where
  "b64_byte1 y z = char_of (y mod 16 * 16 + z div 4)"

definition b64_byte2 :: "nat \<Rightarrow> nat \<Rightarrow> char" where
  "b64_byte2 z u = char_of (z mod 4 * 64 + u)"

text \<open>Four characters are three bytes; padding is only allowed in the last four.\<close>

fun b64_decode :: "string \<Rightarrow> string option" where
  "b64_decode [] = Some []"
| "b64_decode (a # b # c # d # rest) =
     (case (b64_digit a, b64_digit b) of
        (Some x, Some y) \<Rightarrow>
          if c = CHR ''='' then (if d = CHR ''='' \<and> rest = [] then Some [b64_byte0 x y] else None)
          else (case b64_digit c of
                  None \<Rightarrow> None
                | Some z \<Rightarrow>
                    if d = CHR ''='' then
                      (if rest = [] then Some [b64_byte0 x y, b64_byte1 y z] else None)
                    else (case b64_digit d of
                            None \<Rightarrow> None
                          | Some u \<Rightarrow>
                              map_option (\<lambda>bs. b64_byte0 x y # b64_byte1 y z # b64_byte2 z u # bs)
                                (b64_decode rest)))
      | _ \<Rightarrow> None)"
| "b64_decode _ = None"

definition not_newline :: "char \<Rightarrow> bool" where
  "not_newline c \<longleftrightarrow> c \<noteq> CHR 0x0A \<and> c \<noteq> CHR 0x0D"

definition DecodeString :: "string \<Rightarrow> goerr + string" where
  "DecodeString s =
     (case b64_decode (filter not_newline s) of
        None \<Rightarrow> Inl (OtherError ''illegal base64 data'')
      | Some r \<Rightarrow> Inr r)"

section \<open>Encoding\<close>

definition b64_char :: "nat \<Rightarrow> char" where
  "b64_char n = b64_alphabet ! n"

fun b64_encode :: "string \<Rightarrow> string" where
  "b64_encode [] = []"
| "b64_encode [x] = [b64_char (of_char x div 4), b64_char (of_char x mod 4 * 16), CHR ''='', CHR ''='']"
| "b64_encode [x, y] =
     [b64_char (of_char x div 4), b64_char (of_char x mod 4 * 16 + of_char y div 16),
      b64_char (of_char y mod 16 * 4), CHR ''='']"
| "b64_encode (x # y # z # rest) =
     b64_char (of_char x div 4) # b64_char (of_char x mod 4 * 16 + of_char y div 16) #
     b64_char (of_char y mod 16 * 4 + of_char z div 64) # b64_char (of_char z mod 64) # b64_encode rest"

section \<open>Lemmas\<close>

lemma b64_alphabet_props:
  "length b64_alphabet = 64" "distinct b64_alphabet" "CHR ''='' \<notin> set b64_alphabet"
  "list_all not_newline b64_alphabet"
  by (simp_all add: b64_alphabet_def not_newline_def)

lemma b64_digit_char [simp]: "n < 64 \<Longrightarrow> b64_digit (b64_char n) = Some n"
  using map_of_zip_nth [of b64_alphabet "[0..<64]" n] b64_alphabet_props
  by (simp add: b64_digit_def b64_char_def)

lemma b64_char_mem: "n < 64 \<Longrightarrow> b64_char n \<in> set b64_alphabet"
  using b64_alphabet_props(1) by (simp add: b64_char_def)

lemma b64_char_not_pad [simp]: "n < 64 \<Longrightarrow> b64_char n \<noteq> CHR ''=''"
  using b64_char_mem b64_alphabet_props(3) by metis

lemma b64_char_not_newline [simp]: "n < 64 \<Longrightarrow> not_newline (b64_char n)"
  using b64_char_mem b64_alphabet_props(4) by (simp add: list_all_iff)

lemma byte_less [simp]: "(of_char c :: nat) < 256"
  by (rule nat_of_char_less_256)

lemma byte_div [simp]:
  "(of_char c :: nat) div 4 < 64" "(of_char c :: nat) div 16 < 16" "(of_char c :: nat) div 64 < 4"
  using byte_less [of c] by linarith+

lemma low_bits:
  "y < 16 \<Longrightarrow> (a * 16 + y) div 16 = (a :: nat)" "y < 16 \<Longrightarrow> (a * 16 + y) mod 16 = (y :: nat)"
  "y < 4 \<Longrightarrow> (a * 4 + y) div 4 = (a :: nat)" "y < 4 \<Longrightarrow> (a * 4 + y) mod 4 = (y :: nat)"
  by simp_all

lemma add_sextet: "(x :: nat) mod 4 * 16 + y < 64" if "y < 16"
proof -
  have "x mod 4 < 4" by simp
  with that show ?thesis by linarith
qed

lemma add_sextet': "(x :: nat) mod 16 * 4 + y < 64" if "y < 4"
proof -
  have "x mod 16 < 16" by simp
  with that show ?thesis by linarith
qed

lemma sextets_less [simp]:
  "(of_char c :: nat) mod 4 * 16 < 64" "(of_char c :: nat) mod 16 * 4 < 64"
  "(of_char c :: nat) mod 4 * 16 + of_char d div 16 < 64"
  "(of_char c :: nat) mod 16 * 4 + of_char d div 64 < 64"
  "(of_char c :: nat) mod 64 < 64"
  using add_sextet [of 0 "of_char c"] add_sextet' [of 0 "of_char c"]
  by (simp_all add: add_sextet add_sextet')

lemma bytes_back:
  "b64_byte0 (of_char x div 4) (of_char x mod 4 * 16 + of_char y div 16) = x"
  "b64_byte0 (of_char x div 4) (of_char x mod 4 * 16) = x"
  "b64_byte1 (of_char x mod 4 * 16 + of_char y div 16) (of_char y mod 16 * 4 + of_char z div 64) = y"
  "b64_byte1 (of_char x mod 4 * 16 + of_char y div 16) (of_char y mod 16 * 4) = y"
  "b64_byte2 (of_char y mod 16 * 4 + of_char z div 64) (of_char z mod 64) = z"
  by (simp_all add: b64_byte0_def b64_byte1_def b64_byte2_def low_bits div_mult_mod_eq)

lemma b64_decode_encode: "b64_decode (b64_encode s) = Some s"
  by (induction s rule: b64_encode.induct) (simp_all add: bytes_back)

lemma b64_encode_no_newline: "filter not_newline (b64_encode s) = b64_encode s"
  by (induction s rule: b64_encode.induct) (simp_all, simp_all add: not_newline_def)

lemma DecodeString_encode: "filter not_newline t = b64_encode s \<Longrightarrow> DecodeString t = Inr s"
  by (simp add: DecodeString_def b64_decode_encode)

text \<open>
  The encoding of a host name or an address is one segment of a path: a slash or a plus sign comes
  from bytes that neither contains.
\<close>

definition host_char :: "char \<Rightarrow> bool" where
  "host_char c \<longleftrightarrow> (of_char c :: nat) < 62 \<or> (64 \<le> (of_char c :: nat) \<and> (of_char c :: nat) < 126)"

lemma b64_char_plain: "n < 62 \<Longrightarrow> b64_char n \<noteq> CHR ''/'' \<and> b64_char n \<noteq> CHR ''+''"
proof -
  assume "n < 62"
  then have "b64_char n \<in> set (take 62 b64_alphabet)"
    using b64_alphabet_props(1) by (auto simp: b64_char_def in_set_conv_nth)
  moreover have "CHR ''/'' \<notin> set (take 62 b64_alphabet)" "CHR ''+'' \<notin> set (take 62 b64_alphabet)"
    by (simp_all add: b64_alphabet_def)
  ultimately show ?thesis by metis
qed

lemma host_sextets:
  assumes "host_char x"
  shows "(of_char x :: nat) div 4 < 62" "(of_char x :: nat) div 16 < 8" "(of_char x :: nat) div 64 < 2"
    "(of_char x :: nat) mod 64 < 62"
proof -
  let ?n = "of_char x :: nat"
  have c: "?n < 62 \<or> 64 \<le> ?n \<and> ?n < 126" using assms by (simp add: host_char_def)
  then show "?n div 4 < 62" "?n div 16 < 8" "?n div 64 < 2" by linarith+
  from c show "?n mod 64 < 62"
  proof
    assume "64 \<le> ?n \<and> ?n < 126"
    then obtain k where "?n = 64 + k" "k < 62" by (auto simp: le_iff_add)
    then show ?thesis by simp
  qed simp
qed

lemma host_sums:
  "y < 8 \<Longrightarrow> (x :: nat) mod 4 * 16 + y < 62" "y < 2 \<Longrightarrow> (x :: nat) mod 16 * 4 + y < 62"
  "(x :: nat) mod 4 * 16 < 62" "(x :: nat) mod 16 * 4 < 62"
proof -
  have "x mod 4 < 4" "x mod 16 < 16" by simp_all
  then show "y < 8 \<Longrightarrow> x mod 4 * 16 + y < 62" "y < 2 \<Longrightarrow> x mod 16 * 4 + y < 62"
    "x mod 4 * 16 < 62" "x mod 16 * 4 < 62" by linarith+
qed

lemma b64_encode_plain:
  "list_all host_char s \<Longrightarrow> list_all (\<lambda>c. c \<noteq> CHR ''/'' \<and> c \<noteq> CHR ''+'') (b64_encode s)"
  by (induction s rule: b64_encode.induct) (simp_all add: b64_char_plain host_sextets host_sums)

end
