(* ===== verification/Discovery.thy ===== *)
theory Discovery
  imports Member_Utils
begin

text \<open>
  \<^verbatim>\<open>pkg/discovery/discovery.go\<close>: the service PD pods ask for the list of initial members.  It
  collects one peer URL per pod; when as many pods have asked as PD has replicas, it writes
  the list to the CellCluster, and from then on every pod is told what was written.

  The cluster is read from and written to the API server; \<open>order\<close> is the order in which Go
  iterates over the map of peers, and \<open>d_marshal\<close> is \<^verbatim>\<open>json.Marshal\<close> on a decoded object.
\<close>

section \<open>State\<close>

datatype json = JStr string | JNum int | JArr "json list" | JObj "(string \<times> json) list"

record cluster_info =
  ci_resource_version :: string
  ci_peers :: "(string, string) gomap"

record 'w disc_env =
  d_cc_get :: "string \<Rightarrow> string \<Rightarrow> 'w \<Rightarrow> goerr + cellcluster"
  d_cc_update :: "string \<Rightarrow> cellcluster \<Rightarrow> 'w \<Rightarrow> goerr option \<times> 'w"
  d_pod_namespace :: string       \<comment> \<open>\<open>MY_POD_NAMESPACE\<close>\<close>
  d_cluster_name :: string        \<comment> \<open>\<open>CLUSTER_NAME\<close>\<close>
  d_marshal :: "json \<Rightarrow> goerr + string"

section \<open>Discover\<close>

definition format_error :: "string \<Rightarrow> goerr" where
  "format_error url = OtherError (''advertisePeerURL format is wrong: '' @ url)"

text \<open>\<^verbatim>\<open>for k, v := range m { s += f(k, v) }\<close>, each piece ending in a comma, then
  \<^verbatim>\<open>s[:len(s)-1]\<close>.\<close>

definition join_pieces :: "(string \<times> string \<Rightarrow> string) \<Rightarrow> (string, string) gomap \<Rightarrow> string" where
  "join_pieces f peers = butlast (concat (map (\<lambda>p. f p @ '','') peers))"

definition initial_member :: "string \<times> string \<Rightarrow> string" where
  "initial_member p = fst p @ ''=http://'' @ snd p @ '':2380''"

definition peer_rpc :: "string \<times> string \<Rightarrow> string" where
  "peer_rpc p = snd p @ '':20800''"

text \<open>The part of \<open>Discover\<close> after the cluster has been read.\<close>

definition discover_cluster ::
  "((string, string) gomap \<Rightarrow> (string, string) gomap) \<Rightarrow> 'w disc_env \<Rightarrow> string \<Rightarrow> string \<Rightarrow>
    string \<Rightarrow> cellcluster \<Rightarrow> cluster_info option \<Rightarrow> 'w \<Rightarrow> (goerr + string) \<times> cluster_info option \<times> 'w"
where
  "discover_cluster order D ns podName url cc st w =
     (let replicas = ms_replicas (spec_pd (cc_spec cc));
          ci0 = (case st of
                   None \<Rightarrow> \<lparr>ci_resource_version = m_rv (cc_meta cc), ci_peers = []\<rparr>
                 | Some ci \<Rightarrow> ci);
          ci = ci0\<lparr>ci_peers := gput podName url (ci_peers ci0)\<rparr>
      in if spec_peer_url (cc_spec cc) \<noteq> [] then (Inr (spec_peer_url (cc_spec cc)), Some ci, w)
         else if int (length (ci_peers ci)) = replicas then
           let initClusterParam = join_pieces initial_member (order (ci_peers ci));
               pdPeerRPC = join_pieces peer_rpc (order (ci_peers ci));
               cc' = cc\<lparr>cc_spec := (cc_spec cc)\<lparr>spec_peer_url := initClusterParam,
                                               spec_peer_rpc := pdPeerRPC\<rparr>\<rparr>
           in (case d_cc_update D ns cc' w of
                 (Some e, w1) \<Rightarrow> (Inl e, Some ci, w1)
               | (None, w1) \<Rightarrow> (Inr initClusterParam, Some ci, w1))
         else (Inl (OtherError ''please wait until all pd pod startup''), Some ci, w))"

definition Discover ::
  "((string, string) gomap \<Rightarrow> (string, string) gomap) \<Rightarrow> 'w disc_env \<Rightarrow> string \<Rightarrow>
    cluster_info option \<Rightarrow> 'w \<Rightarrow> (goerr + string) \<times> cluster_info option \<times> 'w" where
  "Discover order D advertisePeerURL st w =
     (if advertisePeerURL = [] then (Inl (OtherError ''advertisePeerURL is empty''), st, w)
      else (case split_on CHR ''.'' advertisePeerURL of
              [podName, pdServiceName, ns, _] \<Rightarrow>
                let ccName = trim_suffix pdServiceName ''-pd-peer''
                in if ns \<noteq> d_pod_namespace D then
                     (Inl (OtherError ''the peer's namespace is not equal to discovery namespace''), st, w)
                   else (case d_cc_get D ns ccName w of
                           Inl e \<Rightarrow> (Inl e, st, w)
                         | Inr cc \<Rightarrow> discover_cluster order D ns podName advertisePeerURL cc st w)
            | _ \<Rightarrow> (Inl (format_error advertisePeerURL), st, w)))"

section \<open>GetStoreConfig and GetProxyConfig\<close>

definition GetStoreConfig :: "'w disc_env \<Rightarrow> 'w \<Rightarrow> goerr + string" where
  "GetStoreConfig D w =
     (case d_cc_get D (d_pod_namespace D) (d_cluster_name D) w of
        Inl e \<Rightarrow> Inl e
      | Inr cc \<Rightarrow>
          if spec_peer_rpc (cc_spec cc) = []
          then Inl (OtherError ''cell cluster status PdPeerRPC is null'')
          else Inr (spec_peer_rpc (cc_spec cc)))"

text \<open>The object that \<open>proxyCfgStr\<close> decodes to.\<close>

definition notifyPort :: string where "notifyPort = '':9998''"

definition support_cmds :: "string list" where
  "support_cmds =
     [''query'', ''ping'', ''set'', ''get'', ''mset'', ''mget'', ''incrby'', ''decrby'',
      ''getset'', ''append'', ''setnx'', ''strLen'', ''incr'', ''decr'', ''setrange'',
      ''msetnx'', ''hset'', ''hget'', ''hdel'', ''hexists'', ''hkeys'', ''hvals'',
      ''hgetall'', ''hscanget'', ''hlen'', ''hmget'', ''hmset'', ''hsetnx'', ''hstrlen'',
      ''hincrby'', ''lindex'', ''linsert'', ''llen'', ''lpop'', ''lpush'', ''lpushx'',
      ''lrange'', ''lrem'', ''lset'', ''ltrim'', ''rpop'', ''rpoplpush'', ''rpush'',
      ''rpushx'', ''sadd'', ''scard'', ''srem'', ''smembers'', ''sismember'', ''spop'',
      ''zadd'', ''zcard'', ''zcount'', ''zincrby'', ''zlexcount'', ''zrange'',
      ''zrangebylex'', ''zrangebyscore'', ''zrank'', ''zrem'', ''zremrangebylex'',
      ''zremrangebyrank'', ''zremrangebyscore'', ''zscore'']"

definition proxyCfg :: "(string, json) gomap" where
  "proxyCfg =
     [(''addr'', JStr ''0.0.0.0:6379''), (''addrNotify'', JStr '':9998''),
      (''watcherHeartbeatSec'', JNum 5), (''pdAddrs'', JArr [JStr ''127.0.0.1:20801'']),
      (''maxRetries'', JNum 100), (''retryDuration'', JNum 2000), (''workerCount'', JNum 2),
      (''supportCMDs'', JArr (map JStr support_cmds))]"

definition proxy_config_of :: "string \<Rightarrow> string \<Rightarrow> (string, json) gomap" where
  "proxy_config_of podIP peerRPC =
     gput ''addrNotify'' (JStr (podIP @ notifyPort))
       (gput ''pdAddrs'' (JArr (map JStr (split_on CHR '','' peerRPC))) proxyCfg)"

definition GetProxyConfig :: "'w disc_env \<Rightarrow> string \<Rightarrow> 'w \<Rightarrow> goerr + string" where
  "GetProxyConfig D podIP w =
     (case d_cc_get D (d_pod_namespace D) (d_cluster_name D) w of
        Inl e \<Rightarrow> Inl e
      | Inr cc \<Rightarrow>
          if spec_peer_rpc (cc_spec cc) = []
          then Inl (OtherError ''cell cluster status PdPeerRPC is null'')
          else d_marshal D (JObj (proxy_config_of podIP (spec_peer_rpc (cc_spec cc)))))"

section \<open>Lemmas\<close>

lemma join_pieces_Cons:
  "ps \<noteq> [] \<Longrightarrow> join_pieces f (p # ps) = f p @ CHR '','' # join_pieces f ps"
  by (cases ps) (simp_all add: join_pieces_def butlast_append)

lemma join_pieces_single: "join_pieces f [p] = f p"
  by (simp add: join_pieces_def butlast_append)

lemma split_join_pieces:
  "ps \<noteq> [] \<Longrightarrow> \<forall>p \<in> set ps. CHR '','' \<notin> set (f p) \<Longrightarrow> split_on CHR '','' (join_pieces f ps) = map f ps"
proof (induction ps)
  case (Cons p ps)
  then show ?case
    by (cases "ps = []") (simp_all add: join_pieces_single join_pieces_Cons split_on_no_sep split_on_append_sep)
qed simp

lemma initial_member_not_Nil: "initial_member p \<noteq> []"
  by (simp add: initial_member_def)

lemma join_pieces_not_Nil: "ps \<noteq> [] \<Longrightarrow> join_pieces initial_member ps \<noteq> []"
  by (cases ps; cases "tl ps = []") (auto simp: join_pieces_single join_pieces_Cons initial_member_not_Nil)

lemma Discover_url_parts:
  assumes "Discover order D url st w = (Inr r, st', w')"
  shows "\<exists>pod svc ns d cc. split_on CHR ''.'' url = [pod, svc, ns, d] \<and> ns = d_pod_namespace D \<and>
    d_cc_get D ns (trim_suffix svc ''-pd-peer'') w = Inr cc \<and>
    discover_cluster order D ns pod url cc st w = (Inr r, st', w')"
  using assms
  by (auto simp: Discover_def Let_def split: if_splits list.splits sum.splits)

text \<open>A success either repeats what the cluster says, or writes it there.\<close>

lemma discover_cluster_success:
  assumes "discover_cluster order D ns pod url cc st w = (Inr r, st', w')"
  shows "(spec_peer_url (cc_spec cc) \<noteq> [] \<and> r = spec_peer_url (cc_spec cc) \<and> w' = w) \<or>
    (spec_peer_url (cc_spec cc) = [] \<and>
     (\<exists>ci. st' = Some ci \<and> int (length (ci_peers ci)) = ms_replicas (spec_pd (cc_spec cc)) \<and>
        map_of (ci_peers ci) pod = Some url \<and>
        r = join_pieces initial_member (order (ci_peers ci)) \<and>
        d_cc_update D ns (cc\<lparr>cc_spec := (cc_spec cc)\<lparr>spec_peer_url := r,
          spec_peer_rpc := join_pieces peer_rpc (order (ci_peers ci))\<rparr>\<rparr>) w = (None, w')))"
  using assms
  by (auto simp: discover_cluster_def Let_def split: if_splits prod.splits option.splits)

end
