(* ===== verification/Discovery_Server.thy ===== *)
theory Discovery_Server
  imports Base64 Discovery Controls
begin

text \<open>
  \<^verbatim>\<open>pkg/discovery/server/mux.go\<close>: the HTTP server in front of the discovery service.  The start
  scripts of the pods put what they send into the path, in base64.  The mutex of the service makes
  one request an atomic step on its state.
\<close>

section \<open>Answers\<close>

record reply =
  re_status :: nat
  re_body :: string

definition StatusOK :: nat where "StatusOK = 200"
definition StatusNotFound :: nat where "StatusNotFound = 404"
definition StatusError :: nat where "StatusError = 500"

text \<open>\<^verbatim>\<open>resp.WriteError\<close> and \<^verbatim>\<open>io.WriteString\<close>; their own errors are only logged.\<close>

definition WriteError :: "nat \<Rightarrow> goerr \<Rightarrow> reply" where
  "WriteError status err = \<lparr>re_status = status, re_body = err_text err\<rparr>"

definition WriteString :: "string \<Rightarrow> reply" where
  "WriteString s = \<lparr>re_status = StatusOK, re_body = s\<rparr>"

section \<open>The handlers\<close>

definition newPdHandler ::
  "((string, string) gomap \<Rightarrow> (string, string) gomap) \<Rightarrow> 'w disc_env \<Rightarrow> string \<Rightarrow>
    cluster_info option \<Rightarrow> 'w \<Rightarrow> reply \<times> cluster_info option \<times> 'w" where
  "newPdHandler order D encodedadvertisePeerURL st w =
     (case DecodeString encodedadvertisePeerURL of
        Inl err \<Rightarrow> (WriteError StatusError err, st, w)
      | Inr advertisePeerURL \<Rightarrow>
          (case Discover order D advertisePeerURL st w of
             (Inl err, st1, w1) \<Rightarrow> (WriteError StatusError err, st1, w1)
           | (Inr result, st1, w1) \<Rightarrow> (WriteString result, st1, w1)))"

definition newStoreHandler :: "'w disc_env \<Rightarrow> 'w \<Rightarrow> reply" where
  "newStoreHandler D w =
     (case GetStoreConfig D w of
        Inl err \<Rightarrow> WriteError StatusError err
      | Inr result \<Rightarrow> WriteString result)"

definition newProxyHandler :: "'w disc_env \<Rightarrow> string \<Rightarrow> 'w \<Rightarrow> reply" where
  "newProxyHandler D encodePodIP w =
     (case DecodeString encodePodIP of
        Inl err \<Rightarrow> WriteError StatusError err
      | Inr podIP \<Rightarrow>
          (case GetProxyConfig D podIP w of
             Inl err \<Rightarrow> WriteError StatusError err
           | Inr result \<Rightarrow> WriteString result))"

section \<open>Routing\<close>

text \<open>
  \<^verbatim>\<open>strings.Trim(path, "/")\<close> and the tokens of a path (\<^verbatim>\<open>tokenizePath\<close>).  The router compares a
  path with a route token by token; a token in braces matches anything.
\<close>

definition trim_slashes :: "string \<Rightarrow> string" where
  "trim_slashes path =
     rev (dropWhile (\<lambda>c. c = CHR ''/'') (rev (dropWhile (\<lambda>c. c = CHR ''/'') path)))"

definition tokenizePath :: "string \<Rightarrow> string list" where
  "tokenizePath path = (if path = ''/'' then [] else split_on CHR ''/'' (trim_slashes path))"

text \<open>The three routes of \<open>StartServer\<close>, all of them for \<^verbatim>\<open>GET\<close>.\<close>

definition discovery_StartServer ::
  "((string, string) gomap \<Rightarrow> (string, string) gomap) \<Rightarrow> 'w disc_env \<Rightarrow> string \<Rightarrow>
    cluster_info option \<Rightarrow> 'w \<Rightarrow> (reply \<times> cluster_info option \<times> 'w) option" where
  "discovery_StartServer order D path st w =
     (case tokenizePath path of
        [a] \<Rightarrow> if a = ''store-config'' then Some (newStoreHandler D w, st, w) else None
      | [a, x] \<Rightarrow>
          if a = ''new'' then Some (newPdHandler order D x st w)
          else if a = ''proxy-config'' then Some (newProxyHandler D x w, st, w)
          else None
      | _ \<Rightarrow> None)"

section \<open>Lemmas\<close>

lemma tokenize_two:
  assumes "a \<noteq> []" and "x \<noteq> []" and "CHR ''/'' \<notin> set a" and "CHR ''/'' \<notin> set x"
  shows "tokenizePath (CHR ''/'' # a @ CHR ''/'' # x) = [a, x]"
proof -
  have front: "dropWhile (\<lambda>c. c = CHR ''/'') (CHR ''/'' # a @ CHR ''/'' # x) = a @ CHR ''/'' # x"
    using assms(1,3) by (cases a) auto
  obtain y ys where x: "rev x = y # ys" using assms(2) by (cases "rev x") auto
  have y: "y \<noteq> CHR ''/''" using assms(4) x by (metis list.set_intros(1) set_rev)
  have "rev (a @ CHR ''/'' # x) = y # ys @ CHR ''/'' # rev a" by (simp add: x)
  then have "dropWhile (\<lambda>c. c = CHR ''/'') (rev (a @ CHR ''/'' # x)) = rev (a @ CHR ''/'' # x)"
    using y by simp
  then have "trim_slashes (CHR ''/'' # a @ CHR ''/'' # x) = a @ CHR ''/'' # x"
    unfolding trim_slashes_def front by (simp only: rev_rev_ident)
  then show ?thesis
    using assms by (simp add: tokenizePath_def split_on_append_sep split_on_no_sep)
qed

lemma b64_encode_Nil_iff: "b64_encode s = [] \<longleftrightarrow> s = []"
  by (cases s rule: b64_encode.cases) simp_all

lemma tokenize_encoded:
  assumes "a \<noteq> []" and "CHR ''/'' \<notin> set a" and "s \<noteq> []" and "list_all host_char s"
  shows "tokenizePath (CHR ''/'' # a @ CHR ''/'' # b64_encode s) = [a, b64_encode s]"
  using assms b64_encode_plain [OF assms(4)]
  by (intro tokenize_two) (auto simp: b64_encode_Nil_iff list_all_iff)

end
