(* ===== verification/Discovery_Properties.thy ===== *)
theory Discovery_Properties
  imports Discovery_Server Samples
begin

text \<open>
  What discovery promises the PD pods and the proxies: one complete list of initial members
  for all, and the same PDs in the configuration of every proxy.
\<close>

section \<open>Agreement\<close>

text \<open>
  The calls that PD pods of one cluster make, one after the other, each with its own
  iteration order, and their answers.
\<close>

inductive disc_calls ::
  "'w disc_env \<Rightarrow> string \<Rightarrow> string \<Rightarrow> cluster_info option \<times> 'w \<Rightarrow> (goerr + string) list \<Rightarrow>
    cluster_info option \<times> 'w \<Rightarrow> bool" for D ns ccName where
  calls_none: "disc_calls D ns ccName s [] s"
| calls_more: "split_on CHR ''.'' url = [pod, svc, ns, dm] \<Longrightarrow> trim_suffix svc ''-pd-peer'' = ccName \<Longrightarrow>
    (\<And>m. mset (order m) = mset m) \<Longrightarrow>
    Discover order D url st w = (r, st', w') \<Longrightarrow> disc_calls D ns ccName (st', w') rs s \<Longrightarrow>
    disc_calls D ns ccName (st, w) (r # rs) s"

inductive_simps disc_calls_Nil: "disc_calls D ns c s [] t"
inductive_cases disc_calls_Cons: "disc_calls D ns c s (r # rs) t"

text \<open>The API server keeps the spec of a cluster it was sent.\<close>

definition keeps_spec :: "'w disc_env \<Rightarrow> string \<Rightarrow> string \<Rightarrow> bool" where
  "keeps_spec D ns n \<longleftrightarrow>
     (\<forall>w cc x w'. d_cc_get D ns n w = Inr cc \<longrightarrow> d_cc_update D ns (cc\<lparr>cc_spec := x\<rparr>) w = (None, w') \<longrightarrow>
        (\<exists>cc'. d_cc_get D ns n w' = Inr cc' \<and> cc_spec cc' = x))"

definition announced :: "'w disc_env \<Rightarrow> string \<Rightarrow> string \<Rightarrow> 'w \<Rightarrow> string \<Rightarrow> bool" where
  "announced D ns n w r \<longleftrightarrow>
     r \<noteq> [] \<and> (\<exists>cc. d_cc_get D ns n w = Inr cc \<and> spec_peer_url (cc_spec cc) = r)"

lemma Discover_cluster:
  assumes "split_on CHR ''.'' url = [pod, svc, ns, dm]" and "trim_suffix svc ''-pd-peer'' = n"
    and "Discover order D url st w = (r, st', w')"
  shows "(\<exists>e. r = Inl e \<and> w' = w) \<or>
    (\<exists>cc. d_cc_get D ns n w = Inr cc \<and> discover_cluster order D ns pod url cc st w = (r, st', w'))"
  using assms by (auto simp: Discover_def Let_def split: if_splits sum.splits)

lemma announced_kept:
  assumes "announced D ns n w a" and "split_on CHR ''.'' url = [pod, svc, ns, dm]"
    and "trim_suffix svc ''-pd-peer'' = n" and "Discover order D url st w = (r, st', w')"
  shows "w' = w \<and> (r = Inr a \<or> (\<exists>e. r = Inl e))"
  using Discover_cluster [OF assms(2-4)] assms(1)
  by (auto simp: announced_def discover_cluster_def Let_def)

lemma success_announces:
  assumes "keeps_spec D ns n" and "split_on CHR ''.'' url = [pod, svc, ns, dm]"
    and "trim_suffix svc ''-pd-peer'' = n" and "Discover order D url st w = (Inr a, st', w')"
    and order: "\<And>m. mset (order m) = mset m"
  shows "announced D ns n w' a"
proof -
  obtain cc where cc: "d_cc_get D ns n w = Inr cc"
    and d: "discover_cluster order D ns pod url cc st w = (Inr a, st', w')"
    using Discover_cluster [OF assms(2-4)] by auto
  show ?thesis
  proof (cases "spec_peer_url (cc_spec cc) = []")
    case False
    then show ?thesis using discover_cluster_success [OF d] cc by (auto simp: announced_def)
  next
    case True
    then obtain ci :: cluster_info where ci: "map_of (ci_peers ci) pod = Some url"
      "a = join_pieces initial_member (order (ci_peers ci))"
      and u: "d_cc_update D ns (cc\<lparr>cc_spec := (cc_spec cc)\<lparr>spec_peer_url := a,
          spec_peer_rpc := join_pieces peer_rpc (order (ci_peers ci))\<rparr>\<rparr>) w = (None, w')"
      using discover_cluster_success [OF d] by blast
    have "ci_peers ci \<noteq> []" using ci(1) by auto
    then have "order (ci_peers ci) \<noteq> []" using order [of "ci_peers ci"] by (metis mset_zero_iff)
    then have "a \<noteq> []" using ci(2) join_pieces_not_Nil by simp
    moreover obtain cc' where "d_cc_get D ns n w' = Inr cc'" "spec_peer_url (cc_spec cc') = a"
      using assms(1) cc u unfolding keeps_spec_def by fastforce
    ultimately show ?thesis by (auto simp: announced_def)
  qed
qed

lemma announced_calls:
  "disc_calls D ns n s rs t \<Longrightarrow> announced D ns n (snd s) a \<Longrightarrow> Inr b \<in> set rs \<Longrightarrow> b = a"
proof (induction rule: disc_calls.induct)
  case (calls_more url pod svc dm order st w r st' w' rs s)
  then have "w' = w" "r = Inr a \<or> (\<exists>e. r = Inl e)"
    using announced_kept [of D ns n w a url pod svc dm order st r st' w'] by auto
  then show ?case using calls_more by auto
qed simp

text \<open>
  C20: all pods start from the same list.  If the API server keeps the spec it was sent, then
  in any sequence of calls of the pods of one cluster, whatever the iteration orders, any two
  answers that are not errors are the same list of initial members.
\<close>

theorem discover_agreement:
  assumes "keeps_spec D ns n" and "disc_calls D ns n s rs t" and "Inr a \<in> set rs" and "Inr b \<in> set rs"
  shows "a = b"
  using assms(2-4)
proof (induction rule: disc_calls.induct)
  case (calls_more url pod svc dm order st w r st' w' rs s)
  show ?case
  proof (cases r)
    case (Inl e)
    then show ?thesis using calls_more by auto
  next
    case (Inr c)
    then have "announced D ns n w' c"
      using success_announces [OF assms(1) calls_more(1,2)] calls_more(3,4) by auto
    then have "x = c" if "Inr x \<in> set rs" for x
      using announced_calls [OF calls_more(5), of c x] that by simp
    then show ?thesis using calls_more(7,8) Inr by auto
  qed
qed simp

text \<open>An API server that holds one cluster.\<close>

definition smp_disc :: "cellcluster disc_env" where
  "smp_disc = \<lparr>d_cc_get = \<lambda>ns n w. Inr w, d_cc_update = \<lambda>ns c w. (None, c),
     d_pod_namespace = ''n'', d_cluster_name = ''c'', d_marshal = \<lambda>j. Inr ''json''\<rparr>"

lemma smp_disc_simps [simp]:
  "d_cc_get smp_disc = (\<lambda>ns n w. Inr w)" "d_cc_update smp_disc = (\<lambda>ns c w. (None, c))"
  "d_pod_namespace smp_disc = ''n''" "d_cluster_name smp_disc = ''c''"
  by (simp_all add: smp_disc_def)

definition smp_list :: string where
  "smp_list = ''c-pd-0=http://c-pd-0.c-pd-peer.n.svc:2380''"

definition smp_info_of :: "cluster_info" where
  "smp_info_of = \<lparr>ci_resource_version = [], ci_peers = [(''c-pd-0'', ''c-pd-0.c-pd-peer.n.svc'')]\<rparr>"

lemma smp_cc_rv [simp]: "m_rv (cc_meta smp_cc) = []"
  by (simp add: smp_cc_def meta0_def)

lemma smp_discover:
  "Discover (\<lambda>m. m) smp_disc ''c-pd-0.c-pd-peer.n.svc'' None smp_cc =
     (Inr smp_list, Some smp_info_of,
      smp_cc\<lparr>cc_spec := (cc_spec smp_cc)\<lparr>spec_peer_url := smp_list,
        spec_peer_rpc := ''c-pd-0.c-pd-peer.n.svc:20800''\<rparr>\<rparr>)"
  by (simp add: Discover_def discover_cluster_def Let_def trim_suffix_def join_pieces_def
      initial_member_def peer_rpc_def smp_list_def smp_info_of_def gput_def meta0_def)


theorem discover_agreement_witness:
  "\<exists>t r. disc_calls smp_disc ''n'' ''c'' (None, smp_cc) [Inr smp_list, Inr r] t \<and> r = smp_list"
proof -
  let ?url = "''c-pd-0.c-pd-peer.n.svc''"
  let ?w = "smp_cc\<lparr>cc_spec := (cc_spec smp_cc)\<lparr>spec_peer_url := smp_list,
        spec_peer_rpc := ''c-pd-0.c-pd-peer.n.svc:20800''\<rparr>\<rparr>"
  have u: "split_on CHR ''.'' ?url = [''c-pd-0'', ''c-pd-peer'', ''n'', ''svc'']" by simp
  have n: "trim_suffix ''c-pd-peer'' ''-pd-peer'' = ''c''" by (simp add: trim_suffix_def)
  have k: "keeps_spec smp_disc ''n'' ''c''" by (simp add: keeps_spec_def)
  obtain r st' where two: "Discover rev smp_disc ?url (Some smp_info_of) ?w = (Inr r, st', ?w)"
    by (simp add: Discover_def discover_cluster_def Let_def smp_list_def)
  have c: "disc_calls smp_disc ''n'' ''c'' (None, smp_cc) [Inr smp_list, Inr r] (st', ?w)"
    by (rule calls_more [OF u n _ smp_discover], simp)
      (rule calls_more [OF u n _ two calls_none], simp)
  moreover have "r = smp_list"
    by (rule discover_agreement [OF k c]) simp_all
  ultimately show ?thesis by blast
qed



text \<open>
  C35: the proxies learn every PD.  The RPC addresses that discovery wrote to the cluster come
  back as the list of PD addresses in the proxy's configuration, which otherwise differs from
  the template only in the notification address.
\<close>

theorem proxy_config_roundtrip:
  assumes "d_cc_get D (d_pod_namespace D) (d_cluster_name D) w = Inr cc"
    and "spec_peer_rpc (cc_spec cc) = join_pieces peer_rpc ps" and "ps \<noteq> []"
    and "\<forall>p \<in> set ps. CHR '','' \<notin> set (snd p)"
  shows "\<exists>cfg. GetProxyConfig D ip w = d_marshal D (JObj cfg) \<and>
    map_of cfg ''pdAddrs'' = Some (JArr (map (\<lambda>p. JStr (peer_rpc p)) ps)) \<and>
    map_of cfg ''addrNotify'' = Some (JStr (ip @ notifyPort)) \<and>
    (\<forall>k. k \<noteq> ''pdAddrs'' \<longrightarrow> k \<noteq> ''addrNotify'' \<longrightarrow> map_of cfg k = map_of proxyCfg k)"
proof -
  have s: "split_on CHR '','' (join_pieces peer_rpc ps) = map peer_rpc ps"
    by (rule split_join_pieces [OF assms(3)]) (use assms(4) in \<open>auto simp: peer_rpc_def\<close>)
  have "join_pieces peer_rpc ps \<noteq> []"
  proof
    assume "join_pieces peer_rpc ps = []"
    then have "map peer_rpc ps = [[]]" using s by simp
    then show False using assms(3) by (cases ps) (auto simp: peer_rpc_def)
  qed
  then have "GetProxyConfig D ip w = d_marshal D (JObj (proxy_config_of ip (join_pieces peer_rpc ps)))"
    using assms(1,2) by (simp add: GetProxyConfig_def)
  then show ?thesis by (intro exI [of _ "proxy_config_of ip (join_pieces peer_rpc ps)"])
    (simp add: proxy_config_of_def s comp_def)
qed

theorem proxy_config_roundtrip_witness:
  "\<exists>cfg. GetProxyConfig smp_disc ''1.2.3.4'' (smp_cc\<lparr>cc_spec := (cc_spec smp_cc)
       \<lparr>spec_peer_rpc := join_pieces peer_rpc [(''c-pd-0'', ''a''), (''c-pd-1'', ''b'')]\<rparr>\<rparr>) =
     d_marshal smp_disc (JObj cfg) \<and> map_of cfg ''pdAddrs'' = Some (JArr [JStr ''a:20800'', JStr ''b:20800''])"
proof -
  let ?cc = "smp_cc\<lparr>cc_spec := (cc_spec smp_cc)
       \<lparr>spec_peer_rpc := join_pieces peer_rpc [(''c-pd-0'', ''a''), (''c-pd-1'', ''b'')]\<rparr>\<rparr>"
  have "d_cc_get smp_disc (d_pod_namespace smp_disc) (d_cluster_name smp_disc) ?cc = Inr ?cc" by simp
  from proxy_config_roundtrip [OF this, of "[(''c-pd-0'', ''a''), (''c-pd-1'', ''b'')]" "''1.2.3.4''"]
  show ?thesis by (auto simp: peer_rpc_def)
qed

section \<open>Over HTTP\<close>

text \<open>
  A pod is answered for what it sent.  The start script of a pod puts its name or its address
  into the path in base64.  For every name and every address made of characters that host names
  have, the request is routed to the right handler, which decodes exactly what was encoded: the
  answer, its status and the state afterwards are those of \<open>Discover\<close> and \<open>GetProxyConfig\<close> on the
  string the script started from.
\<close>

lemma discovery_request_roundtrip:
  assumes "s \<noteq> []" and "list_all host_char s"
  shows "discovery_StartServer order D (''/new/'' @ b64_encode s) st w =
      (case Discover order D s st w of (r, st', w') \<Rightarrow>
         Some (case r of Inl e \<Rightarrow> WriteError StatusError e | Inr x \<Rightarrow> WriteString x, st', w')) \<and>
    discovery_StartServer order D (''/proxy-config/'' @ b64_encode s) st w =
      Some (case GetProxyConfig D s w of Inl e \<Rightarrow> WriteError StatusError e | Inr x \<Rightarrow> WriteString x, st, w)"
proof -
  have "DecodeString (b64_encode s) = Inr s"
    by (rule DecodeString_encode) (rule b64_encode_no_newline)
  moreover have "tokenizePath (''/new/'' @ b64_encode s) = [''new'', b64_encode s]"
    "tokenizePath (''/proxy-config/'' @ b64_encode s) = [''proxy-config'', b64_encode s]"
    using tokenize_encoded [of "''new''", OF _ _ assms] tokenize_encoded [of "''proxy-config''", OF _ _ assms]
    by simp_all
  ultimately show ?thesis
    by (simp add: discovery_StartServer_def newPdHandler_def newProxyHandler_def
        split: prod.splits sum.splits)
qed

end
