(* ===== verification/Scheduler_Properties.thy ===== *)
theory Scheduler_Properties
  imports Scheduler_HA Samples
begin

text \<open>
  What the high-availability predicate promises once it holds the lock: it returns the nodes
  with the fewest pods.
\<close>

section \<open>The nodes\<close>

text \<open>
  C25: the predicate keeps exactly the least loaded nodes.  Once the lock is held and the pods of the
  component are listed, the nodes returned are, in the order they were given, those with fewer
  such pods than the bound and with no more than any other node below it, whatever the order
  in which Go iterates over its map of nodes; when every node has reached the bound, the
  predicate fails.
\<close>

theorem ha_filter_least_nodes:
  assumes "\<And>m. mset (order m) = mset m" and "nodes \<noteq> []"
    and "realAcquireLock H pod w = (None, w1)"
    and "length nodes = 1 \<longrightarrow> (\<exists>pvc. h_pvc_get H (p_ns pod)
      (pvcName (mval (p_labels pod) ComponentLabelKey) (p_name pod)) w1 = Inr pvc \<and> pvc_phase pvc \<noteq> ''Bound'')"
    and "realPodListFn H (p_ns pod) inst (mval (p_labels pod) ComponentLabelKey) w1 = Inr pods"
  shows "ha_Filter order H inst pod nodes w =
    (if list_all (\<lambda>n. h_max_pods H \<le> int (load_of pods n)) nodes then Inl (OtherError ''can't find a node'')
     else Inr (least_nodes (h_max_pods H) pods nodes), w1)"
proof -
  let ?mins = "min_nodes (h_max_pods H) (order (count_pods pods (init_node_map nodes))) (-1) []"
  have m: "set ?mins = n_name ` set (least_nodes (h_max_pods H) pods nodes)"
    by (rule min_nodes_least) (rule assms(1))
  then have "?mins = [] \<longleftrightarrow> least_nodes (h_max_pods H) pods nodes = []"
    by (metis image_is_empty set_empty)
  moreover have "getNodeFromNames nodes ?mins = least_nodes (h_max_pods H) pods nodes"
    by (simp add: getNodeFromNames_iff m least_nodes_names)
  moreover have "(if length nodes = 1 then
      (case h_pvc_get H (p_ns pod) (pvcName (mval (p_labels pod) ComponentLabelKey) (p_name pod)) w1 of
         Inl e \<Rightarrow> Inl e | Inr pvc \<Rightarrow> Inr (pvc_phase pvc = ''Bound'')) else Inr False) = Inr False"
    using assms(4) by auto
  ultimately show ?thesis using assms(2,3,5) least_nodes_empty [of "h_max_pods H" pods nodes] by (simp add: ha_Filter_def Let_def)
qed

text \<open>Claims as the API server keeps them: a list of claims with different names.\<close>

definition smp_ha :: "pod list \<Rightarrow> pvc list ha_env" where
  "smp_ha pods =
     \<lparr>h_pod_list = \<lambda>ns sel w. Inr pods,
      h_pvc_list = \<lambda>ns sel w. if distinct (map pvc_name w) then Inr w else missing,
      h_pvc_get = \<lambda>ns n w. missing,
      h_pvc_update = \<lambda>p w. (None, replace_claim p w), h_now_text = \<lambda>w. ''now'', h_max_pods = MaxPodCountPerNode\<rparr>"

lemma smp_ha_simps [simp]:
  "h_pod_list (smp_ha ps) = (\<lambda>ns sel w. Inr ps)"
  "h_pvc_list (smp_ha ps) = (\<lambda>ns sel w. if distinct (map pvc_name w) then Inr w else missing)"
  "h_pvc_update (smp_ha ps) = (\<lambda>p w. (None, replace_claim p w))"
  "h_now_text (smp_ha ps) = (\<lambda>w. ''now'')" "h_max_pods (smp_ha ps) = MaxPodCountPerNode"
  by (simp_all add: smp_ha_def)

text \<open>The nodes of \<^verbatim>\<open>test_helper.go\<close>.\<close>

definition fake_node :: "string \<Rightarrow> node" where
  "fake_node n = \<lparr>n_name = n, n_labels = None\<rparr>"

definition fakeZeroNode :: "node list" where
  "fakeZeroNode = []"

definition fakeOneNode :: "node list" where
  "fakeOneNode = [fake_node ''kube-node-1'']"

definition fakeTwoNodes :: "node list" where
  "fakeTwoNodes = [fake_node ''kube-node-1'', fake_node ''kube-node-2'']"

definition fakeThreeNodes :: "node list" where
  "fakeThreeNodes = [fake_node ''kube-node-1'', fake_node ''kube-node-2'', fake_node ''kube-node-3'']"

definition fakeFourNodes :: "node list" where
  "fakeFourNodes =
     [fake_node ''kube-node-1'', fake_node ''kube-node-2'', fake_node ''kube-node-3'',
      fake_node ''kube-node-4'']"

definition smp_ha_pod :: "string \<Rightarrow> string \<Rightarrow> pod" where
  "smp_ha_pod name on = (smp_pod name StoreLabelVal ''r'')\<lparr>p_spec := no_pod_spec\<lparr>ps_node_name := on\<rparr>\<rparr>"

lemma smp_ha_pod_simps [simp]:
  "p_name (smp_ha_pod nm on) = nm" "p_ns (smp_ha_pod nm on) = ''n''"
  "p_labels (smp_ha_pod nm on) = p_labels (smp_pod nm StoreLabelVal ''r'')"
  "ps_node_name (p_spec (smp_ha_pod nm on)) = on"
  by (simp_all add: smp_ha_pod_def smp_pod_def)

lemma smp_component [simp]:
  "mval (p_labels (smp_pod nm c r)) ComponentLabelKey = c"
  "mval (p_labels (smp_pod nm c r)) InstanceLabelKey = ''i''"
  by (simp_all add: mval_def)

definition smp_two_each :: "pvc list ha_env" where
  "smp_two_each = (smp_ha [smp_ha_pod ''s0'' ''kube-node-2'', smp_ha_pod ''s1'' [], smp_ha_pod ''s2'' ''kube-node-1'',
     smp_ha_pod ''s3'' ''kube-node-2'', smp_ha_pod ''s4'' ''kube-node-3''])\<lparr>h_max_pods := 2\<rparr>"

lemma smp_lock:
  "realAcquireLock smp_two_each (smp_ha_pod ''s1'' []) [smp_pvc ''store-s1'' None] =
     (None, [set_pvc_ann (mput AnnPVCPodScheduling ''now'' None) (smp_pvc ''store-s1'' None)])"
  by (simp add: realAcquireLock_def realPVCListFn_def pvcName_def StoreLabelVal_def is_scheduling_def
      setCurrentPodScheduling_def realUpdatePVCFn_def replace_claim_def Let_def mval_def smp_two_each_def)

theorem ha_filter_least_nodes_witness:
  "fst (ha_Filter rev smp_two_each ''i'' (smp_ha_pod ''s1'' []) fakeThreeNodes [smp_pvc ''store-s1'' None]) =
     Inr [fake_node ''kube-node-1'', fake_node ''kube-node-3'']"
proof -
  define pods where "pods = [smp_ha_pod ''s0'' ''kube-node-2'', smp_ha_pod ''s1'' [], smp_ha_pod ''s2'' ''kube-node-1'',
     smp_ha_pod ''s3'' ''kube-node-2'', smp_ha_pod ''s4'' ''kube-node-3'']"
  have l: "load_of pods (fake_node ''kube-node-1'') = 1" "load_of pods (fake_node ''kube-node-2'') = 2"
    "load_of pods (fake_node ''kube-node-3'') = 1"
    by (simp_all add: load_of_def pods_on_def pods_def fake_node_def)
  have h: "h_max_pods smp_two_each = 2" "h_pod_list smp_two_each = (\<lambda>ns sel w. Inr pods)"
    by (simp_all add: smp_two_each_def pods_def)
  have "least_nodes 2 pods fakeThreeNodes = [fake_node ''kube-node-1'', fake_node ''kube-node-3'']"
    by (simp add: least_nodes_def fakeThreeNodes_def l)
  then show ?thesis
    using ha_filter_least_nodes [of rev fakeThreeNodes, OF _ _ smp_lock, of "''i''" pods]
    by (simp add: realPodListFn_def fakeThreeNodes_def h l)
qed

end
