(* ===== verification/Scheduler_System.thy ===== *)
theory Scheduler_System
  imports Scheduler_Server Scheduler_Properties
begin

text \<open>
  The extender and the cluster as a system: what taking the lock does to the marks on the claims,
  and the invariant that follows for any sequence of requests.
\<close>

section \<open>The lock\<close>

text \<open>What taking the lock may do, once the claims of the component are listed.\<close>

lemma realAcquireLock_cases:
  assumes l: "realPVCListFn H (p_ns pod) (mval (p_labels pod) InstanceLabelKey)
      (mval (p_labels pod) ComponentLabelKey) w = Inr xs"
    and run: "realAcquireLock H pod w = (e, w')"
  obtains
    (refused) "e \<noteq> None" "w' = w"
  | (held) i where "e = None" "w' = w" "i < length xs" "is_scheduling (xs ! i)"
      "pvc_name (xs ! i) = pvcName (mval (p_labels pod) ComponentLabelKey) (p_name pod)"
  | (free) i where "i < length xs" "\<forall>x \<in> set xs. \<not> is_scheduling x"
      "pvc_name (xs ! i) = pvcName (mval (p_labels pod) ComponentLabelKey) (p_name pod)"
      "setCurrentPodScheduling H (xs ! i) w = (e, w')"
  | (stuck) j where "j < length xs" "e \<noteq> None"
      "h_pvc_update H (set_pvc_ann (mdel AnnPVCPodScheduling (pvc_ann (xs ! j))) (xs ! j)) w = (e, w')"
  | (hand_over) i j w1 where "i < length xs" "j < length xs" "i \<noteq> j" "is_scheduling (xs ! j)"
      "pvc_phase (xs ! j) = ''Bound''"
      "pvc_name (xs ! i) = pvcName (mval (p_labels pod) ComponentLabelKey) (p_name pod)"
      "h_pvc_update H (set_pvc_ann (mdel AnnPVCPodScheduling (pvc_ann (xs ! j))) (xs ! j)) w = (None, w1)"
      "setCurrentPodScheduling H (xs ! i) w1 = (e, w')"
proof -
  let ?name = "pvcName (mval (p_labels pod) ComponentLabelKey) (p_name pod)"
  obtain c s where sc: "scan_pvcs ?name 0 xs (None, None) = (c, s)" by fastforce
  note run = run [unfolded realAcquireLock_def Let_def l, simplified, unfolded sc]
  show thesis
  proof (cases c)
    case None
    then show thesis using run refused by auto
  next
    case (Some i)
    then have i: "i < length xs" "pvc_name (xs ! i) = ?name" using scan_current [OF sc] by auto
    show thesis
    proof (cases s)
      case None
      then show thesis using run Some i scan_scheduling [OF sc] free by auto
    next
      case s: (Some j)
      then have j: "j < length xs" "is_scheduling (xs ! j)" using scan_scheduling [OF sc] by auto
      show thesis
      proof (cases "j = i \<or> pvc_phase (xs ! j) \<noteq> ''Bound''")
        case True
        then show thesis using run Some s i j held refused by (auto split: if_splits)
      next
        case False
        then show thesis
          using run Some s i j stuck hand_over
          by (fastforce simp: realUpdatePVCFn_def split: prod.splits option.splits)
      qed
    qed
  qed
qed

lemma mark_done:
  assumes "claims_api H ns sel" and "h_pvc_list H ns sel w = Inr xs" and c: "c < length xs"
    and "\<forall>x \<in> set xs. \<not> is_scheduling x" and "h_now_text H w \<noteq> []"
    and "setCurrentPodScheduling H (xs ! c) w = (e, w')"
  shows "\<exists>ys. h_pvc_list H ns sel w' = Inr ys \<and> one_scheduling ys \<and>
    (e = None \<longrightarrow> (\<exists>y \<in> set ys. is_scheduling y \<and> pvc_name y = pvc_name (xs ! c)))"
proof -
  have "set_pvc_ann (pvc_ann (xs ! c)) (xs ! c) = xs ! c" by (simp add: set_pvc_ann_def)
  then obtain ys where ys: "h_pvc_list H ns sel w' = Inr ys" "one_scheduling ys"
    "e = None \<Longrightarrow> \<exists>y. ys = xs[c := y] \<and> pvc_name y = pvc_name (xs ! c) \<and> is_scheduling y"
    using mark_step [OF assms(1-5), of e w'] assms(6) by auto
  have "\<exists>y \<in> set ys. is_scheduling y \<and> pvc_name y = pvc_name (xs ! c)" if "e = None"
    using ys(3) [OF that] set_update_memI [OF c] by blast
  with ys(1,2) show ?thesis by blast
qed

text \<open>The claims the lock of a pod is about.\<close>

definition pod_component :: "pod \<Rightarrow> string" where
  "pod_component pod = mval (p_labels pod) ComponentLabelKey"

definition pod_instance :: "pod \<Rightarrow> string" where
  "pod_instance pod = mval (p_labels pod) InstanceLabelKey"

definition component_claims :: "'w ha_env \<Rightarrow> string \<Rightarrow> string \<Rightarrow> string \<Rightarrow> 'w \<Rightarrow> goerr + pvc list" where
  "component_claims H ns inst cmp w = h_pvc_list H ns (component_selector inst cmp) w"

lemma lock_one_scheduling:
  assumes api: "claims_api H (p_ns pod) (component_selector (pod_instance pod) (pod_component pod))"
      (is "claims_api H ?ns ?sel")
    and l: "component_claims H (p_ns pod) (pod_instance pod) (pod_component pod) w = Inr xs"
    and one: "one_scheduling xs" and now: "\<And>w. h_now_text H w \<noteq> []"
    and run: "realAcquireLock H pod w = (e, w')"
  shows "\<exists>ys. component_claims H (p_ns pod) (pod_instance pod) (pod_component pod) w' = Inr ys \<and>
    one_scheduling ys \<and>
    (e = None \<longrightarrow> (\<exists>y \<in> set ys. is_scheduling y \<and> pvc_name y = pvcName (pod_component pod) (p_name pod)))"
proof -
  have l': "realPVCListFn H ?ns (mval (p_labels pod) InstanceLabelKey)
      (mval (p_labels pod) ComponentLabelKey) w = Inr xs" and l: "h_pvc_list H ?ns ?sel w = Inr xs"
    using l by (simp_all add: realPVCListFn_def component_claims_def pod_component_def pod_instance_def)
  show ?thesis
    using l' run
  proof (cases rule: realAcquireLock_cases)
    case refused
    then show ?thesis using l one by (auto simp: component_claims_def)
  next
    case (held i)
    then show ?thesis using l one nth_mem by (auto simp: pod_component_def component_claims_def)
  next
    case (free i)
    then show ?thesis using mark_done [OF api l free(1,2) now free(4)]
      by (simp add: pod_component_def component_claims_def)
  next
    case (stuck j)
    then show ?thesis using claims_api_update [OF api l stuck(1,3)] one stuck(2)
      by (auto simp: component_claims_def)
  next
    case (hand_over i j w1)
    let ?xs = "xs[j := set_pvc_ann (mdel AnnPVCPodScheduling (pvc_ann (xs ! j))) (xs ! j)]"
    have l1: "h_pvc_list H ?ns ?sel w1 = Inr ?xs"
      using claims_api_update [OF api l hand_over(2,7)] by simp
    have none: "\<forall>x \<in> set ?xs. \<not> is_scheduling x"
      by (rule one_scheduling_unmark [OF one hand_over(2,4)]) simp
    have "?xs ! i = xs ! i" "i < length ?xs" using hand_over by auto
    with mark_done [OF api l1 _ none now, of i] hand_over(6,8) show ?thesis
      by (simp add: pod_component_def component_claims_def)
  qed
qed

text \<open>
  A claim belongs to one component of one cluster: changing the annotations of a claim does not
  change what is listed for another component, cluster or namespace.
\<close>

definition claims_isolated :: "'w ha_env \<Rightarrow> bool" where
  "claims_isolated H \<longleftrightarrow>
     (\<forall>ns inst cmp ns' inst' cmp' w xs x a e w'. component_claims H ns inst cmp w = Inr xs \<longrightarrow>
        x \<in> set xs \<longrightarrow> h_pvc_update H (set_pvc_ann a x) w = (e, w') \<longrightarrow>
        (ns', inst', cmp') \<noteq> (ns, inst, cmp) \<longrightarrow>
        component_claims H ns' inst' cmp' w' = component_claims H ns' inst' cmp' w)"

lemma isolated_update:
  assumes "claims_isolated H" and "component_claims H ns inst cmp w = Inr xs" and "k < length xs"
    and "h_pvc_update H (set_pvc_ann a (xs ! k)) w = (e, w')"
    and "(ns', inst', cmp') \<noteq> (ns, inst, cmp)"
  shows "component_claims H ns' inst' cmp' w' = component_claims H ns' inst' cmp' w"
  using assms nth_mem [OF assms(3)] unfolding claims_isolated_def by blast

lemma isolated_mark:
  assumes "claims_isolated H" and "component_claims H ns inst cmp w = Inr xs" and "k < length xs"
    and "setCurrentPodScheduling H (xs ! k) w = (e, w')" and "(ns', inst', cmp') \<noteq> (ns, inst, cmp)"
  shows "component_claims H ns' inst' cmp' w' = component_claims H ns' inst' cmp' w"
  using isolated_update [OF assms(1-3) _ assms(5)] assms(4)
  by (simp add: setCurrentPodScheduling_def realUpdatePVCFn_def)

lemma lock_elsewhere:
  assumes iso: "claims_isolated H"
    and api: "claims_api H (p_ns pod) (component_selector (pod_instance pod) (pod_component pod))"
    and run: "realAcquireLock H pod w = (e, w')"
    and other: "(ns, inst, cmp) \<noteq> (p_ns pod, pod_instance pod, pod_component pod)"
  shows "component_claims H ns inst cmp w' = component_claims H ns inst cmp w"
proof (cases "component_claims H (p_ns pod) (pod_instance pod) (pod_component pod) w")
  case (Inl x)
  then have "w' = w" using run
    by (simp add: realAcquireLock_def Let_def realPVCListFn_def component_claims_def pod_component_def
        pod_instance_def)
  then show ?thesis by simp
next
  case (Inr xs)
  then have l': "realPVCListFn H (p_ns pod) (mval (p_labels pod) InstanceLabelKey)
      (mval (p_labels pod) ComponentLabelKey) w = Inr xs"
    by (simp add: realPVCListFn_def component_claims_def pod_component_def pod_instance_def)
  then show ?thesis using run
  proof (cases rule: realAcquireLock_cases)
    case (free i)
    then show ?thesis by (rule_tac isolated_mark [OF iso Inr _ _ other])
  next
    case (stuck j)
    then show ?thesis by (rule_tac isolated_update [OF iso Inr _ _ other])
  next
    case (hand_over i j w1)
    let ?xs = "xs[j := set_pvc_ann (mdel AnnPVCPodScheduling (pvc_ann (xs ! j))) (xs ! j)]"
    have "component_claims H (p_ns pod) (pod_instance pod) (pod_component pod) w1 = Inr ?xs"
      using claims_api_update [OF api _ hand_over(2,7)] Inr by (simp add: component_claims_def)
    moreover have "?xs ! i = xs ! i" "i < length ?xs" using hand_over by auto
    ultimately have "component_claims H ns inst cmp w' = component_claims H ns inst cmp w1"
      using isolated_mark [OF iso _ _ _ other, of w1 ?xs i e w'] hand_over(8) by simp
    with isolated_update [OF iso Inr hand_over(2,7) other] show ?thesis by simp
  qed simp_all
qed

section \<open>The extender as a system\<close>

text \<open>
  The claims change in two ways: the extender handles a request, or the cluster moves on and binds,
  creates and removes claims.  Only the extender marks a claim.
\<close>

definition marked :: "pvc list \<Rightarrow> string set" where
  "marked xs = pvc_name ` {x \<in> set xs. is_scheduling x}"

definition cluster_moves :: "'w ha_env \<Rightarrow> 'w \<Rightarrow> 'w \<Rightarrow> bool" where
  "cluster_moves H w w' \<longleftrightarrow>
     (\<forall>ns inst cmp xs. component_claims H ns inst cmp w = Inr xs \<longrightarrow>
        (\<exists>ys. component_claims H ns inst cmp w' = Inr ys \<and> marked ys \<subseteq> marked xs))"

inductive ext_step ::
  "('b, 'r) restful \<Rightarrow> ((string, string list) gomap \<Rightarrow> (string, string list) gomap) \<Rightarrow> 'w ha_env \<Rightarrow>
    'w \<Rightarrow> 'w \<Rightarrow> bool" for R order H where
  ext_request: "filterNode R (NewScheduler order H) body w = (r, w') \<Longrightarrow> ext_step R order H w w'"
| ext_cluster: "cluster_moves H w w' \<Longrightarrow> ext_step R order H w w'"

lemma one_scheduling_marked:
  assumes "distinct (map pvc_name xs)"
  shows "one_scheduling xs \<longleftrightarrow> (\<forall>n \<in> marked xs. \<forall>m \<in> marked xs. n = m)"
proof
  assume "one_scheduling xs"
  then show "\<forall>n \<in> marked xs. \<forall>m \<in> marked xs. n = m"
    by (auto simp: one_scheduling_def marked_def in_set_conv_nth)
next
  assume m: "\<forall>n \<in> marked xs. \<forall>m \<in> marked xs. n = m"
  have "i = j" if "i < length xs" "j < length xs" "is_scheduling (xs ! i)" "is_scheduling (xs ! j)" for i j
  proof -
    have "pvc_name (xs ! i) \<in> marked xs" "pvc_name (xs ! j) \<in> marked xs"
      using that by (auto simp: marked_def)
    with m have "pvc_name (xs ! i) = pvc_name (xs ! j)" by blast
    with assms that show "i = j" by (simp add: distinct_conv_nth) (metis)
  qed
  then show "one_scheduling xs" by (simp add: one_scheduling_def)
qed

lemma ha_Filter_world:
  assumes "ha_Filter order H inst pod nodes w = (r, w')"
  shows "(w' = w \<and> (\<exists>x. r = Inl x)) \<or> (\<exists>e. realAcquireLock H pod w = (e, w') \<and> (e = None \<or> (\<exists>x. r = Inl x)))"
  using assms
  by (auto simp: ha_Filter_def Let_def split: if_splits prod.splits option.splits sum.splits bool.splits)

lemma scheduler_Filter_world:
  assumes "scheduler_Filter (NewScheduler order H) pod nodes w = (r, w')"
  shows "w' = w \<or> (\<exists>e. realAcquireLock H pod w = (e, w'))"
  using assms
  by (auto simp: scheduler_Filter_def NewScheduler_def Let_def dest!: ha_Filter_world
      split: option.splits if_splits prod.splits sum.splits)

lemma scheduler_Filter_locks:
  assumes "scheduler_Filter (NewScheduler order H) pod nodes w = (Inr r, w')"
    and "mget (p_labels pod) InstanceLabelKey \<noteq> None" and "pod_component pod \<in> {PDLabelVal, StoreLabelVal}"
  shows "realAcquireLock H pod w = (None, w')"
  using assms
  by (auto simp: scheduler_Filter_def NewScheduler_def Let_def pod_component_def dest!: ha_Filter_world
      split: option.splits if_splits prod.splits sum.splits)

lemma filterNode_world:
  assumes "filterNode R (NewScheduler order H) body w = (r, w')"
  shows "w' = w \<or> (\<exists>args e. rs_args R body = Inr args \<and> realAcquireLock H (ea_pod args) w = (e, w'))"
  using assms
  by (auto simp: filterNode_def dest!: scheduler_Filter_world split: sum.splits prod.splits)

text \<open>What the API server promises for the claims.\<close>

definition claims_server :: "'w ha_env \<Rightarrow> bool" where
  "claims_server H \<longleftrightarrow> claims_isolated H \<and> (\<forall>ns inst cmp. claims_api H ns (component_selector inst cmp)) \<and>
     (\<forall>w. h_now_text H w \<noteq> [])"

definition one_marked :: "'w ha_env \<Rightarrow> string \<Rightarrow> string \<Rightarrow> string \<Rightarrow> 'w \<Rightarrow> bool" where
  "one_marked H ns inst cmp w \<longleftrightarrow> (\<exists>xs. component_claims H ns inst cmp w = Inr xs \<and> one_scheduling xs)"

lemma ext_step_one_marked:
  assumes srv: "claims_server H" and "ext_step R order H w w'" and one: "one_marked H ns inst cmp w"
  shows "one_marked H ns inst cmp w'"
  using assms(2)
proof cases
  case (ext_request body r)
  from filterNode_world [OF ext_request] show ?thesis
  proof
    assume "\<exists>args e. rs_args R body = Inr args \<and> realAcquireLock H (ea_pod args) w = (e, w')"
    then obtain pod e where run: "realAcquireLock H pod w = (e, w')" by blast
    show ?thesis
    proof (cases "(ns, inst, cmp) = (p_ns pod, pod_instance pod, pod_component pod)")
      case True
      then show ?thesis
        using lock_one_scheduling [OF _ _ _ _ run] srv one by (auto simp: one_marked_def claims_server_def)
    next
      case False
      then show ?thesis
        using lock_elsewhere [OF _ _ run False] srv one by (simp add: one_marked_def claims_server_def)
    qed
  qed (use one in simp)
next
  case ext_cluster
  from one obtain xs where xs: "component_claims H ns inst cmp w = Inr xs" "one_scheduling xs"
    by (auto simp: one_marked_def)
  with ext_cluster obtain ys where ys: "component_claims H ns inst cmp w' = Inr ys" "marked ys \<subseteq> marked xs"
    unfolding cluster_moves_def by blast
  have "distinct (map pvc_name xs)" "distinct (map pvc_name ys)"
    using srv xs(1) ys(1) by (auto simp: claims_server_def claims_api_def component_claims_def)
  with xs(2) ys(2) have "one_scheduling ys" by (auto simp: one_scheduling_marked)
  with ys(1) show ?thesis by (auto simp: one_marked_def)
qed

lemma ext_reach_one_marked:
  "(ext_step R order H)\<^sup>*\<^sup>* w w' \<Longrightarrow> claims_server H \<Longrightarrow> one_marked H ns inst cmp w \<Longrightarrow> one_marked H ns inst cmp w'"
  by (induction rule: rtranclp_induct) (auto intro: ext_step_one_marked)

text \<open>
  C12: the extender schedules one pod of a component at a time.  Start where at most one claim of a
  component is marked, and let the extender handle any requests for any pods while the cluster
  binds, creates and removes claims in between.  Then at most one claim of the component is
  marked; and when the extender then answers a request for a PD or store pod with nodes, the one
  claim that is marked is the claim of that pod.
\<close>

theorem extender_one_at_a_time:
  assumes "claims_server H" and "one_marked H ns inst cmp w0" and "(ext_step R order H)\<^sup>*\<^sup>* w0 w"
  shows "one_marked H ns inst cmp w \<and>
    (\<forall>pod nodes r w'. scheduler_Filter (NewScheduler order H) pod nodes w = (Inr r, w') \<longrightarrow>
       p_ns pod = ns \<longrightarrow> mget (p_labels pod) InstanceLabelKey = Some inst \<longrightarrow> pod_component pod = cmp \<longrightarrow>
       cmp \<in> {PDLabelVal, StoreLabelVal} \<longrightarrow>
       (\<exists>ys. component_claims H ns inst cmp w' = Inr ys \<and> marked ys = {pvcName cmp (p_name pod)}))"
proof (intro conjI allI impI)
  show one: "one_marked H ns inst cmp w" by (rule ext_reach_one_marked [OF assms(3,1,2)])
  fix pod nodes r w'
  assume run: "scheduler_Filter (NewScheduler order H) pod nodes w = (Inr r, w')" "p_ns pod = ns"
    "mget (p_labels pod) InstanceLabelKey = Some inst" "pod_component pod = cmp"
    "cmp \<in> {PDLabelVal, StoreLabelVal}"
  then have "pod_instance pod = inst" by (simp add: pod_instance_def mval_def)
  moreover have "realAcquireLock H pod w = (None, w')"
    using scheduler_Filter_locks [OF run(1)] run(3-5) by simp
  ultimately obtain ys where ys: "component_claims H ns inst cmp w' = Inr ys" "one_scheduling ys"
    "\<exists>y \<in> set ys. is_scheduling y \<and> pvc_name y = pvcName cmp (p_name pod)"
    using lock_one_scheduling [of H pod w _ None w'] assms(1) one run(2,4)
    by (fastforce simp: one_marked_def claims_server_def)
  have "distinct (map pvc_name ys)"
    using assms(1) ys(1) by (auto simp: claims_server_def claims_api_def component_claims_def)
  then have "\<forall>n \<in> marked ys. \<forall>m \<in> marked ys. n = m" using ys(2) by (simp add: one_scheduling_marked)
  moreover have "pvcName cmp (p_name pod) \<in> marked ys" using ys(3) unfolding marked_def by force
  ultimately have "marked ys = {pvcName cmp (p_name pod)}" by blast
  with ys(1) show "\<exists>ys. component_claims H ns inst cmp w' = Inr ys \<and> marked ys = {pvcName cmp (p_name pod)}"
    by blast
qed

text \<open>The claims of one component, as the API server keeps them.\<close>

definition smp_claims :: "pod list \<Rightarrow> pvc list ha_env" where
  "smp_claims pods = (smp_ha pods)\<lparr>h_pvc_list := \<lambda>ns sel w.
     if ns = ''n'' \<and> sel = component_selector ''i'' StoreLabelVal \<and> distinct (map pvc_name w)
     then Inr w else missing\<rparr>"

lemma smp_claims_simps [simp]:
  "h_pod_list (smp_claims ps) = (\<lambda>ns sel w. Inr ps)"
  "h_pvc_list (smp_claims ps) = (\<lambda>ns sel w.
     if ns = ''n'' \<and> sel = component_selector ''i'' StoreLabelVal \<and> distinct (map pvc_name w)
     then Inr w else missing)"
  "h_pvc_update (smp_claims ps) = (\<lambda>p w. (None, replace_claim p w))"
  "h_now_text (smp_claims ps) = (\<lambda>w. ''now'')" "h_max_pods (smp_claims ps) = MaxPodCountPerNode"
  by (simp_all add: smp_claims_def)

lemma component_selector_inj:
  "component_selector i c = component_selector i' c' \<longleftrightarrow> i = i' \<and> c = c'"
proof
  assume "component_selector i c = component_selector i' c'"
  then have "component_selector i c InstanceLabelKey = component_selector i' c' InstanceLabelKey"
    "component_selector i c ComponentLabelKey = component_selector i' c' ComponentLabelKey" by simp_all
  then show "i = i' \<and> c = c'"
    by (simp add: component_selector_def label_Component_def label_Instance_def label_key_defs)
qed simp

lemma claims_server_smp: "claims_server (smp_claims ps)"
proof -
  have "map pvc_name (replace_claim (set_pvc_ann a x) xs) = map pvc_name xs" for a x xs
    by (simp add: replace_claim_def)
  then show ?thesis
    by (auto simp: claims_server_def claims_api_def claims_isolated_def component_claims_def missing_def
        component_selector_inj split: if_splits)
qed

lemma smp_claims_lock:
  "realAcquireLock (smp_claims ps) (smp_ha_pod ''s1'' []) [smp_pvc ''store-s1'' None] =
     (None, [set_pvc_ann (mput AnnPVCPodScheduling ''now'' None) (smp_pvc ''store-s1'' None)])"
  by (simp add: realAcquireLock_def realPVCListFn_def pvcName_def StoreLabelVal_def is_scheduling_def
      setCurrentPodScheduling_def realUpdatePVCFn_def replace_claim_def Let_def mval_def)

lemma smp_claims_filter:
  "\<exists>r w'. scheduler_Filter (NewScheduler rev (smp_claims [])) (smp_ha_pod ''s1'' [])
     (Some fakeTwoNodes) [smp_pvc ''store-s1'' None] = (Inr r, w')"
proof -
  have "p_labels (smp_pod ''s1'' StoreLabelVal ''r'') = Some [InstanceLabelKey \<mapsto> ''i'',
      ComponentLabelKey \<mapsto> StoreLabelVal, ControllerRevisionHashLabelKey \<mapsto> ''r'']"
    by (simp add: smp_pod_def)
  then show ?thesis
    by (simp add: scheduler_Filter_def NewScheduler_def ha_Filter_def smp_claims_lock Let_def
        realPodListFn_def init_node_map_def fakeTwoNodes_def fake_node_def MaxPodCountPerNode_def label_key_defs mval_def gput_def)
qed

theorem extender_one_at_a_time_witness:
  "\<exists>r w' ys. scheduler_Filter (NewScheduler rev (smp_claims [])) (smp_ha_pod ''s1'' [])
       (Some fakeTwoNodes) [smp_pvc ''store-s1'' None] = (Inr r, w') \<and>
     component_claims (smp_claims []) ''n'' ''i'' StoreLabelVal w' = Inr ys \<and>
     marked ys = {''store-s1''}"
proof -
  let ?H = "smp_claims []"
  have start: "one_marked ?H ''n'' ''i'' StoreLabelVal [smp_pvc ''store-s1'' None]"
    by (simp add: one_marked_def component_claims_def one_scheduling_def)
  have "mget (p_labels (smp_ha_pod ''s1'' [])) InstanceLabelKey = Some ''i''"
    "pod_component (smp_ha_pod ''s1'' []) = StoreLabelVal"
    by (simp_all add: pod_component_def)
  with extender_one_at_a_time [OF claims_server_smp start rtranclp.rtrancl_refl [of "ext_step undefined rev ?H"]]
    smp_claims_filter
  show ?thesis by (fastforce simp: pvcName_def StoreLabelVal_def)
qed

end
