(* ===== verification/Bring_Up.thy ===== *)
theory Bring_Up
  imports Cluster_Order PD_Settles Store_Settles
begin

text \<open>
  How a cluster comes up.  \<open>Cluster_Order\<close> says what a round of the managers must not create; this
  theory says what it does create: over caches that do not change during the round and an
  API server that grants every request, each round takes the next step, and the round after the
  last one sends no StatefulSet.
\<close>

section \<open>The surroundings of a round\<close>

text \<open>The listers answer, what claims and services refer to is there and can be read, and every
  request is granted.\<close>

definition obliging :: "'w env \<Rightarrow> bool" where
  "obliging E \<longleftrightarrow>
     (\<forall>w ns sel. \<exists>ps. l_pods E w ns sel = Inr ps) \<and> (\<forall>w ns sel. \<exists>vs. l_pvcs E w ns sel = Inr vs) \<and>
     (\<forall>w ns sel vs v u. l_pvcs E w ns sel = Inr vs \<longrightarrow> v \<in> set vs \<longrightarrow> pvc_volume_name v \<noteq> [] \<longrightarrow>
        (\<exists>x. l_pv E u (pvc_volume_name v) = Inr x)) \<and>
     (\<forall>w ns n x. l_pvc E w ns n = Inl x \<longrightarrow> is_not_found x) \<and>
     (\<forall>w ns n x. l_svc E w ns n = Inl x \<longrightarrow> is_not_found x) \<and>
     (\<forall>w ns n svc a. l_svc E w ns n = Inr svc \<longrightarrow> mget (m_ann (svc_meta svc)) LastAppliedConfigAnnotation = Some a \<longrightarrow>
        (\<exists>v. j_dec_svc (e_codec E) a = Inr v)) \<and>
     (\<forall>v. \<exists>a. j_enc_svc (e_codec E) v = Inr a) \<and>
     (\<forall>cc x w. fst (k_create_set E cc x w) = None) \<and> (\<forall>cc x w. fst (k_create_svc E cc x w) = None) \<and>
     (\<forall>cc x w. fst (k_update_svc E cc x w) = None) \<and> (\<forall>cc x w. fst (k_delete_pod E cc x w) = None) \<and>
     (\<forall>cc x p w. fst (k_patch_reclaim E cc x p w) = None)"

text \<open>The StatefulSets in the cache, by name.\<close>

definition knows_sets :: "'w env \<Rightarrow> string \<Rightarrow> (string \<Rightarrow> sset option) \<Rightarrow> bool" where
  "knows_sets E ns sets \<longleftrightarrow>
     (\<forall>w n. case sets n of
        None \<Rightarrow> (\<exists>x. l_set E w ns n = Inl x \<and> is_not_found x) | Some s \<Rightarrow> l_set E w ns n = Inr s)"

lemma knows_setsD:
  assumes "knows_sets E ns sets"
  shows "sets n = None \<Longrightarrow> \<exists>x. l_set E w ns n = Inl x \<and> is_not_found x"
    and "sets n = Some s \<Longrightarrow> l_set E w ns n = Inr s"
proof -
  have "case sets n of None \<Rightarrow> (\<exists>x. l_set E w ns n = Inl x \<and> is_not_found x) | Some s \<Rightarrow> l_set E w ns n = Inr s"
    using assms unfolding knows_sets_def by blast
  then show "sets n = None \<Longrightarrow> \<exists>x. l_set E w ns n = Inl x \<and> is_not_found x"
    "sets n = Some s \<Longrightarrow> l_set E w ns n = Inr s" by simp_all
qed

text \<open>A component is up when the status of its set can be read, is not that of an upgrade, and makes it
  available; the cluster may have got its status from the managers before.\<close>

definition pd_up :: "'w env \<Rightarrow> cellcluster \<Rightarrow> sset \<Rightarrow> bool" where
  "pd_up E cc s \<longleftrightarrow>
     (\<forall>w. \<exists>c w'. pd_syncCellClusterStatus E cc s w = (None, c, w') \<and> PDIsAvailable c \<and> pd_calm c)"

definition after_pd :: "cellcluster \<Rightarrow> cellcluster \<Rightarrow> bool" where
  "after_pd cc c \<longleftrightarrow> cc_meta c = cc_meta cc \<and> cc_spec c = cc_spec cc \<and> cc_store c = cc_store cc \<and>
     cc_proxy c = cc_proxy cc \<and> pd_calm c"

definition stores_up :: "'w env \<Rightarrow> cellcluster \<Rightarrow> sset \<Rightarrow> bool" where
  "stores_up E cc s \<longleftrightarrow>
     (\<forall>w c. after_pd cc c \<longrightarrow>
        (\<exists>c' w'. store_syncCellClusterStatus E c s w = (None, c', w') \<and> StoreIsAvailable c' \<and> store_calm c'))"

definition after_stores :: "cellcluster \<Rightarrow> cellcluster \<Rightarrow> bool" where
  "after_stores cc c \<longleftrightarrow> cc_meta c = cc_meta cc \<and> cc_spec c = cc_spec cc \<and> cc_proxy c = cc_proxy cc \<and> store_calm c"

definition proxies_up :: "'w env \<Rightarrow> cellcluster \<Rightarrow> sset \<Rightarrow> bool" where
  "proxies_up E cc s \<longleftrightarrow>
     (\<forall>w c. after_stores cc c \<longrightarrow> (\<exists>c'. proxy_syncCellClusterStatus E c s w = (None, c') \<and> proxy_calm c'))"

section \<open>Managers that succeed\<close>

lemma obliging_lists:
  assumes "obliging E"
  shows "\<exists>ps. l_pods E w ns sel = Inr ps" "\<exists>vs. l_pvcs E w ns sel = Inr vs"
  using assms by (simp_all add: obliging_def)

lemma obliging_finds:
  assumes "obliging E"
  shows "l_pvcs E w ns sel = Inr vs \<Longrightarrow> v \<in> set vs \<Longrightarrow> pvc_volume_name v \<noteq> [] \<Longrightarrow>
      \<exists>x. l_pv E u (pvc_volume_name v) = Inr x"
    and "l_pvc E w ns n = Inl x \<Longrightarrow> is_not_found x" and "l_svc E w ns n = Inl x \<Longrightarrow> is_not_found x"
    and "l_svc E w ns n = Inr svc \<Longrightarrow> mget (m_ann (svc_meta svc)) LastAppliedConfigAnnotation = Some a \<Longrightarrow>
      \<exists>v. j_dec_svc (e_codec E) a = Inr v"
    and "\<exists>a. j_enc_svc (e_codec E) y = Inr a"
  using assms unfolding obliging_def by meson+

lemma obliging_grants:
  assumes "obliging E"
  shows "fst (k_create_set E cc s w) = None" "fst (k_create_svc E cc v w) = None"
    "fst (k_update_svc E cc v w) = None" "fst (k_delete_pod E cc p w) = None" "fst (k_patch_reclaim E cc x r w) = None"
  using assms by (simp_all add: obliging_def)

lemma for_each_ok: "(\<And>x w. x \<in> set xs \<Longrightarrow> fst (body x w) = None) \<Longrightarrow> fst (for_each body xs w) = None"
proof (induction xs arbitrary: w)
  case (Cons x xs)
  obtain w1 where "body x w = (None, w1)" using Cons.prems [of x w] by (cases "body x w") simp
  with Cons show ?case by simp
qed simp

lemma lift_act_ok: "fst (f (fst t)) = None \<Longrightarrow> fst (lift_act a f t) = None"
  by (cases "f (fst t)") (simp add: lift_act_def)

lemma reclaim_ok:
  assumes "obliging E"
  shows "fst (reclaimPolicyManager_Sync (traced E) cc t) = None"
proof -
  obtain vs where vs: "l_pvcs E (fst t) (cc_ns cc) (instance_selector cc) = Inr vs"
    using obliging_lists(2) [OF assms] by blast
  have "fst (reclaim_sync_pvc (traced E) cc v u) = None" if v: "v \<in> set vs" for v u
  proof (cases "pvc_volume_name v = []")
    case False
    then obtain x where x: "l_pv E (fst u) (pvc_volume_name v) = Inr x"
      using obliging_finds(1) [OF assms vs v] by blast
    with False show ?thesis
      by (simp add: reclaim_sync_pvc_def traced_calls lift_act_ok obliging_grants [OF assms])
  qed (simp add: reclaim_sync_pvc_def)
  then show ?thesis using vs by (simp add: reclaimPolicyManager_Sync_def for_each_ok)
qed

lemma clean_ok:
  assumes "obliging E"
  shows "fst (clean_manager (traced E) cc t) = None"
proof -
  have loop: "fst (snd (clean_loop (traced E) cc pods m u)) = None" for pods m u
  proof (induction pods arbitrary: m u)
    case (Cons pod pods)
    obtain u1 where "lift_act (DeletePod pod) (k_delete_pod E cc pod) u = (None, u1)"
      using lift_act_ok [where f = "k_delete_pod E cc pod" and t = u and a = "DeletePod pod"] obliging_grants(4) [OF assms]
      by (metis prod.collapse)
    with Cons obliging_finds(2) [OF assms] show ?case
      by (auto simp: Let_def traced_calls split: sum.split)
  qed simp
  obtain ps where "l_pods E (fst t) (cc_ns cc) (instance_selector cc) = Inr ps"
    using obliging_lists(1) [OF assms] by blast
  with loop [of ps "[]" t] show ?thesis
    by (cases "clean_loop (traced E) cc ps [] t") (auto simp: clean_manager_def orphanPodsCleaner_Clean_def)
qed

lemma headless_ok:
  assumes "obliging E"
  shows "fst (sync_headless_service (traced E) cc nm svc t) = None"
    and "fst (syncPDServiceForCellCluster (traced E) cc t) = None"
proof -
  note nf = obliging_finds(3) [OF assms] and dec = obliging_finds(4) [OF assms]
    and enc = obliging_finds(5) [OF assms] and ks = obliging_grants [OF assms]
  have ann: "\<exists>y. SetServiceLastAppliedConfigAnnotation (e_codec E) x = (None, y)" for x
    using enc [of "svc_spec x"] by (auto simp: SetServiceLastAppliedConfigAnnotation_def)
  have create: "fst (create_annotated_svc (traced E) cc x u) = None" for x u
    using ann [of x] by (auto simp: create_annotated_svc_def traced_calls lift_act_ok ks)
  have eq: "\<exists>b. serviceEqual (e_codec E) new old = Inr b" if "l_svc E w ns n = Inr old" for w ns n new old
    using dec [OF that] by (fastforce simp: serviceEqual_def split: option.splits sum.splits)
  show "fst (sync_headless_service (traced E) cc nm svc t) = None"
  proof (cases "l_svc E (fst t) (cc_ns cc) nm")
    case (Inl x)
    then show ?thesis using nf create by (simp add: sync_headless_service_def)
  next
    case (Inr old)
    with eq [OF Inr, of svc] ann [of svc] show ?thesis
      by (auto simp: sync_headless_service_def traced_calls lift_act_ok ks)
  qed
  show "fst (syncPDServiceForCellCluster (traced E) cc t) = None"
  proof (cases "l_svc E (fst t) (cc_ns cc) (PDMemberName (cc_name cc))")
    case (Inl x)
    then show ?thesis using nf create by (simp add: syncPDServiceForCellCluster_def Let_def)
  next
    case (Inr old)
    with eq [OF Inr, of "getNewPDServiceForCellCluster cc"]
      ann [of "with_new_spec old (getNewPDServiceForCellCluster cc)"] show ?thesis
      by (auto simp: syncPDServiceForCellCluster_def traced_calls lift_act_ok ks Let_def)
  qed
qed

text \<open>A set that can be written down, and a set that is found as it was written down.\<close>

definition writable :: "'w env \<Rightarrow> sset \<Rightarrow> bool" where
  "writable E new \<longleftrightarrow> codec_set_ok (e_codec E) (s_spec new) \<and> codec_pod_ok (e_codec E) (t_spec (s_template new))"

definition in_place :: "'w env \<Rightarrow> sset \<Rightarrow> sset \<Rightarrow> bool" where
  "in_place E new s \<longleftrightarrow> set_stored (e_codec E) new s \<and> s_replicas s = s_replicas new"

lemma writable_Set: "writable E new \<Longrightarrow> \<exists>s. SetLastAppliedConfigAnnotation (e_codec E) new = (None, s)"
  using GetLastApplied_Set unfolding writable_def by blast

lemma in_place_update: "in_place E new s \<Longrightarrow> update_set_if_changed (traced E) cc new s t = (None, t)"
  by (simp add: update_set_if_changed_def in_place_def set_stored_def)

lemma in_place_template: "in_place E new s \<Longrightarrow> templateEqual (e_codec E) (s_template new) (s_template s)"
  by (simp add: in_place_def set_stored_def)

lemma pd_status_frame:
  "pd_syncCellClusterStatus E cc s w = (e, c, w') \<Longrightarrow>
     cc_meta c = cc_meta cc \<and> cc_spec c = cc_spec cc \<and> cc_store c = cc_store cc \<and> cc_proxy c = cc_proxy cc"
  by (auto simp: pd_syncCellClusterStatus_def pd_pull_status_def Let_def split: sum.splits prod.splits)

lemma store_status_frame:
  "store_syncCellClusterStatus E cc s w = (e, c, w') \<Longrightarrow>
     cc_meta c = cc_meta cc \<and> cc_spec c = cc_spec cc \<and> cc_proxy c = cc_proxy cc"
  by (auto simp: store_syncCellClusterStatus_def store_pull_status_def Let_def split: sum.splits prod.splits)

lemma pd_services_ok:
  assumes "obliging E"
  shows "\<exists>t'. pdMemberManager_Sync (traced E) up cc t = syncPDStatefulSetForCellCluster (traced E) up cc t' \<and> quiet t t'"
proof -
  obtain t1 where 1: "syncPDServiceForCellCluster (traced E) cc t = (None, t1)"
    using headless_ok(2) [OF assms, of cc t] by (metis prod.collapse)
  obtain t2 where 2: "syncPDHeadlessServiceForCellCluster (traced E) cc t1 = (None, t2)"
    using headless_ok(1) [OF assms] unfolding syncPDHeadlessServiceForCellCluster_def by (metis prod.collapse)
  have "quiet t t2"
    using adds_trans [OF traced_pd_service [OF 1] traced_headless [OF 2 [unfolded syncPDHeadlessServiceForCellCluster_def]]] .
  with 1 2 show ?thesis by (intro exI [of _ t2]) (simp add: pdMemberManager_Sync_def)
qed

lemma store_services_ok:
  assumes "obliging E" and "PDIsAvailable cc"
  shows "\<exists>t'. storeMemberManager_Sync (traced E) up scale cc t =
    syncStatefulSetForCellCluster (traced E) up scale cc t' \<and> quiet t t'"
proof -
  obtain t1 where 1: "syncStoreHeadlessServiceForCellCluster (traced E) cc t = (None, t1)"
    using headless_ok(1) [OF assms(1)] unfolding syncStoreHeadlessServiceForCellCluster_def by (metis prod.collapse)
  from traced_headless [OF 1 [unfolded syncStoreHeadlessServiceForCellCluster_def]] 1 assms(2)
  show ?thesis by (intro exI [of _ t1]) (simp add: storeMemberManager_Sync_def)
qed

section \<open>One manager at a time\<close>

text \<open>What a manager does when its set is missing, and when it is in place and the component is up.\<close>

definition creates_set :: "string \<Rightarrow> goerr option \<times> cellcluster \<times> 'w traced \<Rightarrow> bool" where
  "creates_set nm r \<longleftrightarrow> (\<exists>s. CreateSet s \<in> set (snd (snd (snd r))) \<and> s_name s = nm)"

lemma created: "lift_act (CreateSet s) f t = (e, t') \<Longrightarrow> CreateSet s \<in> set (snd t')"
  by (auto dest: lift_act_snd)

lemma pd_manager_missing:
  assumes "obliging E" and "knows_sets E (cc_ns cc) sets" and "sets (PDMemberName (cc_name cc)) = None"
    and new: "getNewPDSetForCellCluster E cc = Inr new" and "writable E new"
  shows "creates_set (PDMemberName (cc_name cc)) (pdMemberManager_Sync (traced E) up cc t)"
proof -
  obtain t1 where t1: "pdMemberManager_Sync (traced E) up cc t = syncPDStatefulSetForCellCluster (traced E) up cc t1"
    using pd_services_ok [OF assms(1)] by blast
  obtain s where s: "SetLastAppliedConfigAnnotation (e_codec E) new = (None, s)"
    using writable_Set [OF assms(5)] by blast
  obtain e t2 where c: "lift_act (CreateSet s) (k_create_set E cc s) t1 = (e, t2)" by (metis prod.exhaust)
  have "s_name s = PDMemberName (cc_name cc)" using SetLastApplied_name [OF s] new_set_names(1) [OF new] by simp
  with created [OF c] t1 knows_setsD(1) [OF assms(2,3), of "fst t1"] new s c show ?thesis
    by (auto simp: syncPDStatefulSetForCellCluster_def creates_set_def traced_calls split: option.splits)
qed

lemma pd_manager_in_place:
  assumes "obliging E" and "knows_sets E (cc_ns cc) sets" and "sets (PDMemberName (cc_name cc)) = Some s"
    and new: "getNewPDSetForCellCluster E cc = Inr new" and "in_place E new s" and "pd_up E cc s"
  shows "\<exists>c t'. pdMemberManager_Sync (traced E) up cc t = (None, c, t') \<and> after_pd cc c \<and> PDIsAvailable c \<and> quiet t t'"
proof -
  obtain t1 where t1: "pdMemberManager_Sync (traced E) up cc t = syncPDStatefulSetForCellCluster (traced E) up cc t1"
    "quiet t t1" using pd_services_ok [OF assms(1)] by blast
  obtain e c t2 where st: "pd_syncCellClusterStatus (traced E) cc s t1 = (e, c, t2)" by (metis prod_cases3)
  have u: "e = None" "PDIsAvailable c" "pd_calm c" and log: "snd t2 = snd t1"
    using traced_pd_status [OF st] assms(6) unfolding pd_up_def by (metis prod.inject)+
  have f: "after_pd cc c"
    using pd_status_frame [OF st] u(3) by (simp add: after_pd_def)
  obtain n where n: "s_replicas new = Some n" "s_replicas s = Some n"
    using assms(5) new by (auto simp: in_place_def getNewPDSetForCellCluster_def Let_def split: sum.splits)
  have "syncPDStatefulSetForCellCluster (traced E) up cc t1 = (None, c, t2)"
    using knows_setsD(2) [OF assms(2,3), of "fst t1"] new st u n in_place_template [OF assms(5)] in_place_update [OF assms(5)]
    by (simp add: syncPDStatefulSetForCellCluster_def)
  moreover have "quiet t t2" using t1(2) log by (simp add: adds_def)
  ultimately show ?thesis using t1(1) f u(2) by auto
qed

lemma store_manager_missing:
  assumes "obliging E" and "knows_sets E (cc_ns cc) sets" and "sets (StoreMemberName (cc_name cc)) = None"
    and new: "getNewSetForCellCluster E cc = Inr new" and "writable E new" and "PDIsAvailable cc"
  shows "creates_set (StoreMemberName (cc_name cc)) (storeMemberManager_Sync (traced E) up scale cc t)"
proof -
  obtain t1 where t1: "storeMemberManager_Sync (traced E) up scale cc t =
      syncStatefulSetForCellCluster (traced E) up scale cc t1"
    using store_services_ok [OF assms(1,6)] by blast
  obtain s where s: "SetLastAppliedConfigAnnotation (e_codec E) new = (None, s)"
    using writable_Set [OF assms(5)] by blast
  obtain e t2 where c: "lift_act (CreateSet s) (k_create_set E cc s) t1 = (e, t2)" by (metis prod.exhaust)
  have "s_name s = StoreMemberName (cc_name cc)" using SetLastApplied_name [OF s] new_set_names(2) [OF new] by simp
  with created [OF c] t1 knows_setsD(1) [OF assms(2,3), of "fst t1"] new s c show ?thesis
    by (auto simp: syncStatefulSetForCellCluster_def creates_set_def traced_calls split: option.splits)
qed

lemma store_manager_in_place:
  assumes "obliging E" and "knows_sets E (cc_ns cc) sets" and "sets (StoreMemberName (cc_name cc)) = Some s"
    and new: "getNewSetForCellCluster E cc = Inr new" and "in_place E new s" and "stores_up E cc0 s"
    and "after_pd cc0 cc" and "PDIsAvailable cc"
  shows "\<exists>c t'. storeMemberManager_Sync (traced E) up scale cc t = (None, c, t') \<and> after_stores cc0 c \<and>
    StoreIsAvailable c \<and> quiet t t'"
proof -
  obtain t1 where t1: "storeMemberManager_Sync (traced E) up scale cc t =
      syncStatefulSetForCellCluster (traced E) up scale cc t1" "quiet t t1"
    using store_services_ok [OF assms(1,8)] by blast
  obtain e c t2 where st: "store_syncCellClusterStatus (traced E) cc s t1 = (e, c, t2)" by (metis prod_cases3)
  have u: "e = None" "StoreIsAvailable c" "store_calm c" and log: "snd t2 = snd t1"
    using traced_store_status [OF st] assms(6,7) unfolding stores_up_def by (metis prod.inject)+
  have f: "after_stores cc0 c"
    using store_status_frame [OF st] u(3) assms(7) by (simp add: after_stores_def after_pd_def)
  obtain n where n: "s_replicas new = Some n" "s_replicas s = Some n"
    using assms(5) new by (auto simp: in_place_def getNewSetForCellCluster_def Let_def split: sum.splits)
  have "syncStatefulSetForCellCluster (traced E) up scale cc t1 = (None, c, t2)"
    using knows_setsD(2) [OF assms(2,3), of "fst t1"] new st u n in_place_template [OF assms(5)] in_place_update [OF assms(5)]
    by (simp add: syncStatefulSetForCellCluster_def store_scale_step_def)
  moreover have "quiet t t2" using t1(2) log by (simp add: adds_def)
  ultimately show ?thesis using t1(1) f u(2) by auto
qed

lemma proxy_manager_missing:
  assumes "knows_sets E (cc_ns cc) sets" and "sets (ProxyMemberName (cc_name cc)) = None"
    and "writable E (getNewProxySetForCellCluster E cc)" and "StoreIsAvailable cc"
  shows "creates_set (ProxyMemberName (cc_name cc)) (proxyMemberManager_Sync (traced E) up cc t)"
proof -
  obtain s where s: "SetLastAppliedConfigAnnotation (e_codec E) (getNewProxySetForCellCluster E cc) = (None, s)"
    using writable_Set [OF assms(3)] by blast
  obtain e t2 where c: "lift_act (CreateSet s) (k_create_set E cc s) t = (e, t2)" by (metis prod.exhaust)
  have "s_name s = ProxyMemberName (cc_name cc)" using SetLastApplied_name [OF s] new_set_names(3) by metis
  with created [OF c] knows_setsD(1) [OF assms(1,2), of "fst t"] assms(4) s c show ?thesis
    by (auto simp: proxyMemberManager_Sync_def syncProxyStatefulSetForCellCluster_def traced_newProxySet Let_def
        creates_set_def traced_calls split: option.splits)
qed

lemma proxy_manager_in_place:
  assumes "knows_sets E (cc_ns cc) sets" and "sets (ProxyMemberName (cc_name cc)) = Some s"
    and "in_place E (getNewProxySetForCellCluster E cc) s" and "proxies_up E cc0 s"
    and "after_stores cc0 cc" and "StoreIsAvailable cc"
  shows "\<exists>c. proxyMemberManager_Sync (traced E) up cc t = (None, c, t)"
proof -
  obtain c where st: "proxy_syncCellClusterStatus E cc s (fst t) = (None, c)" "proxy_calm c"
    using assms(4,5) unfolding proxies_up_def by blast
  have "proxy_syncCellClusterStatus (traced E) cc s t = proxy_syncCellClusterStatus E cc s (fst t)"
    unfolding proxy_syncCellClusterStatus_def proxyStatefulSetIsUpgrading_def traced_pure ..
  with st knows_setsD(2) [OF assms(1,2), of "fst t"] assms(6) in_place_template [OF assms(3)] in_place_update [OF assms(3)] show ?thesis
    by (simp add: proxyMemberManager_Sync_def syncProxyStatefulSetForCellCluster_def traced_newProxySet Let_def)
qed

section \<open>A round\<close>

text \<open>A manager only appends to the log.\<close>

abbreviation grows :: "'w traced \<Rightarrow> 'w traced \<Rightarrow> bool" where
  "grows \<equiv> adds (\<lambda>_. True)"

lemma grows_keeps: "grows t t' \<Longrightarrow> a \<in> set (snd t) \<Longrightarrow> a \<in> set (snd t')"
  by (auto simp: adds_def)

definition growing :: "'w traced manager \<Rightarrow> bool" where
  "growing m \<longleftrightarrow> (\<forall>cc t e cc' t'. m cc t = (e, cc', t') \<longrightarrow> grows t t')"

lemma growingD: "growing m \<Longrightarrow> m cc t = (e, cc', t') \<Longrightarrow> grows t t'"
  unfolding growing_def by blast

lemma growing_managers:
  "growing (pdMemberManager_Sync (traced E) (pdUpgrader_Upgrade (traced E)))"
  "growing (storeMemberManager_Sync (traced E) (storeUpgrader_Upgrade (traced E)) (storeScaler_ScaleOut (traced E)))"
  "growing (proxyMemberManager_Sync (traced E) (proxyUpgrader_Upgrade (traced E)))"
  "growing (lift_manager (metaManager_Sync (traced E)))"
  unfolding growing_def
  by (blast dest: pd_manager_creates store_manager_creates proxy_manager_creates quiet_managers_in_order(3)
      intro: adds_mono)+

lemma growing_run:
  "list_all growing ms \<Longrightarrow> run_managers ms cc t = (e, cc', t') \<Longrightarrow> grows t t'"
proof (induction ms arbitrary: cc t)
  case (Cons m ms)
  have m: "growing m" using Cons.prems(1) by simp
  from Cons.prems(2) show ?case
  proof (cases rule: run_managers_Cons)
    case failed
    from growingD [OF m this] show ?thesis .
  next
    case (passed c1 t1)
    have "grows t t1" by (rule growingD [OF m passed(1)])
    moreover have "grows t1 t'" using Cons.IH [OF _ passed(2)] Cons.prems(1) by simp
    ultimately show ?thesis by (rule adds_trans)
  qed
qed simp

text \<open>A manager that creates a set is followed by managers that leave the request in the log.\<close>

lemma creates_then:
  assumes "creates_set nm (m cc t)" and "run_managers (m # ms) cc t = (e, cc', (w', acts))" and "list_all growing ms"
  shows "\<exists>s. CreateSet s \<in> set acts \<and> s_name s = nm"
  using assms(2)
proof (cases rule: run_managers_Cons)
  case failed
  with assms(1) show ?thesis by (simp add: creates_set_def)
next
  case (passed c1 t1)
  from assms(1) passed(1) obtain s where s: "CreateSet s \<in> set (snd t1)" "s_name s = nm"
    by (auto simp: creates_set_def)
  from grows_keeps [OF growing_run [OF assms(3) passed(2)] s(1)] s(2) show ?thesis by auto
qed

text \<open>The first managers leave the sets alone, and pass.\<close>

lemma first_managers:
  assumes "obliging E"
  shows "\<exists>t1. updateCellCluster (default_managers (traced E) upd) cc t =
    run_managers [pdMemberManager_Sync (traced E) (pdUpgrader_Upgrade (traced E)),
      storeMemberManager_Sync (traced E) (storeUpgrader_Upgrade (traced E)) (storeScaler_ScaleOut (traced E)),
      proxyMemberManager_Sync (traced E) (proxyUpgrader_Upgrade (traced E)),
      lift_manager (metaManager_Sync (traced E))] cc t1 \<and> quiet t t1"
proof -
  obtain t0 where r: "reclaimPolicyManager_Sync (traced E) cc t = (None, t0)"
    using reclaim_ok [OF assms, of cc t] by (metis prod.collapse)
  obtain t1 where c: "clean_manager (traced E) cc t0 = (None, t1)"
    using clean_ok [OF assms, of cc t0] by (metis prod.collapse)
  have "quiet t t1" using adds_trans [OF reclaim_manager_quiet [OF r] clean_manager_quiet [OF c]] .
  with r c show ?thesis
    by (intro exI [of _ t1]) (simp add: updateCellCluster_def default_managers_def lift_manager_def)
qed

lemma quiet_log: "quiet (w, []) (w', acts) \<Longrightarrow> list_all (\<lambda>a. \<not> is_set_request a) acts"
  by (simp add: adds_def)

text \<open>What the managers behind PD's do once PD is up.\<close>

lemma proxies_step:
  assumes surroundings: "knows_sets E (cc_ns cc) sets"
    and proxy: "getNewProxySetForCellCluster E cc = x" "writable E x"
    and c3: "after_stores cc c3" "StoreIsAvailable c3"
    and run: "run_managers [proxyMemberManager_Sync (traced E) (proxyUpgrader_Upgrade (traced E)),
      lift_manager (metaManager_Sync (traced E))] c3 t3 = (e, cc', (w', acts))"
    and q: "quiet (w, []) t3"
  shows "case sets (ProxyMemberName (cc_name cc)) of
      None \<Rightarrow> \<exists>s. CreateSet s \<in> set acts \<and> s_name s = ProxyMemberName (cc_name cc)
    | Some xs \<Rightarrow> in_place E x xs \<and> proxies_up E cc xs \<longrightarrow> list_all (\<lambda>a. \<not> is_set_request a) acts"
proof -
  have same: "cc_ns c3 = cc_ns cc" "cc_name c3 = cc_name cc" "proxy_wishes cc c3"
    using c3(1) by (simp_all add: after_stores_def same_wishes_def)
  have x: "getNewProxySetForCellCluster E c3 = x" using getNewProxySet_same [where E = E, OF same(3)] proxy(1) by simp
  have k: "knows_sets E (cc_ns c3) sets" using surroundings same by simp
  show ?thesis
  proof (cases "sets (ProxyMemberName (cc_name cc))")
    case None
    then have "creates_set (ProxyMemberName (cc_name c3))
        (proxyMemberManager_Sync (traced E) (proxyUpgrader_Upgrade (traced E)) c3 t3)"
      using proxy_manager_missing [OF k] c3(2) proxy(2) x same by simp
    from creates_then [OF this run] None same show ?thesis by (simp add: growing_managers)
  next
    case (Some xs)
    have "list_all (\<lambda>a. \<not> is_set_request a) acts" if up: "in_place E x xs" "proxies_up E cc xs"
    proof -
      have "sets (ProxyMemberName (cc_name c3)) = Some xs" "in_place E (getNewProxySetForCellCluster E c3) xs"
        using Some up(1) same x by simp_all
      from proxy_manager_in_place [OF k this up(2) c3]
      obtain c4 where "proxyMemberManager_Sync (traced E) (proxyUpgrader_Upgrade (traced E)) c3 t3 = (None, c4, t3)" by blast
      with run have "run_managers [lift_manager (metaManager_Sync (traced E))] c4 t3 = (e, cc', (w', acts))" by simp
      then have "quiet t3 (w', acts)"
        by (auto simp: lift_manager_def split: prod.splits option.splits dest: meta_manager_quiet)
      from adds_trans [OF q this] show ?thesis by (rule quiet_log)
    qed
    with Some show ?thesis by simp
  qed
qed

lemma stores_step:
  assumes surroundings: "obliging E" "knows_sets E (cc_ns cc) sets"
    and store: "getNewSetForCellCluster E cc = Inr st" "writable E st"
    and proxy: "getNewProxySetForCellCluster E cc = x" "writable E x"
    and c2: "after_pd cc c2" "PDIsAvailable c2"
    and run: "run_managers [storeMemberManager_Sync (traced E) (storeUpgrader_Upgrade (traced E))
        (storeScaler_ScaleOut (traced E)),
      proxyMemberManager_Sync (traced E) (proxyUpgrader_Upgrade (traced E)),
      lift_manager (metaManager_Sync (traced E))] c2 t2 = (e, cc', (w', acts))"
    and q: "quiet (w, []) t2"
  shows "case sets (StoreMemberName (cc_name cc)) of
      None \<Rightarrow> \<exists>s. CreateSet s \<in> set acts \<and> s_name s = StoreMemberName (cc_name cc)
    | Some ss \<Rightarrow> in_place E st ss \<and> stores_up E cc ss \<longrightarrow>
        (case sets (ProxyMemberName (cc_name cc)) of
           None \<Rightarrow> \<exists>s. CreateSet s \<in> set acts \<and> s_name s = ProxyMemberName (cc_name cc)
         | Some xs \<Rightarrow> in_place E x xs \<and> proxies_up E cc xs \<longrightarrow> list_all (\<lambda>a. \<not> is_set_request a) acts)"
proof -
  let ?st = "storeMemberManager_Sync (traced E) (storeUpgrader_Upgrade (traced E)) (storeScaler_ScaleOut (traced E))"
  have same: "cc_ns c2 = cc_ns cc" "cc_name c2 = cc_name cc" "store_wishes cc c2"
    using c2(1) by (simp_all add: after_pd_def same_wishes_def)
  have new: "getNewSetForCellCluster E c2 = Inr st" using getNewSet_same [where E = E, OF same(3)] store(1) by simp
  have k: "knows_sets E (cc_ns c2) sets" using surroundings(2) same by simp
  show ?thesis
  proof (cases "sets (StoreMemberName (cc_name cc))")
    case None
    then have "creates_set (StoreMemberName (cc_name c2)) (?st c2 t2)"
      using store_manager_missing [OF surroundings(1) k _ new store(2) c2(2)] same by simp
    from creates_then [OF this run] None same show ?thesis by (simp add: growing_managers)
  next
    case (Some ss)
    have ?thesis if up: "in_place E st ss" "stores_up E cc ss"
    proof -
      have "sets (StoreMemberName (cc_name c2)) = Some ss" using Some same by simp
      from store_manager_in_place [OF surroundings(1) k this new up c2] obtain c3 t3 where
        m: "?st c2 t2 = (None, c3, t3)" and c3: "after_stores cc c3" "StoreIsAvailable c3" and q3: "quiet t2 t3" by blast
      from run m have "run_managers [proxyMemberManager_Sync (traced E) (proxyUpgrader_Upgrade (traced E)),
        lift_manager (metaManager_Sync (traced E))] c3 t3 = (e, cc', (w', acts))" by simp
      from proxies_step [OF surroundings(2) proxy c3 this adds_trans [OF q q3]] Some show ?thesis by simp
    qed
    with Some show ?thesis by auto
  qed
qed

section \<open>A cluster whose stores come next\<close>

text \<open>A codec that tells three specs apart.\<close>

definition pick3 :: "'a \<Rightarrow> 'a \<Rightarrow> 'a \<Rightarrow> string" where
  "pick3 a b s = (if s = a then ''pd'' else if s = b then ''store'' else ''proxy'')"

definition unpick3 :: "'a \<Rightarrow> 'a \<Rightarrow> 'a \<Rightarrow> string \<Rightarrow> 'a" where
  "unpick3 a b c k = (if k = ''pd'' then a else if k = ''store'' then b else c)"

lemma unpick3_pick3: "s \<in> {a, b, c} \<Longrightarrow> unpick3 a b c (pick3 a b s) = s"
  by (auto simp: unpick3_def pick3_def)

definition smp_three_codec :: "sset \<Rightarrow> sset \<Rightarrow> sset \<Rightarrow> codec" where
  "smp_three_codec p st x =
     \<lparr>j_enc_set = \<lambda>s. Inr (pick3 (s_spec p) (s_spec st) s),
      j_dec_set = \<lambda>k. Inr (unpick3 (s_spec p) (s_spec st) (s_spec x) k),
      j_enc_pod = \<lambda>s. Inr (pick3 (t_spec (s_template p)) (t_spec (s_template st)) s),
      j_dec_pod = \<lambda>k. Inr (unpick3 (t_spec (s_template p)) (t_spec (s_template st)) (t_spec (s_template x)) k),
      j_enc_svc = \<lambda>_. Inr ''svc'', j_dec_svc = \<lambda>_. Inr no_svc_spec\<rparr>"

text \<open>The API server holds the set of PD only, and PD reports its one member as healthy.\<close>

definition smp_pd_up_env :: "codec \<Rightarrow> sset \<Rightarrow> unit env" where
  "smp_pd_up_env J ps = (null_env J)\<lparr>l_set := \<lambda>w ns n. if n = PDMemberName ''c'' then Inr ps else missing,
     c_cluster := \<lambda>cc w. (Inr ''1'', w),
     c_health := \<lambda>cc w. (Inr [\<lparr>mh_name = ''c-pd-0'', mh_id = 1, mh_client_urls = [], mh_health = True\<rparr>], w)\<rparr>"

definition up_status :: sset_status where
  "up_status = (smp_set_status 1)\<lparr>st_update_revision := ''r1''\<rparr>"

lemma smp_obliging: "j_dec_svc J = (\<lambda>_. Inr v) \<Longrightarrow> j_enc_svc J = (\<lambda>_. Inr a) \<Longrightarrow> obliging (smp_pd_up_env J ps)"
  by (simp add: obliging_def smp_pd_up_env_def missing_def)

lemma smp_three_writable:
  assumes "new \<in> {p, st, x}"
  shows "writable (smp_pd_up_env (smp_three_codec p st x) ps) new"
  using assms
  by (auto simp: writable_def codec_set_ok_def codec_pod_ok_def smp_three_codec_def smp_pd_up_env_def unpick3_pick3)

lemma getNewProxySet_env:
  "e_q E = e_q F \<Longrightarrow> getNewProxySetForCellCluster E cc = getNewProxySetForCellCluster F cc"
  by (simp add: getNewProxySetForCellCluster_def proxy_template_def proxy_container_def)

lemma half_of_one: "wrap32 (1 sdiv 2 + 1) = 1"
  by code_simp

lemma smp_pd_up:
  assumes "s_status ps = up_status" and "m_generation (s_meta ps) = 0"
  shows "pd_up (smp_pd_up_env J qs) smp_cc ps"
  using assms
  by (simp add: pd_up_def pd_syncCellClusterStatus_def Let_def pdStatefulSetIsUpgrading_def statefulSetIsUpgrading_def
      up_status_def smp_pd_up_env_def pd_pull_status_def PDIsAvailable_def upd_pd_def gput_def pd_member_of_def phase_defs half_of_one)

section \<open>The round\<close>

text \<open>
  C5: every round takes the next step of bringing a cluster up.  Let requests be granted and the cache
  of StatefulSets stay as it is during the round.  A round over a cluster without the set of PD
  creates it; a round with PD's set in place and PD up creates the set of the stores when that
  is missing; a round with the stores in place and up as well creates that of the proxies; and a
  round with all three in place and up sends no StatefulSet.
\<close>

theorem round_brings_up:
  assumes surroundings: "obliging E" "knows_sets E (cc_ns cc) sets"
    and pd: "getNewPDSetForCellCluster E cc = Inr p" "writable E p"
    and store: "getNewSetForCellCluster E cc = Inr st" "writable E st"
    and proxy: "getNewProxySetForCellCluster E cc = x" "writable E x"
    and run: "updateCellCluster (default_managers (traced E) upd) cc (w, []) = (e, cc', (w', acts))"
  shows "case sets (PDMemberName (cc_name cc)) of
      None \<Rightarrow> \<exists>s. CreateSet s \<in> set acts \<and> s_name s = PDMemberName (cc_name cc)
    | Some ps \<Rightarrow> in_place E p ps \<and> pd_up E cc ps \<longrightarrow>
        (case sets (StoreMemberName (cc_name cc)) of
           None \<Rightarrow> \<exists>s. CreateSet s \<in> set acts \<and> s_name s = StoreMemberName (cc_name cc)
         | Some ss \<Rightarrow> in_place E st ss \<and> stores_up E cc ss \<longrightarrow>
             (case sets (ProxyMemberName (cc_name cc)) of
                None \<Rightarrow> \<exists>s. CreateSet s \<in> set acts \<and> s_name s = ProxyMemberName (cc_name cc)
              | Some xs \<Rightarrow> in_place E x xs \<and> proxies_up E cc xs \<longrightarrow> list_all (\<lambda>a. \<not> is_set_request a) acts))"
proof -
  let ?pd = "pdMemberManager_Sync (traced E) (pdUpgrader_Upgrade (traced E))"
  let ?st = "storeMemberManager_Sync (traced E) (storeUpgrader_Upgrade (traced E)) (storeScaler_ScaleOut (traced E))"
  let ?px = "proxyMemberManager_Sync (traced E) (proxyUpgrader_Upgrade (traced E))"
  let ?meta = "lift_manager (metaManager_Sync (traced E))"
  obtain t1 where r1: "run_managers [?pd, ?st, ?px, ?meta] cc t1 = (e, cc', (w', acts))" and q1: "quiet (w, []) t1"
    using first_managers [OF surroundings(1), of upd cc "(w, [])"] run by auto
  have made: "\<exists>s. CreateSet s \<in> set acts \<and> s_name s = PDMemberName (cc_name cc)"
    if none: "sets (PDMemberName (cc_name cc)) = None"
    using creates_then [OF pd_manager_missing [OF surroundings none pd] r1] by (simp add: growing_managers)
  have rest: "case sets (StoreMemberName (cc_name cc)) of
           None \<Rightarrow> \<exists>s. CreateSet s \<in> set acts \<and> s_name s = StoreMemberName (cc_name cc)
         | Some ss \<Rightarrow> in_place E st ss \<and> stores_up E cc ss \<longrightarrow>
             (case sets (ProxyMemberName (cc_name cc)) of
                None \<Rightarrow> \<exists>s. CreateSet s \<in> set acts \<and> s_name s = ProxyMemberName (cc_name cc)
              | Some xs \<Rightarrow> in_place E x xs \<and> proxies_up E cc xs \<longrightarrow> list_all (\<lambda>a. \<not> is_set_request a) acts)"
    if ps: "sets (PDMemberName (cc_name cc)) = Some ps" and up1: "in_place E p ps" "pd_up E cc ps" for ps
  proof -
    obtain c2 t2 where m: "?pd cc t1 = (None, c2, t2)" and c2: "after_pd cc c2" "PDIsAvailable c2" and q2: "quiet t1 t2"
      using pd_manager_in_place [OF surroundings ps pd(1) up1] by blast
    have r2: "run_managers [?st, ?px, ?meta] c2 t2 = (e, cc', (w', acts))" using r1 m by simp
    show ?thesis by (rule stores_step [OF surroundings store proxy c2 r2 adds_trans [OF q1 q2]])
  qed
  show ?thesis using made rest by (auto split: option.split)
qed

theorem round_brings_up_witness:
  "\<exists>J ps upd e cc' w' acts. updateCellCluster (default_managers (traced (smp_pd_up_env J ps)) upd) smp_cc ((), []) =
       (e, cc', (w', acts)) \<and>
     (\<exists>s. CreateSet s \<in> set acts \<and> s_name s = StoreMemberName ''c'')"
proof -
  let ?N = "null_env undefined :: unit env"
  obtain p where p: "getNewPDSetForCellCluster ?N smp_cc = Inr p"
    by (simp add: getNewPDSetForCellCluster_def Let_def storage_quantity_def)
  obtain st where st: "getNewSetForCellCluster ?N smp_cc = Inr st"
    by (simp add: getNewSetForCellCluster_def Let_def storage_quantity_def)
  define x where "x = getNewProxySetForCellCluster ?N smp_cc"
  define J where "J = smp_three_codec p st x"
  have wr: "writable (smp_pd_up_env J ps) s" if "s \<in> {p, st, x}" for s ps
    using smp_three_writable [OF that] by (simp add: J_def)
  obtain s where s: "SetLastAppliedConfigAnnotation J p = (None, s)"
    using writable_Set [OF wr [of p]] by (auto simp: smp_pd_up_env_def)
  define ps where "ps = s\<lparr>s_status := up_status\<rparr>"
  define E where "E = smp_pd_up_env J ps"
  define sets where "sets n = (if n = PDMemberName ''c'' then Some ps else None)" for n
  have news: "getNewPDSetForCellCluster E smp_cc = Inr p" "getNewSetForCellCluster E smp_cc = Inr st"
    "getNewProxySetForCellCluster E smp_cc = x"
    using p st getNewPDSet_env [of E ?N smp_cc] getNewSet_env [of E ?N smp_cc] getNewProxySet_env [of E ?N smp_cc]
    by (simp_all add: E_def smp_pd_up_env_def x_def)
  have sur: "obliging E" "knows_sets E (cc_ns smp_cc) sets"
    unfolding E_def J_def
    by (simp add: smp_obliging smp_three_codec_def) (simp add: knows_sets_def sets_def smp_pd_up_env_def missing_def)
  have "set_stored J p s \<and> s_replicas s = s_replicas p"
    using annotated_stored [OF _ _ s] wr [of p ps] by (simp add: writable_def smp_pd_up_env_def)
  then have place: "in_place E p ps" by (simp add: in_place_def ps_def E_def smp_pd_up_env_def)
  have "m_generation (s_meta s) = m_generation (s_meta p)"
    using s by (auto simp: SetLastAppliedConfigAnnotation_def Let_def setter_defs split: sum.splits)
  also have "\<dots> = 0" using p by (auto simp: getNewPDSetForCellCluster_def meta0_def Let_def split: sum.splits)
  finally have "m_generation (s_meta s) = 0" .
  then have up: "pd_up E smp_cc ps" by (simp add: E_def ps_def smp_pd_up)
  obtain e cc' w' acts where run: "updateCellCluster (default_managers (traced E) undefined) smp_cc ((), []) =
      (e, cc', (w', acts))" by (metis prod_cases4)
  have "sets (PDMemberName ''c'') = Some ps" "sets (StoreMemberName ''c'') = None"
    by (simp_all add: sets_def PDMemberName_def StoreMemberName_def)
  moreover have w: "writable E p" "writable E st" "writable E x" using wr by (simp_all add: E_def)
  ultimately
  have "\<exists>s. CreateSet s \<in> set acts \<and> s_name s = StoreMemberName ''c''"
    using round_brings_up [OF sur news(1) w(1) news(2) w(2) news(3) w(3) run] place up by simp
  with run show ?thesis unfolding E_def by blast
qed

end
