(* ===== verification/Leader_Election.thy ===== *)
theory Leader_Election
  imports Programs
begin

text \<open>
  Which of several controller managers works.  \<^verbatim>\<open>main\<close> of the controller manager hands \<open>Run\<close> of the
  controller to client-go's leader election over an Endpoints object, with the durations of
  \<^verbatim>\<open>main.go\<close>, and exits when the lease is lost.  Modelled are \<open>tryAcquireOrRenew\<close> of client-go in
  the pieces between which others can act (the read, the write under the version that was read,
  the answer), the record as it is stored (its times are cut to seconds), and processes that
  crash, exit and start again under the same name.  Every process has a clock of its own; the
  clocks are apart by any amount but run at the same rate.  How late an answer and an exit may come
  is the parameter \<open>slack\<close>.  Times are nanoseconds.
\<close>

section \<open>The configuration\<close>

definition second :: time where "second = 1000000000"

definition leaseDuration :: time where "leaseDuration = 15 * second"
definition renewDuration :: time where "renewDuration = 5 * second"
definition retryPeriod :: time where "retryPeriod = 3 * second"

lemmas duration_defs = leaseDuration_def renewDuration_def retryPeriod_def second_def

record election_config =
  lec_identity :: string
  lec_lease :: time
  lec_renew :: time
  lec_retry :: time

definition main_election :: "string \<Rightarrow> election_config" where
  "main_election hostName = \<lparr>lec_identity = hostName, lec_lease = leaseDuration, lec_renew = renewDuration,
     lec_retry = retryPeriod\<rparr>"

text \<open>\<open>RunOrDie\<close> panics when this fails; the jitter factor is 1.2.\<close>

definition NewLeaderElector :: "election_config \<Rightarrow> goerr + election_config" where
  "NewLeaderElector lec =
     (if lec_lease lec \<le> lec_renew lec then Inl (OtherError ''leaseDuration must be greater than renewDeadline'')
      else if lec_renew lec \<le> 12 * lec_retry lec div 10
      then Inl (OtherError ''renewDeadline must be greater than retryPeriod*JitterFactor'')
      else Inr lec)"

lemma main_election_accepted: "NewLeaderElector (main_election hostName) = Inr (main_election hostName)"
  by (simp add: NewLeaderElector_def main_election_def duration_defs)

section \<open>The lock\<close>

record election_record =
  er_holder :: string
  er_duration :: int
  er_acquire :: time
  er_renew :: time
  er_transitions :: int

definition no_record :: election_record where
  "no_record = \<lparr>er_holder = [], er_duration = 0, er_acquire = 0, er_renew = 0, er_transitions = 0\<rparr>"

text \<open>The record as JSON keeps it.\<close>

definition whole :: "time \<Rightarrow> time" where
  "whole t = t div second * second"

definition stored :: "election_record \<Rightarrow> election_record" where
  "stored r = r\<lparr>er_acquire := whole (er_acquire r), er_renew := whole (er_renew r)\<rparr>"

text \<open>The Endpoints object: its resource version and the record in its annotation.\<close>

type_synonym lock = "(nat \<times> election_record) option"

section \<open>An elector\<close>

text \<open>A call of \<open>tryAcquireOrRenew\<close>: begun at a time of the local clock, having read a version (none when
  the object was missing) and about to write a record, and having it written.\<close>

datatype attempt = Idle | Begun time | Read time "nat option" election_record | Written time election_record

text \<open>\<open>el_leads\<close> holds when the lease was last renewed, for a process whose workers run.\<close>

record elector =
  el_alive :: bool
  el_observed :: election_record
  el_observed_at :: time
  el_attempt :: attempt
  el_leads :: "time option"

definition new_elector :: elector where
  "new_elector = \<lparr>el_alive = True, el_observed = no_record, el_observed_at = 0, el_attempt = Idle, el_leads = None\<rparr>"

definition try_record :: "election_config \<Rightarrow> time \<Rightarrow> election_record" where
  "try_record lec now = \<lparr>er_holder = lec_identity lec, er_duration = lec_lease lec div second,
     er_acquire = now, er_renew = now, er_transitions = 0\<rparr>"

text \<open>The part of \<open>tryAcquireOrRenew\<close> from the answer of \<open>Lock.Get\<close> to the request that writes: \<open>now\<close> is the
  time at which it began, \<open>clock\<close> what \<open>time.Now\<close> says.\<close>

definition observe :: "time \<Rightarrow> election_record \<Rightarrow> elector \<Rightarrow> elector" where
  "observe clock old e = (if el_observed e = old then e else e\<lparr>el_observed := old, el_observed_at := clock\<rparr>)"

definition lock_read :: "election_config \<Rightarrow> time \<Rightarrow> time \<Rightarrow> lock \<Rightarrow> elector \<Rightarrow> elector" where
  "lock_read lec now clock l e =
     (case l of
        None \<Rightarrow> e\<lparr>el_attempt := Read now None (try_record lec now)\<rparr>
      | Some (version, old) \<Rightarrow>
          let e1 = observe clock old e in
          if now < el_observed_at e1 + lec_lease lec \<and> er_holder old \<noteq> lec_identity lec then e1\<lparr>el_attempt := Idle\<rparr>
          else e1\<lparr>el_attempt := Read now (Some version)
                 (if er_holder old = lec_identity lec
                  then (try_record lec now)\<lparr>er_acquire := er_acquire old, er_transitions := er_transitions old\<rparr>
                  else (try_record lec now)\<lparr>er_transitions := er_transitions old + 1\<rparr>)\<rparr>)"

text \<open>The write is refused unless the object has the version that was read, or is still missing.\<close>

definition lock_write :: "nat option \<Rightarrow> election_record \<Rightarrow> lock \<Rightarrow> lock option" where
  "lock_write version r l =
     (case (version, l) of
        (None, None) \<Rightarrow> Some (Some (0, stored r))
      | (Some v, Some (v', _)) \<Rightarrow> if v = v' then Some (Some (v + 1, stored r)) else None
      | _ \<Rightarrow> None)"

text \<open>The answer to the write: the elector leads, or goes on leading, from now.\<close>

definition lock_answered :: "time \<Rightarrow> election_record \<Rightarrow> elector \<Rightarrow> elector" where
  "lock_answered clock r e = e\<lparr>el_observed := r, el_observed_at := clock, el_attempt := Idle, el_leads := Some clock\<rparr>"

text \<open>\<open>onStopped\<close> ends the process, workers included.\<close>

definition stopped :: "elector \<Rightarrow> elector" where
  "stopped e = e\<lparr>el_alive := False, el_attempt := Idle, el_leads := None\<rparr>"

section \<open>Several processes\<close>

record election =
  ln_now :: time
  ln_lock :: lock
  ln_elector :: "string \<Rightarrow> elector"

definition set_elector :: "string \<Rightarrow> elector \<Rightarrow> election \<Rightarrow> election" where
  "set_elector i e s = s\<lparr>ln_elector := (ln_elector s)(i := e)\<rparr>"

text \<open>What has to happen in time: a call is over \<open>slack\<close> after it began, and a leader has renewed its
  lease or stopped \<open>slack\<close> after the deadline.  \<open>skew i\<close> is what the clock of \<open>i\<close> is ahead.\<close>

definition in_time :: "(string \<Rightarrow> time) \<Rightarrow> time \<Rightarrow> time \<Rightarrow> string \<Rightarrow> elector \<Rightarrow> bool" where
  "in_time skew slack n i e \<longleftrightarrow>
     (case el_attempt e of
        Idle \<Rightarrow> True
      | Begun t \<Rightarrow> n + skew i \<le> t + slack
      | Read t v r \<Rightarrow> n + skew i \<le> t + slack
      | Written t r \<Rightarrow> n + skew i \<le> t + slack) \<and>
     (case el_leads e of None \<Rightarrow> True | Some t \<Rightarrow> n + skew i \<le> t + renewDuration + slack)"

inductive election_step :: "(string \<Rightarrow> time) \<Rightarrow> time \<Rightarrow> election \<Rightarrow> election \<Rightarrow> bool" for skew slack where
  passes: "\<forall>i. in_time skew slack (ln_now s + d) i (ln_elector s i) \<Longrightarrow> 0 < d \<Longrightarrow> election_step skew slack s (s\<lparr>ln_now := ln_now s + d\<rparr>)"
| tries: "el_alive (ln_elector s i) \<Longrightarrow> el_attempt (ln_elector s i) = Idle \<Longrightarrow> i \<noteq> [] \<Longrightarrow>
    election_step skew slack s (set_elector i ((ln_elector s i)\<lparr>el_attempt := Begun (ln_now s + skew i)\<rparr>) s)"
| reads: "el_attempt (ln_elector s i) = Begun t \<Longrightarrow>
    election_step skew slack s
      (set_elector i (lock_read (main_election i) t (ln_now s + skew i) (ln_lock s) (ln_elector s i)) s)"
| writes: "el_attempt (ln_elector s i) = Read t v r \<Longrightarrow> lock_write v r (ln_lock s) = Some l \<Longrightarrow>
    election_step skew slack s
      (set_elector i ((ln_elector s i)\<lparr>el_attempt := Written t r\<rparr>) (s\<lparr>ln_lock := l\<rparr>))"
| hears: "el_attempt (ln_elector s i) = Written t r \<Longrightarrow>
    election_step skew slack s (set_elector i (lock_answered (ln_now s + skew i) r (ln_elector s i)) s)"
| fails: "election_step skew slack s (set_elector i ((ln_elector s i)\<lparr>el_attempt := Idle\<rparr>) s)"
| stops: "election_step skew slack s (set_elector i (stopped (ln_elector s i)) s)"
| restarts: "\<not> el_alive (ln_elector s i) \<Longrightarrow> election_step skew slack s (set_elector i new_elector s)"

inductive election_reach :: "(string \<Rightarrow> time) \<Rightarrow> time \<Rightarrow> election \<Rightarrow> election \<Rightarrow> bool" for skew slack s0 where
  election_refl: "election_reach skew slack s0 s0"
| election_more: "election_reach skew slack s0 s \<Longrightarrow> election_step skew slack s s' \<Longrightarrow> election_reach skew slack s0 s'"

text \<open>At the start all processes are new, and the lock is missing or as an earlier process left it.\<close>

definition election_start :: "time \<Rightarrow> lock \<Rightarrow> election" where
  "election_start n l = \<lparr>ln_now = n, ln_lock = l, ln_elector = \<lambda>i. new_elector\<rparr>"

definition leads :: "election \<Rightarrow> string \<Rightarrow> bool" where
  "leads s i \<longleftrightarrow> el_leads (ln_elector s i) \<noteq> None"

section \<open>What holds of the lock\<close>

text \<open>A record was not renewed after the time at which it was seen, by the clock of its holder.\<close>

definition seen_by :: "(string \<Rightarrow> time) \<Rightarrow> election_record \<Rightarrow> time \<Rightarrow> bool" where
  "seen_by skew r n \<longleftrightarrow> er_holder r = [] \<or> er_renew r \<le> n + skew (er_holder r)"

lemma whole_bounds: "whole t \<le> t" "t < whole t + second"
proof -
  have "t = whole t + t mod second" by (simp add: whole_def)
  moreover have "0 \<le> t mod second" "t mod second < second" by (simp_all add: second_def)
  ultimately show "whole t \<le> t" "t < whole t + second" by linarith+
qed

lemma stored_simps [simp]: "er_holder (stored r) = er_holder r" "er_renew (stored r) = whole (er_renew r)"
  by (simp_all add: stored_def)

lemma seen_by_stored: "seen_by skew r n \<Longrightarrow> seen_by skew (stored r) n"
  using whole_bounds(1) [of "er_renew r"] by (auto simp: seen_by_def)

lemma seen_by_mono: "seen_by skew r n \<Longrightarrow> n \<le> m \<Longrightarrow> seen_by skew r m"
  by (auto simp: seen_by_def)

text \<open>What a call of \<open>i\<close> that has read the lock may write over: nothing, its own record, or the record of
  a holder whose lease has run out.\<close>

definition may_replace :: "(string \<Rightarrow> time) \<Rightarrow> string \<Rightarrow> time \<Rightarrow> nat option \<Rightarrow> lock \<Rightarrow> bool" where
  "may_replace skew i t v l \<longleftrightarrow>
     (case v of
        None \<Rightarrow> True
      | Some n \<Rightarrow> (\<exists>m q. l = Some (m, q) \<and> n \<le> m \<and>
          (m = n \<longrightarrow> er_holder q = i \<or> seen_by skew q (t - skew i - leaseDuration))))"

definition attempt_ok :: "(string \<Rightarrow> time) \<Rightarrow> time \<Rightarrow> lock \<Rightarrow> string \<Rightarrow> attempt \<Rightarrow> bool" where
  "attempt_ok skew n l i a \<longleftrightarrow>
     (case a of
        Idle \<Rightarrow> True
      | Begun t \<Rightarrow> i \<noteq> [] \<and> t \<le> n + skew i
      | Read t v r \<Rightarrow> i \<noteq> [] \<and> t \<le> n + skew i \<and> er_holder r = i \<and> er_renew r = t \<and> may_replace skew i t v l
      | Written t r \<Rightarrow> i \<noteq> [] \<and> t \<le> n + skew i \<and> er_holder r = i \<and> er_renew r = t \<and>
          (\<exists>v. l = Some (v, stored r)))"

text \<open>A leader holds the lock, which it renewed not much before it heard so; its next call began later.\<close>

definition leads_ok :: "(string \<Rightarrow> time) \<Rightarrow> time \<Rightarrow> time \<Rightarrow> lock \<Rightarrow> string \<Rightarrow> elector \<Rightarrow> bool" where
  "leads_ok skew slack n l i e \<longleftrightarrow>
     (case el_leads e of
        None \<Rightarrow> True
      | Some h \<Rightarrow> i \<noteq> [] \<and> (\<exists>v r. l = Some (v, r) \<and> er_holder r = i \<and> h < er_renew r + second + slack) \<and>
          (case el_attempt e of
             Idle \<Rightarrow> h \<le> n + skew i | Begun t \<Rightarrow> h \<le> t | Read t v r \<Rightarrow> h \<le> t | Written t r \<Rightarrow> h \<le> t))"

definition elector_ok :: "(string \<Rightarrow> time) \<Rightarrow> time \<Rightarrow> time \<Rightarrow> lock \<Rightarrow> string \<Rightarrow> elector \<Rightarrow> bool" where
  "elector_ok skew slack n l i e \<longleftrightarrow> in_time skew slack n i e \<and> seen_by skew (el_observed e) (el_observed_at e - skew i) \<and>
     attempt_ok skew n l i (el_attempt e) \<and> leads_ok skew slack n l i e"

lemmas elector_ok_defs = elector_ok_def in_time_def attempt_ok_def leads_ok_def

definition lock_ok :: "(string \<Rightarrow> time) \<Rightarrow> time \<Rightarrow> lock \<Rightarrow> bool" where
  "lock_ok skew n l \<longleftrightarrow> (case l of None \<Rightarrow> True | Some (v, r) \<Rightarrow> seen_by skew r n)"

definition election_inv :: "(string \<Rightarrow> time) \<Rightarrow> time \<Rightarrow> election \<Rightarrow> bool" where
  "election_inv skew slack s \<longleftrightarrow> lock_ok skew (ln_now s) (ln_lock s) \<and>
     (\<forall>i. elector_ok skew slack (ln_now s) (ln_lock s) i (ln_elector s i))"

lemma set_elector_simps [simp]:
  "ln_now (set_elector i e s) = ln_now s" "ln_lock (set_elector i e s) = ln_lock s"
  "ln_elector (set_elector i e s) = (ln_elector s)(i := e)"
  by (simp_all add: set_elector_def)

lemma election_inv_set:
  "election_inv skew slack s \<Longrightarrow> elector_ok skew slack (ln_now s) (ln_lock s) i e \<Longrightarrow>
     election_inv skew slack (set_elector i e s)"
  by (simp add: election_inv_def)

section \<open>Every step keeps it\<close>

lemma new_elector_ok: "elector_ok skew slack n l i new_elector"
  by (simp add: elector_ok_defs new_elector_def seen_by_def no_record_def)

lemma stopped_ok: "elector_ok skew slack n l i e \<Longrightarrow> elector_ok skew slack n l i (stopped e)"
  by (simp add: elector_ok_defs stopped_def)

lemma failed_ok: "elector_ok skew slack n l i e \<Longrightarrow> elector_ok skew slack n l i (e\<lparr>el_attempt := Idle\<rparr>)"
  by (auto simp: elector_ok_defs split: option.splits attempt.splits)

lemma tried_ok:
  "elector_ok skew slack n l i e \<Longrightarrow> el_attempt e = Idle \<Longrightarrow> i \<noteq> [] \<Longrightarrow> 0 \<le> slack \<Longrightarrow>
     elector_ok skew slack n l i (e\<lparr>el_attempt := Begun (n + skew i)\<rparr>)"
  by (auto simp: elector_ok_defs split: option.splits)

lemma passed_ok:
  "elector_ok skew slack n l i e \<Longrightarrow> in_time skew slack m i e \<Longrightarrow> n \<le> m \<Longrightarrow> elector_ok skew slack m l i e"
  by (auto simp: elector_ok_def attempt_ok_def leads_ok_def split: option.splits attempt.splits)

lemma observed_seen:
  assumes "elector_ok skew slack n l i e" and "lock_ok skew n l" and "l = Some (v, old)"
  shows "seen_by skew old (el_observed_at (observe (n + skew i) old e) - skew i)"
    and "el_observed (observe (n + skew i) old e) = old"
  using assms by (auto simp: observe_def elector_ok_def lock_ok_def)

lemma observe_simps [simp]:
  "el_attempt (observe c r e) = el_attempt e" "el_leads (observe c r e) = el_leads e"
  by (simp_all add: observe_def)

lemma read_ok:
  assumes ok: "elector_ok skew slack n l i e" and lock: "lock_ok skew n l" and t: "el_attempt e = Begun t"
  shows "elector_ok skew slack n l i (lock_read (main_election i) t (n + skew i) l e)"
proof (cases l)
  case None
  with ok t show ?thesis
    by (auto simp: elector_ok_defs lock_read_def may_replace_def try_record_def main_election_def split: option.splits)
next
  case (Some p)
  obtain v old where l: "l = Some (v, old)" using Some by (cases p) simp
  define e1 where "e1 = observe (n + skew i) old e"
  note seen = observed_seen [OF ok lock l, folded e1_def]
  have e1: "el_attempt e1 = Begun t" "el_leads e1 = el_leads e" using t by (simp_all add: e1_def)
  have ok1: "in_time skew slack n i e" "i \<noteq> []" "t \<le> n + skew i" "leads_ok skew slack n l i e"
    using ok t by (simp_all add: elector_ok_defs)
  show ?thesis
  proof (cases "t < el_observed_at e1 + leaseDuration \<and> er_holder old \<noteq> i")
    case True
    then have "lock_read (main_election i) t (n + skew i) l e = e1\<lparr>el_attempt := Idle\<rparr>"
      by (simp add: lock_read_def l e1_def main_election_def)
    with ok1 e1 seen t show ?thesis
      by (auto simp: elector_ok_defs split: option.splits)
  next
    case False
    then have "er_holder old = i \<or> el_observed_at e1 - skew i \<le> t - skew i - leaseDuration" by linarith
    with seen(1) have m: "may_replace skew i t (Some v) l"
      by (auto simp: may_replace_def l intro: seen_by_mono)
    obtain r where r: "lock_read (main_election i) t (n + skew i) l e = e1\<lparr>el_attempt := Read t (Some v) r\<rparr>"
      "er_holder r = i" "er_renew r = t"
      using False by (auto simp: lock_read_def l e1_def main_election_def try_record_def Let_def)
    with ok1 e1 seen t m show ?thesis
      by (auto simp: elector_ok_defs split: option.splits)
  qed
qed

lemma heard_ok:
  assumes ok: "elector_ok skew slack n l i e" and t: "el_attempt e = Written t r" and "0 \<le> slack"
  shows "elector_ok skew slack n l i (lock_answered (n + skew i) r e)"
proof -
  from ok t have w: "i \<noteq> []" "t \<le> n + skew i" "er_holder r = i" "er_renew r = t" "\<exists>v. l = Some (v, stored r)"
    "n + skew i \<le> t + slack" by (simp_all add: elector_ok_defs)
  have "n + skew i < whole t + second + slack" using w(6) whole_bounds(2) [of t] by linarith
  with w assms(3) show ?thesis
    by (auto simp: elector_ok_defs lock_answered_def seen_by_def renewDuration_def second_def)
qed

text \<open>While a process leads, or has just written the record, no other may replace it.\<close>

definition patient :: "time \<Rightarrow> bool" where
  "patient slack \<longleftrightarrow> 0 \<le> slack \<and> renewDuration + 2 * slack + second \<le> leaseDuration"

lemma holder_protected:
  assumes j: "elector_ok skew slack n l j e" and "patient slack"
    and busy: "el_leads e \<noteq> None \<or> (\<exists>u q. el_attempt e = Written u q)"
    and i: "i \<noteq> j" "t \<le> n + skew i" "may_replace skew i t v l"
  shows "lock_write v r l = None"
proof -
  have lease: "renewDuration + 2 * slack + second \<le> leaseDuration" "0 \<le> slack" "0 \<le> renewDuration"
    using assms(2) by (simp_all add: patient_def renewDuration_def second_def)
  have "\<exists>m q. l = Some (m, q) \<and> er_holder q = j \<and> j \<noteq> [] \<and> n + skew j < er_renew q + leaseDuration"
    using busy
  proof
    assume "el_leads e \<noteq> None"
    then obtain h where h: "el_leads e = Some h" by blast
    with j obtain m q where q: "l = Some (m, q)" "er_holder q = j" "h < er_renew q + second + slack" "j \<noteq> []"
      "n + skew j \<le> h + renewDuration + slack" by (auto simp: elector_ok_defs)
    moreover have "n + skew j < er_renew q + leaseDuration" using q(3,5) lease by linarith
    ultimately show ?thesis by blast
  next
    assume "\<exists>u q. el_attempt e = Written u q"
    then obtain u q where u: "el_attempt e = Written u q" by blast
    with j obtain m where m: "l = Some (m, stored q)" "er_holder q = j" "er_renew q = u" "j \<noteq> []"
      "n + skew j \<le> u + slack" by (auto simp: elector_ok_defs)
    moreover have "n + skew j < whole u + leaseDuration" using m(5) lease whole_bounds(2) [of u] by linarith
    ultimately show ?thesis by simp
  qed
  then obtain m q where q: "l = Some (m, q)" "er_holder q = j" "j \<noteq> []" "n + skew j < er_renew q + leaseDuration" by blast
  have "v \<noteq> Some m"
  proof
    assume "v = Some m"
    with i q have "er_renew q \<le> t - skew i - leaseDuration + skew j"
      by (auto simp: may_replace_def seen_by_def)
    with i(2) q(4) show False by linarith
  qed
  with q(1) show ?thesis by (auto simp: lock_write_def split: option.split)
qed

text \<open>The others after a write: none leads, and what they read is out of date.\<close>

lemma write_lock: "lock_write v r l = Some l' \<Longrightarrow>
    \<exists>m. l' = Some (m, stored r) \<and> (l = None \<and> v = None \<or> (\<exists>k q. l = Some (k, q) \<and> v = Some k \<and> m = k + 1))"
  by (auto simp: lock_write_def split: option.splits if_splits)

lemma outdated:
  assumes "may_replace skew j t u l" and "lock_write v r l = Some l'"
  shows "may_replace skew j t u l'"
  using assms(1) write_lock [OF assms(2)] by (auto simp: may_replace_def split: option.splits)

lemma others_ok:
  assumes j: "elector_ok skew slack n l j e" and "patient slack" and "i \<noteq> j" "t \<le> n + skew i" "may_replace skew i t v l"
    and w: "lock_write v r l = Some l'"
  shows "elector_ok skew slack n l' j e"
proof -
  have "\<not> (el_leads e \<noteq> None \<or> (\<exists>u q. el_attempt e = Written u q))"
    using holder_protected [OF j assms(2) _ assms(3,4,5), where r = r] w by fastforce
  with j outdated [OF _ w] show ?thesis
    by (simp add: elector_ok_defs split: attempt.splits)
qed

lemma written_ok:
  assumes ok: "elector_ok skew slack n l i e" and t: "el_attempt e = Read t v r" and w: "lock_write v r l = Some l'"
    and "0 \<le> slack"
  shows "elector_ok skew slack n l' i (e\<lparr>el_attempt := Written t r\<rparr>)" and "lock_ok skew n l'"
proof -
  obtain m where m: "l' = Some (m, stored r)" using write_lock [OF w] by blast
  from ok t have r: "i \<noteq> []" "t \<le> n + skew i" "er_holder r = i" "er_renew r = t" by (simp_all add: elector_ok_defs)
  have "h < whole t + second + slack" if "h \<le> t" for h using that whole_bounds(2) [of t] assms(4) by linarith
  with ok t m r show "elector_ok skew slack n l' i (e\<lparr>el_attempt := Written t r\<rparr>)"
    by (auto simp: elector_ok_defs split: option.splits)
  have "seen_by skew r n" using r by (simp add: seen_by_def)
  then show "lock_ok skew n l'" using m by (simp add: lock_ok_def seen_by_stored)
qed

lemma election_step_inv:
  assumes "election_step skew slack s s'" and "patient slack" and inv: "election_inv skew slack s"
  shows "election_inv skew slack s'"
proof -
  have slack: "0 \<le> slack" using assms(2) by (simp add: patient_def)
  have lock: "lock_ok skew (ln_now s) (ln_lock s)"
    and ok: "elector_ok skew slack (ln_now s) (ln_lock s) i (ln_elector s i)" for i
    using inv by (simp_all add: election_inv_def)
  from assms(1) show ?thesis
  proof cases
    case (passes d)
    then show ?thesis
      using inv by (auto simp: election_inv_def lock_ok_def intro: passed_ok seen_by_mono split: option.splits)
  next
    case (writes i t v r l)
    have i: "t \<le> ln_now s + skew i" "may_replace skew i t v (ln_lock s)"
      using ok [of i] writes(2) by (simp_all add: elector_ok_defs)
    from written_ok [OF ok writes(2,3) slack] others_ok [OF ok assms(2) _ i writes(3)] show ?thesis
      unfolding writes(1) election_inv_def by simp
  next
    case (tries i)
    from election_inv_set [OF inv tried_ok [OF ok tries(3,4) slack]] show ?thesis unfolding tries(1) .
  next
    case (reads i t)
    from election_inv_set [OF inv read_ok [OF ok lock reads(2)]] show ?thesis unfolding reads(1) .
  next
    case (hears i t r)
    from election_inv_set [OF inv heard_ok [OF ok hears(2) slack]] show ?thesis unfolding hears(1) .
  next
    case (fails i)
    from election_inv_set [OF inv failed_ok [OF ok]] show ?thesis unfolding fails(1) .
  next
    case (stops i)
    from election_inv_set [OF inv stopped_ok [OF ok]] show ?thesis unfolding stops(1) .
  next
    case (restarts i)
    from election_inv_set [OF inv new_elector_ok] show ?thesis unfolding restarts(1) .
  qed
qed

lemma election_reach_inv:
  "election_reach skew slack s0 s \<Longrightarrow> patient slack \<Longrightarrow> election_inv skew slack s0 \<Longrightarrow> election_inv skew slack s"
  by (induction rule: election_reach.induct) (auto intro: election_step_inv)

lemma election_start_inv: "lock_ok skew n l \<Longrightarrow> election_inv skew slack (election_start n l)"
  by (simp add: election_inv_def election_start_def new_elector_ok)

section \<open>One manager works\<close>

text \<open>
  C10: at most one controller manager works.  Start any number of them over a lock that is missing or was
  left by an earlier one, with clocks as far apart as may be.  However they read and write the
  lock, whatever requests fail or are answered although the answer is lost, and whichever of them
  crash or start again, no two lead at the same time, and so the workers of only one sync clusters, if
  calls are over and processes gone at most 4.5 seconds after they should be.
\<close>

theorem one_manager_works:
  assumes "election_reach skew slack (election_start n l) s" and "0 \<le> slack" and "2 * slack \<le> 9 * second"
    and "lock_ok skew n l" and "leads s i" and "leads s j"
  shows "i = j"
proof -
  have "patient slack" using assms(2,3) by (simp add: patient_def duration_defs)
  from election_reach_inv [OF assms(1) this election_start_inv [OF assms(4)]]
  have "leads_ok skew slack (ln_now s) (ln_lock s) k (ln_elector s k)" for k
    by (simp add: election_inv_def elector_ok_def)
  from this [of i] this [of j] assms(5,6) show ?thesis by (auto simp: leads_def leads_ok_def)
qed

text \<open>A manager comes to lead over a lock that is missing.\<close>

lemma acquires:
  assumes "i \<noteq> []"
  shows "\<exists>s. election_reach skew slack (election_start n None) s \<and> leads s i"
proof -
  let ?r = "try_record (main_election i) (n + skew i)"
  define s0 where "s0 = election_start n None"
  define s1 where "s1 = set_elector i (new_elector\<lparr>el_attempt := Begun (n + skew i)\<rparr>) s0"
  define s2 where "s2 = set_elector i (new_elector\<lparr>el_attempt := Read (n + skew i) None ?r\<rparr>) s1"
  define s3 where "s3 = set_elector i (new_elector\<lparr>el_attempt := Written (n + skew i) ?r\<rparr>) (s2\<lparr>ln_lock := Some (0, stored ?r)\<rparr>)"
  define s4 where "s4 = set_elector i (lock_answered (n + skew i) ?r (new_elector\<lparr>el_attempt := Written (n + skew i) ?r\<rparr>)) s3"
  note defs = s0_def s1_def s2_def s3_def s4_def election_start_def set_elector_def
  have 1: "election_step skew slack s0 s1"
    using tries [of s0 i skew slack] assms by (simp add: defs new_elector_def)
  have 2: "election_step skew slack s1 s2"
    using reads [of s1 i "n + skew i" skew slack] by (simp add: defs lock_read_def)
  have 3: "election_step skew slack s2 s3"
    using writes [of s2 i "n + skew i" None ?r "Some (0, stored ?r)" skew slack] by (simp add: defs lock_write_def)
  have 4: "election_step skew slack s3 s4"
    using hears [of s3 i "n + skew i" ?r skew slack] by (simp add: defs)
  have "election_reach skew slack s0 s4"
    by (rule election_more [OF election_more [OF election_more [OF election_more [OF election_refl 1] 2] 3] 4])
  moreover have "leads s4 i" by (simp add: leads_def s4_def lock_answered_def)
  ultimately show ?thesis unfolding s0_def by blast
qed

theorem one_manager_works_witness:
  "\<exists>s. election_reach (\<lambda>_. 0) second (election_start 0 None) s \<and> leads s ''manager'' \<and>
     (\<forall>j. j \<noteq> ''manager'' \<longrightarrow> \<not> leads s j)"
proof -
  obtain s where s: "election_reach (\<lambda>_. 0) second (election_start 0 None) s" "leads s ''manager''"
    using acquires [of "''manager''" "\<lambda>_. 0" second 0] by blast
  have lock: "lock_ok (\<lambda>_. 0) 0 None" by (simp add: lock_ok_def)
  have "(0 :: time) \<le> second" "2 * second \<le> 9 * second" by (simp_all add: second_def)
  note only = one_manager_works [OF s(1) this lock _ s(2)]
  from s only show ?thesis by (intro exI [of _ s]) blast
qed

end
