(* ===== verification/Client_Set.thy ===== *)
theory Client_Set
  imports Cell_Client Go_Memory
begin

text \<open>
  The client sets (\<^verbatim>\<open>pkg/client/clientset/versioned\<close>): the constructors, which copy and change the
  configuration they are given, in memory; and the registration of the types with schemes when
  the packages of a program are initialised, on which decoding, and the recording of events about
  clusters, rest.  client-go's constructors fail or make a client of the configuration they get; of
  \<open>rest.Config\<close> the fields that are read or written here are modelled.
\<close>

section \<open>Configurations and clients in memory\<close>

type_synonym group_version = "string \<times> string"

definition groupName :: string where "groupName = ''deepfabric.com''"
definition SchemeGroupVersion :: group_version where "SchemeGroupVersion = (groupName, ''v1alpha1'')"

record rest_config =
  rc_host :: string
  rc_api_path :: string
  rc_group_version :: "group_version option"
  rc_serializer :: string
  rc_user_agent :: string
  rc_qps :: rat
  rc_burst :: int
  rc_limiter :: "addr option"

text \<open>A REST client and a discovery client are what client-go makes of a configuration.\<close>

datatype client_cell =
    ConfigCell rest_config
  | LimiterCell rat int
  | RESTClientCell rest_config
  | DiscoveryCell rest_config
  | DeepfabricClientCell addr
  | ClientsetCell "addr option" "addr option"

fun config_of :: "client_cell \<Rightarrow> rest_config" where
  "config_of (ConfigCell c) = c"
| "config_of _ = undefined"

text \<open>What client-go answers: the other errors of \<open>RESTClientFor\<close>, those of \<open>NewDiscoveryClientForConfig\<close>,
  and the default user agent.\<close>

record rest_lib =
  rl_rest :: "rest_config \<Rightarrow> goerr option"
  rl_discovery :: "rest_config \<Rightarrow> goerr option"
  rl_user_agent :: string

type_synonym 'a client_mem = "(client_cell, 'a) mem"

section \<open>The typed client\<close>

definition direct_codecs :: string where "direct_codecs = ''DirectCodecFactory{scheme.Codecs}''"

definition setConfigDefaults :: "rest_lib \<Rightarrow> addr \<Rightarrow> unit client_mem" where
  "setConfigDefaults L config =
     do { x \<leftarrow> deref config;
          let c = (config_of x)\<lparr>rc_group_version := Some SchemeGroupVersion, rc_api_path := ''/apis'',
            rc_serializer := direct_codecs\<rparr>;
          store_at config (ConfigCell (if rc_user_agent c = [] then c\<lparr>rc_user_agent := rl_user_agent L\<rparr> else c)) }"

definition RESTClientFor :: "rest_lib \<Rightarrow> addr \<Rightarrow> (goerr + addr) client_mem" where
  "RESTClientFor L config =
     do { x \<leftarrow> deref config;
          if rc_group_version (config_of x) = None
          then State_Monad.return (Inl (OtherError ''GroupVersion is required when initializing a RESTClient''))
          else if rc_serializer (config_of x) = []
          then State_Monad.return (Inl (OtherError ''NegotiatedSerializer is required when initializing a RESTClient''))
          else case rl_rest L (config_of x) of
            Some e \<Rightarrow> State_Monad.return (Inl e)
          | None \<Rightarrow> do { a \<leftarrow> alloc (RESTClientCell (config_of x)); State_Monad.return (Inr a) } }"

definition typed_NewForConfig :: "rest_lib \<Rightarrow> addr \<Rightarrow> (goerr + addr) client_mem" where
  "typed_NewForConfig L c =
     do { x \<leftarrow> deref c;
          config \<leftarrow> alloc x;
          setConfigDefaults L config;
          r \<leftarrow> RESTClientFor L config;
          case r of
            Inl e \<Rightarrow> State_Monad.return (Inl e)
          | Inr client \<Rightarrow> do { a \<leftarrow> alloc (DeepfabricClientCell client); State_Monad.return (Inr a) } }"

text \<open>\<open>panic(err)\<close>.\<close>

definition or_die :: "goerr + 'a \<Rightarrow> goerr + 'a" where
  "or_die r = (case r of Inl e \<Rightarrow> Inl (PanicError (err_text e)) | Inr a \<Rightarrow> Inr a)"

definition typed_NewForConfigOrDie :: "rest_lib \<Rightarrow> addr \<Rightarrow> (goerr + addr) client_mem" where
  "typed_NewForConfigOrDie L c = do { r \<leftarrow> typed_NewForConfig L c; State_Monad.return (or_die r) }"

definition typed_New :: "addr \<Rightarrow> addr client_mem" where
  "typed_New c = alloc (DeepfabricClientCell c)"

definition RESTClient :: "client_cell list \<Rightarrow> addr option \<Rightarrow> addr option" where
  "RESTClient h c = (case c of None \<Rightarrow> None | Some a \<Rightarrow> (case h ! a of DeepfabricClientCell r \<Rightarrow> Some r | _ \<Rightarrow> None))"

section \<open>The client set\<close>

text \<open>client-go's constructor of the discovery client, which works on a copy.\<close>

definition NewDiscoveryClientForConfig :: "rest_lib \<Rightarrow> addr \<Rightarrow> (goerr + addr) client_mem" where
  "NewDiscoveryClientForConfig L c =
     do { x \<leftarrow> deref c;
          let d = (config_of x)\<lparr>rc_api_path := [], rc_group_version := None, rc_serializer := ''NoopEncoder'',
            rc_user_agent := (if rc_user_agent (config_of x) = [] then rl_user_agent L else rc_user_agent (config_of x))\<rparr>;
          case rl_discovery L d of
            Some e \<Rightarrow> State_Monad.return (Inl e)
          | None \<Rightarrow> do { a \<leftarrow> alloc (DiscoveryCell d); State_Monad.return (Inr a) } }"

text \<open>The copy of the configuration gets a limiter when it has a rate and none was given.\<close>

definition with_limiter :: "addr \<Rightarrow> unit client_mem" where
  "with_limiter copy =
     do { x \<leftarrow> deref copy;
          if rc_limiter (config_of x) = None \<and> 0 < rc_qps (config_of x)
          then do { l \<leftarrow> alloc (LimiterCell (rc_qps (config_of x)) (rc_burst (config_of x)));
                    store_at copy (ConfigCell ((config_of x)\<lparr>rc_limiter := Some l\<rparr>)) }
          else State_Monad.return () }"

definition NewForConfig :: "rest_lib \<Rightarrow> addr \<Rightarrow> (goerr + addr) client_mem" where
  "NewForConfig L c =
     do { x \<leftarrow> deref c;
          configShallowCopy \<leftarrow> alloc x;
          with_limiter configShallowCopy;
          r \<leftarrow> typed_NewForConfig L configShallowCopy;
          case r of
            Inl e \<Rightarrow> State_Monad.return (Inl e)
          | Inr deepfabric \<Rightarrow> do {
              r2 \<leftarrow> NewDiscoveryClientForConfig L configShallowCopy;
              case r2 of
                Inl e \<Rightarrow> State_Monad.return (Inl e)
              | Inr disc \<Rightarrow> do { cs \<leftarrow> alloc (ClientsetCell (Some deepfabric) (Some disc)); State_Monad.return (Inr cs) } } }"

definition NewForConfigOrDie :: "rest_lib \<Rightarrow> addr \<Rightarrow> (goerr + addr) client_mem" where
  "NewForConfigOrDie L c =
     do { r \<leftarrow> typed_NewForConfigOrDie L c;
          case r of
            Inl e \<Rightarrow> State_Monad.return (Inl e)
          | Inr deepfabric \<Rightarrow> do {
              r2 \<leftarrow> NewDiscoveryClientForConfig L c;
              case r2 of
                Inl e \<Rightarrow> State_Monad.return (or_die (Inl e))
              | Inr disc \<Rightarrow> do { cs \<leftarrow> alloc (ClientsetCell (Some deepfabric) (Some disc)); State_Monad.return (Inr cs) } } }"

text \<open>Over a REST client that is given; \<open>disc\<close> is the discovery client that client-go makes of it.\<close>

definition clientset_New :: "client_cell \<Rightarrow> addr \<Rightarrow> addr client_mem" where
  "clientset_New disc c =
     do { d \<leftarrow> typed_New c; q \<leftarrow> alloc disc; alloc (ClientsetCell (Some d) (Some q)) }"

text \<open>The accessors of a client set; \<open>Discovery\<close> may be asked of none.\<close>

fun clientset_DeepfabricV1alpha1 :: "client_cell \<Rightarrow> addr option" where
  "clientset_DeepfabricV1alpha1 (ClientsetCell d q) = d"
| "clientset_DeepfabricV1alpha1 _ = None"

definition clientset_Deepfabric :: "client_cell \<Rightarrow> addr option" where
  "clientset_Deepfabric cs = clientset_DeepfabricV1alpha1 cs"

fun clientset_Discovery :: "client_cell option \<Rightarrow> addr option" where
  "clientset_Discovery (Some (ClientsetCell d q)) = q"
| "clientset_Discovery _ = None"

section \<open>What the constructors leave and make\<close>

lemmas client_defs = setConfigDefaults_def RESTClientFor_def typed_NewForConfig_def NewDiscoveryClientForConfig_def
  with_limiter_def typed_NewForConfigOrDie_def

text \<open>The prefix that requests are made with is the one that is configured.\<close>

lemma api_prefix_configured:
  "api_prefix = ''/apis'' @ ''/'' @ fst SchemeGroupVersion @ ''/'' @ snd SchemeGroupVersion"
  by (simp add: api_prefix_def SchemeGroupVersion_def groupName_def)

definition defaulted :: "rest_lib \<Rightarrow> rest_config \<Rightarrow> rest_config" where
  "defaulted L x = x\<lparr>rc_group_version := Some SchemeGroupVersion, rc_api_path := ''/apis'',
     rc_serializer := direct_codecs,
     rc_user_agent := (if rc_user_agent x = [] then rl_user_agent L else rc_user_agent x)\<rparr>"

definition for_discovery :: "rest_lib \<Rightarrow> rest_config \<Rightarrow> rest_config" where
  "for_discovery L x = x\<lparr>rc_api_path := [], rc_group_version := None, rc_serializer := ''NoopEncoder'',
     rc_user_agent := (if rc_user_agent x = [] then rl_user_agent L else rc_user_agent x)\<rparr>"

lemma run_bind [simp]: "run_state (State_Monad.bind m f) h = (case run_state m h of (a, h') \<Rightarrow> run_state (f a) h')"
  by (simp add: State_Monad.bind_def)

lemma run_return [simp]: "run_state (State_Monad.return a) h = (a, h)"
  by (simp add: State_Monad.return_def)

lemma run_typed:
  "h ! c = ConfigCell x \<Longrightarrow> run_state (typed_NewForConfig L c) h =
     (case rl_rest L (defaulted L x) of
        Some e \<Rightarrow> (Inl e, h @ [ConfigCell (defaulted L x)])
      | None \<Rightarrow> (Inr (length h + 2), h @ [ConfigCell (defaulted L x), RESTClientCell (defaulted L x),
          DeepfabricClientCell (length h + 1)]))"
  by (simp add: client_defs defaulted_def direct_codecs_def Let_def split: option.split)

lemma run_discovery:
  "h ! c = ConfigCell x \<Longrightarrow> run_state (NewDiscoveryClientForConfig L c) h =
     (case rl_discovery L (for_discovery L x) of
        Some e \<Rightarrow> (Inl e, h) | None \<Rightarrow> (Inr (length h), h @ [DiscoveryCell (for_discovery L x)]))"
  by (simp add: client_defs for_discovery_def Let_def split: option.split)

text \<open>The memory the caller had is left as it was: the configuration is copied before it is changed.\<close>

definition limited :: "client_cell list \<Rightarrow> rest_config \<Rightarrow> rest_config \<times> client_cell list" where
  "limited h x =
     (if rc_limiter x = None \<and> 0 < rc_qps x
      then let y = x\<lparr>rc_limiter := Some (length h + 1)\<rparr> in (y, [ConfigCell y, LimiterCell (rc_qps x) (rc_burst x)])
      else (x, [ConfigCell x]))"

lemma run_with_limiter:
  "run_state (with_limiter (length h)) (h @ [ConfigCell x]) = ((), h @ snd (limited h x))"
  by (simp add: with_limiter_def limited_def Let_def)

lemma limited_cell [simp]: "(h @ snd (limited h x) @ t) ! length h = ConfigCell (fst (limited h x))"
  by (simp add: limited_def Let_def)

lemma limited_cell' [simp]: "(h @ snd (limited h x)) ! length h = ConfigCell (fst (limited h x))"
  using limited_cell [of h x "[]"] by simp

text \<open>
  The client set of a configuration: the typed client and the discovery client share one limiter,
  the one that was given or, when there is a rate, a new one.
\<close>

definition client_set :: "client_cell list \<Rightarrow> addr \<Rightarrow> rest_config \<Rightarrow> rest_config \<Rightarrow> bool" where
  "client_set h cs cf df \<longleftrightarrow>
     (\<exists>d q r. h ! cs = ClientsetCell (Some d) (Some q) \<and> h ! d = DeepfabricClientCell r \<and>
        h ! r = RESTClientCell cf \<and> h ! q = DiscoveryCell df)"

lemma run_NewForConfig:
  assumes "h ! c = ConfigCell x" and "run_state (NewForConfig L c) h = (r, h')"
  defines "y \<equiv> fst (limited h x)"
  shows "\<exists>t. h' = h @ t" and "r = Inr cs \<Longrightarrow> client_set h' cs (defaulted L y) (for_discovery L y)"
proof -
  let ?h1 = "h @ snd (limited h x)"
  have 1: "?h1 ! length h = ConfigCell y" by (simp add: y_def)
  have run: "run_state (NewForConfig L c) h =
    (case run_state (typed_NewForConfig L (length h)) ?h1 of
       (Inl e, h2) \<Rightarrow> (Inl e, h2)
     | (Inr d, h2) \<Rightarrow>
        (case run_state (NewDiscoveryClientForConfig L (length h)) h2 of
           (Inl e, h3) \<Rightarrow> (Inl e, h3)
         | (Inr q, h3) \<Rightarrow> (Inr (length h3), h3 @ [ClientsetCell (Some d) (Some q)])))"
    using assms(1) by (simp add: NewForConfig_def run_with_limiter split: prod.split sum.split)
  have 2: "(?h1 @ t) ! length h = ConfigCell y" for t by (simp add: y_def)
  note steps = run [unfolded run_typed [OF 1]] run_discovery [OF 2]
  show "\<exists>t. h' = h @ t"
    using assms(2) steps by (auto split: option.splits)
  assume "r = Inr cs"
  with assms(2) steps show "client_set h' cs (defaulted L y) (for_discovery L y)"
    by (auto simp: client_set_def nth_append split: option.splits)
qed

lemma shared_limiter:
  "rc_limiter (defaulted L (fst (limited h x))) = rc_limiter (for_discovery L (fst (limited h x)))"
  "0 < rc_qps x \<or> rc_limiter x \<noteq> None \<Longrightarrow> rc_limiter (defaulted L (fst (limited h x))) \<noteq> None"
  by (auto simp: defaulted_def for_discovery_def limited_def Let_def)

text \<open>\<open>NewForConfigOrDie\<close> makes no limiter: without one in the configuration each of the two clients makes its own.\<close>

lemma run_NewForConfigOrDie:
  assumes "h ! c = ConfigCell x" and "c < length h" and "run_state (NewForConfigOrDie L c) h = (r, h')"
  shows "\<exists>t. h' = h @ t" and "r = Inr cs \<Longrightarrow> client_set h' cs (defaulted L x) (for_discovery L x)"
    and "r = Inl e \<Longrightarrow> is_panic e"
proof -
  have 2: "(h @ t) ! c = ConfigCell x" for t using assms(1,2) by (simp add: nth_append)
  have run: "run_state (NewForConfigOrDie L c) h =
    (case run_state (typed_NewForConfig L c) h of
       (Inl e, h2) \<Rightarrow> (or_die (Inl e), h2)
     | (Inr d, h2) \<Rightarrow>
        (case run_state (NewDiscoveryClientForConfig L c) h2 of
           (Inl e, h3) \<Rightarrow> (or_die (Inl e), h3)
         | (Inr q, h3) \<Rightarrow> (Inr (length h3), h3 @ [ClientsetCell (Some d) (Some q)])))"
    by (simp add: NewForConfigOrDie_def typed_NewForConfigOrDie_def or_die_def split: prod.split sum.split)
  note steps = run [unfolded run_typed [OF assms(1)]] run_discovery [OF 2]
  show "\<exists>t. h' = h @ t" using assms(3) steps by (auto split: option.splits)
  show "client_set h' cs (defaulted L x) (for_discovery L x)" if "r = Inr cs"
    using that assms(3) steps by (auto simp: client_set_def nth_append or_die_def split: option.splits)
  show "is_panic e" if "r = Inl e"
    using that assms(3) steps by (auto simp: or_die_def split: option.splits)
qed

section \<open>Schemes\<close>

text \<open>
  A scheme of apimachinery: the type of every kind, the kinds of every type, and the unversioned
  kinds.  A Go type is its name.  Adding a kind twice with different types panics.
\<close>

type_synonym gvk = "group_version \<times> string"

record scheme =
  sc_types :: "(gvk, string) gomap"
  sc_kinds :: "(string, gvk list) gomap"
  sc_unversioned :: "(string, string) gomap"

definition NewScheme :: scheme where
  "NewScheme = \<lparr>sc_types = [], sc_kinds = [], sc_unversioned = []\<rparr>"

definition AddKnownTypeWithName :: "gvk \<Rightarrow> string \<Rightarrow> scheme \<Rightarrow> goerr + scheme" where
  "AddKnownTypeWithName k t s =
     (if snd (fst k) = [] then Inl (PanicError ''version is required on all types'')
      else if map_of (sc_types s) k \<notin> {None, Some t} then Inl (PanicError ''Double registration of different types'')
      else
        let s1 = s\<lparr>sc_types := gput k t (sc_types s)\<rparr>;
            kinds = (case map_of (sc_kinds s) t of None \<Rightarrow> [] | Some ks \<Rightarrow> ks)
        in if k \<in> set kinds then Inr s1 else Inr (s1\<lparr>sc_kinds := gput t (kinds @ [k]) (sc_kinds s)\<rparr>))"

text \<open>The kind of a type is its name behind the package.\<close>

definition kind_of_type :: "string \<Rightarrow> string" where
  "kind_of_type t = tl (dropWhile (\<lambda>c. c \<noteq> CHR ''.'') t)"

fun AddKnownTypes :: "group_version \<Rightarrow> string list \<Rightarrow> scheme \<Rightarrow> goerr + scheme" where
  "AddKnownTypes gv [] s = Inr s"
| "AddKnownTypes gv (t # ts) s =
     (case AddKnownTypeWithName (gv, kind_of_type t) t s of Inl e \<Rightarrow> Inl e | Inr s' \<Rightarrow> AddKnownTypes gv ts s')"

fun unversioned_loop :: "string list \<Rightarrow> scheme \<Rightarrow> goerr + scheme" where
  "unversioned_loop [] s = Inr s"
| "unversioned_loop (t # ts) s =
     (if map_of (sc_unversioned s) (kind_of_type t) \<notin> {None, Some t}
      then Inl (PanicError ''kind name must be unique'')
      else unversioned_loop ts (s\<lparr>sc_unversioned := gput (kind_of_type t) t (sc_unversioned s)\<rparr>))"

definition AddUnversionedTypes :: "group_version \<Rightarrow> string list \<Rightarrow> scheme \<Rightarrow> goerr + scheme" where
  "AddUnversionedTypes gv ts s =
     (case AddKnownTypes gv ts s of Inl e \<Rightarrow> Inl e | Inr s' \<Rightarrow> unversioned_loop ts s')"

text \<open>\<open>metav1.AddToGroupVersion\<close>, without the conversions and defaults it registers.\<close>

definition meta_options :: "string list" where
  "meta_options = [''v1.ListOptions'', ''v1.ExportOptions'', ''v1.GetOptions'', ''v1.DeleteOptions'']"

definition meta_unversioned :: "string list" where
  "meta_unversioned = [''v1.Status'', ''v1.APIVersions'', ''v1.APIGroupList'', ''v1.APIGroup'', ''v1.APIResourceList'']"

definition AddToGroupVersion :: "group_version \<Rightarrow> scheme \<Rightarrow> goerr + scheme" where
  "AddToGroupVersion gv s =
     (case AddKnownTypeWithName (gv, ''WatchEvent'') ''v1.WatchEvent'' s of
        Inl e \<Rightarrow> Inl e
      | Inr s1 \<Rightarrow>
          (case AddKnownTypeWithName ((fst gv, ''__internal''), ''WatchEvent'') ''v1.InternalEvent'' s1 of
             Inl e \<Rightarrow> Inl e
           | Inr s2 \<Rightarrow>
               (case AddKnownTypes gv meta_options s2 of
                  Inl e \<Rightarrow> Inl e
                | Inr s3 \<Rightarrow> AddUnversionedTypes ([], ''v1'') meta_unversioned s3)))"

section \<open>Packages that register\<close>

text \<open>
  The memory of the packages: the schemes by address, the functions that the builder of
  \<^verbatim>\<open>v1alpha1\<close> has been given, and its variable \<open>Scheme\<close>.
\<close>

datatype registration = AddsKnownTypes

record packages =
  pk_schemes :: "scheme list"
  pk_builder :: "registration list"
  pk_Scheme :: "addr option"

definition no_packages :: packages where
  "no_packages = \<lparr>pk_schemes = [], pk_builder = [], pk_Scheme = None\<rparr>"

definition CellClusterGoType :: string where "CellClusterGoType = ''v1alpha1.CellCluster''"
definition CellClusterListGoType :: string where "CellClusterListGoType = ''v1alpha1.CellClusterList''"

definition on_scheme :: "addr \<Rightarrow> (scheme \<Rightarrow> goerr + scheme) \<Rightarrow> packages \<Rightarrow> goerr + packages" where
  "on_scheme a f p =
     (case f (pk_schemes p ! a) of Inl e \<Rightarrow> Inl e | Inr s \<Rightarrow> Inr (p\<lparr>pk_schemes := (pk_schemes p)[a := s]\<rparr>))"

definition addKnownTypes :: "addr \<Rightarrow> packages \<Rightarrow> goerr + packages" where
  "addKnownTypes scheme p =
     (case on_scheme scheme (AddKnownTypes SchemeGroupVersion [CellClusterGoType, CellClusterListGoType])
             (p\<lparr>pk_Scheme := Some scheme\<rparr>) of
        Inl e \<Rightarrow> Inl e
      | Inr p1 \<Rightarrow> on_scheme scheme (AddToGroupVersion SchemeGroupVersion) p1)"

fun run_registration :: "registration \<Rightarrow> addr \<Rightarrow> packages \<Rightarrow> goerr + packages" where
  "run_registration AddsKnownTypes scheme p = addKnownTypes scheme p"

text \<open>\<open>SchemeBuilder.AddToScheme\<close> reads the functions when it is called, not when it is bound to the variable.\<close>

fun builder_loop :: "registration list \<Rightarrow> addr \<Rightarrow> packages \<Rightarrow> goerr + packages" where
  "builder_loop [] a p = Inr p"
| "builder_loop (f # fs) a p = (case run_registration f a p of Inl e \<Rightarrow> Inl e | Inr p' \<Rightarrow> builder_loop fs a p')"

definition v1alpha1_AddToScheme :: "addr \<Rightarrow> packages \<Rightarrow> goerr + packages" where
  "v1alpha1_AddToScheme a p = builder_loop (pk_builder p) a p"

definition v1alpha1_init :: "packages \<Rightarrow> packages" where
  "v1alpha1_init p = p\<lparr>pk_builder := pk_builder p @ [AddsKnownTypes]\<rparr>"

text \<open>The package with the scheme of the client set, and the one of the fake client set: a new scheme,
  whose types are registered.  The exported \<open>AddToScheme\<close> drops the error.\<close>

definition AddToScheme :: "addr \<Rightarrow> packages \<Rightarrow> goerr + packages" where
  "AddToScheme a p =
     (case v1alpha1_AddToScheme a p of
        Inl e \<Rightarrow> if is_panic e then Inl e else Inr p | Inr p' \<Rightarrow> Inr p')"

definition scheme_init :: "packages \<Rightarrow> goerr + packages" where
  "scheme_init p =
     (let a = length (pk_schemes p)
      in case on_scheme a (AddToGroupVersion ([], ''v1'')) (p\<lparr>pk_schemes := pk_schemes p @ [NewScheme]\<rparr>) of
           Inl e \<Rightarrow> Inl e
         | Inr p1 \<Rightarrow> AddToScheme a p1)"

definition fake_scheme_init :: "packages \<Rightarrow> goerr + packages" where
  "fake_scheme_init p =
     (let a = length (pk_schemes p)
      in case on_scheme a (AddToGroupVersion ([], ''v1'')) (p\<lparr>pk_schemes := pk_schemes p @ [NewScheme]\<rparr>) of
           Inl e \<Rightarrow> Inl e
         | Inr p1 \<Rightarrow> AddToScheme a p1)"

text \<open>The kinds of an object that does not say its own, as the recorder of events asks for them.\<close>

definition ObjectKinds :: "string \<Rightarrow> scheme \<Rightarrow> goerr + gvk list" where
  "ObjectKinds t s =
     (case map_of (sc_kinds s) t of
        None \<Rightarrow> Inl (OtherError (''no kind is registered for the type '' @ t)) | Some ks \<Rightarrow> Inr ks)"

definition event_kind :: "packages \<Rightarrow> string \<Rightarrow> goerr + string" where
  "event_kind p t =
     (case pk_Scheme p of
        None \<Rightarrow> Inl (PanicError ''nil Scheme'')
      | Some a \<Rightarrow> (case ObjectKinds t (pk_schemes p ! a) of Inl e \<Rightarrow> Inl e | Inr ks \<Rightarrow> Inr (snd (hd ks))))"

text \<open>
  The controller manager is linked with the client set, the tests with the fake one as well; in both
  the recorder of the controller can name the kind of a cluster, and \<open>Scheme\<close> is the scheme of
  the package that was initialised last.
\<close>

lemma manager_packages:
  "case scheme_init (v1alpha1_init no_packages) of Inl e \<Rightarrow> False
   | Inr p \<Rightarrow> pk_Scheme p = Some 0 \<and> event_kind p CellClusterGoType = Inr ''CellCluster''"
  by code_simp

lemma test_packages:
  "case scheme_init (v1alpha1_init no_packages) of Inl e \<Rightarrow> False
   | Inr p \<Rightarrow>
       (case fake_scheme_init p of Inl e \<Rightarrow> False
        | Inr q \<Rightarrow> pk_Scheme q = Some 1 \<and> event_kind q CellClusterGoType = Inr ''CellCluster'' \<and>
            sc_types (pk_schemes q ! 0) = sc_types (pk_schemes q ! 1))"
  by code_simp

text \<open>Without a client set in the program the recorder has no scheme.\<close>

lemma no_client_set: "event_kind (v1alpha1_init no_packages) t = Inl (PanicError ''nil Scheme'')"
  by (simp add: event_kind_def v1alpha1_init_def no_packages_def)

section \<open>The fake client set\<close>

text \<open>\<open>NewSimpleClientset\<close> panics when the tracker refuses an object; the accessors hand out the same fake.\<close>

fun track_objects :: "('o \<Rightarrow> 'w \<Rightarrow> goerr option \<times> 'w) \<Rightarrow> 'o list \<Rightarrow> 'w \<Rightarrow> goerr option \<times> 'w" where
  "track_objects add [] w = (None, w)"
| "track_objects add (x # xs) w =
     (case add x w of (Some e, w1) \<Rightarrow> (Some (PanicError (err_text e)), w1) | (None, w1) \<Rightarrow> track_objects add xs w1)"

definition NewSimpleClientset ::
  "('o \<Rightarrow> 'w \<Rightarrow> goerr option \<times> 'w) \<Rightarrow> 'w fake_client \<Rightarrow> 'o list \<Rightarrow> 'w \<Rightarrow> (goerr + 'w fake_client) \<times> 'w" where
  "NewSimpleClientset add reaction objects w =
     (case track_objects add objects w of (Some e, w1) \<Rightarrow> (Inl e, w1) | (None, w1) \<Rightarrow> (Inr reaction, w1))"

text \<open>A fake client set that is made has been given every object, in order.\<close>

lemma NewSimpleClientset_adds:
  "NewSimpleClientset add F objects w = (Inr C, w') \<Longrightarrow> C = F \<and> w' = fold (\<lambda>x w. snd (add x w)) objects w"
proof (induction objects arbitrary: w)
  case (Cons x xs)
  then show ?case by (cases "add x w") (auto simp: NewSimpleClientset_def split: option.splits prod.splits)
qed (simp add: NewSimpleClientset_def)

end
